(* ===== verification/Prelude.thy ===== *)
theory Prelude
  imports Main "HOL-Library.Word"
begin

section \<open>Shared vocabulary of the development\<close>

text \<open>
  What every component of the model uses: Go's error values and their wrapping, the three
  outcomes of a Go call that returns an error (a value, an error, a panic), the small idioms of
  the source (\<^verbatim>\<open>if x == "" { x = d }\<close>, nil checks in a conjunction), and the collections of
  rewrite rules the component proofs draw on.
\<close>

named_theorems go_simps
  \<open>evaluation of the Go idioms (defaults, nil checks, error outcomes)\<close>
named_theorems gen_simps
  \<open>projections of generated Kubernetes objects\<close>
named_theorems keeps_rules
  \<open>actions that keep a predicate of the cluster state\<close>

text \<open>Go's \<^verbatim>\<open>int32\<close>, \<^verbatim>\<open>int64\<close> and \<^verbatim>\<open>int\<close> fields are only compared and printed
  by the operator, never added to, so they are integers here.\<close>

type_synonym int32 = int
type_synonym int64 = int
type_synonym byte = "8 word"

text \<open>A Go \<^verbatim>\<open>map[string]string\<close>: a nil map and an empty map are both the empty map (the
  code only ranges over and indexes them).\<close>

type_synonym strmap = "string \<rightharpoonup> string"

subsection \<open>Errors\<close>

text \<open>
  \<open>APIError\<close> is a \<^verbatim>\<open>StatusError\<close> of the API server with its reason, \<open>NoMatch\<close> the
  RESTMapper's no-match error, \<open>Errorf\<close> an error made by \<^verbatim>\<open>fmt.Errorf\<close> without \<^verbatim>\<open>%w\<close>,
  and \<open>Wrapf\<close> one made by \<^verbatim>\<open>fmt.Errorf("prefix: %w", err)\<close>.
\<close>

datatype reason = NotFound | AlreadyExists | Conflict | OtherReason string

datatype error =
    APIError reason string
  | NoMatch string
  | Errorf string
  | Wrapf string error

fun errString :: "error \<Rightarrow> string" where
  "errString (APIError _ msg) = msg"
| "errString (NoMatch msg) = msg"
| "errString (Errorf msg) = msg"
| "errString (Wrapf p e) = p @ '': '' @ errString e"

text \<open>\<^verbatim>\<open>apierrors.ReasonForError\<close> searches the chain of wrapped errors.\<close>

fun reasonForError :: "error \<Rightarrow> reason option" where
  "reasonForError (APIError r _) = Some r"
| "reasonForError (NoMatch _) = None"
| "reasonForError (Errorf _) = None"
| "reasonForError (Wrapf _ e) = reasonForError e"

definition IsNotFound :: "error \<Rightarrow> bool" where
  "IsNotFound e = (reasonForError e = Some NotFound)"

definition IsAlreadyExists :: "error \<Rightarrow> bool" where
  "IsAlreadyExists e = (reasonForError e = Some AlreadyExists)"

definition IsConflict :: "error \<Rightarrow> bool" where
  "IsConflict e = (reasonForError e = Some Conflict)"

fun IsNoMatchError :: "error \<Rightarrow> bool" where
  "IsNoMatchError (NoMatch _) = True"
| "IsNoMatchError _ = False"

lemma IsNotFound_Wrapf [simp]: "IsNotFound (Wrapf p e) = IsNotFound e"
  by (simp add: IsNotFound_def)

lemma IsConflict_Wrapf [simp]: "IsConflict (Wrapf p e) = IsConflict e"
  by (simp add: IsConflict_def)

lemma IsAlreadyExists_Wrapf [simp]: "IsAlreadyExists (Wrapf p e) = IsAlreadyExists e"
  by (simp add: IsAlreadyExists_def)

lemma is_reason_simps [simp]:
  "IsNotFound (APIError r m) = (r = NotFound)"
  "IsConflict (APIError r m) = (r = Conflict)"
  "IsAlreadyExists (APIError r m) = (r = AlreadyExists)"
  "\<not> IsNotFound (NoMatch m)" "\<not> IsConflict (NoMatch m)" "\<not> IsAlreadyExists (NoMatch m)"
  "\<not> IsNotFound (Errorf m)" "\<not> IsConflict (Errorf m)" "\<not> IsAlreadyExists (Errorf m)"
  by (auto simp: IsNotFound_def IsConflict_def IsAlreadyExists_def)

text \<open>\<^verbatim>\<open>fmt.Sprintf("%v", errs)\<close> on a slice of errors: the messages between brackets,
  separated by spaces.\<close>

fun joinErrs :: "error list \<Rightarrow> string" where
  "joinErrs [] = ''''"
| "joinErrs [e] = errString e"
| "joinErrs (e # es) = errString e @ '' '' @ joinErrs es"

definition sprintErrs :: "error list \<Rightarrow> string" where
  "sprintErrs es = ''['' @ joinErrs es @ '']''"

subsection \<open>Outcomes\<close>

text \<open>A Go call that returns \<^verbatim>\<open>(T, error)\<close>: a value, an error, or a panic that unwinds to
  the caller of \<^verbatim>\<open>Reconcile\<close>.\<close>

datatype 'a result = Ok 'a | Err error | Panic string

fun bindR :: "'a result \<Rightarrow> ('a \<Rightarrow> 'b result) \<Rightarrow> 'b result" where
  "bindR (Ok x) k = k x"
| "bindR (Err e) k = Err e"
| "bindR (Panic p) k = Panic p"

fun mapErr :: "(error \<Rightarrow> error) \<Rightarrow> 'a result \<Rightarrow> 'a result" where
  "mapErr f (Err e) = Err (f e)"
| "mapErr f r = r"

lemma bindR_eq_Ok [simp]: "(bindR r k = Ok y) = (\<exists>x. r = Ok x \<and> k x = Ok y)"
  by (cases r) auto

lemma bindR_eq_Err [simp]:
  "(bindR r k = Err e) = (r = Err e \<or> (\<exists>x. r = Ok x \<and> k x = Err e))"
  by (cases r) auto

lemma bindR_eq_Panic [simp]:
  "(bindR r k = Panic p) = (r = Panic p \<or> (\<exists>x. r = Ok x \<and> k x = Panic p))"
  by (cases r) auto

lemma mapErr_eq_Ok [simp]: "(mapErr f r = Ok x) = (r = Ok x)"
  by (cases r) auto

lemma mapErr_eq_Err [simp]: "(mapErr f r = Err e) = (\<exists>e'. r = Err e' \<and> e = f e')"
  by (cases r) auto

subsection \<open>Idioms of the source\<close>

text \<open>\<^verbatim>\<open>if s == "" { s = d }\<close>, \<^verbatim>\<open>if n == 0 { n = d }\<close> and \<^verbatim>\<open>if p == nil { p = &d }\<close>.\<close>

definition orStr :: "string \<Rightarrow> string \<Rightarrow> string" where
  "orStr s d = (if s = '''' then d else s)"

definition orInt :: "int \<Rightarrow> int \<Rightarrow> int" where
  "orInt n d = (if n = 0 then d else n)"

definition orPtr :: "'a option \<Rightarrow> 'a \<Rightarrow> 'a option" where
  "orPtr p d = (case p of None \<Rightarrow> Some d | Some x \<Rightarrow> Some x)"

text \<open>\<^verbatim>\<open>d\<close> overridden by \<^verbatim>\<open>*p\<close> when \<^verbatim>\<open>p != nil\<close>.\<close>

definition derefOr :: "'a option \<Rightarrow> 'a \<Rightarrow> 'a" where
  "derefOr p d = (case p of None \<Rightarrow> d | Some x \<Rightarrow> x)"

text \<open>\<^verbatim>\<open>p != nil && P(*p)\<close>.\<close>

definition optP :: "('a \<Rightarrow> bool) \<Rightarrow> 'a option \<Rightarrow> bool" where
  "optP P p = (case p of None \<Rightarrow> False | Some x \<Rightarrow> P x)"

text \<open>\<^verbatim>\<open>if b { xs = append(xs, ys...) }\<close> and its form for a pointer.\<close>

definition whenL :: "bool \<Rightarrow> 'a list \<Rightarrow> 'a list" where
  "whenL b xs = (if b then xs else [])"

definition optL :: "'a option \<Rightarrow> ('a \<Rightarrow> 'b list) \<Rightarrow> 'b list" where
  "optL p f = (case p of None \<Rightarrow> [] | Some x \<Rightarrow> f x)"

lemma orStr_simps [simp, go_simps]:
  "orStr '''' d = d" "s \<noteq> '''' \<Longrightarrow> orStr s d = s" "orStr (orStr s d) d = orStr s d"
  by (auto simp: orStr_def)

lemma orStr_eq_empty [simp]: "(orStr s d = '''') = (s = '''' \<and> d = '''')"
  by (auto simp: orStr_def)

lemma orInt_simps [simp, go_simps]:
  "orInt 0 d = d" "n \<noteq> 0 \<Longrightarrow> orInt n d = n" "orInt (orInt n d) d = orInt n d"
  by (auto simp: orInt_def)

lemma orInt_eq_zero [simp]: "(orInt n d = 0) = (n = 0 \<and> d = 0)"
  by (auto simp: orInt_def)

lemma orPtr_simps [simp, go_simps]:
  "orPtr None d = Some d" "orPtr (Some x) d = Some x" "orPtr (orPtr p d) e = orPtr p d"
  "orPtr p d \<noteq> None"
  by (auto simp: orPtr_def split: option.splits)

lemma derefOr_simps [simp, go_simps]:
  "derefOr None d = d" "derefOr (Some x) d = x" "derefOr (orPtr p d) e = derefOr p d"
  by (auto simp: derefOr_def orPtr_def split: option.splits)

lemma optP_simps [simp, go_simps]:
  "\<not> optP P None" "optP P (Some x) = P x" "optP P (map_option f p) = optP (P \<circ> f) p"
  by (auto simp: optP_def split: option.splits)

lemma optP_iff: "optP P p = (\<exists>x. p = Some x \<and> P x)"
  by (cases p) auto

lemma whenL_simps [simp, go_simps]:
  "whenL True xs = xs" "whenL False xs = []"
  by (auto simp: whenL_def)

lemma set_whenL [simp]: "set (whenL b xs) = (if b then set xs else {})"
  by (simp add: whenL_def)

lemma map_whenL [simp]: "map f (whenL b xs) = whenL b (map f xs)"
  by (simp add: whenL_def)

lemma optL_simps [simp, go_simps]:
  "optL None f = []" "optL (Some x) f = f x"
  by (auto simp: optL_def)

lemma map_optL [simp]: "map g (optL p f) = optL p (\<lambda>x. map g (f x))"
  by (cases p) auto

lemma in_set_optL [simp]: "(y \<in> set (optL p f)) = (\<exists>x. p = Some x \<and> y \<in> set (f x))"
  by (cases p) auto

end
