(* ===== verification/KubeTypes.thy ===== *)
theory KubeTypes
  imports Prelude
begin

section \<open>Kubernetes API types\<close>

text \<open>
  The Kubernetes types the operator's specification embeds and its generators fill in: the
  metadata, the pod and its parts, and the objects the operator manages. A pointer is an
  option, a \<^verbatim>\<open>LocalObjectReference\<close> is the name it holds, a \<^verbatim>\<open>ResourceList\<close> lists its entries
  in the order a range over the map visits them, and a field of type \<open>opaque\<close> holds, in
  serialised form, a value that the operator copies and never looks into.
\<close>

type_synonym opaque = string
type_synonym quantity = string
type_synonym ResourceList = "(string \<times> quantity) list"

subsection \<open>Metadata\<close>

record OwnerReference =
  or_Kind :: string
  or_Name :: string
  or_UID :: string
  or_Controller :: bool

record TypeMeta =
  tm_APIVersion :: string
  tm_Kind :: string

record ObjectMeta =
  om_Name :: string
  om_Namespace :: string
  om_Labels :: strmap
  om_Annotations :: strmap
  om_OwnerReferences :: "OwnerReference list"
  om_Finalizers :: "string list"
  om_Generation :: int64
  om_DeletionTimestamp :: "opaque option"
  om_ResourceVersion :: string
  om_UID :: string

definition newMeta :: "string \<Rightarrow> string \<Rightarrow> strmap \<Rightarrow> strmap \<Rightarrow> ObjectMeta" where
  "newMeta name ns labels annotations =
     \<lparr> om_Name = name, om_Namespace = ns, om_Labels = labels, om_Annotations = annotations,
       om_OwnerReferences = [], om_Finalizers = [], om_Generation = 0,
       om_DeletionTimestamp = None, om_ResourceVersion = '''', om_UID = '''' \<rparr>"

lemma newMeta_simps [simp, gen_simps]:
  "om_Name (newMeta n ns l a) = n" "om_Namespace (newMeta n ns l a) = ns"
  "om_Labels (newMeta n ns l a) = l" "om_Annotations (newMeta n ns l a) = a"
  "om_OwnerReferences (newMeta n ns l a) = []" "om_Finalizers (newMeta n ns l a) = []"
  by (simp_all add: newMeta_def)

subsection \<open>The parts of a pod\<close>

record SecretKeySelector =
  sks_Name :: string
  sks_Key :: string
  sks_Optional :: "bool option"

definition newSelector :: "string \<Rightarrow> string \<Rightarrow> SecretKeySelector" where
  "newSelector name key = \<lparr> sks_Name = name, sks_Key = key, sks_Optional = None \<rparr>"

text \<open>\<^verbatim>\<open>evs_Other\<close> stands for the sources other than a secret key, which only users set.\<close>

record EnvVarSource =
  evs_SecretKeyRef :: "SecretKeySelector option"
  evs_Other :: opaque

record EnvVar =
  env_Name :: string
  env_Value :: string
  env_ValueFrom :: "EnvVarSource option"

definition envValue :: "string \<Rightarrow> string \<Rightarrow> EnvVar" where
  "envValue name v = \<lparr> env_Name = name, env_Value = v, env_ValueFrom = None \<rparr>"

text \<open>\<^verbatim>\<open>EnvVar{Name: name, ValueFrom: &EnvVarSource{SecretKeyRef: ref}}\<close>, where \<^verbatim>\<open>ref\<close> may be nil.\<close>

definition envSecretPtr :: "string \<Rightarrow> SecretKeySelector option \<Rightarrow> EnvVar" where
  "envSecretPtr name ref =
     \<lparr> env_Name = name, env_Value = '''',
       env_ValueFrom = Some \<lparr> evs_SecretKeyRef = ref, evs_Other = '''' \<rparr> \<rparr>"

definition envSecret :: "string \<Rightarrow> SecretKeySelector \<Rightarrow> EnvVar" where
  "envSecret name ref = envSecretPtr name (Some ref)"

lemma env_simps [simp, gen_simps]:
  "env_Name (envValue n v) = n" "env_Value (envValue n v) = v"
  "env_ValueFrom (envValue n v) = None"
  "env_Name (envSecretPtr n r) = n" "env_Value (envSecretPtr n r) = ''''"
  "env_ValueFrom (envSecretPtr n r) = Some \<lparr> evs_SecretKeyRef = r, evs_Other = '''' \<rparr>"
  "env_Name (envSecret n s) = n" "env_Value (envSecret n s) = ''''"
  "env_ValueFrom (envSecret n s) = Some \<lparr> evs_SecretKeyRef = Some s, evs_Other = '''' \<rparr>"
  by (simp_all add: envValue_def envSecret_def envSecretPtr_def)

record ResourceRequirements =
  rr_Limits :: ResourceList
  rr_Requests :: ResourceList
  rr_Claims :: opaque

definition noResources :: ResourceRequirements where
  "noResources = \<lparr> rr_Limits = [], rr_Requests = [], rr_Claims = '''' \<rparr>"

record Capabilities =
  cap_Add :: "string list"
  cap_Drop :: "string list"

record SecurityContext =
  sc_AllowPrivilegeEscalation :: "bool option"
  sc_ReadOnlyRootFilesystem :: "bool option"
  sc_RunAsNonRoot :: "bool option"
  sc_RunAsUser :: "int64 option"
  sc_Capabilities :: "Capabilities option"
  sc_Other :: opaque

definition emptySecurityContext :: SecurityContext where
  "emptySecurityContext =
     \<lparr> sc_AllowPrivilegeEscalation = None, sc_ReadOnlyRootFilesystem = None,
       sc_RunAsNonRoot = None, sc_RunAsUser = None, sc_Capabilities = None, sc_Other = '''' \<rparr>"

record PodSecurityContext =
  psc_RunAsNonRoot :: "bool option"
  psc_RunAsUser :: "int64 option"
  psc_FSGroup :: "int64 option"
  psc_Other :: opaque

datatype IntOrString = FromInt int | FromString string

record ContainerPort =
  cp_Name :: string
  cp_ContainerPort :: int32
  cp_Protocol :: string

definition tcpPort :: "string \<Rightarrow> int32 \<Rightarrow> ContainerPort" where
  "tcpPort name p = \<lparr> cp_Name = name, cp_ContainerPort = p, cp_Protocol = ''TCP'' \<rparr>"

record VolumeMount =
  vm_Name :: string
  vm_MountPath :: string
  vm_SubPath :: string
  vm_ReadOnly :: bool

definition newMount :: "string \<Rightarrow> string \<Rightarrow> string \<Rightarrow> bool \<Rightarrow> VolumeMount" where
  "newMount name path sub ro =
     \<lparr> vm_Name = name, vm_MountPath = path, vm_SubPath = sub, vm_ReadOnly = ro \<rparr>"

datatype VolumeSource =
    ConfigMapSource string
  | PVCSource string
  | EmptyDirSource
  | SecretSource string

record Volume =
  vol_Name :: string
  vol_Source :: VolumeSource

definition newVolume :: "string \<Rightarrow> VolumeSource \<Rightarrow> Volume" where
  "newVolume name src = \<lparr> vol_Name = name, vol_Source = src \<rparr>"

lemma part_simps [simp, gen_simps]:
  "cp_Name (tcpPort n p) = n" "cp_ContainerPort (tcpPort n p) = p" "cp_Protocol (tcpPort n p) = ''TCP''"
  "vm_Name (newMount n pa su ro) = n" "vm_MountPath (newMount n pa su ro) = pa"
  "vm_SubPath (newMount n pa su ro) = su" "vm_ReadOnly (newMount n pa su ro) = ro"
  "vol_Name (newVolume n s) = n" "vol_Source (newVolume n s) = s"
  "sks_Name (newSelector n k) = n" "sks_Key (newSelector n k) = k"
  by (simp_all add: tcpPort_def newMount_def newVolume_def newSelector_def)

datatype ProbeHandler =
    HTTPGet string IntOrString string
  | TCPSocket IntOrString
  | ExecProbe "string list"

record Probe =
  pr_Handler :: ProbeHandler
  pr_InitialDelaySeconds :: int32
  pr_PeriodSeconds :: int32
  pr_TimeoutSeconds :: int32
  pr_SuccessThreshold :: int32
  pr_FailureThreshold :: int32

record Container =
  c_Name :: string
  c_Image :: string
  c_ImagePullPolicy :: string
  c_Command :: "string list"
  c_Args :: "string list"
  c_Ports :: "ContainerPort list"
  c_Env :: "EnvVar list"
  c_VolumeMounts :: "VolumeMount list"
  c_Resources :: ResourceRequirements
  c_LivenessProbe :: "Probe option"
  c_ReadinessProbe :: "Probe option"
  c_SecurityContext :: "SecurityContext option"

text \<open>\<^verbatim>\<open>corev1.Container{Name: name, Image: image}\<close>.\<close>

definition newContainer :: "string \<Rightarrow> string \<Rightarrow> Container" where
  "newContainer name img =
     \<lparr> c_Name = name, c_Image = img, c_ImagePullPolicy = '''', c_Command = [], c_Args = [],
       c_Ports = [], c_Env = [], c_VolumeMounts = [], c_Resources = noResources,
       c_LivenessProbe = None, c_ReadinessProbe = None, c_SecurityContext = None \<rparr>"

lemma newContainer_simps [simp, gen_simps]:
  "c_Name (newContainer n i) = n" "c_Image (newContainer n i) = i" "c_Ports (newContainer n i) = []"
  "c_Env (newContainer n i) = []" "c_VolumeMounts (newContainer n i) = []"
  by (simp_all add: newContainer_def)

record PodSpec =
  ps_InitContainers :: "Container list"
  ps_Containers :: "Container list"
  ps_Volumes :: "Volume list"
  ps_RestartPolicy :: string
  ps_ImagePullSecrets :: "string list"
  ps_NodeSelector :: strmap
  ps_Tolerations :: "opaque list"
  ps_Affinity :: "opaque option"
  ps_SecurityContext :: "PodSecurityContext option"

definition newPodSpec :: "Container list \<Rightarrow> Volume list \<Rightarrow> PodSpec" where
  "newPodSpec cs vs =
     \<lparr> ps_InitContainers = [], ps_Containers = cs, ps_Volumes = vs, ps_RestartPolicy = '''',
       ps_ImagePullSecrets = [], ps_NodeSelector = Map.empty, ps_Tolerations = [],
       ps_Affinity = None, ps_SecurityContext = None \<rparr>"

lemma newPodSpec_simps [simp, gen_simps]:
  "ps_InitContainers (newPodSpec cs vs) = []" "ps_Containers (newPodSpec cs vs) = cs"
  "ps_Volumes (newPodSpec cs vs) = vs"
  by (simp_all add: newPodSpec_def)

record PodTemplateSpec =
  pt_Labels :: strmap
  pt_Annotations :: strmap
  pt_Spec :: PodSpec

subsection \<open>Managed objects\<close>

record DeploymentStatus =
  ds_Replicas :: int32
  ds_UpdatedReplicas :: int32
  ds_ReadyReplicas :: int32
  ds_AvailableReplicas :: int32

record Deployment =
  dep_TypeMeta :: TypeMeta
  dep_Meta :: ObjectMeta
  dep_Replicas :: "int32 option"
  dep_Selector :: strmap
  dep_StrategyType :: string
  dep_MaxUnavailable :: IntOrString
  dep_MaxSurge :: IntOrString
  dep_Template :: PodTemplateSpec
  dep_Status :: DeploymentStatus

record PersistentVolumeClaim =
  pvc_TypeMeta :: TypeMeta
  pvc_Meta :: ObjectMeta
  pvc_AccessModes :: "string list"
  pvc_Requests :: ResourceList
  pvc_StorageClassName :: "string option"

record StatefulSetStatus =
  ss_ReadyReplicas :: int32
  ss_CurrentReplicas :: int32
  ss_UpdatedReplicas :: int32

record StatefulSet =
  sts_TypeMeta :: TypeMeta
  sts_Meta :: ObjectMeta
  sts_Replicas :: "int32 option"
  sts_ServiceName :: string
  sts_Selector :: strmap
  sts_Template :: PodTemplateSpec
  sts_VolumeClaimTemplates :: "PersistentVolumeClaim list"
  sts_Status :: StatefulSetStatus

text \<open>A target port left zero by the source is \<^verbatim>\<open>IntOrString{}\<close>, that is \<open>FromInt 0\<close>.\<close>

record ServicePort =
  sp_Name :: string
  sp_Port :: int32
  sp_TargetPort :: IntOrString
  sp_Protocol :: string

record Service =
  svc_TypeMeta :: TypeMeta
  svc_Meta :: ObjectMeta
  svc_Type :: string
  svc_Selector :: strmap
  svc_Ports :: "ServicePort list"
  svc_ClusterIP :: string
  svc_LoadBalancerIP :: string

record Secret =
  sec_TypeMeta :: TypeMeta
  sec_Meta :: ObjectMeta
  sec_Type :: string
  sec_Data :: strmap
  sec_StringData :: strmap

record ConfigMap =
  cfg_TypeMeta :: TypeMeta
  cfg_Meta :: ObjectMeta
  cfg_Data :: strmap

record IngressPath =
  ip_Path :: string
  ip_PathType :: string
  ip_ServiceName :: string
  ip_ServicePort :: int32

record IngressRule =
  ir_Host :: string
  ir_Paths :: "IngressPath list"

record IngressTLS =
  it_Hosts :: "string list"
  it_SecretName :: string

text \<open>\<open>ing_LoadBalancer\<close> is the list \<^verbatim>\<open>status.loadBalancer.ingress\<close>.\<close>

record Ingress =
  ing_TypeMeta :: TypeMeta
  ing_Meta :: ObjectMeta
  ing_ClassName :: string
  ing_Rules :: "IngressRule list"
  ing_TLS :: "IngressTLS list"
  ing_LoadBalancer :: "opaque list"

record IssuerRef =
  isr_Name :: string
  isr_Kind :: string
  isr_Group :: string

text \<open>Durations are in hours.\<close>

record Certificate =
  crt_TypeMeta :: TypeMeta
  crt_Meta :: ObjectMeta
  crt_SecretName :: string
  crt_DNSNames :: "string list"
  crt_IssuerRef :: IssuerRef
  crt_Duration :: int
  crt_RenewBefore :: int
  crt_Usages :: "string list"

record PodMonitor =
  pm_TypeMeta :: TypeMeta
  pm_Meta :: ObjectMeta
  pm_Selector :: strmap
  pm_Endpoints :: "(string option \<times> string) list"

record Job =
  job_TypeMeta :: TypeMeta
  job_Meta :: ObjectMeta
  job_BackoffLimit :: "int32 option"
  job_TTLSecondsAfterFinished :: "int32 option"
  job_Template :: PodTemplateSpec

record CronJob =
  cj_TypeMeta :: TypeMeta
  cj_Meta :: ObjectMeta
  cj_Schedule :: string
  cj_ConcurrencyPolicy :: string
  cj_SuccessfulJobsHistoryLimit :: "int32 option"
  cj_FailedJobsHistoryLimit :: "int32 option"
  cj_Template :: PodTemplateSpec

subsection \<open>Labels\<close>

text \<open>A \<^verbatim>\<open>MatchLabels\<close> selector selects the pods that carry all of its labels.\<close>

definition selects :: "strmap \<Rightarrow> strmap \<Rightarrow> bool" where
  "selects sel labels = (sel \<subseteq>\<^sub>m labels)"

lemma selects_refl [simp]: "selects l l"
  by (simp add: selects_def)

definition typeMeta :: "string \<Rightarrow> string \<Rightarrow> TypeMeta" where
  "typeMeta v k = \<lparr> tm_APIVersion = v, tm_Kind = k \<rparr>"

end
