(* ===== verification/GoLib.thy ===== *)
theory GoLib
  imports Prelude
begin

section \<open>The parts of Go's standard library the operator calls\<close>

text \<open>
  Strings are lists of bytes. Modelled here: \<^verbatim>\<open>strings.Join\<close>, \<^verbatim>\<open>HasPrefix\<close>,
  \<^verbatim>\<open>TrimSpace\<close>; the verbs \<^verbatim>\<open>%d\<close>, \<^verbatim>\<open>%t\<close>, \<^verbatim>\<open>%f\<close> and \<^verbatim>\<open>%q\<close> of \<^verbatim>\<open>fmt\<close>. The Unicode table behind
  \<^verbatim>\<open>strconv.IsPrint\<close> is a parameter for runes above ASCII; everything else is computed.
\<close>

unbundle bit_operations_syntax

subsection \<open>Strings\<close>

fun joinStr :: "string \<Rightarrow> string list \<Rightarrow> string" where
  "joinStr sep [] = ''''"
| "joinStr sep [x] = x"
| "joinStr sep (x # xs) = x @ sep @ joinStr sep xs"

definition hasPrefix :: "string \<Rightarrow> string \<Rightarrow> bool" where
  "hasPrefix s p = (take (length p) s = p)"

lemma hasPrefix_append [simp]: "hasPrefix (p @ s) p"
  by (simp add: hasPrefix_def)

lemma hasPrefix_iff: "hasPrefix s p = (\<exists>t. s = p @ t)"
proof
  assume "hasPrefix s p"
  then have "s = p @ drop (length p) s"
    by (metis append_take_drop_id hasPrefix_def)
  then show "\<exists>t. s = p @ t" ..
next
  assume "\<exists>t. s = p @ t"
  then show "hasPrefix s p" by (auto simp: hasPrefix_def)
qed

text \<open>\<^verbatim>\<open>strings.TrimSpace\<close> removes the encodings of the runes \<^verbatim>\<open>unicode.IsSpace\<close> accepts:
  the ASCII white space and the listed multi-byte ones.\<close>

definition chars_of :: "nat list \<Rightarrow> string" where
  "chars_of ns = map char_of ns"

definition spaceSeqs :: "string list" where
  "spaceSeqs = map chars_of
     ([[9], [10], [11], [12], [13], [32], [0xC2, 0x85], [0xC2, 0xA0], [0xE1, 0x9A, 0x80],
       [0xE2, 0x80, 0xA8], [0xE2, 0x80, 0xA9], [0xE2, 0x80, 0xAF], [0xE2, 0x81, 0x9F],
       [0xE3, 0x80, 0x80]] @ map (\<lambda>i. [0xE2, 0x80, i]) [0x80..<0x8B])"

definition dropSpace :: "string \<Rightarrow> string option" where
  "dropSpace s = map_option (\<lambda>p. drop (length p) s) (find (\<lambda>p. hasPrefix s p) spaceSeqs)"

fun trimFuel :: "(string \<Rightarrow> string option) \<Rightarrow> nat \<Rightarrow> string \<Rightarrow> string" where
  "trimFuel f 0 s = s"
| "trimFuel f (Suc n) s = (case f s of None \<Rightarrow> s | Some t \<Rightarrow> trimFuel f n t)"

definition dropSpaceR :: "string \<Rightarrow> string option" where
  "dropSpaceR s =
     map_option (\<lambda>p. take (length s - length p) s)
       (find (\<lambda>p. hasPrefix (rev s) (rev p)) spaceSeqs)"

definition trimSpace :: "string \<Rightarrow> string" where
  "trimSpace s =
     (let l = trimFuel dropSpace (length s) s in trimFuel dropSpaceR (length l) l)"

subsection \<open>Integers and booleans\<close>

definition digitChar :: "nat \<Rightarrow> char" where
  "digitChar d = char_of (48 + d)"

fun natDigits :: "nat \<Rightarrow> string" where
  "natDigits n = (if n < 10 then [digitChar n] else natDigits (n div 10) @ [digitChar (n mod 10)])"

declare natDigits.simps [simp del]

definition itoa :: "int \<Rightarrow> string" where
  "itoa i = (if i < 0 then CHR ''-'' # natDigits (nat (- i)) else natDigits (nat i))"

definition formatBool :: "bool \<Rightarrow> string" where
  "formatBool b = (if b then ''true'' else ''false'')"

text \<open>A reader of decimal numbers, to state that \<^verbatim>\<open>%d\<close> loses nothing.\<close>

fun readNat :: "nat \<Rightarrow> string \<Rightarrow> nat option" where
  "readNat n [] = Some n"
| "readNat n (c # cs) =
     (let d = of_char c in if 48 \<le> d \<and> d \<le> (57::nat) then readNat (10 * n + (d - 48)) cs else None)"

definition atoi :: "string \<Rightarrow> int option" where
  "atoi s = (case s of [] \<Rightarrow> None
     | c # cs \<Rightarrow> (if c = CHR ''-'' then map_option (\<lambda>n. - int n) (readNat 0 cs)
                  else map_option int (readNat 0 s)))"

lemma readNat_snoc:
  "d < 10 \<Longrightarrow> readNat n (s @ [digitChar d]) = map_option (\<lambda>m. 10 * m + d) (readNat n s)"
  by (induction n s rule: readNat.induct) (auto simp: digitChar_def Let_def)

lemma readNat_natDigits: "readNat 0 (natDigits n) = Some n"
proof (induction n rule: natDigits.induct)
  case (1 n)
  show ?case
  proof (cases "n < 10")
    case True
    then show ?thesis by (simp add: natDigits.simps [of n] digitChar_def)
  next
    case False
    with 1 have "readNat 0 (natDigits (n div 10)) = Some (n div 10)" by simp
    with False show ?thesis
      by (simp add: natDigits.simps [of n] readNat_snoc)
  qed
qed

lemma natDigits_hd: "\<exists>d cs. natDigits n = digitChar d # cs \<and> d < 10"
proof (induction n rule: natDigits.induct)
  case (1 n)
  show ?case
    by (cases "n < 10") (use 1 in \<open>auto simp: natDigits.simps [of n]\<close>)
qed

lemma digitChar_not_minus: "d < 10 \<Longrightarrow> digitChar d \<noteq> CHR ''-''"
proof
  assume d: "d < 10" and "digitChar d = CHR ''-''"
  then have "of_char (digitChar d) = (of_char CHR ''-'' :: nat)" by simp
  with d show False by (simp add: digitChar_def)
qed

lemma atoi_itoa [simp]: "atoi (itoa i) = Some i"
proof (cases "i < 0")
  case True
  then show ?thesis by (simp add: itoa_def atoi_def readNat_natDigits)
next
  case False
  obtain d cs where d: "natDigits (nat i) = digitChar d # cs" "d < 10"
    using natDigits_hd by blast
  with digitChar_not_minus have "digitChar d \<noteq> CHR ''-''" by blast
  moreover have "readNat 0 (digitChar d # cs) = Some (nat i)"
    using readNat_natDigits [of "nat i"] d(1) by simp
  ultimately show ?thesis
    using False d(1) by (simp add: itoa_def atoi_def del: readNat.simps)
qed

lemma itoa_inject [simp]: "(itoa i = itoa j) = (i = j)"
  by (metis atoi_itoa option.inject)

subsection \<open>Floating-point numbers\<close>

text \<open>A finite \<^verbatim>\<open>float64\<close> as sign, significand and binary exponent. \<^verbatim>\<open>%f\<close> prints six
  decimals of the exact value, rounded half to even.\<close>

datatype float64 = Float64 bool nat int

definition roundDiv :: "nat \<Rightarrow> nat \<Rightarrow> nat" where
  "roundDiv a b =
     (let q = a div b; r = a mod b
      in if b < 2 * r \<or> (2 * r = b \<and> odd q) then q + 1 else q)"

definition padLeft :: "nat \<Rightarrow> string \<Rightarrow> string" where
  "padLeft n s = replicate (n - length s) (CHR ''0'') @ s"

fun fmtF :: "float64 \<Rightarrow> string" where
  "fmtF (Float64 neg m e) =
     (let n = (if 0 \<le> e then m * 2 ^ nat e * 10 ^ 6 else roundDiv (m * 10 ^ 6) (2 ^ nat (- e)))
      in (if neg then ''-'' else '''') @ natDigits (n div 10 ^ 6) @ ''.''
           @ padLeft 6 (natDigits (n mod 10 ^ 6)))"

text \<open>The literals \<^verbatim>\<open>0.04\<close> and \<^verbatim>\<open>0.02\<close> of the source, as \<^verbatim>\<open>float64\<close> values.\<close>

definition fee_0_04 :: float64 where
  "fee_0_04 = Float64 False 5764607523034235 (-57)"

definition fee_0_02 :: float64 where
  "fee_0_02 = Float64 False 5764607523034235 (-58)"

subsection \<open>Quoted strings\<close>

definition hexChar :: "nat \<Rightarrow> char" where
  "hexChar d = char_of (if d < 10 then 48 + d else 87 + d)"

fun hexDigits :: "nat \<Rightarrow> nat \<Rightarrow> string" where
  "hexDigits 0 n = ''''"
| "hexDigits (Suc k) n = hexDigits k (n div 16) @ [hexChar (n mod 16)]"

definition inRange :: "nat \<Rightarrow> nat \<Rightarrow> nat \<Rightarrow> bool" where
  "inRange lo hi b = (lo \<le> b \<and> b \<le> hi)"

text \<open>\<^verbatim>\<open>utf8.DecodeRuneInString\<close> on a non-empty string: the rune and its width, or
  \<^verbatim>\<open>(RuneError, 1)\<close> for an invalid encoding.\<close>

definition decodeBytes :: "nat list \<Rightarrow> nat \<times> nat" where
  "decodeBytes bs =
     (case bs of
        [] \<Rightarrow> (0xFFFD, 1)
      | b0 # r0 \<Rightarrow>
          if b0 < 0x80 then (b0, 1)
          else case r0 of
            [] \<Rightarrow> (0xFFFD, 1)
          | b1 # r1 \<Rightarrow>
              if inRange 0xC2 0xDF b0 then
                if inRange 0x80 0xBF b1 then ((b0 mod 32) * 64 + b1 mod 64, 2) else (0xFFFD, 1)
              else case r1 of
                [] \<Rightarrow> (0xFFFD, 1)
              | b2 # r2 \<Rightarrow>
                  if inRange 0xE0 0xEF b0 then
                    if inRange (if b0 = 0xE0 then 0xA0 else 0x80) (if b0 = 0xED then 0x9F else 0xBF) b1
                       \<and> inRange 0x80 0xBF b2
                    then ((b0 mod 16) * 4096 + (b1 mod 64) * 64 + b2 mod 64, 3) else (0xFFFD, 1)
                  else case r2 of
                    [] \<Rightarrow> (0xFFFD, 1)
                  | b3 # _ \<Rightarrow>
                      if inRange 0xF0 0xF4 b0
                         \<and> inRange (if b0 = 0xF0 then 0x90 else 0x80) (if b0 = 0xF4 then 0x8F else 0xBF) b1
                         \<and> inRange 0x80 0xBF b2 \<and> inRange 0x80 0xBF b3
                      then ((b0 mod 8) * 262144 + (b1 mod 64) * 4096 + (b2 mod 64) * 64 + b3 mod 64, 4)
                      else (0xFFFD, 1))"

definition decodeRune :: "string \<Rightarrow> nat \<times> nat" where
  "decodeRune s = decodeBytes (map of_char (take 4 s))"

definition isPrintRune :: "(nat \<Rightarrow> bool) \<Rightarrow> nat \<Rightarrow> bool" where
  "isPrintRune isPrint r = (if r < 0x80 then 0x20 \<le> r \<and> r < 0x7F else isPrint r)"

definition BS :: char where
  "BS = CHR 0x5C"

definition DQ :: char where
  "DQ = CHR 0x22"

text \<open>\<^verbatim>\<open>strconv.appendEscapedRune\<close> for the double quote; \<open>enc\<close> is the encoding the rune
  was read from, which \<^verbatim>\<open>utf8.AppendRune\<close> reproduces.\<close>

definition escapeRune :: "(nat \<Rightarrow> bool) \<Rightarrow> nat \<Rightarrow> string \<Rightarrow> string" where
  "escapeRune isPrint r enc =
     (if r = 0x22 \<or> r = 0x5C then BS # enc
      else if isPrintRune isPrint r then enc
      else if r = 7 then [BS, CHR ''a'']
      else if r = 8 then [BS, CHR ''b'']
      else if r = 12 then [BS, CHR ''f'']
      else if r = 10 then [BS, CHR ''n'']
      else if r = 13 then [BS, CHR ''r'']
      else if r = 9 then [BS, CHR ''t'']
      else if r = 11 then [BS, CHR ''v'']
      else if r < 0x20 \<or> r = 0x7F then [BS, CHR ''x''] @ hexDigits 2 r
      else if r < 0x10000 then [BS, CHR ''u''] @ hexDigits 4 r
      else [BS, CHR ''U''] @ hexDigits 8 r)"

fun quoteBody :: "(nat \<Rightarrow> bool) \<Rightarrow> string \<Rightarrow> string" where
  "quoteBody isPrint [] = []"
| "quoteBody isPrint (c # cs) =
     (let r = fst (decodeRune (c # cs)); n = snd (decodeRune (c # cs))
      in (if n = 1 \<and> r = 0xFFFD then [BS, CHR ''x''] @ hexDigits 2 (of_char c)
          else escapeRune isPrint r (take n (c # cs)))
         @ quoteBody isPrint (drop (n - 1) cs))"

declare quoteBody.simps(2) [simp del]

definition quote :: "(nat \<Rightarrow> bool) \<Rightarrow> string \<Rightarrow> string" where
  "quote isPrint s = [DQ] @ quoteBody isPrint s @ [DQ]"

definition isASCII :: "char \<Rightarrow> bool" where
  "isASCII c = (of_char c < (0x80 :: nat))"

lemma decodeRune_ASCII: "isASCII c \<Longrightarrow> decodeRune (c # cs) = (of_char c, 1)"
  by (simp add: decodeRune_def isASCII_def decodeBytes_def)

lemma quoteBody_ASCII:
  "isASCII c \<Longrightarrow> quoteBody isPrint (c # cs) = escapeRune isPrint (of_char c) [c] @ quoteBody isPrint cs"
  by (simp add: quoteBody.simps decodeRune_ASCII Let_def) (simp add: isASCII_def)

end
