(* ===== verification/Types.thy ===== *)
theory Types
  imports KubeTypes GoLib
begin

section \<open>The CashuMint resource\<close>

text \<open>
  The types of \<^verbatim>\<open>api/v1alpha1/cashumint_types.go\<close>: one record per struct, with the source's field
  names behind a prefix, and the functions that file defines on them (\<^verbatim>\<open>DefaultOrchardImage\<close>,
  \<^verbatim>\<open>ManagementRPCTLSEnabled\<close>, \<^verbatim>\<open>ManagementRPCTLSSecretName\<close>, \<^verbatim>\<open>ActiveBackend\<close>).
\<close>

subsection \<open>Constants\<close>

definition DatabaseEnginePostgres :: string where "DatabaseEnginePostgres = ''postgres''"
definition DatabaseEngineSQLite :: string where "DatabaseEngineSQLite = ''sqlite''"
definition DatabaseEngineRedb :: string where "DatabaseEngineRedb = ''redb''"

lemmas engine_defs [simp] =
  DatabaseEnginePostgres_def DatabaseEngineSQLite_def DatabaseEngineRedb_def

definition DefaultListenHost :: string where "DefaultListenHost = ''0.0.0.0''"
definition DefaultLoopbackHost :: string where "DefaultLoopbackHost = ''127.0.0.1''"
definition DefaultStorageSize :: string where "DefaultStorageSize = ''10Gi''"
definition DefaultClusterIssuerKind :: string where "DefaultClusterIssuerKind = ''ClusterIssuer''"
definition DefaultIngressClassName :: string where "DefaultIngressClassName = ''nginx''"
definition DefaultMintImage :: string where "DefaultMintImage = ''cashubtc/mintd:0.16''"
definition DefaultOrchardSQLiteImage :: string where
  "DefaultOrchardSQLiteImage = ''ghcr.io/cashubtc/orchard-mintdb-sqlite:1.8.1''"
definition DefaultOrchardPostgresImage :: string where
  "DefaultOrchardPostgresImage = ''ghcr.io/cashubtc/orchard-mintdb-postgres:1.8.1''"
definition DefaultPrometheusPort :: int32 where "DefaultPrometheusPort = 9000"

lemma default_constants_nonempty [simp]:
  "DefaultListenHost \<noteq> ''''" "DefaultLoopbackHost \<noteq> ''''" "DefaultStorageSize \<noteq> ''''"
  "DefaultClusterIssuerKind \<noteq> ''''" "DefaultIngressClassName \<noteq> ''''" "DefaultMintImage \<noteq> ''''"
  "DefaultOrchardSQLiteImage \<noteq> ''''" "DefaultOrchardPostgresImage \<noteq> ''''"
  by (simp_all add: DefaultListenHost_def DefaultLoopbackHost_def DefaultStorageSize_def
      DefaultClusterIssuerKind_def DefaultIngressClassName_def DefaultMintImage_def
      DefaultOrchardSQLiteImage_def DefaultOrchardPostgresImage_def)

definition PaymentBackendLND :: string where "PaymentBackendLND = ''lnd''"
definition PaymentBackendCLN :: string where "PaymentBackendCLN = ''cln''"
definition PaymentBackendLNBits :: string where "PaymentBackendLNBits = ''lnbits''"
definition PaymentBackendFakeWallet :: string where "PaymentBackendFakeWallet = ''fakewallet''"
definition PaymentBackendGRPCProcessor :: string where "PaymentBackendGRPCProcessor = ''grpcprocessor''"

lemmas backend_defs =
  PaymentBackendLND_def PaymentBackendCLN_def PaymentBackendLNBits_def
  PaymentBackendFakeWallet_def PaymentBackendGRPCProcessor_def

type_synonym AuthLevel = string

definition AuthLevelClear :: AuthLevel where "AuthLevelClear = ''clear''"
definition AuthLevelBlind :: AuthLevel where "AuthLevelBlind = ''blind''"
definition AuthLevelNone :: AuthLevel where "AuthLevelNone = ''none''"

subsection \<open>Mint information and database\<close>

record QuoteTTLConfig =
  qt_MintTTL :: "int32 option"
  qt_MeltTTL :: "int32 option"

record MintInfo =
  mi_URL :: string
  mi_ListenHost :: string
  mi_ListenPort :: int32
  mi_MnemonicSecretRef :: "SecretKeySelector option"
  mi_AutoGenerateMnemonic :: bool
  mi_Name :: string
  mi_Description :: string
  mi_DescriptionLong :: string
  mi_MOTD :: string
  mi_PubkeyHex :: string
  mi_IconURL :: string
  mi_ContactEmail :: string
  mi_ContactNostrPubkey :: string
  mi_TosURL :: string
  mi_InputFeePPK :: "int32 option"
  mi_EnableSwaggerUI :: bool
  mi_UseKeysetV2 :: "bool option"
  mi_QuoteTTL :: "QuoteTTLConfig option"

record PostgresAutoProvisionSpec =
  ap_StorageSize :: string
  ap_StorageClassName :: "string option"
  ap_Resources :: "ResourceRequirements option"
  ap_Version :: string

record PostgresConfig =
  pg_URL :: string
  pg_URLSecretRef :: "SecretKeySelector option"
  pg_TLSMode :: string
  pg_MaxConnections :: "int32 option"
  pg_ConnectionTimeoutSeconds :: "int32 option"
  pg_AutoProvision :: bool
  pg_AutoProvisionSpec :: "PostgresAutoProvisionSpec option"

record SQLiteConfig =
  sq_DataDir :: string

record DatabaseConfig =
  db_Engine :: string
  db_Postgres :: "PostgresConfig option"
  db_SQLite :: "SQLiteConfig option"

record AuthDatabaseConfig =
  ad_Postgres :: "PostgresConfig option"

subsection \<open>Payment backends\<close>

record LNDConfig =
  lnd_Address :: string
  lnd_MacaroonSecretRef :: "SecretKeySelector option"
  lnd_CertSecretRef :: "SecretKeySelector option"
  lnd_FeePercent :: "float64 option"
  lnd_ReserveFeeMin :: "int32 option"

record CLNConfig =
  cln_RPCPath :: string
  cln_Bolt12 :: "bool option"
  cln_FeePercent :: "float64 option"
  cln_ReserveFeeMin :: "int32 option"

record LNBitsConfig =
  lnb_API :: string
  lnb_AdminAPIKeySecretRef :: SecretKeySelector
  lnb_InvoiceAPIKeySecretRef :: SecretKeySelector
  lnb_RetroAPI :: bool
  lnb_FeePercent :: "float64 option"
  lnb_ReserveFeeMin :: "int32 option"

record FakeWalletConfig =
  fw_SupportedUnits :: "string list"
  fw_FeePercent :: "float64 option"
  fw_ReserveFeeMin :: "int32 option"
  fw_MinDelayTime :: "int32 option"
  fw_MaxDelayTime :: "int32 option"

record SidecarProcessorConfig =
  scp_Enabled :: bool
  scp_Image :: string
  scp_ImagePullPolicy :: string
  scp_Command :: "string list"
  scp_Args :: "string list"
  scp_Env :: "EnvVar list"
  scp_WorkingDir :: string
  scp_Resources :: "ResourceRequirements option"
  scp_EnableTLS :: bool
  scp_TLSSecretRef :: "SecretKeySelector option"

record GRPCProcessorConfig =
  gp_Address :: string
  gp_Port :: int32
  gp_SupportedUnits :: "string list"
  gp_TLSSecretRef :: "SecretKeySelector option"
  gp_SidecarProcessor :: "SidecarProcessorConfig option"

record PaymentBackendConfig =
  pb_MinMint :: "int64 option"
  pb_MaxMint :: "int64 option"
  pb_MinMelt :: "int64 option"
  pb_MaxMelt :: "int64 option"
  pb_LND :: "LNDConfig option"
  pb_CLN :: "CLNConfig option"
  pb_LNBits :: "LNBitsConfig option"
  pb_FakeWallet :: "FakeWalletConfig option"
  pb_GRPCProcessor :: "GRPCProcessorConfig option"

record BitcoinRPCConfig =
  brpc_Host :: string
  brpc_Port :: int32
  brpc_UserSecretRef :: SecretKeySelector
  brpc_PasswordSecretRef :: SecretKeySelector

record LDKNodeConfig =
  ldk_Enabled :: bool
  ldk_Image :: string
  ldk_FeePercent :: "float64 option"
  ldk_ReserveFeeMin :: "int32 option"
  ldk_BitcoinNetwork :: string
  ldk_ChainSourceType :: string
  ldk_EsploraURL :: string
  ldk_BitcoinRPC :: "BitcoinRPCConfig option"
  ldk_StorageDirPath :: string
  ldk_LogDirPath :: string
  ldk_MnemonicSecretRef :: "SecretKeySelector option"
  ldk_Host :: string
  ldk_Port :: int32
  ldk_AnnounceAddresses :: "string list"
  ldk_GossipSourceType :: string
  ldk_RGSURL :: string
  ldk_WebserverHost :: string
  ldk_WebserverPort :: int32

subsection \<open>Authentication, cache, management RPC\<close>

record AuthConfig =
  au_Enabled :: bool
  au_OpenIDDiscovery :: string
  au_OpenIDClientID :: string
  au_MintMaxBat :: "int32 option"
  au_Mint :: AuthLevel
  au_GetMintQuote :: AuthLevel
  au_CheckMintQuote :: AuthLevel
  au_Melt :: AuthLevel
  au_GetMeltQuote :: AuthLevel
  au_CheckMeltQuote :: AuthLevel
  au_Swap :: AuthLevel
  au_Restore :: AuthLevel
  au_CheckProofState :: AuthLevel
  au_Database :: "AuthDatabaseConfig option"

record RedisCacheConfig =
  rd_KeyPrefix :: string
  rd_ConnectionString :: string
  rd_ConnectionStringSecretRef :: "SecretKeySelector option"

record HTTPCacheConfig =
  hc_Backend :: string
  hc_TTL :: "int32 option"
  hc_TTI :: "int32 option"
  hc_Redis :: "RedisCacheConfig option"

record ManagementRPCConfig =
  mr_Enabled :: bool
  mr_Address :: string
  mr_Port :: int32
  mr_TLSSecretRef :: "string option"

subsection \<open>Exposure, storage, backup\<close>

record PrometheusConfig =
  pc_Enabled :: bool
  pc_Address :: string
  pc_Port :: "int32 option"

record LimitsConfig =
  li_MaxInputs :: "int32 option"
  li_MaxOutputs :: "int32 option"

record CertManagerConfig =
  cmc_Enabled :: bool
  cmc_IssuerName :: string
  cmc_IssuerKind :: string

record IngressTLSConfig =
  itc_Enabled :: bool
  itc_SecretName :: string
  itc_CertManager :: "CertManagerConfig option"

record IngressConfig =
  ic_Enabled :: bool
  ic_ClassName :: string
  ic_Host :: string
  ic_TLS :: "IngressTLSConfig option"
  ic_Annotations :: strmap

record ServiceConfig =
  svcc_Type :: string
  svcc_Annotations :: strmap
  svcc_LoadBalancerIP :: string

record LoggingConfig =
  lg_Level :: string
  lg_FileLevel :: string
  lg_Format :: string

record StorageConfig =
  st_Size :: string
  st_StorageClassName :: "string option"

record S3BackupConfig =
  s3_Bucket :: string
  s3_Prefix :: string
  s3_Region :: string
  s3_Endpoint :: string
  s3_AccessKeyIDSecretRef :: SecretKeySelector
  s3_SecretAccessKeySecretRef :: SecretKeySelector

record BackupConfig =
  bk_Enabled :: bool
  bk_Schedule :: string
  bk_RetentionCount :: "int32 option"
  bk_S3 :: "S3BackupConfig option"

subsection \<open>Orchard\<close>

record OrchardMintRPCConfig =
  omr_Host :: string
  omr_Port :: int32
  omr_MTLS :: "bool option"

record OrchardMintConfig =
  omc_Type :: string
  omc_API :: string
  omc_Database :: string
  omc_DatabaseCASecretRef :: "SecretKeySelector option"
  omc_DatabaseCertSecretRef :: "SecretKeySelector option"
  omc_DatabaseKeySecretRef :: "SecretKeySelector option"
  omc_RPC :: "OrchardMintRPCConfig option"

record OrchardBitcoinConfig =
  ob_Type :: string
  ob_RPCHost :: string
  ob_RPCPort :: int32
  ob_RPCUserSecretRef :: "SecretKeySelector option"
  ob_RPCPasswordSecretRef :: "SecretKeySelector option"

record OrchardLightningConfig =
  ol_Type :: string
  ol_RPCHost :: string
  ol_RPCPort :: int32
  ol_MacaroonSecretRef :: "SecretKeySelector option"
  ol_CertSecretRef :: "SecretKeySelector option"
  ol_KeySecretRef :: "SecretKeySelector option"
  ol_CASecretRef :: "SecretKeySelector option"

record OrchardTaprootAssetsConfig =
  ota_Type :: string
  ota_RPCHost :: string
  ota_RPCPort :: int32
  ota_MacaroonSecretRef :: "SecretKeySelector option"
  ota_CertSecretRef :: "SecretKeySelector option"

record OrchardAIConfig =
  oai_API :: string

record OrchardConfig =
  oc_Enabled :: bool
  oc_Image :: string
  oc_ImagePullPolicy :: string
  oc_Host :: string
  oc_Port :: int32
  oc_BasePath :: string
  oc_LogLevel :: string
  oc_SetupKeySecretRef :: "SecretKeySelector option"
  oc_ThrottleTTL :: "int32 option"
  oc_ThrottleLimit :: "int32 option"
  oc_Proxy :: string
  oc_Compression :: "bool option"
  oc_Mint :: "OrchardMintConfig option"
  oc_Bitcoin :: "OrchardBitcoinConfig option"
  oc_Lightning :: "OrchardLightningConfig option"
  oc_TaprootAssets :: "OrchardTaprootAssetsConfig option"
  oc_AI :: "OrchardAIConfig option"
  oc_Service :: "ServiceConfig option"
  oc_Ingress :: "IngressConfig option"
  oc_Storage :: "StorageConfig option"
  oc_Resources :: "ResourceRequirements option"
  oc_ContainerSecurityContext :: "SecurityContext option"
  oc_ExtraEnv :: "EnvVar list"

subsection \<open>Specification, status, resource\<close>

record CashuMintSpec =
  cms_Image :: string
  cms_ImagePullPolicy :: string
  cms_ImagePullSecrets :: "string list"
  cms_Replicas :: "int32 option"
  cms_MintInfo :: MintInfo
  cms_Database :: DatabaseConfig
  cms_PaymentBackend :: PaymentBackendConfig
  cms_LDKNode :: "LDKNodeConfig option"
  cms_Auth :: "AuthConfig option"
  cms_HTTPCache :: "HTTPCacheConfig option"
  cms_ManagementRPC :: "ManagementRPCConfig option"
  cms_Orchard :: "OrchardConfig option"
  cms_Prometheus :: "PrometheusConfig option"
  cms_Limits :: "LimitsConfig option"
  cms_Ingress :: "IngressConfig option"
  cms_Service :: "ServiceConfig option"
  cms_Resources :: "ResourceRequirements option"
  cms_NodeSelector :: strmap
  cms_Tolerations :: "opaque list"
  cms_Affinity :: "opaque option"
  cms_Logging :: "LoggingConfig option"
  cms_Storage :: "StorageConfig option"
  cms_Backup :: "BackupConfig option"
  cms_PodSecurityContext :: "PodSecurityContext option"
  cms_ContainerSecurityContext :: "SecurityContext option"

type_synonym MintPhase = string

definition MintPhasePending :: MintPhase where "MintPhasePending = ''Pending''"
definition MintPhaseProvisioning :: MintPhase where "MintPhaseProvisioning = ''Provisioning''"
definition MintPhaseReady :: MintPhase where "MintPhaseReady = ''Ready''"
definition MintPhaseFailed :: MintPhase where "MintPhaseFailed = ''Failed''"
definition MintPhaseUpdating :: MintPhase where "MintPhaseUpdating = ''Updating''"

lemmas phase_defs =
  MintPhasePending_def MintPhaseProvisioning_def MintPhaseReady_def MintPhaseFailed_def
  MintPhaseUpdating_def

definition ConditionTypeReady :: string where "ConditionTypeReady = ''Ready''"
definition ConditionTypeDatabaseReady :: string where "ConditionTypeDatabaseReady = ''DatabaseReady''"
definition ConditionTypePaymentBackendReady :: string where
  "ConditionTypePaymentBackendReady = ''PaymentBackendReady''"
definition ConditionTypeConfigValid :: string where "ConditionTypeConfigValid = ''ConfigValid''"
definition ConditionTypeIngressReady :: string where "ConditionTypeIngressReady = ''IngressReady''"
definition ConditionTypeBackupReady :: string where "ConditionTypeBackupReady = ''BackupReady''"

lemmas condition_defs =
  ConditionTypeReady_def ConditionTypeDatabaseReady_def ConditionTypePaymentBackendReady_def
  ConditionTypeConfigValid_def ConditionTypeIngressReady_def ConditionTypeBackupReady_def

text \<open>\<^verbatim>\<open>metav1.Condition\<close>; a status is true or not, the code never writes \<^verbatim>\<open>Unknown\<close>.\<close>

datatype ConditionStatus = ConditionTrue | ConditionFalse | ConditionUnknown

record Condition =
  cond_Type :: string
  cond_Status :: ConditionStatus
  cond_ObservedGeneration :: int64
  cond_LastTransitionTime :: opaque
  cond_Reason :: string
  cond_Message :: string

record ComponentStatus =
  cs_Connected :: bool
  cs_Message :: string
  cs_LastChecked :: "opaque option"

record CashuMintStatus =
  sta_Phase :: MintPhase
  sta_Conditions :: "Condition list"
  sta_ObservedGeneration :: int64
  sta_BackendType :: string
  sta_DeploymentName :: string
  sta_ServiceName :: string
  sta_IngressName :: string
  sta_ConfigMapName :: string
  sta_DatabaseStatus :: ComponentStatus
  sta_PaymentBackendStatus :: ComponentStatus
  sta_URL :: string
  sta_ReadyReplicas :: int32

record CashuMint =
  cm_Meta :: ObjectMeta
  cm_Spec :: CashuMintSpec
  cm_Status :: CashuMintStatus

abbreviation mintName :: "CashuMint \<Rightarrow> string" where
  "mintName m \<equiv> om_Name (cm_Meta m)"

abbreviation mintNamespace :: "CashuMint \<Rightarrow> string" where
  "mintNamespace m \<equiv> om_Namespace (cm_Meta m)"

subsection \<open>Functions on the specification\<close>

definition DefaultOrchardImage :: "string \<Rightarrow> string" where
  "DefaultOrchardImage databaseEngine =
     (if databaseEngine = DatabaseEnginePostgres then DefaultOrchardPostgresImage
      else DefaultOrchardSQLiteImage)"

definition ManagementRPCTLSEnabled :: "CashuMintSpec \<Rightarrow> bool" where
  "ManagementRPCTLSEnabled spec =
     (case cms_ManagementRPC spec of
        None \<Rightarrow> False
      | Some r \<Rightarrow>
          if \<not> mr_Enabled r then False
          else optP oc_Enabled (cms_Orchard spec) \<or> mr_TLSSecretRef r \<noteq> None)"

definition ManagementRPCTLSSecretName :: "CashuMintSpec \<Rightarrow> string \<Rightarrow> string" where
  "ManagementRPCTLSSecretName spec name =
     (case Option.bind (cms_ManagementRPC spec) mr_TLSSecretRef of
        Some n \<Rightarrow> if n \<noteq> '''' then n else name @ ''-management-rpc-tls''
      | None \<Rightarrow> name @ ''-management-rpc-tls'')"

text \<open>The accumulator of \<^verbatim>\<open>ActiveBackend\<close>: the number of populated fields and the last one seen.\<close>

definition sawBackend :: "bool \<Rightarrow> string \<Rightarrow> nat \<times> string \<Rightarrow> nat \<times> string" where
  "sawBackend present name acc = (if present then (fst acc + 1, name) else acc)"

definition ActiveBackend :: "PaymentBackendConfig \<Rightarrow> string" where
  "ActiveBackend p =
     (let (count, result) =
        sawBackend (pb_GRPCProcessor p \<noteq> None) PaymentBackendGRPCProcessor
       (sawBackend (pb_FakeWallet p \<noteq> None) PaymentBackendFakeWallet
       (sawBackend (pb_LNBits p \<noteq> None) PaymentBackendLNBits
       (sawBackend (pb_CLN p \<noteq> None) PaymentBackendCLN
       (sawBackend (pb_LND p \<noteq> None) PaymentBackendLND (0, '''')))))
      in if count \<noteq> 1 then '''' else result)"

definition activeBackend :: "CashuMint \<Rightarrow> string" where
  "activeBackend m = ActiveBackend (cms_PaymentBackend (cm_Spec m))"

text \<open>The populated backends, by name.\<close>

definition backendsSet :: "PaymentBackendConfig \<Rightarrow> string list" where
  "backendsSet p =
     whenL (pb_LND p \<noteq> None) [PaymentBackendLND]
     @ whenL (pb_CLN p \<noteq> None) [PaymentBackendCLN]
     @ whenL (pb_LNBits p \<noteq> None) [PaymentBackendLNBits]
     @ whenL (pb_FakeWallet p \<noteq> None) [PaymentBackendFakeWallet]
     @ whenL (pb_GRPCProcessor p \<noteq> None) [PaymentBackendGRPCProcessor]"

lemma ActiveBackend_backendsSet:
  "ActiveBackend p = (case backendsSet p of [b] \<Rightarrow> b | _ \<Rightarrow> '''')"
  by (simp add: ActiveBackend_def backendsSet_def sawBackend_def whenL_def Let_def)

lemma backendsSet_nonempty: "b \<in> set (backendsSet p) \<Longrightarrow> b \<noteq> ''''"
  by (auto simp: backendsSet_def backend_defs split: if_splits)

lemma ActiveBackend_eq_iff:
  "b \<noteq> '''' \<Longrightarrow> (ActiveBackend p = b) = (backendsSet p = [b])"
  by (auto simp: ActiveBackend_backendsSet split: list.splits)

lemma ActiveBackend_populated:
  "ActiveBackend p = PaymentBackendLND \<Longrightarrow> pb_LND p \<noteq> None"
  "ActiveBackend p = PaymentBackendCLN \<Longrightarrow> pb_CLN p \<noteq> None"
  "ActiveBackend p = PaymentBackendLNBits \<Longrightarrow> pb_LNBits p \<noteq> None"
  "ActiveBackend p = PaymentBackendFakeWallet \<Longrightarrow> pb_FakeWallet p \<noteq> None"
  "ActiveBackend p = PaymentBackendGRPCProcessor \<Longrightarrow> pb_GRPCProcessor p \<noteq> None"
  by (auto simp: ActiveBackend_def sawBackend_def backend_defs Let_def split: if_splits)

lemma ManagementRPCTLSEnabled_iff:
  "ManagementRPCTLSEnabled spec =
     optP (\<lambda>r. mr_Enabled r \<and> (optP oc_Enabled (cms_Orchard spec) \<or> mr_TLSSecretRef r \<noteq> None))
       (cms_ManagementRPC spec)"
  by (auto simp: ManagementRPCTLSEnabled_def optP_def split: option.splits)

lemma ManagementRPCTLSSecretName_nonempty [simp]: "ManagementRPCTLSSecretName spec n \<noteq> ''''"
  by (simp add: ManagementRPCTLSSecretName_def split: option.splits)

end
