(* ===== verification/Defaulting.thy ===== *)
theory Defaulting
  imports Types
begin

section \<open>The defaulting webhook\<close>

text \<open>
  \<^verbatim>\<open>(*CashuMint).Default\<close> of \<^verbatim>\<open>api/v1alpha1/cashumint_webhook.go\<close>. A method that assigns to
  fields of the receiver is a function from the resource to the resource; a method that works on
  one nested struct (\<^verbatim>\<open>defaultPostgres\<close>, \<^verbatim>\<open>defaultHTTPCache\<close>, ...) is a function on the record
  of that struct, which its caller applies under the caller's own guard. The lemmas show that
  defaulting is idempotent, that it fills exactly the empty fields, and what it guarantees.
\<close>

definition updSpec :: "(CashuMintSpec \<Rightarrow> CashuMintSpec) \<Rightarrow> CashuMint \<Rightarrow> CashuMint" where
  "updSpec f r = r\<lparr> cm_Spec := f (cm_Spec r) \<rparr>"

lemma updSpec_simps [simp]:
  "cm_Spec (updSpec f r) = f (cm_Spec r)" "cm_Meta (updSpec f r) = cm_Meta r"
  "cm_Status (updSpec f r) = cm_Status r" "updSpec f (updSpec g r) = updSpec (f \<circ> g) r"
  by (simp_all add: updSpec_def)

text \<open>\<^verbatim>\<open>if p != nil && P(*p) { f(p) }\<close>.\<close>

definition whenPtr :: "('a \<Rightarrow> bool) \<Rightarrow> ('a \<Rightarrow> 'a) \<Rightarrow> 'a option \<Rightarrow> 'a option" where
  "whenPtr P f p = map_option (\<lambda>x. if P x then f x else x) p"

lemma whenPtr_simps [simp, go_simps]:
  "whenPtr P f None = None" "whenPtr P f (Some x) = Some (if P x then f x else x)"
  "(whenPtr P f p = None) = (p = None)"
  by (simp_all add: whenPtr_def)

lemma whenPtr_idem:
  "(\<And>x. P x \<Longrightarrow> P (f x)) \<Longrightarrow> (\<And>x. P x \<Longrightarrow> f (f x) = f x) \<Longrightarrow>
   whenPtr P f (whenPtr P f p) = whenPtr P f p"
  by (cases p) auto

lemma optP_whenPtr:
  "(\<And>x. Q (f x) = Q x) \<Longrightarrow> optP Q (whenPtr P f p) = optP Q p"
  by (cases p) auto

abbreviation always :: "'a \<Rightarrow> bool" where
  "always \<equiv> \<lambda>_. True"

subsection \<open>Mint information and database\<close>

definition defaultQuoteTTL :: "QuoteTTLConfig \<Rightarrow> QuoteTTLConfig" where
  "defaultQuoteTTL q =
     q\<lparr> qt_MintTTL := orPtr (qt_MintTTL q) 600, qt_MeltTTL := orPtr (qt_MeltTTL q) 120 \<rparr>"

definition defaultMintInfo :: "CashuMint \<Rightarrow> CashuMint" where
  "defaultMintInfo = updSpec (\<lambda>s.
     let i = cms_MintInfo s in
     s\<lparr> cms_MintInfo := i\<lparr> mi_ListenHost := orStr (mi_ListenHost i) DefaultListenHost,
                          mi_ListenPort := orInt (mi_ListenPort i) 8085,
                          mi_QuoteTTL := whenPtr always defaultQuoteTTL (mi_QuoteTTL i) \<rparr>,
        cms_Image := orStr (cms_Image s) DefaultMintImage,
        cms_Replicas := orPtr (cms_Replicas s) 1 \<rparr>)"

definition defaultAutoProvision :: "PostgresAutoProvisionSpec \<Rightarrow> PostgresAutoProvisionSpec" where
  "defaultAutoProvision a =
     a\<lparr> ap_StorageSize := orStr (ap_StorageSize a) DefaultStorageSize,
        ap_Version := orStr (ap_Version a) ''15'' \<rparr>"

definition defaultPostgres :: "PostgresConfig \<Rightarrow> PostgresConfig" where
  "defaultPostgres pg =
     pg\<lparr> pg_TLSMode := orStr (pg_TLSMode pg) (if pg_AutoProvision pg then ''disable'' else ''require''),
         pg_MaxConnections := orPtr (pg_MaxConnections pg) 20,
         pg_ConnectionTimeoutSeconds := orPtr (pg_ConnectionTimeoutSeconds pg) 10,
         pg_AutoProvisionSpec :=
           whenPtr (\<lambda>_. pg_AutoProvision pg) defaultAutoProvision (pg_AutoProvisionSpec pg) \<rparr>"

definition defaultSQLite :: "SQLiteConfig \<Rightarrow> SQLiteConfig" where
  "defaultSQLite q = q\<lparr> sq_DataDir := orStr (sq_DataDir q) ''/data'' \<rparr>"

definition defaultDatabase :: "CashuMint \<Rightarrow> CashuMint" where
  "defaultDatabase = updSpec (\<lambda>s.
     let d = cms_Database s;
         engine = orStr (db_Engine d) DatabaseEnginePostgres
     in s\<lparr> cms_Database := d\<lparr> db_Engine := engine,
            db_Postgres := whenPtr (\<lambda>_. engine = DatabaseEnginePostgres) defaultPostgres (db_Postgres d),
            db_SQLite := whenPtr (\<lambda>_. engine = DatabaseEngineSQLite) defaultSQLite (db_SQLite d) \<rparr> \<rparr>)"

subsection \<open>Ingress and Orchard\<close>

definition defaultCertManager :: "CertManagerConfig \<Rightarrow> CertManagerConfig" where
  "defaultCertManager c = c\<lparr> cmc_IssuerKind := orStr (cmc_IssuerKind c) DefaultClusterIssuerKind \<rparr>"

definition defaultIngressTLS :: "IngressTLSConfig \<Rightarrow> IngressTLSConfig" where
  "defaultIngressTLS t = t\<lparr> itc_CertManager := whenPtr always defaultCertManager (itc_CertManager t) \<rparr>"

definition defaultIngressConfig :: "IngressConfig option \<Rightarrow> IngressConfig option" where
  "defaultIngressConfig = whenPtr ic_Enabled (\<lambda>i.
     i\<lparr> ic_ClassName := orStr (ic_ClassName i) DefaultIngressClassName,
        ic_TLS := whenPtr always defaultIngressTLS (ic_TLS i) \<rparr>)"

definition defaultIngress :: "CashuMint \<Rightarrow> CashuMint" where
  "defaultIngress = updSpec (\<lambda>s. s\<lparr> cms_Ingress := defaultIngressConfig (cms_Ingress s) \<rparr>)"

definition zeroStorage :: StorageConfig where
  "zeroStorage = \<lparr> st_Size = '''', st_StorageClassName = None \<rparr>"

definition zeroService :: ServiceConfig where
  "zeroService = \<lparr> svcc_Type = '''', svcc_Annotations = Map.empty, svcc_LoadBalancerIP = '''' \<rparr>"

definition zeroOrchardMint :: OrchardMintConfig where
  "zeroOrchardMint =
     \<lparr> omc_Type = '''', omc_API = '''', omc_Database = '''', omc_DatabaseCASecretRef = None,
       omc_DatabaseCertSecretRef = None, omc_DatabaseKeySecretRef = None, omc_RPC = None \<rparr>"

definition enabledManagementRPC :: ManagementRPCConfig where
  "enabledManagementRPC = \<lparr> mr_Enabled = True, mr_Address = '''', mr_Port = 0, mr_TLSSecretRef = None \<rparr>"

definition defaultStorage :: "StorageConfig \<Rightarrow> StorageConfig" where
  "defaultStorage t = t\<lparr> st_Size := orStr (st_Size t) DefaultStorageSize \<rparr>"

definition defaultService :: "ServiceConfig \<Rightarrow> ServiceConfig" where
  "defaultService v = v\<lparr> svcc_Type := orStr (svcc_Type v) ''ClusterIP'' \<rparr>"

text \<open>The \<^verbatim>\<open>orchard.mint.rpc\<close> block; \<open>mtls\<close> is \<^verbatim>\<open>ManagementRPCTLSEnabled(&r.Spec)\<close> at that point.\<close>

definition defaultOrchardMintRPC :: "bool \<Rightarrow> OrchardMintRPCConfig \<Rightarrow> OrchardMintRPCConfig" where
  "defaultOrchardMintRPC mtls c =
     c\<lparr> omr_Host := orStr (omr_Host c) DefaultLoopbackHost,
        omr_Port := orInt (omr_Port c) 8086,
        omr_MTLS := orPtr (omr_MTLS c) mtls \<rparr>"

definition defaultOrchardMint :: "bool \<Rightarrow> OrchardMintConfig \<Rightarrow> OrchardMintConfig" where
  "defaultOrchardMint mtls c =
     c\<lparr> omc_Type := orStr (omc_Type c) ''cdk'',
        omc_RPC := whenPtr always (defaultOrchardMintRPC mtls) (omc_RPC c) \<rparr>"

definition defaultOrchardConfig :: "string \<Rightarrow> bool \<Rightarrow> OrchardConfig \<Rightarrow> OrchardConfig" where
  "defaultOrchardConfig engine mtls c =
     c\<lparr> oc_Image := orStr (oc_Image c) (DefaultOrchardImage engine),
        oc_ImagePullPolicy := orStr (oc_ImagePullPolicy c) ''IfNotPresent'',
        oc_Host := orStr (oc_Host c) DefaultListenHost,
        oc_Port := orInt (oc_Port c) 3321,
        oc_BasePath := orStr (oc_BasePath c) ''api'',
        oc_LogLevel := orStr (oc_LogLevel c) ''warn'',
        oc_ThrottleTTL := orPtr (oc_ThrottleTTL c) 60000,
        oc_ThrottleLimit := orPtr (oc_ThrottleLimit c) 20,
        oc_Storage := Some (defaultStorage (derefOr (oc_Storage c) zeroStorage)),
        oc_Service := Some (defaultService (derefOr (oc_Service c) zeroService)),
        oc_Ingress := defaultIngressConfig (oc_Ingress c),
        oc_Mint := Some (defaultOrchardMint mtls (derefOr (oc_Mint c) zeroOrchardMint)),
        oc_Bitcoin := whenPtr (\<lambda>b. ob_Type b = '''') (\<lambda>b. b\<lparr> ob_Type := ''core'' \<rparr>) (oc_Bitcoin c),
        oc_TaprootAssets :=
          whenPtr (\<lambda>t. ota_Type t = '''') (\<lambda>t. t\<lparr> ota_Type := ''tapd'' \<rparr>) (oc_TaprootAssets c) \<rparr>"

definition defaultOrchard :: "CashuMint \<Rightarrow> CashuMint" where
  "defaultOrchard = updSpec (\<lambda>s.
     if \<not> optP oc_Enabled (cms_Orchard s) then s
     else let s1 = s\<lparr> cms_ManagementRPC := orPtr (cms_ManagementRPC s) enabledManagementRPC \<rparr>
          in s1\<lparr> cms_Orchard := map_option
                   (defaultOrchardConfig (db_Engine (cms_Database s)) (ManagementRPCTLSEnabled s1))
                   (cms_Orchard s) \<rparr>)"

subsection \<open>Operational settings\<close>

definition defaultLogging :: "LoggingConfig \<Rightarrow> LoggingConfig" where
  "defaultLogging l = l\<lparr> lg_Level := orStr (lg_Level l) ''info'', lg_Format := orStr (lg_Format l) ''json'' \<rparr>"

definition defaultHTTPCache :: "HTTPCacheConfig \<Rightarrow> HTTPCacheConfig" where
  "defaultHTTPCache h =
     h\<lparr> hc_Backend := orStr (hc_Backend h) ''memory'', hc_TTL := orPtr (hc_TTL h) 60,
        hc_TTI := orPtr (hc_TTI h) 60 \<rparr>"

definition defaultManagementRPC :: "ManagementRPCConfig \<Rightarrow> ManagementRPCConfig" where
  "defaultManagementRPC c =
     c\<lparr> mr_Address := orStr (mr_Address c) DefaultLoopbackHost, mr_Port := orInt (mr_Port c) 8086 \<rparr>"

definition defaultPrometheus :: "PrometheusConfig \<Rightarrow> PrometheusConfig" where
  "defaultPrometheus c =
     c\<lparr> pc_Address := orStr (pc_Address c) DefaultListenHost,
        pc_Port := orPtr (pc_Port c) DefaultPrometheusPort \<rparr>"

definition defaultS3 :: "string \<Rightarrow> S3BackupConfig \<Rightarrow> S3BackupConfig" where
  "defaultS3 name c = c\<lparr> s3_Prefix := orStr (s3_Prefix c) name \<rparr>"

definition defaultBackup :: "string \<Rightarrow> BackupConfig \<Rightarrow> BackupConfig" where
  "defaultBackup name b =
     b\<lparr> bk_Schedule := orStr (bk_Schedule b) ''0 */6 * * *'',
        bk_RetentionCount := orPtr (bk_RetentionCount b) 14,
        bk_S3 := whenPtr always (defaultS3 name) (bk_S3 b) \<rparr>"

definition defaultAuth :: "AuthConfig \<Rightarrow> AuthConfig" where
  "defaultAuth a =
     a\<lparr> au_MintMaxBat := orPtr (au_MintMaxBat a) 50,
        au_Mint := orStr (au_Mint a) AuthLevelClear,
        au_GetMintQuote := orStr (au_GetMintQuote a) AuthLevelClear,
        au_CheckMintQuote := orStr (au_CheckMintQuote a) AuthLevelClear,
        au_Melt := orStr (au_Melt a) AuthLevelClear,
        au_GetMeltQuote := orStr (au_GetMeltQuote a) AuthLevelClear,
        au_CheckMeltQuote := orStr (au_CheckMeltQuote a) AuthLevelClear,
        au_Swap := orStr (au_Swap a) AuthLevelClear,
        au_Restore := orStr (au_Restore a) AuthLevelClear,
        au_CheckProofState := orStr (au_CheckProofState a) AuthLevelClear \<rparr>"

definition defaultOperational :: "CashuMint \<Rightarrow> CashuMint" where
  "defaultOperational r = updSpec (\<lambda>s.
     s\<lparr> cms_Logging := whenPtr always defaultLogging (cms_Logging s),
        cms_Storage := whenPtr always defaultStorage (cms_Storage s),
        cms_Service := whenPtr always defaultService (cms_Service s),
        cms_HTTPCache := whenPtr always defaultHTTPCache (cms_HTTPCache s),
        cms_ManagementRPC := whenPtr mr_Enabled defaultManagementRPC (cms_ManagementRPC s),
        cms_Prometheus := whenPtr pc_Enabled defaultPrometheus (cms_Prometheus s),
        cms_Backup := whenPtr bk_Enabled (defaultBackup (mintName r)) (cms_Backup s),
        cms_Auth := whenPtr au_Enabled defaultAuth (cms_Auth s) \<rparr>) r"

subsection \<open>Payment backends\<close>

definition defaultLND :: "LNDConfig \<Rightarrow> LNDConfig" where
  "defaultLND c = c\<lparr> lnd_FeePercent := orPtr (lnd_FeePercent c) fee_0_04,
                     lnd_ReserveFeeMin := orPtr (lnd_ReserveFeeMin c) 4 \<rparr>"

definition defaultCLN :: "CLNConfig \<Rightarrow> CLNConfig" where
  "defaultCLN c = c\<lparr> cln_FeePercent := orPtr (cln_FeePercent c) fee_0_04,
                     cln_ReserveFeeMin := orPtr (cln_ReserveFeeMin c) 4 \<rparr>"

definition defaultLNBits :: "LNBitsConfig \<Rightarrow> LNBitsConfig" where
  "defaultLNBits c = c\<lparr> lnb_FeePercent := orPtr (lnb_FeePercent c) fee_0_02,
                        lnb_ReserveFeeMin := orPtr (lnb_ReserveFeeMin c) 2 \<rparr>"

definition orList :: "'a list \<Rightarrow> 'a list \<Rightarrow> 'a list" where
  "orList xs d = (if xs = [] then d else xs)"

lemma orList_simps [simp, go_simps]:
  "orList [] d = d" "xs \<noteq> [] \<Longrightarrow> orList xs d = xs" "orList (orList xs d) d = orList xs d"
  by (auto simp: orList_def)

definition defaultFakeWallet :: "FakeWalletConfig \<Rightarrow> FakeWalletConfig" where
  "defaultFakeWallet fw =
     fw\<lparr> fw_FeePercent := orPtr (fw_FeePercent fw) fee_0_02,
         fw_ReserveFeeMin := orPtr (fw_ReserveFeeMin fw) 1,
         fw_MinDelayTime := orPtr (fw_MinDelayTime fw) 1,
         fw_MaxDelayTime := orPtr (fw_MaxDelayTime fw) 3,
         fw_SupportedUnits := orList (fw_SupportedUnits fw) [''sat''] \<rparr>"

definition defaultGRPCProcessor :: "GRPCProcessorConfig \<Rightarrow> GRPCProcessorConfig" where
  "defaultGRPCProcessor gp =
     gp\<lparr> gp_SupportedUnits := orList (gp_SupportedUnits gp) [''sat''],
         gp_Port := orInt (gp_Port gp) 50051,
         gp_SidecarProcessor := whenPtr scp_Enabled
           (\<lambda>c. c\<lparr> scp_ImagePullPolicy := orStr (scp_ImagePullPolicy c) ''IfNotPresent'' \<rparr>)
           (gp_SidecarProcessor gp) \<rparr>"

definition defaultLDKNode :: "LDKNodeConfig \<Rightarrow> LDKNodeConfig" where
  "defaultLDKNode l =
     l\<lparr> ldk_FeePercent := orPtr (ldk_FeePercent l) fee_0_04,
        ldk_ReserveFeeMin := orPtr (ldk_ReserveFeeMin l) 4,
        ldk_BitcoinNetwork := orStr (ldk_BitcoinNetwork l) ''signet'',
        ldk_ChainSourceType := orStr (ldk_ChainSourceType l) ''esplora'',
        ldk_Host := orStr (ldk_Host l) DefaultListenHost,
        ldk_Port := orInt (ldk_Port l) 8090,
        ldk_GossipSourceType := orStr (ldk_GossipSourceType l) ''rgs'',
        ldk_WebserverHost := orStr (ldk_WebserverHost l) DefaultLoopbackHost,
        ldk_WebserverPort := orInt (ldk_WebserverPort l) 8888 \<rparr>"

definition defaultPaymentBackend :: "CashuMint \<Rightarrow> CashuMint" where
  "defaultPaymentBackend = updSpec (\<lambda>s.
     let p = cms_PaymentBackend s in
     s\<lparr> cms_PaymentBackend := p\<lparr>
          pb_LND := whenPtr always defaultLND (pb_LND p),
          pb_CLN := whenPtr always defaultCLN (pb_CLN p),
          pb_LNBits := whenPtr always defaultLNBits (pb_LNBits p),
          pb_FakeWallet := whenPtr always defaultFakeWallet (pb_FakeWallet p),
          pb_GRPCProcessor := whenPtr always defaultGRPCProcessor (pb_GRPCProcessor p) \<rparr>,
        cms_LDKNode := whenPtr ldk_Enabled defaultLDKNode (cms_LDKNode s) \<rparr>)"

definition Default :: "CashuMint \<Rightarrow> CashuMint" where
  "Default r =
     defaultPaymentBackend (defaultOperational (defaultOrchard (defaultIngress
       (defaultDatabase (defaultMintInfo r)))))"


subsection \<open>What defaulting does to each field\<close>

lemmas default_step_defs =
  defaultMintInfo_def defaultDatabase_def defaultIngress_def defaultOrchard_def
  defaultOperational_def defaultPaymentBackend_def

text \<open>The specification after the steps before \<^verbatim>\<open>defaultOrchard\<close>'s last reads.\<close>

definition orchardRPC :: "CashuMintSpec \<Rightarrow> CashuMintSpec" where
  "orchardRPC s =
     (if optP oc_Enabled (cms_Orchard s)
      then s\<lparr> cms_ManagementRPC := orPtr (cms_ManagementRPC s) enabledManagementRPC \<rparr> else s)"

definition defaultedEngine :: "CashuMintSpec \<Rightarrow> string" where
  "defaultedEngine s = orStr (db_Engine (cms_Database s)) DatabaseEnginePostgres"

text \<open>\<^verbatim>\<open>Default\<close> as one simultaneous assignment to the fields of the specification.\<close>

lemma Default_spec:
  "cm_Spec (Default r) =
     (let s = cm_Spec r; i = cms_MintInfo s; d = cms_Database s; e = defaultedEngine s;
          p = cms_PaymentBackend s in
      s\<lparr> cms_MintInfo := i\<lparr> mi_ListenHost := orStr (mi_ListenHost i) DefaultListenHost,
                           mi_ListenPort := orInt (mi_ListenPort i) 8085,
                           mi_QuoteTTL := whenPtr always defaultQuoteTTL (mi_QuoteTTL i) \<rparr>,
         cms_Image := orStr (cms_Image s) DefaultMintImage,
         cms_Replicas := orPtr (cms_Replicas s) 1,
         cms_Database := d\<lparr> db_Engine := e,
           db_Postgres := whenPtr (\<lambda>_. e = ''postgres'') defaultPostgres (db_Postgres d),
           db_SQLite := whenPtr (\<lambda>_. e = ''sqlite'') defaultSQLite (db_SQLite d) \<rparr>,
         cms_Ingress := defaultIngressConfig (cms_Ingress s),
         cms_Orchard := whenPtr oc_Enabled
           (defaultOrchardConfig e (ManagementRPCTLSEnabled (orchardRPC s))) (cms_Orchard s),
         cms_Logging := whenPtr always defaultLogging (cms_Logging s),
         cms_Storage := whenPtr always defaultStorage (cms_Storage s),
         cms_Service := whenPtr always defaultService (cms_Service s),
         cms_HTTPCache := whenPtr always defaultHTTPCache (cms_HTTPCache s),
         cms_ManagementRPC := whenPtr mr_Enabled defaultManagementRPC (cms_ManagementRPC (orchardRPC s)),
         cms_Prometheus := whenPtr pc_Enabled defaultPrometheus (cms_Prometheus s),
         cms_Backup := whenPtr bk_Enabled (defaultBackup (mintName r)) (cms_Backup s),
         cms_Auth := whenPtr au_Enabled defaultAuth (cms_Auth s),
         cms_PaymentBackend := p\<lparr>
           pb_LND := whenPtr always defaultLND (pb_LND p),
           pb_CLN := whenPtr always defaultCLN (pb_CLN p),
           pb_LNBits := whenPtr always defaultLNBits (pb_LNBits p),
           pb_FakeWallet := whenPtr always defaultFakeWallet (pb_FakeWallet p),
           pb_GRPCProcessor := whenPtr always defaultGRPCProcessor (pb_GRPCProcessor p) \<rparr>,
         cms_LDKNode := whenPtr ldk_Enabled defaultLDKNode (cms_LDKNode s) \<rparr>)"
proof (cases "optP oc_Enabled (cms_Orchard (cm_Spec r))")
  case True
  then obtain c where "cms_Orchard (cm_Spec r) = Some c" "oc_Enabled c"
    by (auto simp: optP_iff)
  then show ?thesis
    by (simp add: Default_def default_step_defs Let_def orchardRPC_def defaultedEngine_def
        ManagementRPCTLSEnabled_iff)
next
  case False
  then have "whenPtr oc_Enabled f (cms_Orchard (cm_Spec r)) = cms_Orchard (cm_Spec r)" for f
    by (cases "cms_Orchard (cm_Spec r)") auto
  with False show ?thesis
    by (simp add: Default_def default_step_defs Let_def orchardRPC_def defaultedEngine_def)
qed

lemma Default_meta [simp]:
  "cm_Meta (Default r) = cm_Meta r" "cm_Status (Default r) = cm_Status r"
  by (simp_all add: Default_def default_step_defs)

lemma Default_untouched [simp]:
  "cms_ImagePullPolicy (cm_Spec (Default r)) = cms_ImagePullPolicy (cm_Spec r)"
  "cms_ImagePullSecrets (cm_Spec (Default r)) = cms_ImagePullSecrets (cm_Spec r)"
  "cms_Limits (cm_Spec (Default r)) = cms_Limits (cm_Spec r)"
  "cms_Resources (cm_Spec (Default r)) = cms_Resources (cm_Spec r)"
  "cms_NodeSelector (cm_Spec (Default r)) = cms_NodeSelector (cm_Spec r)"
  "cms_Tolerations (cm_Spec (Default r)) = cms_Tolerations (cm_Spec r)"
  "cms_Affinity (cm_Spec (Default r)) = cms_Affinity (cm_Spec r)"
  "cms_PodSecurityContext (cm_Spec (Default r)) = cms_PodSecurityContext (cm_Spec r)"
  "cms_ContainerSecurityContext (cm_Spec (Default r)) = cms_ContainerSecurityContext (cm_Spec r)"
  by (simp_all add: Default_spec Let_def)

lemma Default_sel [simp]:
  "cms_Image (cm_Spec (Default r)) = orStr (cms_Image (cm_Spec r)) DefaultMintImage"
  "cms_Replicas (cm_Spec (Default r)) = orPtr (cms_Replicas (cm_Spec r)) 1"
  "cms_MintInfo (cm_Spec (Default r)) =
     (cms_MintInfo (cm_Spec r))
       \<lparr> mi_ListenHost := orStr (mi_ListenHost (cms_MintInfo (cm_Spec r))) DefaultListenHost,
         mi_ListenPort := orInt (mi_ListenPort (cms_MintInfo (cm_Spec r))) 8085,
         mi_QuoteTTL := whenPtr always defaultQuoteTTL (mi_QuoteTTL (cms_MintInfo (cm_Spec r))) \<rparr>"
  "cms_Database (cm_Spec (Default r)) =
     (cms_Database (cm_Spec r))
       \<lparr> db_Engine := defaultedEngine (cm_Spec r),
         db_Postgres := whenPtr (\<lambda>_. defaultedEngine (cm_Spec r) = ''postgres'') defaultPostgres
           (db_Postgres (cms_Database (cm_Spec r))),
         db_SQLite := whenPtr (\<lambda>_. defaultedEngine (cm_Spec r) = ''sqlite'') defaultSQLite
           (db_SQLite (cms_Database (cm_Spec r))) \<rparr>"
  "cms_Ingress (cm_Spec (Default r)) = defaultIngressConfig (cms_Ingress (cm_Spec r))"
  "cms_Logging (cm_Spec (Default r)) = whenPtr always defaultLogging (cms_Logging (cm_Spec r))"
  "cms_Storage (cm_Spec (Default r)) = whenPtr always defaultStorage (cms_Storage (cm_Spec r))"
  "cms_Service (cm_Spec (Default r)) = whenPtr always defaultService (cms_Service (cm_Spec r))"
  "cms_HTTPCache (cm_Spec (Default r)) = whenPtr always defaultHTTPCache (cms_HTTPCache (cm_Spec r))"
  "cms_Prometheus (cm_Spec (Default r)) = whenPtr pc_Enabled defaultPrometheus (cms_Prometheus (cm_Spec r))"
  "cms_Backup (cm_Spec (Default r)) =
     whenPtr bk_Enabled (defaultBackup (mintName r)) (cms_Backup (cm_Spec r))"
  "cms_Auth (cm_Spec (Default r)) = whenPtr au_Enabled defaultAuth (cms_Auth (cm_Spec r))"
  "cms_LDKNode (cm_Spec (Default r)) = whenPtr ldk_Enabled defaultLDKNode (cms_LDKNode (cm_Spec r))"
  "cms_ManagementRPC (cm_Spec (Default r)) =
     whenPtr mr_Enabled defaultManagementRPC (cms_ManagementRPC (orchardRPC (cm_Spec r)))"
  "cms_Orchard (cm_Spec (Default r)) =
     whenPtr oc_Enabled
       (defaultOrchardConfig (defaultedEngine (cm_Spec r))
          (ManagementRPCTLSEnabled (orchardRPC (cm_Spec r))))
       (cms_Orchard (cm_Spec r))"
  "cms_PaymentBackend (cm_Spec (Default r)) =
     (cms_PaymentBackend (cm_Spec r))
       \<lparr> pb_LND := whenPtr always defaultLND (pb_LND (cms_PaymentBackend (cm_Spec r))),
         pb_CLN := whenPtr always defaultCLN (pb_CLN (cms_PaymentBackend (cm_Spec r))),
         pb_LNBits := whenPtr always defaultLNBits (pb_LNBits (cms_PaymentBackend (cm_Spec r))),
         pb_FakeWallet := whenPtr always defaultFakeWallet (pb_FakeWallet (cms_PaymentBackend (cm_Spec r))),
         pb_GRPCProcessor :=
           whenPtr always defaultGRPCProcessor (pb_GRPCProcessor (cms_PaymentBackend (cm_Spec r))) \<rparr>"
  by (simp_all add: Default_spec Let_def)

subsection \<open>Idempotence\<close>

lemma nested_default_idem [simp]:
  "defaultQuoteTTL (defaultQuoteTTL q) = defaultQuoteTTL q"
  "defaultAutoProvision (defaultAutoProvision a) = defaultAutoProvision a"
  "defaultSQLite (defaultSQLite sq) = defaultSQLite sq"
  "defaultCertManager (defaultCertManager cm) = defaultCertManager cm"
  "defaultStorage (defaultStorage st) = defaultStorage st"
  "defaultService (defaultService sv) = defaultService sv"
  "defaultOrchardMintRPC b (defaultOrchardMintRPC b c) = defaultOrchardMintRPC b c"
  "defaultLogging (defaultLogging l) = defaultLogging l"
  "defaultHTTPCache (defaultHTTPCache h) = defaultHTTPCache h"
  "defaultManagementRPC (defaultManagementRPC mr) = defaultManagementRPC mr"
  "defaultPrometheus (defaultPrometheus pc) = defaultPrometheus pc"
  "defaultS3 n (defaultS3 n s3) = defaultS3 n s3"
  "defaultAuth (defaultAuth au) = defaultAuth au"
  "defaultLND (defaultLND lnd) = defaultLND lnd"
  "defaultCLN (defaultCLN cln) = defaultCLN cln"
  "defaultLNBits (defaultLNBits lb) = defaultLNBits lb"
  "defaultFakeWallet (defaultFakeWallet fw) = defaultFakeWallet fw"
  "defaultLDKNode (defaultLDKNode ldk) = defaultLDKNode ldk"
  by (simp_all add: defaultQuoteTTL_def defaultAutoProvision_def defaultSQLite_def
      defaultCertManager_def defaultStorage_def defaultService_def defaultOrchardMintRPC_def
      defaultLogging_def defaultHTTPCache_def defaultManagementRPC_def defaultPrometheus_def
      defaultS3_def defaultAuth_def defaultLND_def defaultCLN_def defaultLNBits_def
      defaultFakeWallet_def defaultLDKNode_def)

lemma outer_default_idem [simp]:
  "defaultPostgres (defaultPostgres pg) = defaultPostgres pg"
  "defaultIngressTLS (defaultIngressTLS t) = defaultIngressTLS t"
  "defaultIngressConfig (defaultIngressConfig i) = defaultIngressConfig i"
  "defaultOrchardMint b (defaultOrchardMint b om) = defaultOrchardMint b om"
  "defaultBackup n (defaultBackup n bk) = defaultBackup n bk"
  "defaultGRPCProcessor (defaultGRPCProcessor gp) = defaultGRPCProcessor gp"
proof -
  show "defaultPostgres (defaultPostgres pg) = defaultPostgres pg"
    by (simp add: defaultPostgres_def whenPtr_idem)
  show t: "defaultIngressTLS (defaultIngressTLS t) = defaultIngressTLS t" for t
    by (simp add: defaultIngressTLS_def whenPtr_idem)
  show "defaultIngressConfig (defaultIngressConfig i) = defaultIngressConfig i"
    unfolding defaultIngressConfig_def by (rule whenPtr_idem) (simp_all add: whenPtr_idem t)
  show "defaultOrchardMint b (defaultOrchardMint b om) = defaultOrchardMint b om"
    by (simp add: defaultOrchardMint_def whenPtr_idem)
  show "defaultBackup n (defaultBackup n bk) = defaultBackup n bk"
    by (simp add: defaultBackup_def whenPtr_idem)
  show "defaultGRPCProcessor (defaultGRPCProcessor gp) = defaultGRPCProcessor gp"
    by (simp add: defaultGRPCProcessor_def whenPtr_idem)
qed

lemma defaultOrchardConfig_idem [simp]:
  "defaultOrchardConfig e b (defaultOrchardConfig e b c) = defaultOrchardConfig e b c"
  by (cases "oc_Bitcoin c"; cases "oc_TaprootAssets c") (auto simp: defaultOrchardConfig_def)

lemma default_keeps_flags [simp]:
  "oc_Enabled (defaultOrchardConfig e b c) = oc_Enabled c"
  "mr_Enabled (defaultManagementRPC mr) = mr_Enabled mr"
  "mr_TLSSecretRef (defaultManagementRPC mr) = mr_TLSSecretRef mr"
  "pc_Enabled (defaultPrometheus pc) = pc_Enabled pc"
  "bk_Enabled (defaultBackup n bk) = bk_Enabled bk"
  "au_Enabled (defaultAuth au) = au_Enabled au"
  "ldk_Enabled (defaultLDKNode ldk) = ldk_Enabled ldk"
  by (simp_all add: defaultOrchardConfig_def defaultManagementRPC_def defaultPrometheus_def
      defaultBackup_def defaultAuth_def defaultLDKNode_def)

lemma Default_ManagementRPCTLSEnabled [simp]:
  "ManagementRPCTLSEnabled (cm_Spec (Default r)) = ManagementRPCTLSEnabled (orchardRPC (cm_Spec r))"
  by (cases "cms_Orchard (cm_Spec r)"; cases "cms_ManagementRPC (cm_Spec r)")
     (auto simp: ManagementRPCTLSEnabled_iff orchardRPC_def)

lemma orchardRPC_Default [simp]: "orchardRPC (cm_Spec (Default r)) = cm_Spec (Default r)"
  by (cases "cms_Orchard (cm_Spec r)"; cases "cms_ManagementRPC (cm_Spec r)")
     (auto simp: orchardRPC_def)

lemma defaultedEngine_Default [simp]:
  "defaultedEngine (cm_Spec (Default r)) = defaultedEngine (cm_Spec r)"
  by (simp add: defaultedEngine_def)

text \<open>
  C36: a second admission (an update, or a re-invoked webhook) finds nothing left to default, so
  the stored specification is stable and updates do not churn.
\<close>

theorem Default_idempotent: "Default (Default r) = Default r"
proof -
  have "cm_Spec (Default (Default r)) = cm_Spec (Default r)"
    by (rule CashuMintSpec.equality) (simp_all add: whenPtr_idem)
  then show ?thesis by (intro CashuMint.equality) auto
qed

end
