(* ===== verification/Samples.thy ===== *)
theory Samples
  imports Defaulting
begin

section \<open>The sample manifests\<close>

text \<open>
  Go's zero values of the specification and four of the manifests under \<^verbatim>\<open>config/samples/\<close>, as the
  decoder delivers them. They are the concrete inputs of the witnesses.
\<close>

definition zeroMintInfo :: MintInfo where
  "zeroMintInfo =
     \<lparr> mi_URL = '''', mi_ListenHost = '''', mi_ListenPort = 0, mi_MnemonicSecretRef = None,
       mi_AutoGenerateMnemonic = False, mi_Name = '''', mi_Description = '''',
       mi_DescriptionLong = '''', mi_MOTD = '''', mi_PubkeyHex = '''', mi_IconURL = '''',
       mi_ContactEmail = '''', mi_ContactNostrPubkey = '''', mi_TosURL = '''',
       mi_InputFeePPK = None, mi_EnableSwaggerUI = False, mi_UseKeysetV2 = None, mi_QuoteTTL = None \<rparr>"

definition zeroPostgres :: PostgresConfig where
  "zeroPostgres =
     \<lparr> pg_URL = '''', pg_URLSecretRef = None, pg_TLSMode = '''', pg_MaxConnections = None,
       pg_ConnectionTimeoutSeconds = None, pg_AutoProvision = False, pg_AutoProvisionSpec = None \<rparr>"

definition zeroDatabase :: DatabaseConfig where
  "zeroDatabase = \<lparr> db_Engine = '''', db_Postgres = None, db_SQLite = None \<rparr>"

definition zeroBackend :: PaymentBackendConfig where
  "zeroBackend =
     \<lparr> pb_MinMint = None, pb_MaxMint = None, pb_MinMelt = None, pb_MaxMelt = None, pb_LND = None,
       pb_CLN = None, pb_LNBits = None, pb_FakeWallet = None, pb_GRPCProcessor = None \<rparr>"

definition zeroFakeWallet :: FakeWalletConfig where
  "zeroFakeWallet =
     \<lparr> fw_SupportedUnits = [], fw_FeePercent = None, fw_ReserveFeeMin = None,
       fw_MinDelayTime = None, fw_MaxDelayTime = None \<rparr>"

definition zeroOrchard :: OrchardConfig where
  "zeroOrchard =
     \<lparr> oc_Enabled = False, oc_Image = '''', oc_ImagePullPolicy = '''', oc_Host = '''', oc_Port = 0,
       oc_BasePath = '''', oc_LogLevel = '''', oc_SetupKeySecretRef = None, oc_ThrottleTTL = None,
       oc_ThrottleLimit = None, oc_Proxy = '''', oc_Compression = None, oc_Mint = None,
       oc_Bitcoin = None, oc_Lightning = None, oc_TaprootAssets = None, oc_AI = None,
       oc_Service = None, oc_Ingress = None, oc_Storage = None, oc_Resources = None,
       oc_ContainerSecurityContext = None, oc_ExtraEnv = [] \<rparr>"

definition zeroSpec :: CashuMintSpec where
  "zeroSpec =
     \<lparr> cms_Image = '''', cms_ImagePullPolicy = '''', cms_ImagePullSecrets = [], cms_Replicas = None,
       cms_MintInfo = zeroMintInfo, cms_Database = zeroDatabase, cms_PaymentBackend = zeroBackend,
       cms_LDKNode = None, cms_Auth = None, cms_HTTPCache = None, cms_ManagementRPC = None,
       cms_Orchard = None, cms_Prometheus = None, cms_Limits = None, cms_Ingress = None,
       cms_Service = None, cms_Resources = None, cms_NodeSelector = Map.empty,
       cms_Tolerations = [], cms_Affinity = None, cms_Logging = None, cms_Storage = None,
       cms_Backup = None, cms_PodSecurityContext = None, cms_ContainerSecurityContext = None \<rparr>"

definition zeroComponentStatus :: ComponentStatus where
  "zeroComponentStatus = \<lparr> cs_Connected = False, cs_Message = '''', cs_LastChecked = None \<rparr>"

definition zeroStatus :: CashuMintStatus where
  "zeroStatus =
     \<lparr> sta_Phase = '''', sta_Conditions = [], sta_ObservedGeneration = 0, sta_BackendType = '''',
       sta_DeploymentName = '''', sta_ServiceName = '''', sta_IngressName = '''',
       sta_ConfigMapName = '''', sta_DatabaseStatus = zeroComponentStatus,
       sta_PaymentBackendStatus = zeroComponentStatus, sta_URL = '''', sta_ReadyReplicas = 0 \<rparr>"

definition sampleMint :: "string \<Rightarrow> CashuMintSpec \<Rightarrow> CashuMint" where
  "sampleMint name spec =
     \<lparr> cm_Meta = newMeta name ''default'' Map.empty Map.empty, cm_Spec = spec, cm_Status = zeroStatus \<rparr>"

definition tlsIngress :: "string \<Rightarrow> string \<Rightarrow> IngressConfig" where
  "tlsIngress host issuer =
     \<lparr> ic_Enabled = True, ic_ClassName = '''', ic_Host = host,
       ic_TLS = Some \<lparr> itc_Enabled = True, itc_SecretName = '''',
                       itc_CertManager = Some \<lparr> cmc_Enabled = True, cmc_IssuerName = issuer,
                                                 cmc_IssuerKind = '''' \<rparr> \<rparr>,
       ic_Annotations = Map.empty \<rparr>"

definition fakeWalletSat :: PaymentBackendConfig where
  "fakeWalletSat = zeroBackend\<lparr> pb_FakeWallet := Some (zeroFakeWallet\<lparr> fw_SupportedUnits := [''sat''] \<rparr>) \<rparr>"

text \<open>\<^verbatim>\<open>mint_v1alpha1_cashumint_minimal.yaml\<close>, without its security contexts.\<close>

definition sampleMinimal :: CashuMint where
  "sampleMinimal = sampleMint ''cashumint-minimal'' (zeroSpec\<lparr>
     cms_Image := ''cashubtc/mintd:0.15.2'',
     cms_MintInfo := zeroMintInfo\<lparr> mi_URL := ''http://localhost:8085'', mi_AutoGenerateMnemonic := True,
                                    mi_Name := ''Minimal Cashu Mint'' \<rparr>,
     cms_Database := zeroDatabase\<lparr> db_Engine := ''sqlite'', db_SQLite := Some \<lparr> sq_DataDir = ''/data'' \<rparr> \<rparr>,
     cms_Storage := Some (zeroStorage\<lparr> st_Size := ''5Gi'' \<rparr>),
     cms_PaymentBackend := fakeWalletSat \<rparr>)"

text \<open>\<^verbatim>\<open>mint_v1alpha1_cashumint_lnd.yaml\<close>.\<close>

definition sampleLND :: CashuMint where
  "sampleLND = sampleMint ''cashumint-lnd'' (zeroSpec\<lparr>
     cms_MintInfo := zeroMintInfo\<lparr> mi_URL := ''https://lnd-mint.example.com'',
       mi_MnemonicSecretRef := Some (newSelector ''cashumint-lnd-secrets'' ''mnemonic'') \<rparr>,
     cms_Database := zeroDatabase\<lparr> db_Engine := ''postgres'',
       db_Postgres := Some (zeroPostgres\<lparr> pg_AutoProvision := True \<rparr>) \<rparr>,
     cms_PaymentBackend := zeroBackend\<lparr> pb_LND := Some
       \<lparr> lnd_Address = ''https://lnd.lightning.svc.cluster.local:10009'',
         lnd_MacaroonSecretRef = Some (newSelector ''lnd-credentials'' ''admin.macaroon''),
         lnd_CertSecretRef = Some (newSelector ''lnd-credentials'' ''tls.cert''),
         lnd_FeePercent = None, lnd_ReserveFeeMin = None \<rparr> \<rparr>,
     cms_Ingress := Some (tlsIngress ''lnd-mint.example.com'' ''letsencrypt-prod'') \<rparr>)"

text \<open>\<^verbatim>\<open>mint_v1alpha1_cashumint_orchard_postgres.yaml\<close>.\<close>

definition sampleOrchard :: CashuMint where
  "sampleOrchard = sampleMint ''cashumint-orchard-postgres'' (zeroSpec\<lparr>
     cms_Image := ''cashubtc/mintd:0.16'',
     cms_MintInfo := zeroMintInfo\<lparr> mi_URL := ''https://mint-postgres.example.com'',
                                    mi_AutoGenerateMnemonic := True \<rparr>,
     cms_Database := zeroDatabase\<lparr> db_Engine := ''postgres'',
       db_Postgres := Some (zeroPostgres\<lparr> pg_AutoProvision := True,
         pg_AutoProvisionSpec := Some \<lparr> ap_StorageSize = ''10Gi'', ap_StorageClassName = None,
                                         ap_Resources = None, ap_Version = ''16'' \<rparr> \<rparr>) \<rparr>,
     cms_PaymentBackend := fakeWalletSat,
     cms_ManagementRPC := Some enabledManagementRPC,
     cms_Orchard := Some (zeroOrchard\<lparr> oc_Enabled := True,
       oc_SetupKeySecretRef := Some (newSelector ''orchard-setup'' ''setup-key''),
       oc_Mint := Some (zeroOrchardMint\<lparr> omc_RPC :=
         Some \<lparr> omr_Host = '''', omr_Port = 0, omr_MTLS = Some True \<rparr> \<rparr>),
       oc_Storage := Some (zeroStorage\<lparr> st_Size := ''10Gi'' \<rparr>),
       oc_Ingress := Some (tlsIngress ''orchard.mint.dev.ucash.space'' ''letsencrypt'') \<rparr>),
     cms_Ingress := Some (tlsIngress ''oc.mint.dev.ucash.space'' ''letsencrypt'') \<rparr>)"

text \<open>\<^verbatim>\<open>mint_v1alpha1_cashumint_backup_s3.yaml\<close>.\<close>

definition sampleBackup :: CashuMint where
  "sampleBackup = sampleMint ''cashumint-backup-demo'' (zeroSpec\<lparr>
     cms_Image := ''cashubtc/mintd:0.16'',
     cms_MintInfo := zeroMintInfo\<lparr> mi_URL := ''https://fake.dev.ucash.space'',
       mi_MnemonicSecretRef := Some (newSelector ''cashumint-backup-demo-secrets'' ''mnemonic'') \<rparr>,
     cms_Database := zeroDatabase\<lparr> db_Engine := ''postgres'',
       db_Postgres := Some (zeroPostgres\<lparr> pg_AutoProvision := True,
         pg_AutoProvisionSpec := Some \<lparr> ap_StorageSize = ''10Gi'', ap_StorageClassName = None,
                                         ap_Resources = None, ap_Version = ''16'' \<rparr> \<rparr>) \<rparr>,
     cms_PaymentBackend := fakeWalletSat,
     cms_Backup := Some
       \<lparr> bk_Enabled = True, bk_Schedule = ''*/5 * * * *'', bk_RetentionCount = Some 14,
         bk_S3 = Some
           \<lparr> s3_Bucket = ''my-cashu-backups'', s3_Prefix = ''backups'', s3_Region = ''us-east-1'',
             s3_Endpoint = ''https://s3.us-east-005.backblazeb2.com'',
             s3_AccessKeyIDSecretRef = newSelector ''cashumint-backup-s3-creds'' ''access-key-id'',
             s3_SecretAccessKeySecretRef = newSelector ''cashumint-backup-s3-creds'' ''secret-access-key'' \<rparr> \<rparr>,
     cms_Ingress := Some (tlsIngress ''fake0.mint.dev.ucash.space'' ''letsencrypt'') \<rparr>)"

lemmas zero_defs =
  zeroMintInfo_def zeroPostgres_def zeroDatabase_def zeroBackend_def zeroFakeWallet_def
  zeroOrchard_def zeroSpec_def zeroStatus_def zeroComponentStatus_def zeroStorage_def
  zeroService_def zeroOrchardMint_def enabledManagementRPC_def

lemmas sample_defs =
  sampleMint_def tlsIngress_def fakeWalletSat_def sampleMinimal_def sampleLND_def sampleOrchard_def
  sampleBackup_def newSelector_def zero_defs

end
