(* ===== verification/Validation.thy ===== *)
theory Validation
  imports Samples
begin

section \<open>The validating webhook\<close>

text \<open>
  \<^verbatim>\<open>validateCashuMint\<close> and its parts, from \<^verbatim>\<open>api/v1alpha1/cashumint_webhook.go\<close>. A method that
  returns \<^verbatim>\<open>error\<close> is an \<open>error option\<close>, one that returns \<^verbatim>\<open>[]error\<close> a list; the accumulating
  slice \<^verbatim>\<open>errs\<close> is the concatenation of what each check appends. The comparison of two
  quantities (\<^verbatim>\<open>resource.Quantity.Cmp\<close>) is the parameter \<open>cmp\<close>.
\<close>

text \<open>\<^verbatim>\<open>if err != nil { errs = append(errs, err) }\<close>, and the closing
  \<^verbatim>\<open>if len(errs) > 0 { return fmt.Errorf("title: %v", errs) }\<close>.\<close>

definition errL :: "bool \<Rightarrow> string \<Rightarrow> error list" where
  "errL b msg = (if b then [Errorf msg] else [])"

definition optErr :: "error option \<Rightarrow> error list" where
  "optErr e = (case e of None \<Rightarrow> [] | Some x \<Rightarrow> [x])"

definition collectErrs :: "string \<Rightarrow> error list \<Rightarrow> error option" where
  "collectErrs title errs =
     (if length errs > 0 then Some (Errorf (title @ '': '' @ sprintErrs errs)) else None)"

lemma err_simps [simp, go_simps]:
  "(errL b msg = []) = (\<not> b)" "(optErr e = []) = (e = None)"
  "(collectErrs t errs = None) = (errs = [])"
  by (auto simp: errL_def optErr_def collectErrs_def split: option.splits)

definition validateSecretKeySelector :: "string \<Rightarrow> SecretKeySelector option \<Rightarrow> bool \<Rightarrow> error option" where
  "validateSecretKeySelector path ref required =
     (case ref of
        None \<Rightarrow> if required then Some (Errorf (path @ '' is required'')) else None
      | Some r \<Rightarrow>
          if sks_Name r = '''' \<or> sks_Key r = ''''
          then Some (Errorf (path @ ''.name and key are required'')) else None)"

definition validateIngressConfig :: "string \<Rightarrow> IngressConfig option \<Rightarrow> error option" where
  "validateIngressConfig path ingress =
     (case ingress of
        None \<Rightarrow> None
      | Some i \<Rightarrow>
          if \<not> ic_Enabled i then None
          else collectErrs (path @ '' validation errors'')
            (errL (ic_Host i = '''') (path @ ''.host is required when ingress is enabled'')
             @ errL (optP (\<lambda>t. itc_Enabled t \<and> optP (\<lambda>c. cmc_Enabled c \<and> cmc_IssuerName c = '''')
                                                    (itc_CertManager t)) (ic_TLS i))
                 (path @ ''.tls.certManager.issuerName is required when cert-manager is enabled'')))"

definition validateManagementRPC :: "CashuMint \<Rightarrow> error option" where
  "validateManagementRPC r =
     (case cms_ManagementRPC (cm_Spec r) of
        None \<Rightarrow> None
      | Some c \<Rightarrow>
          if mr_TLSSecretRef c = Some ''''
          then Some (Errorf ''management RPC validation errors: [spec.managementRPC.tlsSecretRef.name is required]'')
          else None)"

subsection \<open>Database, payment backend, resources, backup\<close>

definition validateDatabase :: "CashuMint \<Rightarrow> error option" where
  "validateDatabase r =
     (let d = cms_Database (cm_Spec r) in
      collectErrs ''database validation errors''
        (if db_Engine d = DatabaseEnginePostgres then
           (case db_Postgres d of
              None \<Rightarrow> [Errorf ''spec.database.postgres is required when engine is postgres'']
            | Some pg \<Rightarrow>
                let hasURL = pg_URL pg \<noteq> ''''; hasSecretRef = pg_URLSecretRef pg \<noteq> None;
                    autoProvision = pg_AutoProvision pg
                in errL (\<not> autoProvision \<and> \<not> hasURL \<and> \<not> hasSecretRef)
                     ''spec.database.postgres must have either url, urlSecretRef, or autoProvision enabled''
                   @ errL (hasURL \<and> hasSecretRef)
                     ''spec.database.postgres cannot specify both url and urlSecretRef'')
         else if db_Engine d = DatabaseEngineSQLite \<or> db_Engine d = DatabaseEngineRedb then []
         else [Errorf (''invalid database engine: '' @ db_Engine d
                       @ '' (must be postgres, sqlite, or redb)'')]))"

definition validateGRPCProcessor :: "GRPCProcessorConfig \<Rightarrow> error list" where
  "validateGRPCProcessor gp =
     (let sidecarEnabled = optP scp_Enabled (gp_SidecarProcessor gp) in
      errL (\<not> sidecarEnabled \<and> gp_Address gp = '''')
        ''spec.paymentBackend.grpcProcessor.address is required when sidecarProcessor is not enabled''
      @ (if sidecarEnabled then
           optL (gp_SidecarProcessor gp) (\<lambda>sidecar.
             errL (scp_Image sidecar = '''')
               ''spec.paymentBackend.grpcProcessor.sidecarProcessor.image is required when enabled''
             @ errL (scp_EnableTLS sidecar \<and> scp_TLSSecretRef sidecar = None)
               ''spec.paymentBackend.grpcProcessor.sidecarProcessor.tlsSecretRef is required when enableTLS is true'')
         else []))"

definition backendCount :: "PaymentBackendConfig \<Rightarrow> nat" where
  "backendCount pb =
     (if pb_LND pb \<noteq> None then 1 else 0) + (if pb_CLN pb \<noteq> None then 1 else 0)
     + (if pb_LNBits pb \<noteq> None then 1 else 0) + (if pb_FakeWallet pb \<noteq> None then 1 else 0)
     + (if pb_GRPCProcessor pb \<noteq> None then 1 else 0)"

definition validatePaymentBackend :: "CashuMint \<Rightarrow> error option" where
  "validatePaymentBackend r =
     (let pb = cms_PaymentBackend (cm_Spec r); count = backendCount pb in
      collectErrs ''payment backend validation errors''
        (errL (count = 0)
           ''spec.paymentBackend: exactly one backend must be specified (lnd, cln, lnbits, fakeWallet, or grpcProcessor)''
         @ errL (count > 1)
           (''spec.paymentBackend: only one backend may be specified, but '' @ itoa (int count) @ '' were found'')
         @ errL (optP (\<lambda>l. lnd_Address l = '''') (pb_LND pb)) ''spec.paymentBackend.lnd.address is required''
         @ errL (optP (\<lambda>c. cln_RPCPath c = '''') (pb_CLN pb)) ''spec.paymentBackend.cln.rpcPath is required''
         @ errL (optP (\<lambda>l. lnb_API l = '''') (pb_LNBits pb)) ''spec.paymentBackend.lnbits.api is required''
         @ optL (pb_GRPCProcessor pb) validateGRPCProcessor))"

definition validateIngress :: "CashuMint \<Rightarrow> error option" where
  "validateIngress r = validateIngressConfig ''spec.ingress'' (cms_Ingress (cm_Spec r))"

text \<open>The loop over \<^verbatim>\<open>Limits\<close>; \<open>map_of\<close> is the lookup in \<^verbatim>\<open>Requests\<close>.\<close>

fun checkLimits :: "(quantity \<Rightarrow> quantity \<Rightarrow> int) \<Rightarrow> ResourceList \<Rightarrow> ResourceList \<Rightarrow> error option" where
  "checkLimits cmp requests [] = None"
| "checkLimits cmp requests ((res, limit) # rest) =
     (case map_of requests res of
        Some request \<Rightarrow>
          if cmp request limit > 0
          then Some (Errorf (''resource request for '' @ res @ '' exceeds limit''))
          else checkLimits cmp requests rest
      | None \<Rightarrow> checkLimits cmp requests rest)"

definition validateResources :: "(quantity \<Rightarrow> quantity \<Rightarrow> int) \<Rightarrow> CashuMint \<Rightarrow> error option" where
  "validateResources cmp r =
     (case cms_Resources (cm_Spec r) of
        None \<Rightarrow> None
      | Some q \<Rightarrow> checkLimits cmp (rr_Requests q) (rr_Limits q))"

definition validateBackup :: "CashuMint \<Rightarrow> error option" where
  "validateBackup r =
     (let s = cm_Spec r in
      case cms_Backup s of
        None \<Rightarrow> None
      | Some b \<Rightarrow>
          if \<not> bk_Enabled b then None
          else collectErrs ''backup validation errors''
            (errL (db_Engine (cms_Database s) \<noteq> ''postgres'')
               ''spec.backup.enabled requires spec.database.engine to be postgres''
             @ errL (\<not> optP pg_AutoProvision (db_Postgres (cms_Database s)))
               ''spec.backup.enabled currently requires spec.database.postgres.autoProvision=true''
             @ errL (bk_Schedule b = '''') ''spec.backup.schedule is required when backup is enabled''
             @ (case bk_S3 b of
                  None \<Rightarrow> [Errorf ''spec.backup.s3 is required when backup is enabled'']
                | Some s3 \<Rightarrow>
                    errL (s3_Bucket s3 = '''') ''spec.backup.s3.bucket is required''
                    @ errL (sks_Name (s3_AccessKeyIDSecretRef s3) = ''''
                            \<or> sks_Key (s3_AccessKeyIDSecretRef s3) = '''')
                      ''spec.backup.s3.accessKeyIdSecretRef.name and key are required''
                    @ errL (sks_Name (s3_SecretAccessKeySecretRef s3) = ''''
                            \<or> sks_Key (s3_SecretAccessKeySecretRef s3) = '''')
                      ''spec.backup.s3.secretAccessKeySecretRef.name and key are required'')))"

subsection \<open>Orchard\<close>

definition validateOrchardMint :: "CashuMint \<Rightarrow> OrchardConfig \<Rightarrow> error list" where
  "validateOrchardMint r orchard =
     optL (oc_Mint orchard) (\<lambda>c.
       optErr (validateSecretKeySelector ''spec.orchard.mint.databaseCaSecretRef''
                 (omc_DatabaseCASecretRef c) False)
       @ optErr (validateSecretKeySelector ''spec.orchard.mint.databaseCertSecretRef''
                 (omc_DatabaseCertSecretRef c) False)
       @ optErr (validateSecretKeySelector ''spec.orchard.mint.databaseKeySecretRef''
                 (omc_DatabaseKeySecretRef c) False)
       @ errL (optP (\<lambda>rpc. omr_MTLS rpc = Some True) (omc_RPC c)
               \<and> \<not> optP mr_Enabled (cms_ManagementRPC (cm_Spec r)))
           ''spec.orchard.mint.rpc.mTLS=true requires spec.managementRPC.enabled=true'')"

definition validateOrchardBitcoin :: "OrchardConfig \<Rightarrow> error list" where
  "validateOrchardBitcoin orchard =
     optL (oc_Bitcoin orchard) (\<lambda>b.
       errL (ob_RPCHost b = '''') ''spec.orchard.bitcoin.rpcHost is required''
       @ errL (ob_RPCPort b = 0) ''spec.orchard.bitcoin.rpcPort is required''
       @ optErr (validateSecretKeySelector ''spec.orchard.bitcoin.rpcUserSecretRef''
                 (ob_RPCUserSecretRef b) True)
       @ optErr (validateSecretKeySelector ''spec.orchard.bitcoin.rpcPasswordSecretRef''
                 (ob_RPCPasswordSecretRef b) True))"

definition validateOrchardLightning :: "OrchardConfig \<Rightarrow> error list" where
  "validateOrchardLightning orchard =
     optL (oc_Lightning orchard) (\<lambda>l.
       errL (ol_RPCHost l = '''') ''spec.orchard.lightning.rpcHost is required''
       @ errL (ol_RPCPort l = 0) ''spec.orchard.lightning.rpcPort is required''
       @ (if ol_Type l = ''lnd'' then
            optErr (validateSecretKeySelector ''spec.orchard.lightning.macaroonSecretRef''
                      (ol_MacaroonSecretRef l) True)
            @ optErr (validateSecretKeySelector ''spec.orchard.lightning.certSecretRef''
                      (ol_CertSecretRef l) True)
          else if ol_Type l = ''cln'' then
            optErr (validateSecretKeySelector ''spec.orchard.lightning.keySecretRef''
                      (ol_KeySecretRef l) True)
            @ optErr (validateSecretKeySelector ''spec.orchard.lightning.caSecretRef''
                      (ol_CASecretRef l) True)
          else []))"

definition validateOrchardTaprootAssets :: "OrchardConfig \<Rightarrow> error list" where
  "validateOrchardTaprootAssets orchard =
     optL (oc_TaprootAssets orchard) (\<lambda>t.
       errL (ota_RPCHost t = '''') ''spec.orchard.taprootAssets.rpcHost is required''
       @ errL (ota_RPCPort t = 0) ''spec.orchard.taprootAssets.rpcPort is required''
       @ optErr (validateSecretKeySelector ''spec.orchard.taprootAssets.macaroonSecretRef''
                 (ota_MacaroonSecretRef t) True)
       @ optErr (validateSecretKeySelector ''spec.orchard.taprootAssets.certSecretRef''
                 (ota_CertSecretRef t) True))"

definition validateOrchardAI :: "OrchardConfig \<Rightarrow> error list" where
  "validateOrchardAI orchard =
     optL (oc_AI orchard) (\<lambda>a. errL (oai_API a = '''') ''spec.orchard.ai.api is required'')"

definition validateOrchard :: "CashuMint \<Rightarrow> error option" where
  "validateOrchard r =
     (case cms_Orchard (cm_Spec r) of
        None \<Rightarrow> None
      | Some orchard \<Rightarrow>
          if \<not> oc_Enabled orchard then None
          else collectErrs ''orchard validation errors''
            (errL (db_Engine (cms_Database (cm_Spec r)) = DatabaseEngineRedb)
               ''spec.orchard.enabled requires spec.database.engine to be postgres or sqlite''
             @ optErr (validateSecretKeySelector ''spec.orchard.setupKeySecretRef''
                         (oc_SetupKeySecretRef orchard) True)
             @ optErr (validateIngressConfig ''spec.orchard.ingress'' (oc_Ingress orchard))
             @ validateOrchardMint r orchard
             @ validateOrchardBitcoin orchard
             @ validateOrchardLightning orchard
             @ validateOrchardTaprootAssets orchard
             @ validateOrchardAI orchard))"

subsection \<open>The whole resource\<close>

definition validateCashuMint :: "(quantity \<Rightarrow> quantity \<Rightarrow> int) \<Rightarrow> CashuMint \<Rightarrow> error option" where
  "validateCashuMint cmp r =
     (let allErrs =
        errL (mi_URL (cms_MintInfo (cm_Spec r)) = '''') ''spec.mintInfo.url is required''
        @ optErr (validateDatabase r)
        @ optErr (validatePaymentBackend r)
        @ optErr (validateIngress r)
        @ optErr (validateResources cmp r)
        @ optErr (validateBackup r)
        @ optErr (validateManagementRPC r)
        @ optErr (validateOrchard r)
      in collectErrs ''validation failed'' allErrs)"

definition ValidateCreate :: "(quantity \<Rightarrow> quantity \<Rightarrow> int) \<Rightarrow> CashuMint \<Rightarrow> error option" where
  "ValidateCreate cmp r = validateCashuMint cmp r"

definition ValidateUpdate :: "(quantity \<Rightarrow> quantity \<Rightarrow> int) \<Rightarrow> CashuMint \<Rightarrow> CashuMint \<Rightarrow> error option" where
  "ValidateUpdate cmp r old = validateCashuMint cmp r"

definition ValidateDelete :: "CashuMint \<Rightarrow> error option" where
  "ValidateDelete r = None"

subsection \<open>What acceptance means\<close>

text \<open>
  The declarative reading of the checks, one predicate per part of the specification.
\<close>

definition selectorOK :: "SecretKeySelector \<Rightarrow> bool" where
  "selectorOK r = (sks_Name r \<noteq> '''' \<and> sks_Key r \<noteq> '''')"

definition ingressOK :: "IngressConfig \<Rightarrow> bool" where
  "ingressOK i =
     (ic_Enabled i \<longrightarrow> ic_Host i \<noteq> '''' \<and>
        pred_option (\<lambda>t. itc_Enabled t \<longrightarrow>
          pred_option (\<lambda>c. cmc_Enabled c \<longrightarrow> cmc_IssuerName c \<noteq> '''') (itc_CertManager t)) (ic_TLS i))"

definition databaseOK :: "DatabaseConfig \<Rightarrow> bool" where
  "databaseOK d =
     (if db_Engine d = ''postgres''
      then optP (\<lambda>pg. (pg_AutoProvision pg \<or> pg_URL pg \<noteq> '''' \<or> pg_URLSecretRef pg \<noteq> None)
                      \<and> (pg_URL pg = '''' \<or> pg_URLSecretRef pg = None)) (db_Postgres d)
      else db_Engine d \<in> {''sqlite'', ''redb''})"

definition sidecarOK :: "SidecarProcessorConfig \<Rightarrow> bool" where
  "sidecarOK c = (scp_Image c \<noteq> '''' \<and> (scp_EnableTLS c \<longrightarrow> scp_TLSSecretRef c \<noteq> None))"

definition backendOK :: "PaymentBackendConfig \<Rightarrow> bool" where
  "backendOK p =
     (length (backendsSet p) = 1
      \<and> pred_option (\<lambda>l. lnd_Address l \<noteq> '''') (pb_LND p)
      \<and> pred_option (\<lambda>c. cln_RPCPath c \<noteq> '''') (pb_CLN p)
      \<and> pred_option (\<lambda>l. lnb_API l \<noteq> '''') (pb_LNBits p)
      \<and> pred_option (\<lambda>gp. if optP scp_Enabled (gp_SidecarProcessor gp)
                           then pred_option sidecarOK (gp_SidecarProcessor gp)
                           else gp_Address gp \<noteq> '''') (pb_GRPCProcessor p))"

definition resourcesOK :: "(quantity \<Rightarrow> quantity \<Rightarrow> int) \<Rightarrow> ResourceRequirements \<Rightarrow> bool" where
  "resourcesOK cmp q =
     (\<forall>(res, limit) \<in> set (rr_Limits q).
        pred_option (\<lambda>request. cmp request limit \<le> 0) (map_of (rr_Requests q) res))"

definition s3OK :: "S3BackupConfig \<Rightarrow> bool" where
  "s3OK c = (s3_Bucket c \<noteq> '''' \<and> selectorOK (s3_AccessKeyIDSecretRef c)
             \<and> selectorOK (s3_SecretAccessKeySecretRef c))"

definition backupOK :: "DatabaseConfig \<Rightarrow> BackupConfig \<Rightarrow> bool" where
  "backupOK d b =
     (bk_Enabled b \<longrightarrow> db_Engine d = ''postgres'' \<and> optP pg_AutoProvision (db_Postgres d)
        \<and> bk_Schedule b \<noteq> '''' \<and> optP s3OK (bk_S3 b))"

definition lightningOK :: "OrchardLightningConfig \<Rightarrow> bool" where
  "lightningOK l =
     (ol_RPCHost l \<noteq> '''' \<and> ol_RPCPort l \<noteq> 0
      \<and> (ol_Type l = ''lnd'' \<longrightarrow> optP selectorOK (ol_MacaroonSecretRef l) \<and> optP selectorOK (ol_CertSecretRef l))
      \<and> (ol_Type l = ''cln'' \<longrightarrow> optP selectorOK (ol_KeySecretRef l) \<and> optP selectorOK (ol_CASecretRef l)))"

definition orchardMintOK :: "bool \<Rightarrow> OrchardMintConfig \<Rightarrow> bool" where
  "orchardMintOK rpcEnabled c =
     (pred_option selectorOK (omc_DatabaseCASecretRef c)
      \<and> pred_option selectorOK (omc_DatabaseCertSecretRef c)
      \<and> pred_option selectorOK (omc_DatabaseKeySecretRef c)
      \<and> (optP (\<lambda>rpc. omr_MTLS rpc = Some True) (omc_RPC c) \<longrightarrow> rpcEnabled))"

definition bitcoinOK :: "OrchardBitcoinConfig \<Rightarrow> bool" where
  "bitcoinOK b =
     (ob_RPCHost b \<noteq> '''' \<and> ob_RPCPort b \<noteq> 0
      \<and> optP selectorOK (ob_RPCUserSecretRef b) \<and> optP selectorOK (ob_RPCPasswordSecretRef b))"

definition taprootOK :: "OrchardTaprootAssetsConfig \<Rightarrow> bool" where
  "taprootOK t =
     (ota_RPCHost t \<noteq> '''' \<and> ota_RPCPort t \<noteq> 0
      \<and> optP selectorOK (ota_MacaroonSecretRef t) \<and> optP selectorOK (ota_CertSecretRef t))"

definition orchardOK :: "CashuMintSpec \<Rightarrow> OrchardConfig \<Rightarrow> bool" where
  "orchardOK s c =
     (oc_Enabled c \<longrightarrow>
        db_Engine (cms_Database s) \<noteq> ''redb''
        \<and> optP selectorOK (oc_SetupKeySecretRef c)
        \<and> pred_option ingressOK (oc_Ingress c)
        \<and> pred_option (orchardMintOK (optP mr_Enabled (cms_ManagementRPC s))) (oc_Mint c)
        \<and> pred_option bitcoinOK (oc_Bitcoin c)
        \<and> pred_option lightningOK (oc_Lightning c)
        \<and> pred_option taprootOK (oc_TaprootAssets c)
        \<and> pred_option (\<lambda>a. oai_API a \<noteq> '''') (oc_AI c))"

definition specOK :: "(quantity \<Rightarrow> quantity \<Rightarrow> int) \<Rightarrow> CashuMintSpec \<Rightarrow> bool" where
  "specOK cmp s =
     (mi_URL (cms_MintInfo s) \<noteq> ''''
      \<and> databaseOK (cms_Database s)
      \<and> backendOK (cms_PaymentBackend s)
      \<and> pred_option ingressOK (cms_Ingress s)
      \<and> pred_option (resourcesOK cmp) (cms_Resources s)
      \<and> pred_option (backupOK (cms_Database s)) (cms_Backup s)
      \<and> pred_option (\<lambda>c. mr_TLSSecretRef c \<noteq> Some '''') (cms_ManagementRPC s)
      \<and> pred_option (orchardOK s) (cms_Orchard s))"

subsection \<open>Each check decides its predicate\<close>

lemma pred_option_optP: "pred_option P p = (\<not> optP (\<lambda>x. \<not> P x) p)"
  by (cases p) auto

lemma optL_eq_Nil [simp]: "(optL p f = []) = pred_option (\<lambda>x. f x = []) p"
  by (cases p) auto

lemma validateSecretKeySelector_None [simp]:
  "(validateSecretKeySelector path ref True = None) = optP selectorOK ref"
  "(validateSecretKeySelector path ref False = None) = pred_option selectorOK ref"
  by (cases ref; auto simp: validateSecretKeySelector_def selectorOK_def)+

lemma validateIngressConfig_None [simp]:
  "(validateIngressConfig path i = None) = pred_option ingressOK i"
  by (cases i) (auto simp: validateIngressConfig_def ingressOK_def pred_option_optP optP_iff)

lemma validateDatabase_None [simp]:
  "(validateDatabase r = None) = databaseOK (cms_Database (cm_Spec r))"
  by (auto simp: validateDatabase_def databaseOK_def Let_def split: option.splits)

lemma backendCount_backendsSet: "backendCount pb = length (backendsSet pb)"
  by (simp add: backendCount_def backendsSet_def whenL_def)

lemma validateGRPCProcessor_Nil [simp]:
  "(validateGRPCProcessor gp = []) =
     (if optP scp_Enabled (gp_SidecarProcessor gp) then pred_option sidecarOK (gp_SidecarProcessor gp)
      else gp_Address gp \<noteq> '''')"
  by (cases "gp_SidecarProcessor gp") (auto simp: validateGRPCProcessor_def sidecarOK_def)

lemma validatePaymentBackend_None [simp]:
  "(validatePaymentBackend r = None) = backendOK (cms_PaymentBackend (cm_Spec r))"
proof -
  have "(n \<noteq> 0 \<and> \<not> 1 < n) = (n = 1)" for n :: nat by auto
  then have "(\<not> length xs = 0 \<and> \<not> 1 < length xs \<and> P) = (length xs = 1 \<and> P)" for xs :: "string list" and P
    by blast
  then show ?thesis
    by (simp add: validatePaymentBackend_def backendOK_def Let_def backendCount_backendsSet
        pred_option_optP [of "\<lambda>x. x \<noteq> _"] pred_option_optP del: length_0_conv)
qed

lemma checkLimits_None:
  "(checkLimits cmp requests limits = None) =
     (\<forall>(res, limit) \<in> set limits.
        pred_option (\<lambda>request. cmp request limit \<le> 0) (map_of requests res))"
  by (induction cmp requests limits rule: checkLimits.induct) (auto split: option.splits)

lemma validateResources_None [simp]:
  "(validateResources cmp r = None) = pred_option (resourcesOK cmp) (cms_Resources (cm_Spec r))"
  by (cases "cms_Resources (cm_Spec r)") (auto simp: validateResources_def resourcesOK_def checkLimits_None)

lemma validateBackup_None [simp]:
  "(validateBackup r = None) =
     pred_option (backupOK (cms_Database (cm_Spec r))) (cms_Backup (cm_Spec r))"
  by (auto simp: validateBackup_def backupOK_def s3OK_def selectorOK_def Let_def optP_iff
      split: option.splits)

lemma validateManagementRPC_None [simp]:
  "(validateManagementRPC r = None) =
     pred_option (\<lambda>c. mr_TLSSecretRef c \<noteq> Some '''') (cms_ManagementRPC (cm_Spec r))"
  by (cases "cms_ManagementRPC (cm_Spec r)") (auto simp: validateManagementRPC_def)

lemma validateOrchardMint_Nil [simp]:
  "(validateOrchardMint r c = []) =
     pred_option (orchardMintOK (optP mr_Enabled (cms_ManagementRPC (cm_Spec r)))) (oc_Mint c)"
  by (cases "oc_Mint c") (auto simp: validateOrchardMint_def orchardMintOK_def)

lemma validateOrchard_connections [simp]:
  "(validateOrchardBitcoin c = []) = pred_option bitcoinOK (oc_Bitcoin c)"
  "(validateOrchardLightning c = []) = pred_option lightningOK (oc_Lightning c)"
  "(validateOrchardTaprootAssets c = []) = pred_option taprootOK (oc_TaprootAssets c)"
  "(validateOrchardAI c = []) = pred_option (\<lambda>a. oai_API a \<noteq> '''') (oc_AI c)"
  by (cases "oc_Bitcoin c"; cases "oc_Lightning c"; cases "oc_TaprootAssets c"; cases "oc_AI c";
      simp add: validateOrchardBitcoin_def validateOrchardLightning_def
        validateOrchardTaprootAssets_def validateOrchardAI_def bitcoinOK_def lightningOK_def
        taprootOK_def)+

lemma validateOrchard_None [simp]:
  "(validateOrchard r = None) = pred_option (orchardOK (cm_Spec r)) (cms_Orchard (cm_Spec r))"
  by (cases "cms_Orchard (cm_Spec r)") (auto simp: validateOrchard_def orchardOK_def)

lemma accepted_iff: "(validateCashuMint cmp r = None) = specOK cmp (cm_Spec r)"
  by (simp add: validateCashuMint_def specOK_def validateIngress_def Let_def)

text \<open>
  C3: the webhook accepts a resource exactly when its specification satisfies the declarative
  well-formedness predicate: no check is shadowed by another, and no error is lost or invented
  by the accumulation of errors.
\<close>

theorem validateCashuMint_iff_specOK:
  "(validateCashuMint cmp r = None) = specOK cmp (cm_Spec r)"
  by (rule accepted_iff)

subsection \<open>Defaulting and validation together\<close>

text \<open>The API server runs the mutating webhook before the validating one, so what is validated
  is the defaulted resource.\<close>

lemma pred_option_whenPtr [simp]:
  "pred_option P (whenPtr g f p) = pred_option (\<lambda>x. P (if g x then f x else x)) p"
  by (cases p) auto

lemma optP_whenPtr_if [simp]:
  "optP P (whenPtr g f p) = optP (\<lambda>x. P (if g x then f x else x)) p"
  by (cases p) auto

lemma pred_option_mono': "pred_option P p \<Longrightarrow> (\<And>x. P x \<Longrightarrow> Q x) \<Longrightarrow> pred_option Q p"
  by (cases p) auto

lemma backendsSet_Default [simp]:
  "backendsSet (cms_PaymentBackend (cm_Spec (Default r))) = backendsSet (cms_PaymentBackend (cm_Spec r))"
  by (simp add: backendsSet_def)

lemma ActiveBackend_Default [simp]: "activeBackend (Default r) = activeBackend r"
  unfolding activeBackend_def ActiveBackend_backendsSet backendsSet_Default ..

lemma ingressOK_default: "pred_option ingressOK i \<Longrightarrow> pred_option ingressOK (defaultIngressConfig i)"
  by (auto simp: defaultIngressConfig_def ingressOK_def defaultIngressTLS_def defaultCertManager_def
      elim!: pred_option_mono')

lemma databaseOK_engine:
  "databaseOK (cms_Database s) \<Longrightarrow> defaultedEngine s = db_Engine (cms_Database s)"
  by (auto simp: databaseOK_def defaultedEngine_def optP_iff split: if_splits)

lemma databaseOK_Default:
  assumes "databaseOK (cms_Database (cm_Spec r))"
  shows "databaseOK (cms_Database (cm_Spec (Default r)))"
  using assms databaseOK_engine [OF assms]
  by (auto simp: databaseOK_def optP_iff defaultPostgres_def)

lemma backendOK_Default:
  "backendOK (cms_PaymentBackend (cm_Spec r)) \<Longrightarrow> backendOK (cms_PaymentBackend (cm_Spec (Default r)))"
  unfolding backendOK_def backendsSet_Default
  by (auto simp: sidecarOK_def defaultLND_def defaultCLN_def defaultLNBits_def
      defaultGRPCProcessor_def cong: if_cong split: if_splits elim!: pred_option_mono')

lemma backupOK_Default:
  assumes "databaseOK (cms_Database (cm_Spec r))"
    and "pred_option (backupOK (cms_Database (cm_Spec r))) (cms_Backup (cm_Spec r))"
  shows "pred_option (backupOK (cms_Database (cm_Spec (Default r)))) (cms_Backup (cm_Spec (Default r)))"
  using assms databaseOK_engine [OF assms(1)]
  by (cases "cms_Backup (cm_Spec r)")
     (auto simp: backupOK_def optP_iff defaultBackup_def defaultPostgres_def s3OK_def defaultS3_def)

lemma rpcEnabled_Default:
  "optP mr_Enabled (cms_ManagementRPC (cm_Spec r)) \<Longrightarrow>
   optP mr_Enabled (cms_ManagementRPC (cm_Spec (Default r)))"
  by (auto simp: optP_iff orchardRPC_def)

lemma orchardMintOK_default:
  assumes "pred_option (orchardMintOK b) m" and "b \<or> mtls \<Longrightarrow> b'"
  shows "orchardMintOK b' (defaultOrchardMint mtls (derefOr m zeroOrchardMint))"
  using assms
  by (cases m; cases "omc_RPC (the m)")
     (auto simp: orchardMintOK_def defaultOrchardMint_def zeroOrchardMint_def
        defaultOrchardMintRPC_def orPtr_def split: option.splits)

lemma orchardOK_Default:
  assumes "databaseOK (cms_Database (cm_Spec r))"
    and "pred_option (orchardOK (cm_Spec r)) (cms_Orchard (cm_Spec r))"
  shows "pred_option (orchardOK (cm_Spec (Default r))) (cms_Orchard (cm_Spec (Default r)))"
proof (cases "optP oc_Enabled (cms_Orchard (cm_Spec r))")
  case False
  then show ?thesis
    by (cases "cms_Orchard (cm_Spec r)") (auto simp: orchardOK_def)
next
  case True
  then obtain c where c: "cms_Orchard (cm_Spec r) = Some c" "oc_Enabled c"
    by (auto simp: optP_iff)
  let ?b = "optP mr_Enabled (cms_ManagementRPC (cm_Spec r))"
  let ?b' = "optP mr_Enabled (cms_ManagementRPC (cm_Spec (Default r)))"
  let ?mtls = "ManagementRPCTLSEnabled (orchardRPC (cm_Spec r))"
  have b': "?b \<or> ?mtls \<Longrightarrow> ?b'"
    using rpcEnabled_Default by (auto simp: ManagementRPCTLSEnabled_iff optP_iff)
  have ok: "orchardOK (cm_Spec r) c" using assms(2) c by simp
  then have "orchardMintOK ?b' (defaultOrchardMint ?mtls (derefOr (oc_Mint c) zeroOrchardMint))"
    using b' c by (intro orchardMintOK_default [of ?b]) (auto simp: orchardOK_def)
  then show ?thesis
    using ok c databaseOK_engine [OF assms(1)] ingressOK_default [of "oc_Ingress c"]
    by (cases "oc_Bitcoin c"; cases "oc_TaprootAssets c")
       (simp_all add: orchardOK_def defaultOrchardConfig_def bitcoinOK_def taprootOK_def)
qed

text \<open>
  C16: defaulting never makes an acceptable resource unacceptable: the mTLS flag and the management
  RPC block that \<^verbatim>\<open>defaultOrchard\<close> adds are consistent with the validation rules.
\<close>

theorem Default_keeps_accepted:
  assumes "validateCashuMint cmp r = None"
  shows "validateCashuMint cmp (Default r) = None"
proof -
  have ok: "specOK cmp (cm_Spec r)" using assms by (simp add: accepted_iff)
  then have "specOK cmp (cm_Spec (Default r))"
    unfolding specOK_def
    using ingressOK_default databaseOK_Default backendOK_Default backupOK_Default orchardOK_Default
    by (auto simp: orchardRPC_def enabledManagementRPC_def pred_option_optP optP_iff orPtr_def
        simp del: optP_simps split: option.splits)
  then show ?thesis by (simp add: accepted_iff)
qed

text \<open>A comparison of quantities, for witnesses: equal strings are equal, others smaller.\<close>

definition cmpSample :: "quantity \<Rightarrow> quantity \<Rightarrow> int" where
  "cmpSample a b = (if a = b then 0 else -1)"

lemmas specOK_defs =
  specOK_def databaseOK_def backendOK_def backendsSet_def ingressOK_def resourcesOK_def
  backupOK_def s3OK_def orchardOK_def orchardMintOK_def bitcoinOK_def lightningOK_def taprootOK_def
  selectorOK_def sidecarOK_def

lemma samples_accepted:
  "validateCashuMint cmp sampleMinimal = None" "validateCashuMint cmp sampleLND = None"
  "validateCashuMint cmp sampleOrchard = None" "validateCashuMint cmp sampleBackup = None"
  by (simp_all add: accepted_iff specOK_defs sample_defs)

theorem Default_keeps_accepted_witness:
  "validateCashuMint cmpSample sampleOrchard = None
   \<and> validateCashuMint cmpSample (Default sampleOrchard) = None"
  using Default_keeps_accepted [OF samples_accepted(3)] samples_accepted(3) by blast

end
