(* ===== verification/GenBase.thy ===== *)
theory GenBase
  imports Validation
begin

section \<open>What the resource generators share\<close>

text \<open>
  The generators of \<^verbatim>\<open>internal/controller/generators\<close> turn a \<^verbatim>\<open>CashuMint\<close> into Kubernetes
  objects. Functions of other packages they call are the fields of the record \<open>ext\<close>:
  \<^verbatim>\<open>controllerutil.SetControllerReference\<close> (with the scheme), whether \<^verbatim>\<open>resource.MustParse\<close>
  accepts a string, and \<^verbatim>\<open>strconv.IsPrint\<close> above ASCII. A generator returns
  \<open>'a option result\<close>: the object, nil, an error or a panic.
\<close>

record ext =
  x_SetControllerReference :: "CashuMint \<Rightarrow> ObjectMeta \<Rightarrow> ObjectMeta result"
  x_quantityOK :: "string \<Rightarrow> bool"
  x_isPrint :: "nat \<Rightarrow> bool"

definition mustParse :: "ext \<Rightarrow> string \<Rightarrow> quantity result" where
  "mustParse X s =
     (if x_quantityOK X s then Ok s else Panic (''cannot parse '' @ s))"

text \<open>The common ending of the generators: set the owner on the object's metadata, wrap the error,
  return the object.\<close>

definition finish ::
  "ext \<Rightarrow> CashuMint \<Rightarrow> ('a \<Rightarrow> ObjectMeta) \<Rightarrow> ((ObjectMeta \<Rightarrow> ObjectMeta) \<Rightarrow> 'a \<Rightarrow> 'a) \<Rightarrow> 'a \<Rightarrow> 'a option result"
where
  "finish X mint get upd obj =
     (case x_SetControllerReference X mint (get obj) of
        Ok m \<Rightarrow> Ok (Some (upd (\<lambda>_. m) obj))
      | Err e \<Rightarrow> Err (Wrapf ''failed to set controller reference'' e)
      | Panic p \<Rightarrow> Panic p)"

lemma finish_eq_Ok [simp]:
  "(finish X mint get upd obj = Ok r) =
     (\<exists>m. x_SetControllerReference X mint (get obj) = Ok m \<and> r = Some (upd (\<lambda>_. m) obj))"
  by (auto simp: finish_def split: result.splits)

subsection \<open>The contract of SetControllerReference\<close>

text \<open>
  What \<^verbatim>\<open>controllerutil.SetControllerReference\<close> documents and the generators rely on: on success
  only the owner references change, the owner is among them as the controller, and only the owner's
  metadata is looked at; a mint in the
  object's own namespace can own an object that has no controller yet.
\<close>

definition ownedBy :: "CashuMint \<Rightarrow> ObjectMeta \<Rightarrow> bool" where
  "ownedBy mint m =
     (\<exists>r \<in> set (om_OwnerReferences m). or_Controller r \<and> or_UID r = om_UID (cm_Meta mint))"

locale owner_references =
  fixes setRef :: "CashuMint \<Rightarrow> ObjectMeta \<Rightarrow> ObjectMeta result"
  assumes only_owners:
    "setRef mint m = Ok m' \<Longrightarrow> \<exists>refs. m' = m\<lparr> om_OwnerReferences := refs \<rparr>"
  and owner_set: "setRef mint m = Ok m' \<Longrightarrow> ownedBy mint m'"
  and owner_metadata: "cm_Meta mint = cm_Meta mint' \<Longrightarrow> setRef mint m = setRef mint' m"
  and fresh_ok:
    "om_Namespace m = mintNamespace mint \<Longrightarrow> om_OwnerReferences m = [] \<Longrightarrow> \<exists>m'. setRef mint m = Ok m'"
begin

lemma keeps_identity:
  assumes "setRef mint m = Ok m'"
  shows "om_Name m' = om_Name m" "om_Namespace m' = om_Namespace m" "om_Labels m' = om_Labels m"
    "om_Annotations m' = om_Annotations m" "om_Finalizers m' = om_Finalizers m"
  using only_owners [OF assms] by auto

end

text \<open>A concrete owner setter, as the controller-runtime documentation describes it.\<close>

definition ownerRef :: "CashuMint \<Rightarrow> OwnerReference" where
  "ownerRef mint =
     \<lparr> or_Kind = ''CashuMint'', or_Name = mintName mint, or_UID = om_UID (cm_Meta mint),
       or_Controller = True \<rparr>"

definition setOwner :: "CashuMint \<Rightarrow> ObjectMeta \<Rightarrow> ObjectMeta result" where
  "setOwner mint m =
     (if om_Namespace m \<noteq> mintNamespace mint
      then Err (Errorf ''cross-namespace owner references are disallowed'')
      else if list_ex (\<lambda>r. or_Controller r \<and> or_UID r \<noteq> om_UID (cm_Meta mint)) (om_OwnerReferences m)
      then Err (Errorf ''Object is already owned by another controller'')
      else Ok (m\<lparr> om_OwnerReferences :=
             filter (\<lambda>r. or_UID r \<noteq> om_UID (cm_Meta mint)) (om_OwnerReferences m) @ [ownerRef mint] \<rparr>))"

interpretation documented: owner_references setOwner
  by unfold_locales (auto simp: setOwner_def ownedBy_def ownerRef_def split: if_splits)

definition sampleExt :: ext where
  "sampleExt = \<lparr> x_SetControllerReference = setOwner, x_quantityOK = (\<lambda>s. s \<noteq> ''''), x_isPrint = (\<lambda>_. True) \<rparr>"

lemma sampleExt_owner [simp]: "owner_references (x_SetControllerReference sampleExt)"
  using documented.owner_references_axioms by (simp add: sampleExt_def)

subsection \<open>Names and labels\<close>

definition prometheusMetricsPortName :: string where "prometheusMetricsPortName = ''metrics''"
definition trueStr :: string where "trueStr = ''true''"
definition orchardStr :: string where "orchardStr = ''orchard''"

definition orchardEnabled :: "CashuMint \<Rightarrow> bool" where
  "orchardEnabled mint = optP oc_Enabled (cms_Orchard (cm_Spec mint))"

definition orchardResourceName :: "CashuMint \<Rightarrow> string" where
  "orchardResourceName mint = mintName mint @ ''-orchard''"

definition orchardPVCName :: "CashuMint \<Rightarrow> string" where
  "orchardPVCName mint = orchardResourceName mint @ ''-data''"

definition mintSelectorLabels :: "CashuMint \<Rightarrow> strmap" where
  "mintSelectorLabels mint =
     [''app.kubernetes.io/name'' \<mapsto> ''cashu-mint'',
      ''app.kubernetes.io/instance'' \<mapsto> mintName mint,
      ''app.kubernetes.io/managed-by'' \<mapsto> ''cashu-operator'']"

text \<open>The label sets with a component, as the generators spell them out.\<close>

definition componentLabels :: "string \<Rightarrow> CashuMint \<Rightarrow> string \<Rightarrow> strmap" where
  "componentLabels name mint component =
     [''app.kubernetes.io/name'' \<mapsto> name,
      ''app.kubernetes.io/instance'' \<mapsto> mintName mint,
      ''app.kubernetes.io/component'' \<mapsto> component,
      ''app.kubernetes.io/managed-by'' \<mapsto> ''cashu-operator'']"

definition orchardLabels :: "CashuMint \<Rightarrow> strmap" where
  "orchardLabels mint = (mintSelectorLabels mint)(''app.kubernetes.io/component'' \<mapsto> orchardStr)"

lemma orchardLabels_component: "orchardLabels mint = componentLabels ''cashu-mint'' mint ''orchard''"
  by (auto simp: orchardLabels_def componentLabels_def mintSelectorLabels_def orchardStr_def fun_eq_iff)

lemma mintSelector_selects_iff:
  "selects (mintSelectorLabels mint) labels =
     (labels ''app.kubernetes.io/name'' = Some ''cashu-mint''
      \<and> labels ''app.kubernetes.io/instance'' = Some (mintName mint)
      \<and> labels ''app.kubernetes.io/managed-by'' = Some ''cashu-operator'')"
  unfolding selects_def map_le_def mintSelectorLabels_def
  by (simp add: eq_commute [of "Some _"] conj_ac)

subsection \<open>Ports\<close>

text \<open>\<^verbatim>\<open>listenPort := mint.Spec.MintInfo.ListenPort; if listenPort == 0 { listenPort = 8085 }\<close> and
  the like, repeated in several generators.\<close>

definition listenPort :: "CashuMint \<Rightarrow> int32" where
  "listenPort mint = orInt (mi_ListenPort (cms_MintInfo (cm_Spec mint))) 8085"

definition metricsPort :: "PrometheusConfig \<Rightarrow> int32" where
  "metricsPort c = derefOr (pc_Port c) DefaultPrometheusPort"

definition prometheusEnabled :: "CashuMint \<Rightarrow> bool" where
  "prometheusEnabled mint = optP pc_Enabled (cms_Prometheus (cm_Spec mint))"

definition ldkEnabled :: "CashuMint \<Rightarrow> bool" where
  "ldkEnabled mint = optP ldk_Enabled (cms_LDKNode (cm_Spec mint))"

definition rpcEnabled :: "CashuMint \<Rightarrow> bool" where
  "rpcEnabled mint = optP mr_Enabled (cms_ManagementRPC (cm_Spec mint))"

definition autoProvisioned :: "CashuMint \<Rightarrow> bool" where
  "autoProvisioned mint = optP pg_AutoProvision (db_Postgres (cms_Database (cm_Spec mint)))"

definition orchardPortDefault :: int32 where "orchardPortDefault = 3321"

definition orchardPort :: "CashuMint \<Rightarrow> int32" where
  "orchardPort mint =
     (case cms_Orchard (cm_Spec mint) of
        Some o' \<Rightarrow> if oc_Port o' \<noteq> 0 then oc_Port o' else orchardPortDefault
      | None \<Rightarrow> orchardPortDefault)"

end
