(* ===== verification/GenConfig.thy ===== *)
theory GenConfig
  imports GenBase "HOL-Library.Sublist"
begin

section \<open>The mint's configuration file\<close>

text \<open>
  \<^verbatim>\<open>configmap.go\<close>. Each \<^verbatim>\<open>write...Section\<close> appends lines to a buffer; here it returns the list of
  lines it writes, as section headers and \<^verbatim>\<open>key = value\<close> entries, and \<open>renderItems\<close> is the text
  that reaches the buffer: the format verbs \<^verbatim>\<open>%q\<close>, \<^verbatim>\<open>%d\<close>, \<^verbatim>\<open>%t\<close>, \<^verbatim>\<open>%f\<close> and the quoted join of
  the string arrays. The lemmas show that no section and no key of a section is
  written twice; that the text can be read back is in \<open>ConfigFile\<close>.
\<close>

datatype tomlValue =
    Quoted string             \<comment> \<open>\<^verbatim>\<open>%q\<close>\<close>
  | Decimal int               \<comment> \<open>\<^verbatim>\<open>%d\<close>\<close>
  | Boolean bool              \<comment> \<open>\<^verbatim>\<open>%t\<close>\<close>
  | Fixed float64             \<comment> \<open>\<^verbatim>\<open>%f\<close>\<close>
  | JoinedArray "string list" \<comment> \<open>\<^verbatim>\<open>["%s"]\<close> of the elements joined by \<^verbatim>\<open>", "\<close>\<close>

text \<open>\<open>Header\<close> says whether the header is preceded by an empty line.\<close>

datatype tomlItem = Header bool string | Entry string tomlValue

definition NL :: char where "NL = CHR 0x0A"

fun renderValue :: "(nat \<Rightarrow> bool) \<Rightarrow> tomlValue \<Rightarrow> string" where
  "renderValue isPrint (Quoted s) = quote isPrint s"
| "renderValue isPrint (Decimal i) = itoa i"
| "renderValue isPrint (Boolean b) = formatBool b"
| "renderValue isPrint (Fixed x) = fmtF x"
| "renderValue isPrint (JoinedArray xs) =
     [CHR ''['', DQ] @ joinStr [DQ, CHR '','', CHR '' '', DQ] xs @ [DQ, CHR '']'']"

fun renderItem :: "(nat \<Rightarrow> bool) \<Rightarrow> tomlItem \<Rightarrow> string" where
  "renderItem isPrint (Header blank name) = (if blank then [NL] else []) @ ''['' @ name @ '']'' @ [NL]"
| "renderItem isPrint (Entry key v) = key @ '' = '' @ renderValue isPrint v @ [NL]"

definition renderItems :: "(nat \<Rightarrow> bool) \<Rightarrow> tomlItem list \<Rightarrow> string" where
  "renderItems isPrint items = concat (map (renderItem isPrint) items)"

text \<open>\<^verbatim>\<open>if s != "" { write key = %q }\<close> and \<^verbatim>\<open>if p != nil { write key = ... }\<close>.\<close>

definition strEntry :: "string \<Rightarrow> string \<Rightarrow> tomlItem list" where
  "strEntry key s = whenL (s \<noteq> '''') [Entry key (Quoted s)]"

definition intEntry :: "string \<Rightarrow> int option \<Rightarrow> tomlItem list" where
  "intEntry key p = optL p (\<lambda>i. [Entry key (Decimal i)])"

definition boolEntry :: "string \<Rightarrow> bool option \<Rightarrow> tomlItem list" where
  "boolEntry key p = optL p (\<lambda>b. [Entry key (Boolean b)])"

definition floatEntry :: "string \<Rightarrow> float64 option \<Rightarrow> tomlItem list" where
  "floatEntry key p = optL p (\<lambda>x. [Entry key (Fixed x)])"

subsection \<open>The sections\<close>

definition grpcProcessorTLSMountPath :: string where "grpcProcessorTLSMountPath = ''/secrets/grpc''"

definition orchardManagementRPCTLSMountPath :: string where
  "orchardManagementRPCTLSMountPath = ''/secrets/management-rpc-tls''"

definition listenHost :: "CashuMint \<Rightarrow> string" where
  "listenHost mint = orStr (mi_ListenHost (cms_MintInfo (cm_Spec mint))) DefaultListenHost"

definition writeInfoSection :: "CashuMint \<Rightarrow> tomlItem list" where
  "writeInfoSection mint =
     (let s = cm_Spec mint; mi = cms_MintInfo s in
      [Header False ''info'',
       Entry ''url'' (Quoted (mi_URL mi)),
       Entry ''listen_host'' (Quoted (listenHost mint)),
       Entry ''listen_port'' (Decimal (listenPort mint))]
      @ boolEntry ''use_keyset_v2'' (mi_UseKeysetV2 mi)
      @ optL (mi_QuoteTTL mi) (\<lambda>q.
          [Header True ''info.quote_ttl'']
          @ intEntry ''mint_ttl'' (qt_MintTTL q)
          @ intEntry ''melt_ttl'' (qt_MeltTTL q))
      @ optL (cms_HTTPCache s) (\<lambda>h.
          [Header True ''info.http_cache'',
           Entry ''backend'' (Quoted (orStr (hc_Backend h) ''memory''))]
          @ intEntry ''ttl'' (hc_TTL h)
          @ intEntry ''tti'' (hc_TTI h)
          @ whenL (hc_Backend h = ''redis'') (optL (hc_Redis h) (\<lambda>r.
              strEntry ''key_prefix'' (rd_KeyPrefix r)
              @ strEntry ''connection_string'' (rd_ConnectionString r))))
      @ optL (cms_Logging s) (\<lambda>l.
          [Header True ''info.logging'', Entry ''output'' (Quoted ''stderr'')]
          @ strEntry ''console_level'' (lg_Level l)
          @ strEntry ''file_level'' (lg_FileLevel l)))"

definition writeMintInfoSection :: "CashuMint \<Rightarrow> tomlItem list" where
  "writeMintInfoSection mint =
     (let mi = cms_MintInfo (cm_Spec mint) in
      if mi_Name mi = '''' \<and> mi_Description mi = '''' \<and> mi_DescriptionLong mi = '''' \<and> mi_MOTD mi = ''''
         \<and> mi_PubkeyHex mi = '''' \<and> mi_IconURL mi = '''' \<and> mi_ContactEmail mi = ''''
         \<and> mi_ContactNostrPubkey mi = '''' \<and> mi_TosURL mi = '''' \<and> mi_InputFeePPK mi = None
      then []
      else [Header True ''mint_info'']
           @ strEntry ''name'' (mi_Name mi)
           @ strEntry ''description'' (mi_Description mi)
           @ strEntry ''description_long'' (mi_DescriptionLong mi)
           @ strEntry ''motd'' (mi_MOTD mi)
           @ strEntry ''pubkey'' (mi_PubkeyHex mi)
           @ strEntry ''icon_url'' (mi_IconURL mi)
           @ strEntry ''contact_email'' (mi_ContactEmail mi)
           @ strEntry ''contact_nostr_public_key'' (mi_ContactNostrPubkey mi)
           @ strEntry ''tos_url'' (mi_TosURL mi)
           @ intEntry ''input_fee_ppk'' (mi_InputFeePPK mi))"

definition autoProvisionURL :: "CashuMint \<Rightarrow> string \<Rightarrow> string" where
  "autoProvisionURL mint dbPassword =
     ''postgresql://cdk:'' @ dbPassword @ ''@'' @ mintName mint @ ''-postgres:5432/cdk_mintd?sslmode=disable''"

definition writeDatabaseSection :: "CashuMint \<Rightarrow> string \<Rightarrow> tomlItem list" where
  "writeDatabaseSection mint dbPassword =
     (let s = cm_Spec mint; d = cms_Database s in
      [Header True ''database'', Entry ''engine'' (Quoted (db_Engine d))]
      @ whenL (db_Engine d = DatabaseEnginePostgres) (optL (db_Postgres d) (\<lambda>pg.
          [Header True ''database.postgres'']
          @ (if pg_AutoProvision pg then [Entry ''url'' (Quoted (autoProvisionURL mint dbPassword))]
             else strEntry ''url'' (pg_URL pg))
          @ [Entry ''tls_mode'' (Quoted (if pg_AutoProvision pg then ''disable''
                                         else orStr (pg_TLSMode pg) ''require''))]
          @ intEntry ''max_connections'' (pg_MaxConnections pg)
          @ intEntry ''connection_timeout_seconds'' (pg_ConnectionTimeoutSeconds pg)))
      @ optL (cms_Auth s) (\<lambda>a. whenL (au_Enabled a)
          (optL (Option.bind (au_Database a) ad_Postgres) (\<lambda>pg.
            [Header True ''auth_database.postgres'',
             Entry ''url'' (Quoted (pg_URL pg)),
             Entry ''tls_mode'' (Quoted (orStr (pg_TLSMode pg) ''disable''))]
            @ intEntry ''max_connections'' (pg_MaxConnections pg)
            @ intEntry ''connection_timeout_seconds'' (pg_ConnectionTimeoutSeconds pg)))))"

definition writeLNDSection :: "CashuMint \<Rightarrow> tomlItem list" where
  "writeLNDSection mint = optL (pb_LND (cms_PaymentBackend (cm_Spec mint))) (\<lambda>lnd.
     [Header True ''lnd'', Entry ''address'' (Quoted (lnd_Address lnd))]
     @ whenL (lnd_MacaroonSecretRef lnd \<noteq> None) [Entry ''macaroon_file'' (Quoted ''/secrets/lnd/macaroon'')]
     @ whenL (lnd_CertSecretRef lnd \<noteq> None) [Entry ''cert_file'' (Quoted ''/secrets/lnd/cert'')]
     @ floatEntry ''fee_percent'' (lnd_FeePercent lnd)
     @ intEntry ''reserve_fee_min'' (lnd_ReserveFeeMin lnd))"

definition writeCLNSection :: "CashuMint \<Rightarrow> tomlItem list" where
  "writeCLNSection mint = optL (pb_CLN (cms_PaymentBackend (cm_Spec mint))) (\<lambda>cln.
     [Header True ''cln'', Entry ''rpc_path'' (Quoted (cln_RPCPath cln))]
     @ boolEntry ''bolt12'' (cln_Bolt12 cln)
     @ floatEntry ''fee_percent'' (cln_FeePercent cln)
     @ intEntry ''reserve_fee_min'' (cln_ReserveFeeMin cln))"

definition writeLNBitsSection :: "CashuMint \<Rightarrow> tomlItem list" where
  "writeLNBitsSection mint = optL (pb_LNBits (cms_PaymentBackend (cm_Spec mint))) (\<lambda>lnbits.
     [Header True ''lnbits'', Entry ''lnbits_api'' (Quoted (lnb_API lnbits))]
     @ whenL (lnb_RetroAPI lnbits) [Entry ''retro_api'' (Boolean True)]
     @ floatEntry ''fee_percent'' (lnb_FeePercent lnbits)
     @ intEntry ''reserve_fee_min'' (lnb_ReserveFeeMin lnbits))"

definition writeFakeWalletSection :: "CashuMint \<Rightarrow> tomlItem list" where
  "writeFakeWalletSection mint =
     (let fw = pb_FakeWallet (cms_PaymentBackend (cm_Spec mint)) in
      [Header True ''fake_wallet'',
       Entry ''supported_units''
         (JoinedArray (case fw of None \<Rightarrow> [''sat''] | Some f \<Rightarrow> orList (fw_SupportedUnits f) [''sat''])),
       Entry ''fee_percent'' (Fixed (derefOr (Option.bind fw fw_FeePercent) fee_0_02)),
       Entry ''reserve_fee_min'' (Decimal (derefOr (Option.bind fw fw_ReserveFeeMin) 1)),
       Entry ''min_delay_time'' (Decimal (derefOr (Option.bind fw fw_MinDelayTime) 1)),
       Entry ''max_delay_time'' (Decimal (derefOr (Option.bind fw fw_MaxDelayTime) 3))])"

definition grpcProcessorAddress :: "GRPCProcessorConfig option \<Rightarrow> string" where
  "grpcProcessorAddress gp =
     (let addr = orStr (case gp of None \<Rightarrow> '''' | Some g \<Rightarrow> gp_Address g) ''http://127.0.0.1''
      in if \<not> hasPrefix addr ''http://'' \<and> \<not> hasPrefix addr ''https://'' then ''http://'' @ addr else addr)"

definition grpcProcessorPort :: "GRPCProcessorConfig option \<Rightarrow> int32" where
  "grpcProcessorPort gp = (case gp of None \<Rightarrow> 50051 | Some g \<Rightarrow> if gp_Port g = 0 then 50051 else gp_Port g)"

definition grpcProcessorSupportedUnits :: "GRPCProcessorConfig option \<Rightarrow> string list" where
  "grpcProcessorSupportedUnits gp =
     (case gp of None \<Rightarrow> [''sat''] | Some g \<Rightarrow> if gp_SupportedUnits g = [] then [''sat''] else gp_SupportedUnits g)"

definition writeGRPCProcessorSection :: "CashuMint \<Rightarrow> tomlItem list" where
  "writeGRPCProcessorSection mint =
     (let p = pb_GRPCProcessor (cms_PaymentBackend (cm_Spec mint)) in
      optL p (\<lambda>gp.
        [Header True ''grpc_processor'',
         Entry ''addr'' (Quoted (grpcProcessorAddress p)),
         Entry ''port'' (Decimal (grpcProcessorPort p)),
         Entry ''supported_units'' (JoinedArray (grpcProcessorSupportedUnits p))]
        @ whenL (gp_TLSSecretRef gp \<noteq> None) [Entry ''tls_dir'' (Quoted grpcProcessorTLSMountPath)]))"

definition writePaymentBackendSection :: "CashuMint \<Rightarrow> tomlItem list" where
  "writePaymentBackendSection mint =
     (let p = cms_PaymentBackend (cm_Spec mint); backend = ActiveBackend p in
      [Header True ''ln'', Entry ''ln_backend'' (Quoted backend)]
      @ intEntry ''min_mint'' (pb_MinMint p)
      @ intEntry ''max_mint'' (pb_MaxMint p)
      @ intEntry ''min_melt'' (pb_MinMelt p)
      @ intEntry ''max_melt'' (pb_MaxMelt p)
      @ (if backend = PaymentBackendLND then writeLNDSection mint
         else if backend = PaymentBackendCLN then writeCLNSection mint
         else if backend = PaymentBackendLNBits then writeLNBitsSection mint
         else if backend = PaymentBackendFakeWallet then writeFakeWalletSection mint
         else if backend = PaymentBackendGRPCProcessor then writeGRPCProcessorSection mint
         else []))"

definition writeLDKNodeSection :: "CashuMint \<Rightarrow> tomlItem list" where
  "writeLDKNodeSection mint = optL (cms_LDKNode (cm_Spec mint)) (\<lambda>ldk. whenL (ldk_Enabled ldk)
     ([Header True ''ldk_node'']
      @ floatEntry ''fee_percent'' (ldk_FeePercent ldk)
      @ intEntry ''reserve_fee_min'' (ldk_ReserveFeeMin ldk)
      @ [Entry ''bitcoin_network'' (Quoted (ldk_BitcoinNetwork ldk)),
         Entry ''chain_source'' (Quoted (ldk_ChainSourceType ldk))]
      @ strEntry ''esplora_url'' (ldk_EsploraURL ldk)
      @ optL (ldk_BitcoinRPC ldk) (\<lambda>r.
          [Entry ''bitcoin_rpc_host'' (Quoted (brpc_Host r)), Entry ''bitcoin_rpc_port'' (Decimal (brpc_Port r))])
      @ strEntry ''storage_dir_path'' (ldk_StorageDirPath ldk)
      @ strEntry ''log_dir_path'' (ldk_LogDirPath ldk)
      @ [Entry ''ldk_node_host'' (Quoted (orStr (ldk_Host ldk) DefaultListenHost)),
         Entry ''ldk_node_port'' (Decimal (orInt (ldk_Port ldk) 8090))]
      @ whenL (ldk_AnnounceAddresses ldk \<noteq> [])
          [Entry ''announce_addresses'' (JoinedArray (ldk_AnnounceAddresses ldk))]
      @ [Entry ''gossip_source'' (Quoted (ldk_GossipSourceType ldk))]
      @ strEntry ''rgs_url'' (ldk_RGSURL ldk)
      @ [Entry ''webserver_host'' (Quoted (orStr (ldk_WebserverHost ldk) DefaultLoopbackHost)),
         Entry ''webserver_port'' (Decimal (orInt (ldk_WebserverPort ldk) 8888))]))"

definition writeAuthSection :: "CashuMint \<Rightarrow> tomlItem list" where
  "writeAuthSection mint = optL (cms_Auth (cm_Spec mint)) (\<lambda>auth. whenL (au_Enabled auth)
     ([Header True ''auth'', Entry ''auth_enabled'' (Boolean True)]
      @ strEntry ''openid_discovery'' (au_OpenIDDiscovery auth)
      @ strEntry ''openid_client_id'' (au_OpenIDClientID auth)
      @ intEntry ''mint_max_bat'' (au_MintMaxBat auth)
      @ strEntry ''mint'' (au_Mint auth)
      @ strEntry ''get_mint_quote'' (au_GetMintQuote auth)
      @ strEntry ''check_mint_quote'' (au_CheckMintQuote auth)
      @ strEntry ''melt'' (au_Melt auth)
      @ strEntry ''get_melt_quote'' (au_GetMeltQuote auth)
      @ strEntry ''check_melt_quote'' (au_CheckMeltQuote auth)
      @ strEntry ''swap'' (au_Swap auth)
      @ strEntry ''restore'' (au_Restore auth)
      @ strEntry ''check_proof_state'' (au_CheckProofState auth)))"

definition writeManagementRPCSection :: "CashuMint \<Rightarrow> tomlItem list" where
  "writeManagementRPCSection mint = optL (cms_ManagementRPC (cm_Spec mint)) (\<lambda>c. whenL (mr_Enabled c)
     ([Header True ''mint_management_rpc'', Entry ''enabled'' (Boolean True),
       Entry ''address'' (Quoted (orStr (mr_Address c) DefaultLoopbackHost)),
       Entry ''port'' (Decimal (orInt (mr_Port c) 8086))]
      @ whenL (ManagementRPCTLSEnabled (cm_Spec mint))
          [Entry ''tls_dir_path'' (Quoted orchardManagementRPCTLSMountPath)]))"

definition writeLimitsSection :: "CashuMint \<Rightarrow> tomlItem list" where
  "writeLimitsSection mint = optL (cms_Limits (cm_Spec mint)) (\<lambda>l.
     [Header True ''limits'']
     @ intEntry ''max_inputs'' (li_MaxInputs l)
     @ intEntry ''max_outputs'' (li_MaxOutputs l))"

definition writePrometheusSection :: "CashuMint \<Rightarrow> tomlItem list" where
  "writePrometheusSection mint = optL (cms_Prometheus (cm_Spec mint)) (\<lambda>c. whenL (pc_Enabled c)
     [Header True ''prometheus'', Entry ''enabled'' (Boolean True),
      Entry ''address'' (Quoted (orStr (pc_Address c) DefaultListenHost)),
      Entry ''port'' (Decimal (metricsPort c))])"

subsection \<open>The file and its ConfigMap\<close>

definition configItems :: "CashuMint \<Rightarrow> string \<Rightarrow> tomlItem list" where
  "configItems mint dbPassword =
     writeInfoSection mint
     @ writeMintInfoSection mint
     @ writeDatabaseSection mint dbPassword
     @ writePaymentBackendSection mint
     @ writeLDKNodeSection mint
     @ writeAuthSection mint
     @ writeManagementRPCSection mint
     @ writeLimitsSection mint
     @ writePrometheusSection mint"

definition generateConfigToml :: "(nat \<Rightarrow> bool) \<Rightarrow> CashuMint \<Rightarrow> string \<Rightarrow> string" where
  "generateConfigToml isPrint mint dbPassword = renderItems isPrint (configItems mint dbPassword)"

definition configMapObject :: "ext \<Rightarrow> CashuMint \<Rightarrow> string \<Rightarrow> ConfigMap" where
  "configMapObject X mint dbPassword =
     \<lparr> cfg_TypeMeta = typeMeta ''v1'' ''ConfigMap'',
       cfg_Meta = newMeta (mintName mint @ ''-config'') (mintNamespace mint)
                    (componentLabels ''cashu-mint'' mint ''config'') Map.empty,
       cfg_Data = [''config.toml'' \<mapsto> generateConfigToml (x_isPrint X) mint dbPassword] \<rparr>"

definition GenerateConfigMap :: "ext \<Rightarrow> CashuMint \<Rightarrow> string \<Rightarrow> ConfigMap option result" where
  "GenerateConfigMap X mint dbPassword =
     finish X mint cfg_Meta cfg_Meta_update (configMapObject X mint dbPassword)"

subsection \<open>The entries of the file\<close>

text \<open>The entries with the sections they are in.\<close>

fun entriesOf :: "string \<Rightarrow> tomlItem list \<Rightarrow> (string \<times> string \<times> tomlValue) list" where
  "entriesOf sec [] = []"
| "entriesOf sec (Header b n # is) = entriesOf n is"
| "entriesOf sec (Entry k v # is) = (sec, k, v) # entriesOf sec is"

lemma NL_distinct [simp]:
  "NL \<noteq> CHR '' ''" "NL \<noteq> CHR ''=''" "NL \<noteq> CHR ''[''" "NL \<noteq> CHR '']''" "NL \<noteq> DQ" "NL \<noteq> BS"
  "NL \<noteq> CHR '',''" "NL \<noteq> CHR ''.''" "NL \<noteq> CHR ''-''" "NL \<noteq> CHR ''0''"
  by (simp_all add: NL_def DQ_def BS_def)

subsubsection \<open>Printed values stay on their line\<close>

lemma digitChar_NL: "d < 10 \<Longrightarrow> digitChar d \<noteq> NL"
proof
  assume d: "d < 10" and "digitChar d = NL"
  then have "of_char (digitChar d) = (of_char NL :: nat)" by simp
  with d show False by (simp add: digitChar_def NL_def)
qed

lemma natDigits_NL [simp]: "NL \<notin> set (natDigits n)"
proof (induction n rule: natDigits.induct)
  case (1 n)
  have "digitChar (n mod 10) \<noteq> NL" by (rule digitChar_NL) simp
  with 1 show ?case
    by (cases "n < 10") (auto simp: natDigits.simps [of n] dest: digitChar_NL)
qed

lemma itoa_NL [simp]: "NL \<notin> set (itoa i)"
  by (simp add: itoa_def)

lemma fmtF_NL [simp]: "NL \<notin> set (fmtF x)"
  by (cases x) (simp add: Let_def padLeft_def)

lemma formatBool_NL [simp]: "NL \<notin> set (formatBool b)"
  by (simp add: formatBool_def NL_def)

lemma hexChar_NL: "d < 16 \<Longrightarrow> hexChar d \<noteq> NL"
proof
  assume d: "d < 16" and "hexChar d = NL"
  then have "of_char (hexChar d) = (of_char NL :: nat)" by simp
  with d show False by (simp add: hexChar_def NL_def split: if_splits)
qed

lemma hexDigits_NL [simp]: "NL \<notin> set (hexDigits k n)"
  by (induction k arbitrary: n) (auto simp: hexChar_NL dest: sym)

lemma decodeBytes_multi:
  assumes "decodeBytes bs = (r, n)" and "n \<noteq> 1"
  shows "n \<le> 4" and "\<forall>b \<in> set (take n bs). 0x80 \<le> b"
proof -
  have "n \<le> 4 \<and> (\<forall>b \<in> set (take n bs). 0x80 \<le> b)"
    using assms unfolding decodeBytes_def inRange_def
    by (simp split: list.split_asm if_split_asm)
  then show "n \<le> 4" "\<forall>b \<in> set (take n bs). 0x80 \<le> b" by auto
qed

lemma decodeBytes_single:
  "decodeBytes bs = (r, 1) \<Longrightarrow> r = 0xFFFD \<or> bs \<noteq> [] \<and> r = hd bs"
  unfolding decodeBytes_def inRange_def by (auto split: list.splits if_splits)

lemma escapeRune_NL:
  "NL \<in> set (escapeRune p r enc) \<Longrightarrow> NL \<in> set enc \<and> (r = 0x22 \<or> r = 0x5C \<or> isPrintRune p r)"
  using hexDigits_NL by (auto simp: escapeRune_def split: if_splits) (simp_all add: NL_def BS_def)

lemma quoteBody_NL [simp]: "NL \<notin> set (quoteBody p s)"
proof (induction p s rule: quoteBody.induct)
  case (2 p c cs)
  let ?s = "c # cs"
  let ?bs = "map of_char (take 4 ?s) :: nat list"
  obtain r n where rn: "decodeRune ?s = (r, n)" by fastforce
  then have d: "decodeBytes ?bs = (r, n)" by (simp add: decodeRune_def)
  have ten: "of_char NL = (10 :: nat)" by (simp add: NL_def)
  have "NL \<notin> set (escapeRune p r (take n ?s))" if "\<not> (n = 1 \<and> r = 0xFFFD)"
  proof
    assume a: "NL \<in> set (escapeRune p r (take n ?s))"
    show False
    proof (cases "n = 1")
      case True
      with decodeBytes_single [of ?bs r] d that have "r = of_char c" by auto
      with escapeRune_NL [OF a] True ten show False by (auto simp: isPrintRune_def)
    next
      case False
      have "set (take n ?s) \<subseteq> set (take n (take 4 ?s))"
        using decodeBytes_multi(1) [OF d False] by (simp only: take_take min.absorb1 order_refl)
      moreover have "NL \<in> set (take n ?s)" using escapeRune_NL [OF a] by blast
      ultimately have "of_char NL \<in> of_char ` set (take n (take 4 ?s))" by (meson imageI subsetD)
      then have "of_char NL \<in> set (take n ?bs)" by (simp only: take_map list.set_map)
      from bspec [OF decodeBytes_multi(2) [OF d False] this] ten show False by simp
    qed
  qed
  with 2 rn show ?case
    using hexDigits_NL [of 2] by (auto simp: quoteBody.simps Let_def simp del: One_nat_def) (simp_all add: NL_def)
qed simp

lemma quote_NL [simp]: "NL \<notin> set (quote p s)"
  by (simp add: quote_def)

lemma joinStr_NL: "NL \<notin> set sep \<Longrightarrow> (\<And>x. x \<in> set xs \<Longrightarrow> NL \<notin> set x) \<Longrightarrow> NL \<notin> set (joinStr sep xs)"
  by (induction sep xs rule: joinStr.induct) auto

declare renderValue.simps [simp del]

lemma list_all_whenL [simp]: "list_all P (whenL b xs) = (b \<longrightarrow> list_all P xs)"
  by (simp add: whenL_def)

lemma list_all_optL [simp]: "list_all P (optL p f) = pred_option (\<lambda>x. list_all P (f x)) p"
  by (cases p) auto

lemma pred_option_always [simp]: "pred_option (\<lambda>x. True) p"
  by (cases p) auto

lemmas write_defs =
  writeInfoSection_def writeMintInfoSection_def writeDatabaseSection_def writeLNDSection_def
  writeCLNSection_def writeLNBitsSection_def writeFakeWalletSection_def writeGRPCProcessorSection_def
  writePaymentBackendSection_def writeLDKNodeSection_def writeAuthSection_def
  writeManagementRPCSection_def writeLimitsSection_def writePrometheusSection_def

subsection \<open>No section and no key is written twice\<close>

text \<open>TOML rejects a file that defines a table or a key twice. \<open>keysIn\<close> lists the keys with their
  sections, \<open>secAfter\<close> is the section in force after some lines.\<close>

definition keysIn :: "string \<Rightarrow> tomlItem list \<Rightarrow> (string \<times> string) list" where
  "keysIn sec items = map (\<lambda>(s, k, v). (s, k)) (entriesOf sec items)"

fun secAfter :: "string \<Rightarrow> tomlItem list \<Rightarrow> string" where
  "secAfter sec [] = sec"
| "secAfter sec (Header b n # is) = secAfter n is"
| "secAfter sec (Entry k v # is) = secAfter sec is"

fun headersOf :: "tomlItem list \<Rightarrow> string list" where
  "headersOf [] = []"
| "headersOf (Header b n # is) = n # headersOf is"
| "headersOf (Entry k v # is) = headersOf is"

lemma entriesOf_append:
  "entriesOf sec (a @ b) = entriesOf sec a @ entriesOf (secAfter sec a) b"
  by (induction sec a rule: entriesOf.induct) auto

lemma secAfter_append [simp]: "secAfter sec (a @ b) = secAfter (secAfter sec a) b"
  by (induction sec a rule: secAfter.induct) auto

lemma headersOf_append [simp]: "headersOf (a @ b) = headersOf a @ headersOf b"
  by (induction a rule: headersOf.induct) auto

lemma keysIn_simps [simp]:
  "keysIn s [] = []" "keysIn s (Header b n # is) = keysIn n is"
  "keysIn s (Entry k v # is) = (s, k) # keysIn s is"
  "keysIn s (a @ c) = keysIn s a @ keysIn (secAfter s a) c"
  by (simp_all add: keysIn_def entriesOf_append)

text \<open>A block of entries without headers whose keys are, in this order, some of \<open>ks\<close>.\<close>

definition keysWithin :: "string list \<Rightarrow> tomlItem list \<Rightarrow> bool" where
  "keysWithin ks es = (headersOf es = [] \<and> (\<forall>s. \<exists>ks'. keysIn s es = map (Pair s) ks' \<and> subseq ks' ks))"

lemma secAfter_no_headers: "headersOf es = [] \<Longrightarrow> secAfter s es = s"
  by (induction es rule: headersOf.induct) auto

lemma keysWithin_append:
  assumes "keysWithin ks1 a" and "keysWithin ks2 b"
  shows "keysWithin (ks1 @ ks2) (a @ b)"
  unfolding keysWithin_def
proof (intro conjI allI)
  show "headersOf (a @ b) = []" using assms by (simp add: keysWithin_def)
  fix s
  from assms obtain k1 k2 where "keysIn s a = map (Pair s) k1" "subseq k1 ks1"
    "keysIn s b = map (Pair s) k2" "subseq k2 ks2" unfolding keysWithin_def by meson
  moreover have "secAfter s a = s" using assms by (simp add: keysWithin_def secAfter_no_headers)
  ultimately have "keysIn s (a @ b) = map (Pair s) (k1 @ k2)" "subseq (k1 @ k2) (ks1 @ ks2)"
    by (simp_all add: list_emb_append_mono)
  then show "\<exists>ks'. keysIn s (a @ b) = map (Pair s) ks' \<and> subseq ks' (ks1 @ ks2)" by blast
qed

lemma keysWithin_Nil: "keysWithin ks []"
  by (simp add: keysWithin_def)

lemma keysWithin_single: "keysWithin [k] [Entry k v]"
  unfolding keysWithin_def by (auto intro: exI [of _ "[k]"])

lemma keysWithin_Cons:
  "keysWithin ks (e # es) \<Longrightarrow> keysWithin ([k] @ ks) (Entry k v # e # es)"
  "keysWithin ks (a @ c) \<Longrightarrow> keysWithin ([k] @ ks) (Entry k v # a @ c)"
  "keysWithin ks (whenL b c) \<Longrightarrow> keysWithin ([k] @ ks) (Entry k v # whenL b c)"
  using keysWithin_append [OF keysWithin_single, of ks _ k v] by simp_all

lemma keysWithin_opt:
  "(\<And>x. keysWithin ks (f x)) \<Longrightarrow> keysWithin ks (optL p f)"
  "keysWithin ks es \<Longrightarrow> keysWithin ks (whenL b es)"
  "keysWithin ks es \<Longrightarrow> keysWithin ks es' \<Longrightarrow> keysWithin ks (if b then es else es')"
  by (auto simp: optL_def whenL_def keysWithin_Nil split: option.splits)

lemma keysWithin_entries:
  "keysWithin [k] (strEntry k v)" "keysWithin [k] (intEntry k i)"
  "keysWithin [k] (boolEntry k b)" "keysWithin [k] (floatEntry k x)"
  unfolding strEntry_def intEntry_def boolEntry_def floatEntry_def
  by (intro keysWithin_opt keysWithin_single)+

lemmas keysWithin_intros =
  keysWithin_entries keysWithin_single keysWithin_opt keysWithin_append keysWithin_Cons

definition keysOK :: "string set \<Rightarrow> tomlItem list \<Rightarrow> bool" where
  "keysOK secs items =
     (distinct (headersOf items) \<and> set (headersOf items) \<subseteq> secs \<and>
      (\<forall>s. distinct (keysIn s items) \<and> fst ` set (keysIn s items) \<subseteq> secs))"

lemma keysOK_section:
  assumes "keysWithin ks es" and "distinct ks"
  shows "keysOK {n} ([Header b n] @ es)"
proof -
  from assms obtain ks' where k: "keysIn n es = map (Pair n) ks'" "subseq ks' ks" "headersOf es = []"
    by (auto simp: keysWithin_def)
  then have "distinct ks'" using assms(2) by (metis subseq_conv_nths distinct_nthsI)
  with k show ?thesis by (auto simp: keysOK_def distinct_map inj_on_def)
qed

lemma keysOK_section_Cons:
  "keysWithin ks es \<Longrightarrow> distinct ks \<Longrightarrow> keysOK {n} (Header b n # es)"
  using keysOK_section [of ks es n b] by simp

lemma keysOK_append:
  assumes "keysOK A a" and "keysOK B b" and "A \<inter> B = {}"
  shows "keysOK (A \<union> B) (a @ b)"
proof -
  have disj: "set xs \<inter> set ys = {}"
    if "fst ` set xs \<subseteq> A" "fst ` set ys \<subseteq> B" for xs ys :: "(string \<times> string) list"
    using that assms(3) by blast
  show ?thesis using assms disj by (simp add: keysOK_def image_Un) blast
qed

lemma keysOK_optional:
  "keysOK A []"
  "(\<And>x. keysOK A (f x)) \<Longrightarrow> keysOK A (optL p f)"
  "keysOK A is \<Longrightarrow> keysOK A (whenL b is)"
  "keysOK A is \<Longrightarrow> keysOK A is' \<Longrightarrow> keysOK A (if b then is else is')"
  by (auto simp: keysOK_def optL_def whenL_def split: option.splits)

lemma keysOK_mono: "keysOK A items \<Longrightarrow> A \<subseteq> B \<Longrightarrow> keysOK B items"
  unfolding keysOK_def by (meson order_trans)

lemma keysOK_simple_sections:
  "keysOK {''mint_info''} (writeMintInfoSection m)"
  "keysOK {''lnd''} (writeLNDSection m)"
  "keysOK {''cln''} (writeCLNSection m)"
  "keysOK {''lnbits''} (writeLNBitsSection m)"
  "keysOK {''fake_wallet''} (writeFakeWalletSection m)"
  "keysOK {''grpc_processor''} (writeGRPCProcessorSection m)"
  "keysOK {''ldk_node''} (writeLDKNodeSection m)"
  "keysOK {''auth''} (writeAuthSection m)"
  "keysOK {''mint_management_rpc''} (writeManagementRPCSection m)"
  "keysOK {''limits''} (writeLimitsSection m)"
  "keysOK {''prometheus''} (writePrometheusSection m)"
  unfolding write_defs Let_def append_Cons append_Nil
  by (((rule keysOK_optional)+)?, rule keysOK_section_Cons, (rule keysWithin_intros)+, simp)+

lemma keysOK_info:
  "keysOK {''info'', ''info.quote_ttl'', ''info.http_cache'', ''info.logging''} (writeInfoSection m)"
proof -
  let ?s = "cm_Spec m" and ?mi = "cms_MintInfo (cm_Spec m)"
  have 1: "keysOK {''info''} (Header False ''info'' # Entry ''url'' (Quoted (mi_URL ?mi))
      # Entry ''listen_host'' (Quoted (listenHost m)) # Entry ''listen_port'' (Decimal (listenPort m))
      # boolEntry ''use_keyset_v2'' (mi_UseKeysetV2 ?mi) @ [])"
    by (rule keysOK_section_Cons, (rule keysWithin_intros keysWithin_Nil [of "[]"])+, simp)
  have 2: "keysOK {''info.quote_ttl''} (optL (mi_QuoteTTL ?mi) (\<lambda>q. Header True ''info.quote_ttl''
      # intEntry ''mint_ttl'' (qt_MintTTL q) @ intEntry ''melt_ttl'' (qt_MeltTTL q)))"
    by ((rule keysOK_optional)+, rule keysOK_section_Cons, (rule keysWithin_intros)+, simp)
  have 3: "keysOK {''info.http_cache''} (optL (cms_HTTPCache ?s) (\<lambda>h. Header True ''info.http_cache''
      # Entry ''backend'' (Quoted (orStr (hc_Backend h) ''memory''))
      # intEntry ''ttl'' (hc_TTL h) @ intEntry ''tti'' (hc_TTI h)
        @ whenL (hc_Backend h = ''redis'') (optL (hc_Redis h) (\<lambda>r. strEntry ''key_prefix'' (rd_KeyPrefix r)
            @ strEntry ''connection_string'' (rd_ConnectionString r)))))"
    by ((rule keysOK_optional)+, rule keysOK_section_Cons, (rule keysWithin_intros)+, simp)
  have 4: "keysOK {''info.logging''} (optL (cms_Logging ?s) (\<lambda>l. Header True ''info.logging''
      # Entry ''output'' (Quoted ''stderr'')
      # strEntry ''console_level'' (lg_Level l) @ strEntry ''file_level'' (lg_FileLevel l)))"
    by ((rule keysOK_optional)+, rule keysOK_section_Cons, (rule keysWithin_intros)+, simp)
  from keysOK_append [OF 1 keysOK_append [OF 2 keysOK_append [OF 3 4]]]
  show ?thesis by (simp add: writeInfoSection_def Let_def insert_commute)
qed

lemma keysOK_database:
  "keysOK {''database'', ''database.postgres'', ''auth_database.postgres''} (writeDatabaseSection m pw)"
proof -
  let ?d = "cms_Database (cm_Spec m)"
  have 1: "keysOK {''database''} [Header True ''database'', Entry ''engine'' (Quoted (db_Engine ?d))]"
    by (rule keysOK_section_Cons, (rule keysWithin_intros)+, simp)
  have 2: "keysOK {''database.postgres''}
     (whenL (db_Engine ?d = DatabaseEnginePostgres) (optL (db_Postgres ?d) (\<lambda>pg.
        Header True ''database.postgres''
        # (if pg_AutoProvision pg then [Entry ''url'' (Quoted (autoProvisionURL m pw))]
             else strEntry ''url'' (pg_URL pg))
          @ [Entry ''tls_mode'' (Quoted (if pg_AutoProvision pg then ''disable''
                                         else orStr (pg_TLSMode pg) ''require''))]
          @ intEntry ''max_connections'' (pg_MaxConnections pg)
          @ intEntry ''connection_timeout_seconds'' (pg_ConnectionTimeoutSeconds pg))))"
    by ((rule keysOK_optional)+, rule keysOK_section_Cons, (rule keysWithin_intros)+, simp)
  have 3: "keysOK {''auth_database.postgres''} (optL (cms_Auth (cm_Spec m)) (\<lambda>a. whenL (au_Enabled a)
          (optL (Option.bind (au_Database a) ad_Postgres) (\<lambda>pg.
            Header True ''auth_database.postgres''
            # Entry ''url'' (Quoted (pg_URL pg))
            # Entry ''tls_mode'' (Quoted (orStr (pg_TLSMode pg) ''disable''))
            # intEntry ''max_connections'' (pg_MaxConnections pg)
            @ intEntry ''connection_timeout_seconds'' (pg_ConnectionTimeoutSeconds pg)))))"
    by ((rule keysOK_optional)+, rule keysOK_section_Cons, (rule keysWithin_intros)+, simp)
  from keysOK_append [OF 1 keysOK_append [OF 2 3]]
  show ?thesis by (simp add: writeDatabaseSection_def Let_def insert_commute)
qed

definition backendSections :: "string set" where
  "backendSections = {''lnd'', ''cln'', ''lnbits'', ''fake_wallet'', ''grpc_processor''}"

lemma keysOK_payment: "keysOK ({''ln''} \<union> backendSections) (writePaymentBackendSection m)"
proof -
  let ?p = "cms_PaymentBackend (cm_Spec m)"
  have 1: "keysOK {''ln''} (Header True ''ln'' # Entry ''ln_backend'' (Quoted (ActiveBackend ?p))
      # intEntry ''min_mint'' (pb_MinMint ?p) @ intEntry ''max_mint'' (pb_MaxMint ?p)
      @ intEntry ''min_melt'' (pb_MinMelt ?p) @ intEntry ''max_melt'' (pb_MaxMelt ?p))"
    by (rule keysOK_section_Cons, (rule keysWithin_intros)+, simp)
  have "keysOK backendSections (writeLNDSection m)" "keysOK backendSections (writeCLNSection m)"
    "keysOK backendSections (writeLNBitsSection m)" "keysOK backendSections (writeFakeWalletSection m)"
    "keysOK backendSections (writeGRPCProcessorSection m)"
    by (rule keysOK_mono, rule keysOK_simple_sections, simp add: backendSections_def)+
  then have 2: "keysOK backendSections
     (if ActiveBackend ?p = PaymentBackendLND then writeLNDSection m
         else if ActiveBackend ?p = PaymentBackendCLN then writeCLNSection m
         else if ActiveBackend ?p = PaymentBackendLNBits then writeLNBitsSection m
         else if ActiveBackend ?p = PaymentBackendFakeWallet then writeFakeWalletSection m
         else if ActiveBackend ?p = PaymentBackendGRPCProcessor then writeGRPCProcessorSection m
         else [])"
    by (simp add: keysOK_optional)
  from keysOK_append [OF 1 2]
  show ?thesis by (simp add: writePaymentBackendSection_def Let_def backendSections_def)
qed

end
