(* ===== verification/ConfigFile.thy ===== *)
theory ConfigFile
  imports GenConfig
begin

section \<open>Reading the configuration file back\<close>

text \<open>
  A strict reader of the part of TOML that the generator is meant to write: tables with dotted bare
  names, bare keys, basic strings, integers, floats, booleans and arrays of strings, one entry per
  line. It rejects a text that TOML rejects: an unknown escape, a raw control character, an invalid
  encoding or an unescaped quote in a string, a number with a leading zero, a table or a key that is
  defined twice, a key that is also a table. What it accepts has the meaning that TOML gives it.
\<close>

subsection \<open>Values\<close>

text \<open>\<open>DFloat neg n k\<close> is the number \<open>n\<close> with the decimal point before its last \<open>k\<close> digits.\<close>

datatype datum = DString string | DInt int | DBool bool | DFloat bool nat nat | DArray "string list"

text \<open>The escapes of a basic string that denote one character.\<close>

definition tomlEscape :: "char \<Rightarrow> char option" where
  "tomlEscape e =
     (if e = DQ \<or> e = BS then Some e
      else if e = CHR ''b'' then Some (CHR 0x08)
      else if e = CHR ''t'' then Some (CHR 0x09)
      else if e = CHR ''n'' then Some NL
      else if e = CHR ''f'' then Some (CHR 0x0C)
      else if e = CHR ''r'' then Some (CHR 0x0D)
      else None)"

text \<open>An ASCII character that may stand for itself: a printable one or a tab.\<close>

definition rawASCII :: "char \<Rightarrow> bool" where
  "rawASCII c = (let n = of_char c :: nat in (0x20 \<le> n \<and> n < 0x7F) \<or> n = 9)"

text \<open>The rest of a string after its opening quote: the string it denotes and the text behind it.\<close>

fun readBody :: "string \<Rightarrow> (string \<times> string) option" where
  "readBody [] = None"
| "readBody (c # cs) =
     (if c = DQ then Some ([], cs)
      else if c = BS then
        (case cs of
           [] \<Rightarrow> None
         | e # r \<Rightarrow> (case tomlEscape e of None \<Rightarrow> None | Some x \<Rightarrow> map_option (\<lambda>(s, t). (x # s, t)) (readBody r)))
      else let n = snd (decodeRune (c # cs)) in
        if n = 1 \<and> \<not> rawASCII c then None
        else map_option (\<lambda>(s, t). (take n (c # cs) @ s, t)) (readBody (drop (n - 1) cs)))"

declare readBody.simps(2) [simp del]

lemma readBody_shorter: "readBody s = Some (x, t) \<Longrightarrow> length t < length s"
proof (induction s arbitrary: x t rule: readBody.induct)
  case (2 c cs)
  show ?case
  proof (cases "c = DQ \<or> c = BS")
    case True
    with 2(1,3) show ?thesis
      by (fastforce simp: readBody.simps split: if_splits list.splits option.splits)
  next
    case False
    with 2(2,3) show ?thesis
      by (fastforce simp: readBody.simps Let_def split: if_splits)
  qed
qed simp

text \<open>The rest of an array of strings after its first quote.\<close>

function readElems :: "string \<Rightarrow> string list option" where
  "readElems s =
     (case readBody s of
        None \<Rightarrow> None
      | Some (x, t) \<Rightarrow>
          if t = '']'' then Some [x]
          else if take 3 t = [CHR '','', CHR '' '', DQ] then map_option (Cons x) (readElems (drop 3 t))
          else None)"
  by pat_completeness auto

termination readElems
  by (relation "measure length") (auto dest!: readBody_shorter)

declare readElems.simps [simp del]

text \<open>A number: digits without a leading zero, then for a float a point and more digits.\<close>

definition readNumber :: "string \<Rightarrow> datum option" where
  "readNumber s =
     (let neg = (take 1 s = ''-''); u = (if neg then tl s else s);
          a = takeWhile (\<lambda>c. c \<noteq> CHR ''.'') u; b = dropWhile (\<lambda>c. c \<noteq> CHR ''.'') u in
      if a = [] \<or> hd a = CHR ''0'' \<and> tl a \<noteq> [] then None
      else if b = [] then map_option (\<lambda>n. DInt (if neg then - int n else int n)) (readNat 0 a)
      else if tl b = [] then None
      else map_option (\<lambda>n. DFloat neg n (length (tl b))) (readNat 0 (a @ tl b)))"

definition readDatum :: "string \<Rightarrow> datum option" where
  "readDatum s =
     (if take 1 s = [DQ] then
        (case readBody (drop 1 s) of Some (x, t) \<Rightarrow> if t = [] then Some (DString x) else None | None \<Rightarrow> None)
      else if take 2 s = [CHR ''['', DQ] then map_option DArray (readElems (drop 2 s))
      else if s = ''true'' then Some (DBool True)
      else if s = ''false'' then Some (DBool False)
      else readNumber s)"

subsection \<open>Lines\<close>

datatype tomlLine = Blank | Table string | Assign string datum

definition bareChar :: "char \<Rightarrow> bool" where
  "bareChar c = (let n = of_char c :: nat in
     (48 \<le> n \<and> n \<le> 57) \<or> (65 \<le> n \<and> n \<le> 90) \<or> (97 \<le> n \<and> n \<le> 122) \<or> n = 95 \<or> n = 45)"

definition bareKey :: "string \<Rightarrow> bool" where
  "bareKey k = (k \<noteq> [] \<and> list_all bareChar k)"

text \<open>Bare keys joined by dots.\<close>

fun tableName :: "string \<Rightarrow> bool" where
  "tableName [] = False"
| "tableName (c # cs) =
     (bareChar c \<and> (case cs of [] \<Rightarrow> True | d # ds \<Rightarrow> if d = CHR ''.'' then tableName ds else tableName cs))"

definition readLine :: "string \<Rightarrow> tomlLine option" where
  "readLine l =
     (if l = [] then Some Blank
      else if hd l = CHR ''['' then
        (if tl l \<noteq> [] \<and> last l = CHR '']'' \<and> tableName (butlast (tl l)) then Some (Table (butlast (tl l))) else None)
      else let k = takeWhile (\<lambda>x. x \<noteq> CHR '' '') l; r = dropWhile (\<lambda>x. x \<noteq> CHR '' '') l in
        if bareKey k \<and> take 3 r = '' = '' then map_option (Assign k) (readDatum (drop 3 r)) else None)"

fun splitLines :: "string \<Rightarrow> string list" where
  "splitLines [] = []"
| "splitLines (c # cs) =
     (if c = NL then [] # splitLines cs
      else case splitLines cs of [] \<Rightarrow> [[c]] | l # ls \<Rightarrow> (c # l) # ls)"

fun assigned :: "string \<Rightarrow> tomlLine list \<Rightarrow> (string \<times> string \<times> datum) list" where
  "assigned sec [] = []"
| "assigned sec (Blank # ls) = assigned sec ls"
| "assigned sec (Table n # ls) = assigned n ls"
| "assigned sec (Assign k d # ls) = (sec, k, d) # assigned sec ls"

fun tables :: "tomlLine list \<Rightarrow> string list" where
  "tables [] = []"
| "tables (Table n # ls) = n # tables ls"
| "tables (_ # ls) = tables ls"

definition readToml :: "string \<Rightarrow> (string \<times> string \<times> datum) list option" where
  "readToml text =
     (case those (map readLine (splitLines text)) of
        None \<Rightarrow> None
      | Some ls \<Rightarrow>
          let es = assigned '''' ls in
          if distinct (tables ls) \<and> distinct (map (\<lambda>(s, k, d). (s, k)) es)
             \<and> list_all (\<lambda>(s, k, d). (if s = '''' then k else s @ ''.'' @ k) \<notin> set (tables ls)) es
          then Some es else None)"

subsection \<open>What a printed value means\<close>

definition millionths :: "nat \<Rightarrow> int \<Rightarrow> nat" where
  "millionths m e = (if 0 \<le> e then m * 2 ^ nat e * 10 ^ 6 else roundDiv (m * 10 ^ 6) (2 ^ nat (- e)))"

fun meaning :: "tomlValue \<Rightarrow> datum" where
  "meaning (Quoted s) = DString s"
| "meaning (Decimal i) = DInt i"
| "meaning (Boolean b) = DBool b"
| "meaning (Fixed (Float64 neg m e)) = DFloat neg (millionths m e) 6"
| "meaning (JoinedArray xs) = DArray xs"

text \<open>
  Go's \<^verbatim>\<open>%q\<close> and TOML agree on printable characters and on the five control characters below. For other
  control characters \<^verbatim>\<open>%q\<close> writes escapes that TOML does not have, such as \<^verbatim>\<open>\x1b\<close>.
\<close>

definition plainASCII :: "char \<Rightarrow> bool" where
  "plainASCII c = (let n = of_char c :: nat in (0x20 \<le> n \<and> n < 0x7F) \<or> n \<in> {8, 9, 10, 12, 13})"

fun plainString :: "(nat \<Rightarrow> bool) \<Rightarrow> string \<Rightarrow> bool" where
  "plainString p [] = True"
| "plainString p (c # cs) =
     (let r = fst (decodeRune (c # cs)); n = snd (decodeRune (c # cs))
      in (if n = 1 then plainASCII c else 0x80 \<le> r \<and> p r) \<and> plainString p (drop (n - 1) cs))"

text \<open>The elements of an array are not escaped, so they must be strings that need no escape.\<close>

fun rawString :: "string \<Rightarrow> bool" where
  "rawString [] = True"
| "rawString (c # cs) =
     (let n = snd (decodeRune (c # cs))
      in (n = 1 \<longrightarrow> rawASCII c) \<and> c \<noteq> DQ \<and> c \<noteq> BS \<and> rawString (drop (n - 1) cs))"

declare plainString.simps(2) [simp del] rawString.simps(2) [simp del]

fun plainValue :: "(nat \<Rightarrow> bool) \<Rightarrow> tomlValue \<Rightarrow> bool" where
  "plainValue p (Quoted s) = plainString p s"
| "plainValue p (JoinedArray xs) = (xs \<noteq> [] \<and> list_all rawString xs)"
| "plainValue p _ = True"

definition plainItems :: "(nat \<Rightarrow> bool) \<Rightarrow> tomlItem list \<Rightarrow> bool" where
  "plainItems p items = list_all (\<lambda>it. case it of Header b n \<Rightarrow> True | Entry k v \<Rightarrow> plainValue p v) items"

subsection \<open>Strings\<close>

lemma decodeRune_prefix:
  assumes "decodeRune s = (r, n)" and "n \<noteq> 1"
  shows "decodeRune (take n s @ rest) = (r, n)" and "2 \<le> n" and "n \<le> length s"
    and "\<forall>c \<in> set (take n s). 0x80 \<le> (of_char c :: nat)"
proof -
  have "decodeRune (take n s @ rest) = (r, n) \<and> 2 \<le> n \<and> n \<le> length s \<and> (\<forall>c \<in> set (take n s). 0x80 \<le> (of_char c :: nat))"
    using assms unfolding decodeRune_def decodeBytes_def inRange_def
    by (cases s rule: remdups_adj.cases; simp; cases "drop 2 s" rule: remdups_adj.cases)
      (auto split: if_split_asm list.split_asm)
  then show "decodeRune (take n s @ rest) = (r, n)" "2 \<le> n" "n \<le> length s"
    "\<forall>c \<in> set (take n s). 0x80 \<le> (of_char c :: nat)" by auto
qed

lemma high_not_quote: "0x80 \<le> (of_char c :: nat) \<Longrightarrow> c \<noteq> DQ \<and> c \<noteq> BS"
  by (auto simp: DQ_def BS_def)

lemma readBody_raw:
  "isASCII c \<Longrightarrow> rawASCII c \<Longrightarrow> c \<noteq> DQ \<Longrightarrow> c \<noteq> BS \<Longrightarrow>
   readBody (c # cs) = map_option (\<lambda>(s, t). (c # s, t)) (readBody cs)"
  by (simp add: readBody.simps decodeRune_ASCII Let_def)

lemma readBody_multi:
  assumes "decodeRune s = (r, n)" and "n \<noteq> 1"
  shows "readBody (take n s @ rest) = map_option (\<lambda>(x, t). (take n s @ x, t)) (readBody rest)"
proof -
  note d = decodeRune_prefix [OF assms]
  then obtain c cs where c: "take n s = c # cs" by (cases "take n s") auto
  with d(2,3) have len: "length cs = n - 1" by (metis length_Cons length_take min.absorb2 diff_Suc_1)
  from d(4) c high_not_quote have "c \<noteq> DQ" "c \<noteq> BS" by auto
  moreover from len d(2) have "take n (c # cs @ rest) = c # cs" by (cases n) simp_all
  ultimately show ?thesis
    using d(1) [of rest] assms(2) len unfolding c append_Cons by (simp add: readBody.simps(2) Let_def)
qed

lemma char_codes:
  "of_char c = (8 :: nat) \<Longrightarrow> c = CHR 0x08" "of_char c = (9 :: nat) \<Longrightarrow> c = CHR 0x09"
  "of_char c = (10 :: nat) \<Longrightarrow> c = CHR 0x0A" "of_char c = (12 :: nat) \<Longrightarrow> c = CHR 0x0C"
  "of_char c = (13 :: nat) \<Longrightarrow> c = CHR 0x0D" "of_char c = (0x22 :: nat) \<Longrightarrow> c = CHR 0x22"
  "of_char c = (0x5C :: nat) \<Longrightarrow> c = CHR 0x5C"
  by (rule injD [OF inj_of_char], simp)+

lemma readBody_escape:
  assumes "plainASCII c"
  shows "readBody (escapeRune p (of_char c) [c] @ rest) = map_option (\<lambda>(x, t). (c # x, t)) (readBody rest)"
proof -
  let ?n = "of_char c :: nat"
  consider "?n = 8" | "?n = 9" | "?n = 10" | "?n = 12" | "?n = 13" | "?n = 0x22" | "?n = 0x5C"
    | (plain) "0x20 \<le> ?n" "?n < 0x7F" "?n \<noteq> 0x22" "?n \<noteq> 0x5C"
    using assms by (auto simp: plainASCII_def Let_def)
  then show ?thesis
  proof cases
    case plain
    then have "c \<noteq> DQ" "c \<noteq> BS" "isASCII c" "rawASCII c" by (auto simp: DQ_def BS_def isASCII_def rawASCII_def Let_def)
    with plain show ?thesis by (simp add: escapeRune_def isPrintRune_def readBody_raw)
  qed (auto simp: escapeRune_def isPrintRune_def tomlEscape_def DQ_def BS_def NL_def readBody.simps
        dest!: char_codes)
qed

lemma readBody_quoted: "plainString p s \<Longrightarrow> readBody (quoteBody p s @ DQ # rest) = Some (s, rest)"
proof (induction p s rule: quoteBody.induct)
  case (1 p)
  then show ?case by (simp add: readBody.simps)
next
  case (2 p c cs)
  obtain r n where d: "decodeRune (c # cs) = (r, n)" by fastforce
  with 2(2) have ok: "if n = 1 then plainASCII c else 0x80 \<le> r \<and> p r" and "plainString p (drop (n - 1) cs)"
    by (simp_all add: plainString.simps Let_def)
  with 2(1) [OF refl refl] d have ih: "readBody (quoteBody p (drop (n - 1) cs) @ DQ # rest) = Some (drop (n - 1) cs, rest)"
    by simp
  show ?case
  proof (cases "n = 1")
    case True
    with ok have c: "plainASCII c" by simp
    then have "isASCII c" by (auto simp: plainASCII_def isASCII_def Let_def)
    with True d ih readBody_escape [OF c] show ?thesis by (simp add: quoteBody_ASCII)
  next
    case False
    note pre = decodeRune_prefix [OF d False]
    from False ok have "escapeRune p r (take n (c # cs)) = take n (c # cs)"
      by (simp add: escapeRune_def isPrintRune_def)
    then have "quoteBody p (c # cs) = take n (c # cs) @ quoteBody p (drop (n - 1) cs)"
      using False d by (simp add: quoteBody.simps Let_def)
    moreover have "take n (c # cs) @ drop (n - 1) cs = c # cs"
      using pre(2) by (cases n) simp_all
    ultimately show ?thesis using readBody_multi [OF d False] ih by simp
  qed
qed

lemma readBody_rawString: "rawString s \<Longrightarrow> readBody (s @ DQ # rest) = Some (s, rest)"
proof (induction s rule: rawString.induct)
  case 1
  then show ?case by (simp add: readBody.simps)
next
  case (2 c cs)
  obtain r n where d: "decodeRune (c # cs) = (r, n)" by fastforce
  with 2(2) have ok: "n = 1 \<longrightarrow> rawASCII c" "c \<noteq> DQ" "c \<noteq> BS" and "rawString (drop (n - 1) cs)"
    by (simp_all add: rawString.simps Let_def)
  with 2(1) [OF refl] d have ih: "readBody (drop (n - 1) cs @ DQ # rest) = Some (drop (n - 1) cs, rest)" by simp
  show ?case
  proof (cases "n = 1")
    case True
    with ok have "rawASCII c" by simp
    moreover from this have "isASCII c" by (auto simp: rawASCII_def isASCII_def Let_def)
    ultimately show ?thesis using ok ih True by (simp add: readBody_raw)
  next
    case False
    have "c # cs = take n (c # cs) @ drop (n - 1) cs"
      using decodeRune_prefix(2) [OF d False] by (cases n) simp_all
    with readBody_multi [OF d False, of "drop (n - 1) cs @ DQ # rest"] ih show ?thesis
      by (metis (no_types, lifting) append.assoc case_prod_conv option.map(2))
  qed
qed

lemma readElems_joined:
  assumes "xs \<noteq> []" and "list_all rawString xs"
  shows "readElems (joinStr [DQ, CHR '','', CHR '' '', DQ] xs @ [DQ, CHR '']'']) = Some xs"
  using assms
proof (induction "[DQ, CHR '','', CHR '' '', DQ]" xs rule: joinStr.induct)
  case (2 x)
  then show ?case by (simp add: readElems.simps [of "x @ _"] readBody_rawString)
next
  case (3 x y ys)
  then show ?case by (simp add: readElems.simps [of "x @ _"] readBody_rawString)
qed simp

subsection \<open>Numbers\<close>

lemma natDigits_chars: "c \<in> set (natDigits n) \<Longrightarrow> \<exists>d < 10. c = digitChar d"
proof (induction n rule: natDigits.induct)
  case (1 n)
  show ?case
  proof (cases "n < 10")
    case True
    with 1(2) show ?thesis by (auto simp: natDigits.simps [of n])
  next
    case False
    with 1(2) have "c \<in> set (natDigits (n div 10)) \<or> c = digitChar (n mod 10)" by (auto simp: natDigits.simps [of n])
    with 1(1) [OF False] show ?thesis by (metis mod_less_divisor zero_less_numeral)
  qed
qed

lemma digitChar_code: "d < 10 \<Longrightarrow> of_char (digitChar d) = (48 + d :: nat)"
  by (simp add: digitChar_def)

lemma natDigits_not: "c \<in> set (natDigits n) \<Longrightarrow> of_char c \<notin> {48 ..< 58 :: nat} \<Longrightarrow> False"
  using natDigits_chars [of c n] digitChar_code by force

lemma natDigits_lead: "hd (natDigits n) = CHR ''0'' \<Longrightarrow> tl (natDigits n) = []"
proof (induction n rule: natDigits.induct)
  case (1 n)
  show ?case
  proof (cases "n < 10")
    case False
    let ?q = "natDigits (n div 10)"
    have q: "?q \<noteq> []" using natDigits_hd [of "n div 10"] by auto
    with 1(2) False have "hd ?q = CHR ''0''" by (simp add: natDigits.simps [of n])
    with 1(1) [OF False] q have "?q = ''0''" by (cases ?q) auto
    then have "readNat 0 ?q = Some 0" by simp
    with readNat_natDigits [of "n div 10"] False show ?thesis by (auto simp: div_eq_0_iff)
  qed (simp add: natDigits.simps [of n])
qed

lemma natDigits_length: "n < 10 ^ Suc k \<Longrightarrow> length (natDigits n) \<le> Suc k"
proof (induction k arbitrary: n)
  case (Suc k)
  show ?case
  proof (cases "n < 10")
    case False
    have "n div 10 < 10 ^ Suc k" using Suc.prems by (simp add: div_less_iff_less_mult)
    from Suc.IH [OF this] False show ?thesis by (simp add: natDigits.simps [of n])
  qed (simp add: natDigits.simps [of n])
qed (simp add: natDigits.simps)

lemma readNat_append: "readNat n (a @ b) = Option.bind (readNat n a) (\<lambda>m. readNat m b)"
  by (induction n a rule: readNat.induct) (simp_all add: Let_def)

lemma readNat_shift: "readNat m s = map_option (\<lambda>v. m * 10 ^ length s + v) (readNat 0 s)"
proof (induction s arbitrary: m)
  case (Cons c cs)
  show ?case
  proof (cases "48 \<le> (of_char c :: nat) \<and> of_char c \<le> (57 :: nat)")
    case True
    then have "(48 :: nat) \<le> of_char c" by simp
    then obtain d where "(of_char c :: nat) = 48 + d" by (auto simp: le_iff_add)
    with True show ?thesis
      using Cons [of "10 * m + d"] Cons [of d]
      by (cases "readNat 0 cs") (simp_all add: Let_def algebra_simps)
  qed (auto simp: Let_def)
qed simp

lemma readNat_padded:
  assumes "k < 10 ^ 6"
  shows "readNat m (padLeft 6 (natDigits k)) = Some (m * 10 ^ 6 + k)" and "length (padLeft 6 (natDigits k)) = 6"
proof -
  show len: "length (padLeft 6 (natDigits k)) = 6"
    using natDigits_length [of k 5] assms by (simp add: padLeft_def)
  have "readNat 0 (replicate j (CHR ''0'') @ s) = readNat 0 s" for j s
    by (induction j) (simp_all add: Let_def)
  then have "readNat 0 (padLeft 6 (natDigits k)) = Some k" by (simp add: padLeft_def readNat_natDigits)
  with readNat_shift [of m "padLeft 6 (natDigits k)"] len show "readNat m (padLeft 6 (natDigits k)) = Some (m * 10 ^ 6 + k)"
    by simp
qed

lemma natDigits_no_point: "CHR ''.'' \<notin> set (natDigits n)" "CHR ''-'' \<notin> set (natDigits n)"
  using natDigits_not [of "CHR ''.''" n] natDigits_not [of "CHR ''-''" n] by auto

lemma take_point:
  "CHR ''.'' \<notin> set a \<Longrightarrow> takeWhile (\<lambda>c. c \<noteq> CHR ''.'') (a @ CHR ''.'' # b) = a"
  "CHR ''.'' \<notin> set a \<Longrightarrow> dropWhile (\<lambda>c. c \<noteq> CHR ''.'') (a @ CHR ''.'' # b) = CHR ''.'' # b"
  "CHR ''.'' \<notin> set a \<Longrightarrow> takeWhile (\<lambda>c. c \<noteq> CHR ''.'') a = a"
  "CHR ''.'' \<notin> set a \<Longrightarrow> dropWhile (\<lambda>c. c \<noteq> CHR ''.'') a = []"
  by (induction a) auto

lemma natDigits_head:
  "natDigits n \<noteq> []" "take 1 (natDigits n @ r) \<noteq> ''-''"
proof -
  obtain d cs where d: "natDigits n = digitChar d # cs" using natDigits_hd by blast
  with natDigits_no_point(2) [of n] show "natDigits n \<noteq> []" "take 1 (natDigits n @ r) \<noteq> ''-''" by auto
qed

lemma readNumber_unsigned:
  "readNumber (natDigits n) = Some (DInt (int n))"
  "readNumber (CHR ''-'' # natDigits n) = Some (DInt (- int n))"
  using natDigits_head(1) [of n] natDigits_head(2) [of n "[]"] natDigits_lead [of n]
  by (auto simp: readNumber_def Let_def take_point natDigits_no_point readNat_natDigits)

lemma readNumber_int: "readNumber (itoa i) = Some (DInt i)"
  using readNumber_unsigned [of "nat i"] readNumber_unsigned [of "nat (- i)"] by (simp add: itoa_def)

lemma readNumber_point:
  assumes "a \<noteq> []" and "b \<noteq> []" and "CHR ''.'' \<notin> set a" and "hd a \<noteq> CHR ''-''" and "hd a = CHR ''0'' \<longrightarrow> tl a = []"
  shows "readNumber ((if neg then ''-'' else '''') @ a @ CHR ''.'' # b) =
    map_option (\<lambda>n. DFloat neg n (length b)) (readNat 0 (a @ b))"
proof -
  from assms(1,4) have "take 1 (a @ r) \<noteq> ''-''" for r by (cases a) auto
  with assms show ?thesis by (auto simp: readNumber_def Let_def take_point)
qed

lemma readNumber_float: "readNumber (fmtF x) = Some (meaning (Fixed x))"
proof (cases x)
  case (Float64 neg m e)
  define n where "n = millionths m e"
  define a b where "a = natDigits (n div 10 ^ 6)" and "b = padLeft 6 (natDigits (n mod 10 ^ 6))"
  have b: "readNat k b = Some (k * 10 ^ 6 + n mod 10 ^ 6)" "length b = 6" for k
    unfolding b_def by (rule readNat_padded, simp)+
  have "readNat 0 (a @ b) = Some n"
    unfolding readNat_append using b(1) [of "n div 10 ^ 6"] by (simp add: a_def readNat_natDigits)
  moreover have "fmtF x = (if neg then ''-'' else '''') @ a @ CHR ''.'' # b"
    by (simp add: Float64 millionths_def Let_def n_def a_def b_def)
  moreover have "a \<noteq> []" "CHR ''.'' \<notin> set a" "hd a = CHR ''0'' \<longrightarrow> tl a = []" "hd a \<noteq> CHR ''-''"
    using natDigits_head(1) natDigits_no_point natDigits_lead hd_in_set unfolding a_def by metis+
  moreover from b(2) have "b \<noteq> []" by auto
  ultimately have "readNumber (fmtF x) = Some (DFloat neg n 6)" using readNumber_point [of a b neg] b(2) by simp
  then show ?thesis by (simp add: Float64 n_def)
qed

lemma itoa_start: "take 1 (itoa i) \<noteq> [DQ]" "take 2 (itoa i) \<noteq> [CHR ''['', DQ]" "itoa i \<noteq> ''true''" "itoa i \<noteq> ''false''"
  "take 1 (fmtF x) \<noteq> [DQ]" "take 2 (fmtF x) \<noteq> [CHR ''['', DQ]" "fmtF x \<noteq> ''true''" "fmtF x \<noteq> ''false''"
proof -
  have start: "s = c # cs \<Longrightarrow> c \<notin> {DQ, CHR ''['', CHR ''t'', CHR ''f''} \<Longrightarrow>
    take 1 s \<noteq> [DQ] \<and> take 2 s \<noteq> [CHR ''['', DQ] \<and> s \<noteq> ''true'' \<and> s \<noteq> ''false''" for s c cs by auto
  have digit: "\<exists>c cs. natDigits n @ r = c # cs \<and> c \<notin> {DQ, CHR ''['', CHR ''t'', CHR ''f''}" for n r
    using natDigits_hd [of n] digitChar_code by (force simp: DQ_def)
  have "\<exists>c cs. itoa i = c # cs \<and> c \<notin> {DQ, CHR ''['', CHR ''t'', CHR ''f''}"
    using digit [of _ "[]"] by (auto simp: itoa_def DQ_def)
  moreover have "\<exists>c cs. fmtF x = c # cs \<and> c \<notin> {DQ, CHR ''['', CHR ''t'', CHR ''f''}"
    using digit by (cases x) (auto simp: Let_def DQ_def)
  ultimately show "take 1 (itoa i) \<noteq> [DQ]" "take 2 (itoa i) \<noteq> [CHR ''['', DQ]" "itoa i \<noteq> ''true''" "itoa i \<noteq> ''false''"
    "take 1 (fmtF x) \<noteq> [DQ]" "take 2 (fmtF x) \<noteq> [CHR ''['', DQ]" "fmtF x \<noteq> ''true''" "fmtF x \<noteq> ''false''"
    using start by blast+
qed

lemma readDatum_rendered: "plainValue p v \<Longrightarrow> readDatum (renderValue p v) = Some (meaning v)"
proof (cases v)
  case (Quoted s)
  then show "plainValue p v \<Longrightarrow> ?thesis"
    using readBody_quoted [of p s "[]"] by (simp add: readDatum_def renderValue.simps quote_def)
next
  case (JoinedArray xs)
  then show "plainValue p v \<Longrightarrow> ?thesis"
    using readElems_joined [of xs] by (simp add: readDatum_def renderValue.simps DQ_def)
qed (simp_all only: readDatum_def renderValue.simps itoa_start if_False readNumber_int readNumber_float meaning.simps,
    simp add: formatBool_def DQ_def)

subsection \<open>Lines and the file\<close>

fun lineOf :: "tomlItem \<Rightarrow> tomlLine list" where
  "lineOf (Header b n) = (if b then [Blank] else []) @ [Table n]"
| "lineOf (Entry k v) = [Assign k (meaning v)]"

text \<open>The tables of the file. Those with a dot are inside another, so their last name is no key.\<close>

definition configTables :: "string set" where
  "configTables =
     {''info'', ''info.quote_ttl'', ''info.http_cache'', ''info.logging'', ''mint_info'', ''database'',
      ''database.postgres'', ''auth_database.postgres'', ''ln'', ''lnd'', ''cln'', ''lnbits'', ''fake_wallet'',
      ''grpc_processor'', ''ldk_node'', ''auth'', ''mint_management_rpc'', ''limits'', ''prometheus''}"

definition subtables :: "string list" where
  "subtables = [''quote_ttl'', ''http_cache'', ''logging'', ''postgres'']"

fun wellNamed :: "tomlItem \<Rightarrow> bool" where
  "wellNamed (Header b n) = tableName n"
| "wellNamed (Entry k v) = (bareKey k \<and> k \<notin> set subtables)"

lemma bareChar_not: "bareChar c \<Longrightarrow> c \<noteq> NL \<and> c \<noteq> CHR '' '' \<and> c \<noteq> CHR ''['' \<and> c \<noteq> CHR '']''"
  by (auto simp: bareChar_def NL_def)

lemma bareKey_chars:
  assumes "bareKey k"
  shows "CHR '' '' \<notin> set k" "NL \<notin> set k" "hd k \<noteq> CHR ''[''" "k \<noteq> []"
  using assms bareChar_not by (cases k; auto simp: bareKey_def list_all_iff)+

lemma tableName_NL: "tableName n \<Longrightarrow> NL \<notin> set n"
proof (induction n rule: tableName.induct)
  case (2 c cs)
  then have "c \<noteq> NL" using bareChar_not [of c] by simp
  moreover have "NL \<noteq> CHR ''.''" by (simp add: NL_def)
  ultimately show ?case using 2 by (cases cs) (simp_all split: if_splits)
qed simp

lemma rawString_NL: "rawString s \<Longrightarrow> NL \<notin> set s"
proof (induction s rule: rawString.induct)
  case (2 c cs)
  obtain r n where d: "decodeRune (c # cs) = (r, n)" by fastforce
  with 2(2) have ok: "n = 1 \<longrightarrow> rawASCII c" and "rawString (drop (n - 1) cs)" by (simp_all add: rawString.simps Let_def)
  with 2(1) [OF refl] d have rest: "NL \<notin> set (drop (n - 1) cs)" by simp
  have n: "n \<noteq> 0" using decodeRune_prefix(2) [OF d] by (cases "n = 1") auto
  have "NL \<notin> set (take n (c # cs))"
  proof (cases "n = 1")
    case True
    with ok show ?thesis by (auto simp: rawASCII_def NL_def Let_def)
  next
    case False
    from decodeRune_prefix(4) [OF d False] show ?thesis by (auto simp: NL_def)
  qed
  moreover have "c # cs = take n (c # cs) @ drop (n - 1) cs" using n by (cases n) simp_all
  ultimately show ?case using rest by (metis Un_iff set_append)
qed simp

lemma rendered_NL: "plainValue p v \<Longrightarrow> NL \<notin> set (renderValue p v)"
  using joinStr_NL [of "[DQ, CHR '','', CHR '' '', DQ]"] rawString_NL
  by (cases v) (auto simp: renderValue.simps list_all_iff)

lemma splitLines_line: "NL \<notin> set l \<Longrightarrow> splitLines (l @ NL # rest) = l # splitLines rest"
  by (induction l) auto

lemma take_space:
  "CHR '' '' \<notin> set k \<Longrightarrow> takeWhile (\<lambda>x. x \<noteq> CHR '' '') (k @ CHR '' '' # r) = k"
  "CHR '' '' \<notin> set k \<Longrightarrow> dropWhile (\<lambda>x. x \<noteq> CHR '' '') (k @ CHR '' '' # r) = CHR '' '' # r"
  by (induction k) auto

lemma readLine_table: "tableName n \<Longrightarrow> readLine (''['' @ n @ '']'') = Some (Table n)"
  by (simp add: readLine_def)

lemma readLine_entry:
  assumes "bareKey k" and "plainValue p v"
  shows "readLine (k @ '' = '' @ renderValue p v) = Some (Assign k (meaning v))"
  using bareKey_chars [OF assms(1)] assms readDatum_rendered [OF assms(2)]
  by (simp add: readLine_def Let_def take_space)

lemma readLines_rendered:
  assumes "list_all wellNamed items" and "plainItems p items"
  shows "those (map readLine (splitLines (renderItems p items))) = Some (concat (map lineOf items))"
  using assms
proof (induction items)
  case Nil
  then show ?case by (simp add: renderItems_def)
next
  case (Cons it items)
  then have rest: "those (map readLine (splitLines (renderItems p items))) = Some (concat (map lineOf items))"
    by (simp add: plainItems_def)
  show ?case
  proof (cases it)
    case (Header b n)
    with Cons.prems have n: "tableName n" by simp
    have "splitLines ((''['' @ n @ '']'') @ NL # r) = (''['' @ n @ '']'') # splitLines r" for r
      by (rule splitLines_line) (use tableName_NL [OF n] in \<open>simp add: NL_def\<close>)
    with rest readLine_table [OF n] show ?thesis
      by (simp add: Header renderItems_def readLine_def [of "[]"])
  next
    case (Entry k v)
    with Cons.prems have k: "bareKey k" and v: "plainValue p v" by (simp_all add: plainItems_def)
    have "splitLines ((k @ '' = '' @ renderValue p v) @ NL # r) = (k @ '' = '' @ renderValue p v) # splitLines r" for r
      by (rule splitLines_line) (use bareKey_chars(2) [OF k] rendered_NL [OF v] in \<open>simp add: NL_def\<close>)
    with rest readLine_entry [OF k v] show ?thesis by (simp add: Entry renderItems_def)
  qed
qed

lemma assigned_lines: "assigned sec (concat (map lineOf items)) = map (\<lambda>(s, k, v). (s, k, meaning v)) (entriesOf sec items)"
  by (induction sec items rule: entriesOf.induct) simp_all

lemma tables_lines: "tables (concat (map lineOf items)) = headersOf items"
  by (induction items rule: headersOf.induct) simp_all

lemma wellNamed_parts:
  assumes "bareKey k \<and> k \<notin> set subtables"
  shows "list_all wellNamed (strEntry k s)" "list_all wellNamed (intEntry k i)"
    "list_all wellNamed (boolEntry k b)" "list_all wellNamed (floatEntry k x)"
  using assms by (simp_all add: strEntry_def intEntry_def boolEntry_def floatEntry_def)

lemma wellNamed_config: "list_all wellNamed (configItems m pw)"
  unfolding configItems_def write_defs Let_def list_all_append
  by (simp add: wellNamed_parts bareKey_def bareChar_def subtables_def)

lemma keysOK_configTables: "keysOK configTables (configItems m pw)"
proof -
  have "keysOK ({''info'', ''info.quote_ttl'', ''info.http_cache'', ''info.logging''} \<union> ({''mint_info''} \<union>
      ({''database'', ''database.postgres'', ''auth_database.postgres''} \<union> (({''ln''} \<union> backendSections) \<union>
      ({''ldk_node''} \<union> ({''auth''} \<union> ({''mint_management_rpc''} \<union> ({''limits''} \<union> {''prometheus''}))))))))
      (configItems m pw)"
    unfolding configItems_def
    by (intro keysOK_append keysOK_info keysOK_database keysOK_payment keysOK_simple_sections)
       (simp_all add: backendSections_def)
  then show ?thesis by (rule keysOK_mono) (simp add: backendSections_def configTables_def)
qed

lemma entries_named: "list_all wellNamed items \<Longrightarrow> (s, k, v) \<in> set (entriesOf sec items) \<Longrightarrow> bareKey k \<and> k \<notin> set subtables"
  by (induction sec items rule: entriesOf.induct) auto

lemma after_point:
  assumes "CHR ''.'' \<notin> set k" and "CHR ''.'' \<notin> set q" and "s @ CHR ''.'' # k = p @ CHR ''.'' # q"
  shows "k = q"
proof -
  have last: "takeWhile (\<lambda>c. c \<noteq> CHR ''.'') (rev (s @ CHR ''.'' # k)) = rev k" if "CHR ''.'' \<notin> set k" for s k
    using that take_point(1) [of "rev k" "rev s"] by simp
  from last [OF assms(1), of s] last [OF assms(2), of p] assms(3) show ?thesis by simp
qed

lemma config_no_key_table:
  assumes "(s, k, v) \<in> set (entriesOf '''' (configItems m pw))"
  shows "s \<noteq> ''''" and "s @ ''.'' @ k \<notin> configTables"
proof -
  note ok = keysOK_configTables [of m pw]
  from assms have "(s, k) \<in> set (keysIn '''' (configItems m pw))" by (force simp: keysIn_def)
  with ok have "s \<in> configTables" by (force simp: keysOK_def)
  then show "s \<noteq> ''''" by (auto simp: configTables_def)
  from entries_named [OF wellNamed_config assms] have k: "bareKey k" "k \<notin> set subtables" by simp_all
  then have "CHR ''.'' \<notin> set k" by (auto simp: bareKey_def bareChar_def list_all_iff)
  then have split: "k = q" if "CHR ''.'' \<notin> set q" "s @ CHR ''.'' # k = p @ CHR ''.'' # q" for p q
    using after_point that by blast
  show "s @ ''.'' @ k \<notin> configTables"
  proof
    assume "s @ ''.'' @ k \<in> configTables"
    moreover have "s @ ''.'' @ k \<noteq> h" if "CHR ''.'' \<notin> set h" for h using that by auto
    ultimately have "s @ CHR ''.'' # k \<in> {''info'' @ CHR ''.'' # ''quote_ttl'', ''info'' @ CHR ''.'' # ''http_cache'',
        ''info'' @ CHR ''.'' # ''logging'', ''database'' @ CHR ''.'' # ''postgres'', ''auth_database'' @ CHR ''.'' # ''postgres''}"
      unfolding configTables_def by simp
    with k(2) show False
      using split [of "''quote_ttl''" "''info''"] split [of "''http_cache''" "''info''"] split [of "''logging''" "''info''"]
        split [of "''postgres''" "''database''"] split [of "''postgres''" "''auth_database''"]
      by (auto simp: subtables_def)
  qed
qed

text \<open>
  C9: for a mint whose strings need only escapes that Go and TOML share (printable characters, tabs,
  line feeds, carriage returns, form feeds and backspaces), and whose units and announced addresses,
  which the code does not escape, need none, the generated file is TOML: a strict reader accepts it,
  and finds exactly the entries the operator meant to write, in their tables and with their values;
  no table and no key is defined twice.
\<close>

theorem config_file_reads_back:
  assumes "plainItems p (configItems m pw)"
  shows "readToml (generateConfigToml p m pw) =
    Some (map (\<lambda>(s, k, v). (s, k, meaning v)) (entriesOf '''' (configItems m pw)))"
proof -
  let ?is = "configItems m pw"
  have "distinct (keysIn '''' ?is)" "distinct (headersOf ?is)" and tables: "set (headersOf ?is) \<subseteq> configTables"
    using keysOK_configTables [of m pw] by (simp_all add: keysOK_def)
  moreover have "map (\<lambda>(s, k, d). (s, k)) (map (\<lambda>(s, k, v). (s, k, meaning v)) (entriesOf '''' ?is)) = keysIn '''' ?is"
    by (simp add: keysIn_def case_prod_beta')
  moreover have "list_all (\<lambda>(s, k, d). (if s = '''' then k else s @ ''.'' @ k) \<notin> set (headersOf ?is))
      (map (\<lambda>(s, k, v). (s, k, meaning v)) (entriesOf '''' ?is))"
    using config_no_key_table tables by (fastforce simp: list_all_iff)
  ultimately show ?thesis
    unfolding readToml_def generateConfigToml_def readLines_rendered [OF wellNamed_config assms] option.case Let_def
      assigned_lines tables_lines by simp
qed

lemma plain_ASCII:
  "list_all plainASCII s \<Longrightarrow> plainString p s"
  "list_all (\<lambda>c. rawASCII c \<and> c \<noteq> DQ \<and> c \<noteq> BS) s \<Longrightarrow> rawString s"
proof -
  have "isASCII c" if "plainASCII c \<or> rawASCII c" for c
    using that by (auto simp: plainASCII_def rawASCII_def isASCII_def Let_def)
  then show "list_all plainASCII s \<Longrightarrow> plainString p s"
    "list_all (\<lambda>c. rawASCII c \<and> c \<noteq> DQ \<and> c \<noteq> BS) s \<Longrightarrow> rawString s"
    by (induction s) (simp_all add: plainString.simps rawString.simps decodeRune_ASCII)
qed

theorem config_file_reads_back_witness:
  "plainItems (\<lambda>_. True) (configItems sampleMinimal ''pw'')
   \<and> readToml (generateConfigToml (\<lambda>_. True) sampleMinimal ''pw'') =
     Some (map (\<lambda>(s, k, v). (s, k, meaning v)) (entriesOf '''' (configItems sampleMinimal ''pw'')))"
proof -
  have "plainItems (\<lambda>_. True) (configItems sampleMinimal ''pw'')"
    unfolding plainItems_def configItems_def write_defs Let_def
    by (simp add: sample_defs plain_ASCII plainASCII_def rawASCII_def DQ_def BS_def strEntry_def intEntry_def boolEntry_def
        listenHost_def orStr_def orList_def DefaultListenHost_def ActiveBackend_def sawBackend_def backend_defs)
  with config_file_reads_back [OF this] show ?thesis by blast
qed

end
