(* ===== verification/GenOrchard.thy ===== *)
theory GenOrchard
  imports GenConfig
begin

section \<open>The Orchard container\<close>

text \<open>
  The pod parts of \<^verbatim>\<open>orchard.go\<close>: Orchard's container with its environment and mounts, and the
  volumes it adds to the mint's pod. Its service, ingress and volume claim are in
  \<^verbatim>\<open>GenNetwork\<close>. \<^verbatim>\<open>GenerateOrchardContainer\<close> and \<^verbatim>\<open>generateOrchardEnvironmentVariables\<close> read
  \<^verbatim>\<open>mint.Spec.Orchard\<close> without a nil check, because they are called only when Orchard is enabled;
  here they take that configuration as an argument.
\<close>

definition orchardDataDir :: string where "orchardDataDir = ''/app/data''"
definition orchardTmpDir :: string where "orchardTmpDir = ''/app/data/tmp''"
definition orchardMintDataDir :: string where "orchardMintDataDir = ''/mnt/mint''"
definition orchardMintSQLitePath :: string where "orchardMintSQLitePath = ''/mnt/mint/cdk-mintd.sqlite''"
definition orchardLightningMacaroonPath :: string where
  "orchardLightningMacaroonPath = ''/secrets/orchard/lightning/macaroon''"
definition orchardLightningCertPath :: string where
  "orchardLightningCertPath = ''/secrets/orchard/lightning/cert''"
definition orchardLightningKeyPath :: string where
  "orchardLightningKeyPath = ''/secrets/orchard/lightning/key''"
definition orchardLightningCAPath :: string where
  "orchardLightningCAPath = ''/secrets/orchard/lightning/ca''"
definition orchardTaprootMacaroonPath :: string where
  "orchardTaprootMacaroonPath = ''/secrets/orchard/taproot/macaroon''"
definition orchardTaprootCertPath :: string where
  "orchardTaprootCertPath = ''/secrets/orchard/taproot/cert''"
definition orchardDataVolumeName :: string where "orchardDataVolumeName = ''orchard-data''"
definition orchardTmpVolumeName :: string where "orchardTmpVolumeName = ''orchard-tmp''"
definition orchardLightningMacaroonVolumeName :: string where
  "orchardLightningMacaroonVolumeName = ''orchard-lightning-macaroon''"
definition orchardLightningCertVolumeName :: string where
  "orchardLightningCertVolumeName = ''orchard-lightning-cert''"
definition orchardLightningKeyVolumeName :: string where
  "orchardLightningKeyVolumeName = ''orchard-lightning-key''"
definition orchardLightningCAVolumeName :: string where
  "orchardLightningCAVolumeName = ''orchard-lightning-ca''"
definition orchardTaprootMacaroonVolumeName :: string where
  "orchardTaprootMacaroonVolumeName = ''orchard-taproot-macaroon''"
definition orchardTaprootCertVolumeName :: string where
  "orchardTaprootCertVolumeName = ''orchard-taproot-cert''"
definition managementRPCTLSVolumeName :: string where
  "managementRPCTLSVolumeName = ''management-rpc-tls''"

lemmas orchard_volume_names =
  orchardDataVolumeName_def orchardTmpVolumeName_def orchardLightningMacaroonVolumeName_def
  orchardLightningCertVolumeName_def orchardLightningKeyVolumeName_def orchardLightningCAVolumeName_def
  orchardTaprootMacaroonVolumeName_def orchardTaprootCertVolumeName_def managementRPCTLSVolumeName_def

subsection \<open>How Orchard reaches the mint\<close>

definition orchardMintConfig :: "CashuMint \<Rightarrow> OrchardMintConfig option" where
  "orchardMintConfig mint = Option.bind (cms_Orchard (cm_Spec mint)) oc_Mint"

definition orchardMintRPC :: "CashuMint \<Rightarrow> OrchardMintRPCConfig option" where
  "orchardMintRPC mint = Option.bind (orchardMintConfig mint) omc_RPC"

definition orchardMintType :: "CashuMint \<Rightarrow> string" where
  "orchardMintType mint =
     (case orchardMintConfig mint of
        Some c \<Rightarrow> if omc_Type c \<noteq> '''' then omc_Type c else ''cdk''
      | None \<Rightarrow> ''cdk'')"

definition orchardMintAPI :: "CashuMint \<Rightarrow> string" where
  "orchardMintAPI mint =
     (let fallback = ''http://'' @ DefaultLoopbackHost @ '':'' @ itoa (listenPort mint) in
      case orchardMintConfig mint of
        Some c \<Rightarrow> if omc_API c \<noteq> '''' then omc_API c else fallback
      | None \<Rightarrow> fallback)"

definition orchardMintRPCHost :: "CashuMint \<Rightarrow> string" where
  "orchardMintRPCHost mint =
     (case orchardMintRPC mint of
        Some c \<Rightarrow> if omr_Host c \<noteq> '''' then omr_Host c else DefaultLoopbackHost
      | None \<Rightarrow> DefaultLoopbackHost)"

definition orchardMintRPCPort :: "CashuMint \<Rightarrow> int32" where
  "orchardMintRPCPort mint =
     (if optP (\<lambda>c. omr_Port c \<noteq> 0) (orchardMintRPC mint) then omr_Port (the (orchardMintRPC mint))
      else if optP (\<lambda>c. mr_Port c \<noteq> 0) (cms_ManagementRPC (cm_Spec mint))
      then mr_Port (the (cms_ManagementRPC (cm_Spec mint)))
      else 8086)"

definition orchardMintRPCMTLS :: "CashuMint \<Rightarrow> bool" where
  "orchardMintRPCMTLS mint =
     (case Option.bind (orchardMintRPC mint) omr_MTLS of
        Some b \<Rightarrow> b
      | None \<Rightarrow> ManagementRPCTLSEnabled (cm_Spec mint))"

definition orchardSpecifiesMintDatabaseTLS :: "OrchardConfig \<Rightarrow> bool" where
  "orchardSpecifiesMintDatabaseTLS o' =
     optP (\<lambda>c. omc_DatabaseCASecretRef c \<noteq> None \<or> omc_DatabaseCertSecretRef c \<noteq> None
               \<or> omc_DatabaseKeySecretRef c \<noteq> None) (oc_Mint o')"

definition generateOrchardMintDatabaseEnvVar :: "CashuMint \<Rightarrow> EnvVar option" where
  "generateOrchardMintDatabaseEnvVar mint =
     (let d = cms_Database (cm_Spec mint) in
      if optP (\<lambda>c. omc_Database c \<noteq> '''') (orchardMintConfig mint)
      then Some (envValue ''MINT_DATABASE'' (omc_Database (the (orchardMintConfig mint))))
      else if db_Engine d = DatabaseEngineSQLite
      then Some (envValue ''MINT_DATABASE'' orchardMintSQLitePath)
      else if db_Engine d = DatabaseEnginePostgres then
        (case db_Postgres d of
           None \<Rightarrow> None
         | Some pg \<Rightarrow>
             if pg_AutoProvision pg
             then Some (envSecret ''MINT_DATABASE''
                          (newSelector (mintName mint @ ''-postgres-secret'') ''database-url''))
             else if pg_URLSecretRef pg \<noteq> None
             then Some (envSecretPtr ''MINT_DATABASE'' (pg_URLSecretRef pg))
             else if pg_URL pg \<noteq> '''' then Some (envValue ''MINT_DATABASE'' (pg_URL pg))
             else None)
      else None)"

subsection \<open>Environment\<close>

definition orchardLightningEnvVars :: "OrchardLightningConfig \<Rightarrow> EnvVar list" where
  "orchardLightningEnvVars l =
     [envValue ''LIGHTNING_TYPE'' (ol_Type l),
      envValue ''LIGHTNING_RPC_HOST'' (ol_RPCHost l),
      envValue ''LIGHTNING_RPC_PORT'' (itoa (ol_RPCPort l))]
     @ whenL (ol_MacaroonSecretRef l \<noteq> None) [envValue ''LIGHTNING_MACAROON'' orchardLightningMacaroonPath]
     @ whenL (ol_CertSecretRef l \<noteq> None) [envValue ''LIGHTNING_CERT'' orchardLightningCertPath]
     @ whenL (ol_KeySecretRef l \<noteq> None) [envValue ''LIGHTNING_KEY'' orchardLightningKeyPath]
     @ whenL (ol_CASecretRef l \<noteq> None) [envValue ''LIGHTNING_CA'' orchardLightningCAPath]"

definition orchardTaprootEnvVars :: "OrchardTaprootAssetsConfig \<Rightarrow> EnvVar list" where
  "orchardTaprootEnvVars t =
     [envValue ''TAPROOT_ASSETS_TYPE'' (ota_Type t),
      envValue ''TAPROOT_ASSETS_RPC_HOST'' (ota_RPCHost t),
      envValue ''TAPROOT_ASSETS_RPC_PORT'' (itoa (ota_RPCPort t))]
     @ whenL (ota_MacaroonSecretRef t \<noteq> None) [envValue ''TAPROOT_ASSETS_MACAROON'' orchardTaprootMacaroonPath]
     @ whenL (ota_CertSecretRef t \<noteq> None) [envValue ''TAPROOT_ASSETS_CERT'' orchardTaprootCertPath]"

definition generateOrchardEnvironmentVariables :: "CashuMint \<Rightarrow> OrchardConfig \<Rightarrow> EnvVar list" where
  "generateOrchardEnvironmentVariables mint orchard =
     [envValue ''NODE_ENV'' ''production'',
      envValue ''SERVER_HOST'' (oc_Host orchard),
      envValue ''SERVER_PORT'' (itoa (orchardPort mint)),
      envValue ''BASE_PATH'' (oc_BasePath orchard),
      envValue ''LOG_LEVEL'' (oc_LogLevel orchard),
      envValue ''DATABASE_DIR'' orchardDataDir,
      envValue ''MINT_TYPE'' (orchardMintType mint),
      envValue ''MINT_API'' (orchardMintAPI mint),
      envValue ''MINT_RPC_HOST'' (orchardMintRPCHost mint),
      envValue ''MINT_RPC_PORT'' (itoa (orchardMintRPCPort mint)),
      envValue ''MINT_RPC_MTLS'' (formatBool (orchardMintRPCMTLS mint)),
      envSecretPtr ''SETUP_KEY'' (oc_SetupKeySecretRef orchard)]
     @ optL (oc_ThrottleTTL orchard) (\<lambda>n. [envValue ''THROTTLE_TTL'' (itoa n)])
     @ optL (oc_ThrottleLimit orchard) (\<lambda>n. [envValue ''THROTTLE_LIMIT'' (itoa n)])
     @ whenL (oc_Proxy orchard \<noteq> '''') [envValue ''TOR_PROXY_SERVER'' (oc_Proxy orchard)]
     @ optL (oc_Compression orchard) (\<lambda>b. [envValue ''SERVER_COMPRESSION'' (formatBool b)])
     @ optL (generateOrchardMintDatabaseEnvVar mint) (\<lambda>e. [e])
     @ whenL (orchardSpecifiesMintDatabaseTLS orchard) (optL (oc_Mint orchard) (\<lambda>c.
         optL (omc_DatabaseCASecretRef c) (\<lambda>r. [envSecret ''MINT_DATABASE_CA'' r])
         @ optL (omc_DatabaseCertSecretRef c) (\<lambda>r. [envSecret ''MINT_DATABASE_CERT'' r])
         @ optL (omc_DatabaseKeySecretRef c) (\<lambda>r. [envSecret ''MINT_DATABASE_KEY'' r])))
     @ whenL (orchardMintRPCMTLS mint)
         [envValue ''MINT_RPC_KEY'' (orchardManagementRPCTLSMountPath @ ''/client.key''),
          envValue ''MINT_RPC_CERT'' (orchardManagementRPCTLSMountPath @ ''/client.pem''),
          envValue ''MINT_RPC_CA'' (orchardManagementRPCTLSMountPath @ ''/ca.pem'')]
     @ optL (oc_Bitcoin orchard) (\<lambda>b.
         [envValue ''BITCOIN_TYPE'' (ob_Type b),
          envValue ''BITCOIN_RPC_HOST'' (ob_RPCHost b),
          envValue ''BITCOIN_RPC_PORT'' (itoa (ob_RPCPort b)),
          envSecretPtr ''BITCOIN_RPC_USER'' (ob_RPCUserSecretRef b),
          envSecretPtr ''BITCOIN_RPC_PASSWORD'' (ob_RPCPasswordSecretRef b)])
     @ optL (oc_Lightning orchard) orchardLightningEnvVars
     @ optL (oc_TaprootAssets orchard) orchardTaprootEnvVars
     @ optL (oc_AI orchard) (\<lambda>a. [envValue ''AI_API'' (oai_API a)])
     @ oc_ExtraEnv orchard"

subsection \<open>Mounts and volumes\<close>

definition secretMount :: "string \<Rightarrow> string \<Rightarrow> SecretKeySelector option \<Rightarrow> VolumeMount list" where
  "secretMount name path ref = optL ref (\<lambda>r. [newMount name path (sks_Key r) True])"

definition secretVolume :: "string \<Rightarrow> SecretKeySelector option \<Rightarrow> Volume list" where
  "secretVolume name ref = optL ref (\<lambda>r. [newVolume name (SecretSource (sks_Name r))])"

definition generateOrchardVolumeMounts :: "CashuMint \<Rightarrow> VolumeMount list" where
  "generateOrchardVolumeMounts mint =
     [newMount orchardDataVolumeName orchardDataDir '''' False,
      newMount orchardTmpVolumeName orchardTmpDir '''' False,
      newMount ''data'' orchardMintDataDir '''' False]
     @ whenL (orchardMintRPCMTLS mint)
         [newMount managementRPCTLSVolumeName orchardManagementRPCTLSMountPath '''' True]
     @ optL (cms_Orchard (cm_Spec mint)) (\<lambda>orchard.
         optL (oc_Lightning orchard) (\<lambda>l.
           secretMount orchardLightningMacaroonVolumeName orchardLightningMacaroonPath (ol_MacaroonSecretRef l)
           @ secretMount orchardLightningCertVolumeName orchardLightningCertPath (ol_CertSecretRef l)
           @ secretMount orchardLightningKeyVolumeName orchardLightningKeyPath (ol_KeySecretRef l)
           @ secretMount orchardLightningCAVolumeName orchardLightningCAPath (ol_CASecretRef l))
         @ optL (oc_TaprootAssets orchard) (\<lambda>t.
           secretMount orchardTaprootMacaroonVolumeName orchardTaprootMacaroonPath (ota_MacaroonSecretRef t)
           @ secretMount orchardTaprootCertVolumeName orchardTaprootCertPath (ota_CertSecretRef t)))"

definition GenerateOrchardVolumes :: "CashuMint \<Rightarrow> Volume list" where
  "GenerateOrchardVolumes mint =
     (if \<not> orchardEnabled mint then []
      else
        [newVolume orchardDataVolumeName (PVCSource (orchardPVCName mint)),
         newVolume orchardTmpVolumeName EmptyDirSource]
        @ optL (cms_Orchard (cm_Spec mint)) (\<lambda>orchard.
            optL (oc_Lightning orchard) (\<lambda>l.
              secretVolume orchardLightningMacaroonVolumeName (ol_MacaroonSecretRef l)
              @ secretVolume orchardLightningCertVolumeName (ol_CertSecretRef l)
              @ secretVolume orchardLightningKeyVolumeName (ol_KeySecretRef l)
              @ secretVolume orchardLightningCAVolumeName (ol_CASecretRef l))
            @ optL (oc_TaprootAssets orchard) (\<lambda>t.
              secretVolume orchardTaprootMacaroonVolumeName (ota_MacaroonSecretRef t)
              @ secretVolume orchardTaprootCertVolumeName (ota_CertSecretRef t))))"

subsection \<open>The container\<close>

definition getOrchardResourceRequirements :: "OrchardConfig \<Rightarrow> ResourceRequirements" where
  "getOrchardResourceRequirements orchard = derefOr (oc_Resources orchard)
     \<lparr> rr_Limits = [(''cpu'', ''500m''), (''memory'', ''512Mi'')],
       rr_Requests = [(''cpu'', ''100m''), (''memory'', ''128Mi'')], rr_Claims = '''' \<rparr>"

definition getOrchardContainerSecurityContext :: "OrchardConfig \<Rightarrow> SecurityContext" where
  "getOrchardContainerSecurityContext orchard = derefOr (oc_ContainerSecurityContext orchard)
     (emptySecurityContext\<lparr> sc_AllowPrivilegeEscalation := Some False,
        sc_ReadOnlyRootFilesystem := Some False, sc_RunAsNonRoot := Some False,
        sc_RunAsUser := Some 0,
        sc_Capabilities := Some \<lparr> cap_Add = [], cap_Drop = [''ALL''] \<rparr> \<rparr>)"

definition GenerateOrchardContainer :: "CashuMint \<Rightarrow> OrchardConfig \<Rightarrow> Container" where
  "GenerateOrchardContainer mint orchard =
     (newContainer orchardStr
        (orStr (oc_Image orchard) (DefaultOrchardImage (db_Engine (cms_Database (cm_Spec mint))))))
     \<lparr> c_ImagePullPolicy := orStr (oc_ImagePullPolicy orchard) ''IfNotPresent'',
       c_Ports := [tcpPort orchardStr (orInt (oc_Port orchard) orchardPortDefault)],
       c_Env := generateOrchardEnvironmentVariables mint orchard,
       c_VolumeMounts := generateOrchardVolumeMounts mint,
       c_Resources := getOrchardResourceRequirements orchard,
       c_LivenessProbe := Some \<lparr> pr_Handler = TCPSocket (FromString orchardStr),
          pr_InitialDelaySeconds = 30, pr_PeriodSeconds = 30, pr_TimeoutSeconds = 5,
          pr_SuccessThreshold = 0, pr_FailureThreshold = 3 \<rparr>,
       c_ReadinessProbe := Some \<lparr> pr_Handler = TCPSocket (FromString orchardStr),
          pr_InitialDelaySeconds = 10, pr_PeriodSeconds = 10, pr_TimeoutSeconds = 5,
          pr_SuccessThreshold = 0, pr_FailureThreshold = 3 \<rparr>,
       c_SecurityContext := Some (getOrchardContainerSecurityContext orchard) \<rparr>"

end
