(* ===== verification/GenNetwork.thy ===== *)
theory GenNetwork
  imports GenBase
begin

section \<open>Services, ingresses, certificates, pod monitors, volume claims\<close>

text \<open>
  \<^verbatim>\<open>service.go\<close>, \<^verbatim>\<open>ingress.go\<close>, \<^verbatim>\<open>certificate.go\<close>, \<^verbatim>\<open>podmonitor.go\<close>, \<^verbatim>\<open>pvc.go\<close>, and the
  service, ingress and volume claim of \<^verbatim>\<open>orchard.go\<close>. Each generator is its guard, the object
  literal it builds, and the common ending \<open>finish\<close>.
\<close>

subsection \<open>Mint service\<close>

definition tcpServicePort :: "string \<Rightarrow> int32 \<Rightarrow> IntOrString \<Rightarrow> ServicePort" where
  "tcpServicePort name p target =
     \<lparr> sp_Name = name, sp_Port = p, sp_TargetPort = target, sp_Protocol = ''TCP'' \<rparr>"

lemma tcpServicePort_simps [simp, gen_simps]:
  "sp_Name (tcpServicePort n p t) = n" "sp_Port (tcpServicePort n p t) = p"
  "sp_TargetPort (tcpServicePort n p t) = t"
  by (simp_all add: tcpServicePort_def)

definition serviceType :: "ServiceConfig option \<Rightarrow> string" where
  "serviceType c = (case c of None \<Rightarrow> ''ClusterIP'' | Some v \<Rightarrow> orStr (svcc_Type v) ''ClusterIP'')"

definition servicePorts :: "CashuMint \<Rightarrow> ServicePort list" where
  "servicePorts mint =
     (let s = cm_Spec mint in
      [tcpServicePort ''api'' (listenPort mint) (FromString ''api'')]
      @ (if ldkEnabled mint then
           optL (cms_LDKNode s) (\<lambda>l.
             [tcpServicePort ''ldk'' (orInt (ldk_Port l) 8090) (FromString ''ldk''),
              tcpServicePort ''ldk-webserver'' (orInt (ldk_WebserverPort l) 8888) (FromString ''webserver'')])
         else [])
      @ (if rpcEnabled mint then
           optL (cms_ManagementRPC s) (\<lambda>c. let mgmtPort = orInt (mr_Port c) 8086 in
             [tcpServicePort ''management'' mgmtPort (FromInt mgmtPort)])
         else [])
      @ (if prometheusEnabled mint then
           optL (cms_Prometheus s) (\<lambda>c.
             [tcpServicePort prometheusMetricsPortName (metricsPort c) (FromString prometheusMetricsPortName)])
         else []))"

definition serviceAnnotations :: "ServiceConfig option \<Rightarrow> strmap" where
  "serviceAnnotations c = (case c of None \<Rightarrow> Map.empty | Some v \<Rightarrow> svcc_Annotations v)"

definition loadBalancerIP :: "ServiceConfig option \<Rightarrow> string" where
  "loadBalancerIP c =
     (if serviceType c = ''LoadBalancer'' then (case c of None \<Rightarrow> '''' | Some v \<Rightarrow> svcc_LoadBalancerIP v)
      else '''')"

definition mintService :: "CashuMint \<Rightarrow> Service" where
  "mintService mint =
     (let cfg = cms_Service (cm_Spec mint) in
      \<lparr> svc_TypeMeta = typeMeta ''v1'' ''Service'',
        svc_Meta = newMeta (mintName mint) (mintNamespace mint) (mintSelectorLabels mint)
                     (serviceAnnotations cfg),
        svc_Type = serviceType cfg,
        svc_Selector = mintSelectorLabels mint,
        svc_Ports = servicePorts mint,
        svc_ClusterIP = '''',
        svc_LoadBalancerIP = loadBalancerIP cfg \<rparr>)"

definition GenerateService :: "ext \<Rightarrow> CashuMint \<Rightarrow> Service option result" where
  "GenerateService X mint = finish X mint svc_Meta svc_Meta_update (mintService mint)"

subsection \<open>Orchard service\<close>

definition orchardServiceConfig :: "CashuMint \<Rightarrow> ServiceConfig option" where
  "orchardServiceConfig mint = Option.bind (cms_Orchard (cm_Spec mint)) oc_Service"

definition orchardService :: "CashuMint \<Rightarrow> Service" where
  "orchardService mint =
     (let cfg = orchardServiceConfig mint in
      \<lparr> svc_TypeMeta = typeMeta ''v1'' ''Service'',
        svc_Meta = newMeta (orchardResourceName mint) (mintNamespace mint) (orchardLabels mint)
                     (serviceAnnotations cfg),
        svc_Type = serviceType cfg,
        svc_Selector = mintSelectorLabels mint,
        svc_Ports = [tcpServicePort orchardStr (orchardPort mint) (FromString orchardStr)],
        svc_ClusterIP = '''',
        svc_LoadBalancerIP = loadBalancerIP cfg \<rparr>)"

definition GenerateOrchardService :: "ext \<Rightarrow> CashuMint \<Rightarrow> Service option result" where
  "GenerateOrchardService X mint =
     (if \<not> orchardEnabled mint then Ok None
      else finish X mint svc_Meta svc_Meta_update (orchardService mint))"

subsection \<open>Ingresses\<close>

text \<open>\<^verbatim>\<open>TLS != nil && TLS.Enabled && TLS.CertManager != nil && TLS.CertManager.Enabled\<close>.\<close>

definition tlsOn :: "IngressConfig \<Rightarrow> bool" where
  "tlsOn i = optP itc_Enabled (ic_TLS i)"

definition certManager :: "IngressConfig \<Rightarrow> CertManagerConfig option" where
  "certManager i =
     (case ic_TLS i of
        Some t \<Rightarrow> (if itc_Enabled t \<and> optP cmc_Enabled (itc_CertManager t) then itc_CertManager t else None)
      | None \<Rightarrow> None)"

definition issuerKind :: "CertManagerConfig \<Rightarrow> string" where
  "issuerKind c = orStr (cmc_IssuerKind c) DefaultClusterIssuerKind"

definition ingressAnnotations :: "IngressConfig \<Rightarrow> strmap" where
  "ingressAnnotations i =
     (let defaults =
            [''nginx.ingress.kubernetes.io/ssl-redirect'' \<mapsto> trueStr,
             ''nginx.ingress.kubernetes.io/backend-protocol'' \<mapsto> ''HTTP'',
             ''nginx.ingress.kubernetes.io/enable-cors'' \<mapsto> trueStr,
             ''nginx.ingress.kubernetes.io/cors-allow-origin'' \<mapsto> ''*''];
          withIssuer = (case certManager i of
             None \<Rightarrow> defaults
           | Some c \<Rightarrow> defaults(''cert-manager.io/issuer'' \<mapsto> cmc_IssuerName c,
                                ''cert-manager.io/issuer-kind'' \<mapsto> issuerKind c))
      in withIssuer ++ ic_Annotations i)"

definition tlsSecretName :: "IngressConfig \<Rightarrow> string \<Rightarrow> string" where
  "tlsSecretName i base =
     (case ic_TLS i of
        Some t \<Rightarrow> orStr (itc_SecretName t) (base @ ''-tls'')
      | None \<Rightarrow> base @ ''-tls'')"

text \<open>The \<^verbatim>\<open>Ingress\<close> literal of \<^verbatim>\<open>GenerateIngress\<close> and \<^verbatim>\<open>GenerateOrchardIngress\<close>, which differ in
  the name, the labels and the port.\<close>

definition ingressObject :: "string \<Rightarrow> string \<Rightarrow> strmap \<Rightarrow> IngressConfig \<Rightarrow> int32 \<Rightarrow> Ingress" where
  "ingressObject name ns labels i port =
     \<lparr> ing_TypeMeta = typeMeta ''networking.k8s.io/v1'' ''Ingress'',
       ing_Meta = newMeta name ns labels (ingressAnnotations i),
       ing_ClassName = orStr (ic_ClassName i) DefaultIngressClassName,
       ing_Rules = [\<lparr> ir_Host = ic_Host i,
                      ir_Paths = [\<lparr> ip_Path = ''/'', ip_PathType = ''Prefix'',
                                    ip_ServiceName = name, ip_ServicePort = port \<rparr>] \<rparr>],
       ing_TLS = whenL (tlsOn i) [\<lparr> it_Hosts = [ic_Host i], it_SecretName = tlsSecretName i name \<rparr>],
       ing_LoadBalancer = [] \<rparr>"

definition GenerateIngress :: "ext \<Rightarrow> CashuMint \<Rightarrow> Ingress option result" where
  "GenerateIngress X mint =
     (case cms_Ingress (cm_Spec mint) of
        None \<Rightarrow> Ok None
      | Some i \<Rightarrow>
          if \<not> ic_Enabled i then Ok None
          else finish X mint ing_Meta ing_Meta_update
            (ingressObject (mintName mint) (mintNamespace mint) (mintSelectorLabels mint) i (listenPort mint)))"

definition orchardIngressConfig :: "CashuMint \<Rightarrow> IngressConfig option" where
  "orchardIngressConfig mint = Option.bind (cms_Orchard (cm_Spec mint)) oc_Ingress"

definition GenerateOrchardIngress :: "ext \<Rightarrow> CashuMint \<Rightarrow> Ingress option result" where
  "GenerateOrchardIngress X mint =
     (if \<not> orchardEnabled mint then Ok None
      else case orchardIngressConfig mint of
        None \<Rightarrow> Ok None
      | Some i \<Rightarrow>
          if \<not> ic_Enabled i then Ok None
          else finish X mint ing_Meta ing_Meta_update
            (ingressObject (orchardResourceName mint) (mintNamespace mint) (orchardLabels mint) i
               (orchardPort mint)))"

subsection \<open>Certificates\<close>

definition certificateObject :: "string \<Rightarrow> string \<Rightarrow> strmap \<Rightarrow> IngressConfig \<Rightarrow> CertManagerConfig \<Rightarrow> Certificate" where
  "certificateObject name ns labels i c =
     \<lparr> crt_TypeMeta = typeMeta ''cert-manager.io/v1'' ''Certificate'',
       crt_Meta = newMeta name ns labels (ic_Annotations i),
       crt_SecretName = tlsSecretName i name,
       crt_DNSNames = [ic_Host i],
       crt_IssuerRef = \<lparr> isr_Name = cmc_IssuerName c, isr_Kind = issuerKind c,
                         isr_Group = ''cert-manager.io'' \<rparr>,
       crt_Duration = 2160,
       crt_RenewBefore = 360,
       crt_Usages = [''digital signature'', ''key encipherment''] \<rparr>"

definition GenerateCertificate :: "ext \<Rightarrow> CashuMint \<Rightarrow> Certificate option result" where
  "GenerateCertificate X mint =
     (case cms_Ingress (cm_Spec mint) of
        None \<Rightarrow> Ok None
      | Some i \<Rightarrow>
          if \<not> ic_Enabled i then Ok None
          else case certManager i of
            None \<Rightarrow> Ok None
          | Some c \<Rightarrow> finish X mint crt_Meta crt_Meta_update
              (certificateObject (mintName mint) (mintNamespace mint) (mintSelectorLabels mint) i c))"

definition GenerateOrchardCertificate :: "ext \<Rightarrow> CashuMint \<Rightarrow> Certificate option result" where
  "GenerateOrchardCertificate X mint =
     (if \<not> orchardEnabled mint then Ok None
      else case orchardIngressConfig mint of
        None \<Rightarrow> Ok None
      | Some i \<Rightarrow>
          if \<not> ic_Enabled i then Ok None
          else case certManager i of
            None \<Rightarrow> Ok None
          | Some c \<Rightarrow> finish X mint crt_Meta crt_Meta_update
              (certificateObject (orchardResourceName mint) (mintNamespace mint)
                 (componentLabels ''cashu-mint'' mint orchardStr) i c))"

subsection \<open>Pod monitor\<close>

definition podMonitorObject :: "CashuMint \<Rightarrow> PodMonitor" where
  "podMonitorObject mint =
     \<lparr> pm_TypeMeta = typeMeta ''monitoring.coreos.com/v1'' ''PodMonitor'',
       pm_Meta = newMeta (mintName mint) (mintNamespace mint) (mintSelectorLabels mint) Map.empty,
       pm_Selector = mintSelectorLabels mint,
       pm_Endpoints = [(Some prometheusMetricsPortName, ''/metrics'')] \<rparr>"

definition GeneratePodMonitor :: "ext \<Rightarrow> CashuMint \<Rightarrow> PodMonitor option result" where
  "GeneratePodMonitor X mint =
     (if \<not> prometheusEnabled mint then Ok None
      else finish X mint pm_Meta pm_Meta_update (podMonitorObject mint))"

subsection \<open>Volume claims\<close>

definition storageSize :: "StorageConfig option \<Rightarrow> string" where
  "storageSize c = (case c of None \<Rightarrow> DefaultStorageSize | Some t \<Rightarrow> orStr (st_Size t) DefaultStorageSize)"

definition pvcObject :: "string \<Rightarrow> string \<Rightarrow> strmap \<Rightarrow> StorageConfig option \<Rightarrow> quantity \<Rightarrow> PersistentVolumeClaim" where
  "pvcObject name ns labels cfg sz =
     \<lparr> pvc_TypeMeta = typeMeta ''v1'' ''PersistentVolumeClaim'',
       pvc_Meta = newMeta name ns labels Map.empty,
       pvc_AccessModes = [''ReadWriteOnce''],
       pvc_Requests = [(''storage'', sz)],
       pvc_StorageClassName = Option.bind cfg st_StorageClassName \<rparr>"

definition GeneratePVC :: "ext \<Rightarrow> CashuMint \<Rightarrow> PersistentVolumeClaim option result" where
  "GeneratePVC X mint =
     (let s = cm_Spec mint in
      if db_Engine (cms_Database s) \<noteq> ''sqlite'' \<and> db_Engine (cms_Database s) \<noteq> ''redb'' then Ok None
      else bindR (mustParse X (storageSize (cms_Storage s))) (\<lambda>sz.
        finish X mint pvc_Meta pvc_Meta_update
          (pvcObject (mintName mint @ ''-data'') (mintNamespace mint)
             (componentLabels ''cashu-mint'' mint ''storage'') (cms_Storage s) sz)))"

definition orchardStorageConfig :: "CashuMint \<Rightarrow> StorageConfig option" where
  "orchardStorageConfig mint = Option.bind (cms_Orchard (cm_Spec mint)) oc_Storage"

definition GenerateOrchardPVC :: "ext \<Rightarrow> CashuMint \<Rightarrow> PersistentVolumeClaim option result" where
  "GenerateOrchardPVC X mint =
     (if \<not> orchardEnabled mint then Ok None
      else bindR (mustParse X (storageSize (orchardStorageConfig mint))) (\<lambda>sz.
        finish X mint pvc_Meta pvc_Meta_update
          (pvcObject (orchardPVCName mint) (mintNamespace mint) (orchardLabels mint)
             (orchardStorageConfig mint) sz)))"

subsection \<open>The objects fit together\<close>

text \<open>An ingress routes to a service when every path names it, in the same namespace, at a port it
  has; a certificate serves an ingress when every TLS entry uses its secret for its names.\<close>

definition routesTo :: "Ingress \<Rightarrow> Service \<Rightarrow> bool" where
  "routesTo ing svc =
     (om_Namespace (ing_Meta ing) = om_Namespace (svc_Meta svc) \<and>
      list_all (\<lambda>r. list_all (\<lambda>p. ip_ServiceName p = om_Name (svc_Meta svc) \<and>
         ip_ServicePort p \<in> sp_Port ` set (svc_Ports svc)) (ir_Paths r)) (ing_Rules ing))"

definition serves :: "Certificate \<Rightarrow> Ingress \<Rightarrow> bool" where
  "serves crt ing =
     (om_Namespace (ing_Meta ing) = om_Namespace (crt_Meta crt) \<and> ing_TLS ing \<noteq> [] \<and>
      list_all (\<lambda>t. it_SecretName t = crt_SecretName crt \<and> set (it_Hosts t) \<subseteq> set (crt_DNSNames crt))
        (ing_TLS ing) \<and>
      list_all (\<lambda>r. ir_Host r \<in> set (crt_DNSNames crt)) (ing_Rules ing))"

lemma ingressObject_meta [simp, gen_simps]:
  "ing_Meta (ingressObject n ns l i p) = newMeta n ns l (ingressAnnotations i)"
  by (simp add: ingressObject_def)

lemma mintService_simps [simp, gen_simps]:
  "svc_Meta (mintService m) = newMeta (mintName m) (mintNamespace m) (mintSelectorLabels m)
     (serviceAnnotations (cms_Service (cm_Spec m)))"
  "svc_Selector (mintService m) = mintSelectorLabels m"
  "svc_Ports (mintService m) = servicePorts m"
  by (simp_all add: mintService_def Let_def)

lemma orchardService_simps [simp, gen_simps]:
  "svc_Meta (orchardService m) = newMeta (orchardResourceName m) (mintNamespace m) (orchardLabels m)
     (serviceAnnotations (orchardServiceConfig m))"
  "svc_Selector (orchardService m) = mintSelectorLabels m"
  "svc_Ports (orchardService m) = [tcpServicePort orchardStr (orchardPort m) (FromString orchardStr)]"
  by (simp_all add: orchardService_def Let_def)

lemma listenPort_in_service: "listenPort m \<in> sp_Port ` set (servicePorts m)"
  by (simp add: servicePorts_def Let_def image_Un)

lemma certManager_tlsOn: "certManager i = Some c \<Longrightarrow> tlsOn i"
  by (auto simp: certManager_def tlsOn_def split: option.splits if_splits)

lemma serves_ingressObject:
  assumes "certManager i = Some c" and "om_Namespace m1 = ns" and "om_Namespace m2 = ns"
  shows "serves ((certificateObject name ns l i c)\<lparr> crt_Meta := m1 \<rparr>)
           ((ingressObject name ns l' i p)\<lparr> ing_Meta := m2 \<rparr>)"
  using assms certManager_tlsOn
  by (auto simp: serves_def certificateObject_def ingressObject_def)

text \<open>The inversion rules of the generators.\<close>

lemma GenerateService_Some:
  "GenerateService X m = Ok (Some svc) \<Longrightarrow>
   \<exists>meta. x_SetControllerReference X m (svc_Meta (mintService m)) = Ok meta
          \<and> svc = (mintService m)\<lparr> svc_Meta := meta \<rparr>"
  by (auto simp: GenerateService_def)

lemma GenerateIngress_Some:
  "GenerateIngress X m = Ok (Some ing) \<Longrightarrow>
   \<exists>i meta. cms_Ingress (cm_Spec m) = Some i \<and> ic_Enabled i \<and>
     x_SetControllerReference X m (newMeta (mintName m) (mintNamespace m) (mintSelectorLabels m)
       (ingressAnnotations i)) = Ok meta \<and>
     ing = (ingressObject (mintName m) (mintNamespace m) (mintSelectorLabels m) i (listenPort m))
             \<lparr> ing_Meta := meta \<rparr>"
  by (auto simp: GenerateIngress_def split: option.splits if_splits)

lemma GenerateOrchardService_Some:
  "GenerateOrchardService X m = Ok (Some svc) \<Longrightarrow>
   \<exists>meta. x_SetControllerReference X m (svc_Meta (orchardService m)) = Ok meta
          \<and> svc = (orchardService m)\<lparr> svc_Meta := meta \<rparr> \<and> orchardEnabled m"
  by (auto simp: GenerateOrchardService_def split: if_splits)

lemma GenerateOrchardIngress_Some:
  "GenerateOrchardIngress X m = Ok (Some ing) \<Longrightarrow>
   \<exists>i meta. orchardIngressConfig m = Some i \<and> ic_Enabled i \<and> orchardEnabled m \<and>
     x_SetControllerReference X m (newMeta (orchardResourceName m) (mintNamespace m) (orchardLabels m)
       (ingressAnnotations i)) = Ok meta \<and>
     ing = (ingressObject (orchardResourceName m) (mintNamespace m) (orchardLabels m) i (orchardPort m))
             \<lparr> ing_Meta := meta \<rparr>"
  by (auto simp: GenerateOrchardIngress_def split: option.splits if_splits)

lemma GenerateCertificate_Some:
  "GenerateCertificate X m = Ok (Some crt) \<Longrightarrow>
   \<exists>i c meta. cms_Ingress (cm_Spec m) = Some i \<and> ic_Enabled i \<and> certManager i = Some c \<and>
     x_SetControllerReference X m (newMeta (mintName m) (mintNamespace m) (mintSelectorLabels m)
       (ic_Annotations i)) = Ok meta \<and>
     crt = (certificateObject (mintName m) (mintNamespace m) (mintSelectorLabels m) i c)\<lparr> crt_Meta := meta \<rparr>"
  by (auto simp: GenerateCertificate_def certificateObject_def split: option.splits if_splits)

lemma GenerateOrchardCertificate_Some:
  "GenerateOrchardCertificate X m = Ok (Some crt) \<Longrightarrow>
   \<exists>i c meta. orchardIngressConfig m = Some i \<and> ic_Enabled i \<and> certManager i = Some c \<and>
     x_SetControllerReference X m (newMeta (orchardResourceName m) (mintNamespace m) (orchardLabels m)
       (ic_Annotations i)) = Ok meta \<and>
     crt = (certificateObject (orchardResourceName m) (mintNamespace m) (orchardLabels m) i c)
             \<lparr> crt_Meta := meta \<rparr>"
  by (auto simp: GenerateOrchardCertificate_def certificateObject_def orchardLabels_component orchardStr_def
      split: option.splits if_splits)

lemmas generator_Some =
  GenerateService_Some GenerateIngress_Some GenerateOrchardService_Some GenerateOrchardIngress_Some
  GenerateCertificate_Some GenerateOrchardCertificate_Some

context owner_references
begin

lemma newMeta_identity:
  assumes "setRef mint (newMeta n ns l a) = Ok meta"
  shows "om_Name meta = n" "om_Namespace meta = ns" "om_Labels meta = l" "om_Annotations meta = a"
  using keeps_identity [OF assms] by simp_all

end

lemmas owner_identity = owner_references.newMeta_identity

lemma routesTo_ingressObject:
  "om_Namespace m1 = om_Namespace (svc_Meta svc) \<Longrightarrow> om_Name (svc_Meta svc) = name \<Longrightarrow>
   p \<in> sp_Port ` set (svc_Ports svc) \<Longrightarrow>
   routesTo ((ingressObject name ns l i p)\<lparr> ing_Meta := m1 \<rparr>) svc"
  by (simp add: routesTo_def ingressObject_def)

text \<open>
  C27: the ingress of the mint routes to the service of the mint, and Orchard's ingress to
  Orchard's service: same namespace, the service's name, and a port the service exposes, whatever
  port the user configures.
\<close>

theorem ingress_routes_to_service:
  assumes own: "owner_references (x_SetControllerReference X)"
  shows "(GenerateIngress X m = Ok (Some ing) \<and> GenerateService X m = Ok (Some svc) \<longrightarrow> routesTo ing svc) \<and>
         (GenerateOrchardIngress X m = Ok (Some oing) \<and> GenerateOrchardService X m = Ok (Some osvc) \<longrightarrow>
            routesTo oing osvc)"
proof (intro conjI impI; elim conjE)
  assume "GenerateIngress X m = Ok (Some ing)" "GenerateService X m = Ok (Some svc)"
  from generator_Some(2) [OF this(1)] generator_Some(1) [OF this(2)]
  show "routesTo ing svc"
    using owner_identity [OF own] listenPort_in_service by (auto intro!: routesTo_ingressObject)
next
  assume "GenerateOrchardIngress X m = Ok (Some oing)" "GenerateOrchardService X m = Ok (Some osvc)"
  from generator_Some(4) [OF this(1)] generator_Some(3) [OF this(2)]
  show "routesTo oing osvc"
    using owner_identity [OF own] by (auto intro!: routesTo_ingressObject)
qed

lemma sampleOrchard_generated:
  "\<exists>ing. GenerateIngress sampleExt sampleOrchard = Ok (Some ing)"
  "\<exists>svc. GenerateService sampleExt sampleOrchard = Ok (Some svc)"
  "\<exists>ing. GenerateOrchardIngress sampleExt sampleOrchard = Ok (Some ing)"
  "\<exists>svc. GenerateOrchardService sampleExt sampleOrchard = Ok (Some svc)"
  "\<exists>crt. GenerateCertificate sampleExt sampleOrchard = Ok (Some crt)"
  "\<exists>crt. GenerateOrchardCertificate sampleExt sampleOrchard = Ok (Some crt)"
  by (simp_all add: GenerateIngress_def GenerateService_def GenerateOrchardIngress_def
      GenerateOrchardService_def GenerateCertificate_def GenerateOrchardCertificate_def
      certificateObject_def certManager_def orchardEnabled_def orchardIngressConfig_def
      sampleExt_def setOwner_def sample_defs)

theorem ingress_routes_to_service_witness:
  "\<exists>ing svc oing osvc.
     GenerateIngress sampleExt sampleOrchard = Ok (Some ing) \<and>
     GenerateService sampleExt sampleOrchard = Ok (Some svc) \<and>
     GenerateOrchardIngress sampleExt sampleOrchard = Ok (Some oing) \<and>
     GenerateOrchardService sampleExt sampleOrchard = Ok (Some osvc) \<and>
     routesTo ing svc \<and> routesTo oing osvc"
  using ingress_routes_to_service [OF sampleExt_owner] sampleOrchard_generated(1-4) by metis

text \<open>
  C31: whenever the operator asks cert-manager for a certificate, the ingress it creates terminates
  TLS with the secret of that certificate, for the host the certificate names; both for the mint
  and for Orchard.
\<close>

theorem certificate_serves_ingress:
  assumes own: "owner_references (x_SetControllerReference X)"
  shows "(GenerateIngress X m = Ok (Some ing) \<and> GenerateCertificate X m = Ok (Some crt) \<longrightarrow> serves crt ing) \<and>
         (GenerateOrchardIngress X m = Ok (Some oing) \<and> GenerateOrchardCertificate X m = Ok (Some ocrt) \<longrightarrow>
            serves ocrt oing)"
proof (intro conjI impI; elim conjE)
  assume "GenerateIngress X m = Ok (Some ing)" "GenerateCertificate X m = Ok (Some crt)"
  from generator_Some(2) [OF this(1)] generator_Some(5) [OF this(2)]
  show "serves crt ing"
    using owner_identity [OF own] by (auto intro!: serves_ingressObject)
next
  assume "GenerateOrchardIngress X m = Ok (Some oing)" "GenerateOrchardCertificate X m = Ok (Some ocrt)"
  from generator_Some(4) [OF this(1)] generator_Some(6) [OF this(2)]
  show "serves ocrt oing"
    using owner_identity [OF own] by (auto intro!: serves_ingressObject)
qed

theorem certificate_serves_ingress_witness:
  "\<exists>ing crt oing ocrt.
     GenerateIngress sampleExt sampleOrchard = Ok (Some ing) \<and>
     GenerateCertificate sampleExt sampleOrchard = Ok (Some crt) \<and>
     GenerateOrchardIngress sampleExt sampleOrchard = Ok (Some oing) \<and>
     GenerateOrchardCertificate sampleExt sampleOrchard = Ok (Some ocrt) \<and>
     serves crt ing \<and> serves ocrt oing"
  using certificate_serves_ingress [OF sampleExt_owner] sampleOrchard_generated(1,3,5,6) by metis

end
