(* ===== verification/GenDeployment.thy ===== *)
theory GenDeployment
  imports GenOrchard GenNetwork
begin

section \<open>The mint's deployment\<close>

text \<open>
  \<^verbatim>\<open>deployment.go\<close>: the pod of the mint with its optional sidecars, its environment, mounts and
  volumes. The lemmas show that the pod is closed (every mount names a volume of the pod, every
  probe and every service target names a port of a container), that names are unique, and that
  the environment agrees with the configuration file.
\<close>

definition MnemonicSecretKeySuffix :: string where "MnemonicSecretKeySuffix = ''-mnemonic''"
definition MnemonicSecretKey :: string where "MnemonicSecretKey = ''mnemonic''"

definition MnemonicSecretName :: "string \<Rightarrow> string" where
  "MnemonicSecretName name = name @ MnemonicSecretKeySuffix"

subsection \<open>Environment of the mint\<close>

definition mintCoreEnvVars :: "CashuMint \<Rightarrow> EnvVar list" where
  "mintCoreEnvVars mint =
     [envValue ''CDK_MINTD_WORK_DIR'' ''/data'',
      envValue ''HOME'' ''/data'',
      envValue ''CDK_MINTD_LN_BACKEND'' (ActiveBackend (cms_PaymentBackend (cm_Spec mint))),
      envValue ''CDK_MINTD_URL'' (mi_URL (cms_MintInfo (cm_Spec mint))),
      envValue ''CDK_MINTD_LISTEN_HOST'' (listenHost mint),
      envValue ''CDK_MINTD_LISTEN_PORT'' (itoa (listenPort mint)),
      envValue ''CDK_MINTD_DATABASE'' (db_Engine (cms_Database (cm_Spec mint))),
      envValue ''CDK_MINTD_LOGGING_OUTPUT'' ''stderr'']"

definition mintLoggingEnvVars :: "CashuMint \<Rightarrow> EnvVar list" where
  "mintLoggingEnvVars mint = optL (cms_Logging (cm_Spec mint)) (\<lambda>l.
     whenL (lg_Level l \<noteq> '''')
       [envValue ''RUST_LOG'' (lg_Level l), envValue ''CDK_MINTD_LOGGING_CONSOLE_LEVEL'' (lg_Level l)]
     @ whenL (lg_FileLevel l \<noteq> '''') [envValue ''CDK_MINTD_LOGGING_FILE_LEVEL'' (lg_FileLevel l)])"

definition mnemonicRef :: "CashuMint \<Rightarrow> SecretKeySelector option" where
  "mnemonicRef mint =
     (let mi = cms_MintInfo (cm_Spec mint) in
      if mi_MnemonicSecretRef mi = None \<and> mi_AutoGenerateMnemonic mi
      then Some (newSelector (MnemonicSecretName (mintName mint)) MnemonicSecretKey)
      else mi_MnemonicSecretRef mi)"

definition mintMnemonicEnvVars :: "CashuMint \<Rightarrow> EnvVar list" where
  "mintMnemonicEnvVars mint = optL (mnemonicRef mint) (\<lambda>r. [envSecret ''CDK_MINTD_MNEMONIC'' r])"

definition mintManagementRPCEnvVars :: "CashuMint \<Rightarrow> EnvVar list" where
  "mintManagementRPCEnvVars mint = optL (cms_ManagementRPC (cm_Spec mint)) (\<lambda>c. whenL (mr_Enabled c)
     ([envValue ''CDK_MINTD_MINT_MANAGEMENT_ENABLED'' trueStr,
       envValue ''CDK_MINTD_MANAGEMENT_ADDRESS'' (orStr (mr_Address c) DefaultLoopbackHost),
       envValue ''CDK_MINTD_MANAGEMENT_PORT'' (itoa (orInt (mr_Port c) 8086))]
      @ whenL (ManagementRPCTLSEnabled (cm_Spec mint))
          [envValue ''CDK_MINTD_MANAGEMENT_TLS_DIR_PATH'' orchardManagementRPCTLSMountPath]))"

definition mintPrometheusEnvVars :: "CashuMint \<Rightarrow> EnvVar list" where
  "mintPrometheusEnvVars mint =
     whenL (prometheusEnabled mint) [envValue ''CDK_MINTD_PROMETHEUS_ENABLED'' trueStr]"

definition mintLNBitsEnvVars :: "CashuMint \<Rightarrow> EnvVar list" where
  "mintLNBitsEnvVars mint = optL (pb_LNBits (cms_PaymentBackend (cm_Spec mint))) (\<lambda>l.
     [envSecret ''LNBITS_ADMIN_API_KEY'' (lnb_AdminAPIKeySecretRef l),
      envSecret ''LNBITS_INVOICE_API_KEY'' (lnb_InvoiceAPIKeySecretRef l)])"

definition mintGRPCProcessorEnvVars :: "CashuMint \<Rightarrow> EnvVar list" where
  "mintGRPCProcessorEnvVars mint =
     (let p = pb_GRPCProcessor (cms_PaymentBackend (cm_Spec mint)) in optL p (\<lambda>gp.
        [envValue ''CDK_MINTD_GRPC_PAYMENT_PROCESSOR_SUPPORTED_UNITS''
           (joinStr '','' (grpcProcessorSupportedUnits p)),
         envValue ''CDK_MINTD_GRPC_PAYMENT_PROCESSOR_ADDRESS'' (grpcProcessorAddress p),
         envValue ''CDK_MINTD_GRPC_PAYMENT_PROCESSOR_PORT'' (itoa (grpcProcessorPort p))]
        @ whenL (gp_TLSSecretRef gp \<noteq> None)
            [envValue ''CDK_MINTD_GRPC_PAYMENT_PROCESSOR_TLS_DIR'' grpcProcessorTLSMountPath]))"

definition mintPaymentBackendEnvVars :: "CashuMint \<Rightarrow> EnvVar list" where
  "mintPaymentBackendEnvVars mint =
     (let backend = ActiveBackend (cms_PaymentBackend (cm_Spec mint)) in
      if backend = PaymentBackendLNBits then mintLNBitsEnvVars mint
      else if backend = PaymentBackendGRPCProcessor then mintGRPCProcessorEnvVars mint
      else [])"

definition mintLDKEnvVars :: "CashuMint \<Rightarrow> EnvVar list" where
  "mintLDKEnvVars mint = optL (cms_LDKNode (cm_Spec mint)) (\<lambda>ldk. whenL (ldk_Enabled ldk)
     (optL (ldk_BitcoinRPC ldk) (\<lambda>r.
        [envSecret ''BITCOIN_RPC_USER'' (brpc_UserSecretRef r),
         envSecret ''BITCOIN_RPC_PASSWORD'' (brpc_PasswordSecretRef r)])
      @ optL (ldk_MnemonicSecretRef ldk) (\<lambda>r. [envSecret ''CDK_LDK_NODE_MNEMONIC'' r])))"

definition mintHTTPCacheEnvVars :: "CashuMint \<Rightarrow> EnvVar list" where
  "mintHTTPCacheEnvVars mint =
     optL (cms_HTTPCache (cm_Spec mint)) (\<lambda>h. whenL (hc_Backend h = ''redis'') (optL (hc_Redis h) (\<lambda>r.
       case rd_ConnectionStringSecretRef r of
         Some ref \<Rightarrow> [envSecret ''REDIS_CONNECTION_STRING'' ref]
       | None \<Rightarrow> whenL (rd_ConnectionString r \<noteq> '''')
                   [envValue ''REDIS_CONNECTION_STRING'' (rd_ConnectionString r)])))"

definition generateEnvironmentVariables :: "CashuMint \<Rightarrow> EnvVar list" where
  "generateEnvironmentVariables mint =
     mintCoreEnvVars mint
     @ mintLoggingEnvVars mint
     @ mintMnemonicEnvVars mint
     @ mintManagementRPCEnvVars mint
     @ mintPrometheusEnvVars mint
     @ mintPaymentBackendEnvVars mint
     @ mintLDKEnvVars mint
     @ mintHTTPCacheEnvVars mint"

subsection \<open>Mounts and volumes of the mint\<close>

definition generateVolumeMounts :: "CashuMint \<Rightarrow> VolumeMount list" where
  "generateVolumeMounts mint =
     (let p = cms_PaymentBackend (cm_Spec mint); backend = ActiveBackend p in
      [newMount ''data'' ''/data'' '''' False,
       newMount ''config'' ''/data/config.toml'' ''config.toml'' True]
      @ whenL (backend = PaymentBackendLND) (optL (pb_LND p) (\<lambda>lnd.
          secretMount ''lnd-macaroon'' ''/secrets/lnd/macaroon'' (lnd_MacaroonSecretRef lnd)
          @ secretMount ''lnd-cert'' ''/secrets/lnd/cert'' (lnd_CertSecretRef lnd)))
      @ whenL (backend = PaymentBackendGRPCProcessor \<and> optP (\<lambda>gp. gp_TLSSecretRef gp \<noteq> None) (pb_GRPCProcessor p))
          [newMount ''grpc-tls'' grpcProcessorTLSMountPath '''' True]
      @ whenL (ManagementRPCTLSEnabled (cm_Spec mint))
          [newMount managementRPCTLSVolumeName orchardManagementRPCTLSMountPath '''' True])"

definition enabledSidecar :: "CashuMint \<Rightarrow> SidecarProcessorConfig option" where
  "enabledSidecar mint =
     (let p = cms_PaymentBackend (cm_Spec mint);
          sidecar = Option.bind (pb_GRPCProcessor p) gp_SidecarProcessor
      in if ActiveBackend p = PaymentBackendGRPCProcessor \<and> optP scp_Enabled sidecar then sidecar else None)"

definition generateVolumes :: "CashuMint \<Rightarrow> Volume list" where
  "generateVolumes mint =
     (let s = cm_Spec mint; p = cms_PaymentBackend s; backend = ActiveBackend p; engine = db_Engine (cms_Database s) in
      [newVolume ''config'' (ConfigMapSource (mintName mint @ ''-config'')),
       newVolume ''data'' (if engine = DatabaseEngineSQLite \<or> engine = DatabaseEngineRedb
                           then PVCSource (mintName mint @ ''-data'') else EmptyDirSource)]
      @ whenL (backend = PaymentBackendLND) (optL (pb_LND p) (\<lambda>lnd.
          secretVolume ''lnd-macaroon'' (lnd_MacaroonSecretRef lnd)
          @ secretVolume ''lnd-cert'' (lnd_CertSecretRef lnd)))
      @ whenL (backend = PaymentBackendGRPCProcessor) (optL (pb_GRPCProcessor p) (\<lambda>gp.
          secretVolume ''grpc-tls'' (gp_TLSSecretRef gp)))
      @ whenL (ManagementRPCTLSEnabled s)
          [newVolume managementRPCTLSVolumeName (SecretSource (ManagementRPCTLSSecretName s (mintName mint)))]
      @ optL (enabledSidecar mint) (\<lambda>c. whenL (scp_EnableTLS c) (secretVolume ''sidecar-tls'' (scp_TLSSecretRef c))))"

subsection \<open>Containers\<close>

definition getResourceRequirements :: "CashuMint \<Rightarrow> ResourceRequirements" where
  "getResourceRequirements mint = derefOr (cms_Resources (cm_Spec mint))
     \<lparr> rr_Limits = [(''cpu'', ''1000m''), (''memory'', ''512Mi'')],
       rr_Requests = [(''cpu'', ''100m''), (''memory'', ''128Mi'')], rr_Claims = '''' \<rparr>"

definition getPodSecurityContext :: "CashuMint \<Rightarrow> PodSecurityContext" where
  "getPodSecurityContext mint = derefOr (cms_PodSecurityContext (cm_Spec mint))
     \<lparr> psc_RunAsNonRoot = Some True, psc_RunAsUser = Some 1000, psc_FSGroup = Some 1000, psc_Other = '''' \<rparr>"

definition getContainerSecurityContext :: "CashuMint \<Rightarrow> SecurityContext" where
  "getContainerSecurityContext mint = derefOr (cms_ContainerSecurityContext (cm_Spec mint))
     (emptySecurityContext\<lparr> sc_AllowPrivilegeEscalation := Some False,
        sc_ReadOnlyRootFilesystem := Some False, sc_RunAsNonRoot := Some True,
        sc_Capabilities := Some \<lparr> cap_Add = [], cap_Drop = [''ALL''] \<rparr> \<rparr>)"

definition mintProbe :: "int32 \<Rightarrow> int32 \<Rightarrow> int32 \<Rightarrow> Probe" where
  "mintProbe delay period timeout =
     \<lparr> pr_Handler = HTTPGet ''/v1/info'' (FromString ''api'') ''HTTP'',
       pr_InitialDelaySeconds = delay, pr_PeriodSeconds = period, pr_TimeoutSeconds = timeout,
       pr_SuccessThreshold = 1, pr_FailureThreshold = 3 \<rparr>"

definition generateMintContainer :: "CashuMint \<Rightarrow> Container" where
  "generateMintContainer mint =
     (let s = cm_Spec mint in
      (newContainer ''mintd'' (orStr (cms_Image s) DefaultMintImage))
      \<lparr> c_ImagePullPolicy := orStr (cms_ImagePullPolicy s) ''IfNotPresent'',
        c_Ports := [tcpPort ''api'' (listenPort mint)]
          @ optL (cms_Prometheus s) (\<lambda>c. whenL (pc_Enabled c)
              [tcpPort prometheusMetricsPortName (metricsPort c)]),
        c_Env := generateEnvironmentVariables mint,
        c_VolumeMounts := generateVolumeMounts mint,
        c_Resources := getResourceRequirements mint,
        c_LivenessProbe := Some (mintProbe 30 30 10),
        c_ReadinessProbe := Some (mintProbe 10 10 5),
        c_SecurityContext := Some (getContainerSecurityContext mint) \<rparr>)"

definition generateLDKContainer :: "LDKNodeConfig \<Rightarrow> Container" where
  "generateLDKContainer ldk =
     (newContainer ''ldk-node'' (orStr (ldk_Image ldk) ''ghcr.io/cashubtc/ldk-node:latest''))
     \<lparr> c_Ports := [tcpPort ''ldk'' (orInt (ldk_Port ldk) 8090),
                  tcpPort ''webserver'' (orInt (ldk_WebserverPort ldk) 8888)],
       c_VolumeMounts := [newMount ''data'' ''/data'' '''' False],
       c_SecurityContext := Some (emptySecurityContext\<lparr> sc_AllowPrivilegeEscalation := Some False,
                                    sc_RunAsNonRoot := Some True \<rparr>) \<rparr>"

definition generateSidecarProcessorContainer :: "CashuMint \<Rightarrow> SidecarProcessorConfig \<Rightarrow> Container" where
  "generateSidecarProcessorContainer mint c =
     (newContainer ''grpc-processor'' (scp_Image c))
     \<lparr> c_ImagePullPolicy := orStr (scp_ImagePullPolicy c) ''IfNotPresent'',
       c_Command := scp_Command c,
       c_Args := scp_Args c,
       c_Ports := [tcpPort ''grpc'' (grpcProcessorPort (pb_GRPCProcessor (cms_PaymentBackend (cm_Spec mint))))],
       c_Env := scp_Env c,
       c_VolumeMounts :=
         whenL (scp_WorkingDir c \<noteq> '''') [newMount ''data'' (scp_WorkingDir c) ''sidecar-processor'' False]
         @ whenL (scp_EnableTLS c \<and> scp_TLSSecretRef c \<noteq> None)
             [newMount ''sidecar-tls'' ''/secrets/sidecar-tls'' '''' True],
       c_SecurityContext := Some (emptySecurityContext\<lparr> sc_AllowPrivilegeEscalation := Some False \<rparr>),
       c_Resources := derefOr (scp_Resources c) noResources \<rparr>"

subsection \<open>Pod and deployment\<close>

definition generatePodSpec :: "CashuMint \<Rightarrow> PodSpec" where
  "generatePodSpec mint =
     (let s = cm_Spec mint in
      (newPodSpec
        (optL (enabledSidecar mint) (\<lambda>c. [generateSidecarProcessorContainer mint c])
         @ optL (cms_LDKNode s) (\<lambda>l. whenL (ldk_Enabled l) [generateLDKContainer l])
         @ [generateMintContainer mint]
         @ optL (cms_Orchard s) (\<lambda>c. whenL (oc_Enabled c) [GenerateOrchardContainer mint c]))
        (generateVolumes mint @ GenerateOrchardVolumes mint))
      \<lparr> ps_ImagePullSecrets := cms_ImagePullSecrets s,
        ps_NodeSelector := cms_NodeSelector s,
        ps_Tolerations := cms_Tolerations s,
        ps_Affinity := cms_Affinity s,
        ps_SecurityContext := Some (getPodSecurityContext mint) \<rparr>)"

definition deploymentObject :: "CashuMint \<Rightarrow> string \<Rightarrow> Deployment" where
  "deploymentObject mint configHash =
     \<lparr> dep_TypeMeta = typeMeta ''apps/v1'' ''Deployment'',
       dep_Meta = newMeta (mintName mint) (mintNamespace mint) (mintSelectorLabels mint) Map.empty,
       dep_Replicas = Some (derefOr (cms_Replicas (cm_Spec mint)) 1),
       dep_Selector = mintSelectorLabels mint,
       dep_StrategyType = ''RollingUpdate'',
       dep_MaxUnavailable = FromInt 0,
       dep_MaxSurge = FromInt 1,
       dep_Template = \<lparr> pt_Labels = mintSelectorLabels mint,
                        pt_Annotations = [''config-hash'' \<mapsto> configHash],
                        pt_Spec = generatePodSpec mint \<rparr>,
       dep_Status = \<lparr> ds_Replicas = 0, ds_UpdatedReplicas = 0, ds_ReadyReplicas = 0, ds_AvailableReplicas = 0 \<rparr> \<rparr>"

definition GenerateDeployment :: "ext \<Rightarrow> CashuMint \<Rightarrow> string \<Rightarrow> Deployment option result" where
  "GenerateDeployment X mint configHash =
     finish X mint dep_Meta dep_Meta_update (deploymentObject mint configHash)"

subsection \<open>Projections\<close>

lemma generatePodSpec_simps [simp, gen_simps]:
  "ps_Containers (generatePodSpec m) =
     optL (enabledSidecar m) (\<lambda>c. [generateSidecarProcessorContainer m c])
     @ optL (cms_LDKNode (cm_Spec m)) (\<lambda>l. whenL (ldk_Enabled l) [generateLDKContainer l])
     @ [generateMintContainer m]
     @ optL (cms_Orchard (cm_Spec m)) (\<lambda>c. whenL (oc_Enabled c) [GenerateOrchardContainer m c])"
  "ps_InitContainers (generatePodSpec m) = []"
  "ps_Volumes (generatePodSpec m) = generateVolumes m @ GenerateOrchardVolumes m"
  by (simp_all add: generatePodSpec_def Let_def)

lemma container_simps [simp, gen_simps]:
  "c_Name (generateMintContainer m) = ''mintd''"
  "c_VolumeMounts (generateMintContainer m) = generateVolumeMounts m"
  "c_Env (generateMintContainer m) = generateEnvironmentVariables m"
  "c_LivenessProbe (generateMintContainer m) = Some (mintProbe 30 30 10)"
  "c_ReadinessProbe (generateMintContainer m) = Some (mintProbe 10 10 5)"
  "c_Name (generateLDKContainer l) = ''ldk-node''"
  "c_VolumeMounts (generateLDKContainer l) = [newMount ''data'' ''/data'' '''' False]"
  "c_Ports (generateLDKContainer l) =
     [tcpPort ''ldk'' (orInt (ldk_Port l) 8090), tcpPort ''webserver'' (orInt (ldk_WebserverPort l) 8888)]"
  "c_Name (generateSidecarProcessorContainer m c) = ''grpc-processor''"
  "c_Name (GenerateOrchardContainer m orc) = ''orchard''"
  "c_VolumeMounts (GenerateOrchardContainer m orc) = generateOrchardVolumeMounts m"
  "c_Ports (GenerateOrchardContainer m orc) = [tcpPort ''orchard'' (orInt (oc_Port orc) orchardPortDefault)]"
  by (simp_all add: generateMintContainer_def generateLDKContainer_def generateSidecarProcessorContainer_def
      GenerateOrchardContainer_def orchardStr_def Let_def newContainer_def)

lemma no_probes [simp, gen_simps]:
  "c_LivenessProbe (generateLDKContainer l) = None" "c_ReadinessProbe (generateLDKContainer l) = None"
  "c_LivenessProbe (generateSidecarProcessorContainer m c) = None"
  "c_ReadinessProbe (generateSidecarProcessorContainer m c) = None"
  by (simp_all add: generateLDKContainer_def generateSidecarProcessorContainer_def newContainer_def)

lemma mint_ports [simp, gen_simps]:
  "c_Ports (generateMintContainer m) =
     [tcpPort ''api'' (listenPort m)]
     @ optL (cms_Prometheus (cm_Spec m)) (\<lambda>c. whenL (pc_Enabled c) [tcpPort ''metrics'' (metricsPort c)])"
  "c_Ports (generateSidecarProcessorContainer m c) =
     [tcpPort ''grpc'' (grpcProcessorPort (pb_GRPCProcessor (cms_PaymentBackend (cm_Spec m))))]"
  by (simp_all add: generateMintContainer_def generateSidecarProcessorContainer_def Let_def
      prometheusMetricsPortName_def newContainer_def)

lemma secretMount_names [simp]: "vm_Name ` set (secretMount n p r) = (if r = None then {} else {n})"
  by (cases r) (auto simp: secretMount_def)

lemma secretVolume_names [simp]:
  "map vol_Name (secretVolume n r) = whenL (r \<noteq> None) [n]"
  by (cases r) (auto simp: secretVolume_def)

lemma secretVolume_name_set [simp]: "vol_Name ` set (secretVolume n r) = (if r = None then {} else {n})"
  by (cases r) (auto simp: secretVolume_def)

definition volumeNames :: "PodSpec \<Rightarrow> string list" where
  "volumeNames ps = map vol_Name (ps_Volumes ps)"

text \<open>A pod is closed when every mount of every container names a volume of the pod.\<close>

definition mountsClosed :: "PodSpec \<Rightarrow> bool" where
  "mountsClosed ps =
     list_all (\<lambda>c. list_all (\<lambda>v. vm_Name v \<in> set (volumeNames ps)) (c_VolumeMounts c))
       (ps_InitContainers ps @ ps_Containers ps)"

lemma set_map_optL: "set (optL p f) = (case p of None \<Rightarrow> {} | Some x \<Rightarrow> set (f x))"
  by (cases p) auto

lemma mint_mounts_declared:
  "vm_Name ` set (generateVolumeMounts m) \<subseteq> vol_Name ` set (generateVolumes m)"
  by (cases "pb_LND (cms_PaymentBackend (cm_Spec m))"; cases "pb_GRPCProcessor (cms_PaymentBackend (cm_Spec m))")
     (auto simp: generateVolumeMounts_def generateVolumes_def Let_def secretMount_def secretVolume_def image_iff)

lemma sidecar_mounts_declared:
  assumes "enabledSidecar m = Some c"
  shows "vm_Name ` set (c_VolumeMounts (generateSidecarProcessorContainer m c)) \<subseteq> vol_Name ` set (generateVolumes m)"
  using assms
  by (auto simp: generateSidecarProcessorContainer_def generateVolumes_def Let_def secretVolume_def)

lemma accepted_mtls:
  assumes "validateCashuMint cmp m = None" and "orchardEnabled m" and "orchardMintRPCMTLS m"
  shows "ManagementRPCTLSEnabled (cm_Spec m)"
  using assms
  by (auto simp: accepted_iff specOK_def orchardOK_def orchardMintOK_def orchardEnabled_def optP_iff
      orchardMintRPCMTLS_def orchardMintRPC_def orchardMintConfig_def ManagementRPCTLSEnabled_iff bind_eq_Some_conv
      split: option.splits)

lemma orchard_mounts_declared:
  assumes "orchardEnabled m" and "orchardMintRPCMTLS m \<longrightarrow> ManagementRPCTLSEnabled (cm_Spec m)"
  shows "vm_Name ` set (generateOrchardVolumeMounts m)
           \<subseteq> vol_Name ` set (generateVolumes m @ GenerateOrchardVolumes m)"
proof -
  from assms(1) obtain c where c: "cms_Orchard (cm_Spec m) = Some c"
    by (auto simp: orchardEnabled_def optP_iff)
  have "orchardMintRPCMTLS m \<Longrightarrow> managementRPCTLSVolumeName \<in> vol_Name ` set (generateVolumes m)"
    using assms(2) by (auto simp: generateVolumes_def Let_def)
  moreover have "''data'' \<in> vol_Name ` set (generateVolumes m)"
    by (auto simp: generateVolumes_def Let_def)
  ultimately show ?thesis
    using assms(1) c
    by (cases "oc_Lightning c"; cases "oc_TaprootAssets c")
       (auto simp: generateOrchardVolumeMounts_def GenerateOrchardVolumes_def secretMount_def secretVolume_def
          image_iff)
qed

lemma tls_volume_declared:
  assumes "managementRPCTLSVolumeName \<in> vol_Name ` set (generateVolumes m @ GenerateOrchardVolumes m)"
  shows "ManagementRPCTLSEnabled (cm_Spec m)"
proof (rule ccontr)
  assume no: "\<not> ManagementRPCTLSEnabled (cm_Spec m)"
  have "managementRPCTLSVolumeName \<notin> vol_Name ` set (generateVolumes m)"
    using no by (auto simp: generateVolumes_def Let_def secretVolume_def managementRPCTLSVolumeName_def split: option.splits if_splits)
  moreover have "managementRPCTLSVolumeName \<notin> vol_Name ` set (GenerateOrchardVolumes m)"
    by (auto simp: GenerateOrchardVolumes_def secretVolume_def managementRPCTLSVolumeName_def orchardDataVolumeName_def
        orchardTmpVolumeName_def orchardLightningMacaroonVolumeName_def orchardLightningCertVolumeName_def
        orchardLightningKeyVolumeName_def orchardLightningCAVolumeName_def orchardTaprootMacaroonVolumeName_def
        orchardTaprootCertVolumeName_def split: option.splits)
  ultimately show False using assms by auto
qed

text \<open>
  C5: every volume mount of every container of the pod (mint, LDK node, payment processor, Orchard) names
  a volume the pod declares, so that the pod can start, unless Orchard is told to use mutual TLS for
  a management RPC that is switched off, and in no other case. Validation rules that case out, so the
  pod of a mint that passes validation is always closed.
\<close>

theorem pod_mounts_closed:
  "(mountsClosed (generatePodSpec m) \<longleftrightarrow>
      (orchardEnabled m \<and> orchardMintRPCMTLS m \<longrightarrow> ManagementRPCTLSEnabled (cm_Spec m)))
   \<and> (validateCashuMint cmp m = None \<longrightarrow> mountsClosed (generatePodSpec m))"
proof -
  let ?ok = "orchardEnabled m \<and> orchardMintRPCMTLS m \<longrightarrow> ManagementRPCTLSEnabled (cm_Spec m)"
  have closed: "mountsClosed (generatePodSpec m) \<longleftrightarrow>
      (\<forall>c \<in> set (ps_Containers (generatePodSpec m)). \<forall>v \<in> set (c_VolumeMounts c).
         vm_Name v \<in> vol_Name ` set (generateVolumes m @ GenerateOrchardVolumes m))"
    by (simp add: mountsClosed_def volumeNames_def list_all_iff image_Un del: generatePodSpec_simps(1))
  have "mountsClosed (generatePodSpec m)" if ?ok
  proof -
    have data: "''data'' \<in> vol_Name ` set (generateVolumes m)"
      by (auto simp: generateVolumes_def Let_def)
    have orchard: "vm_Name ` set (generateOrchardVolumeMounts m) \<subseteq> vol_Name ` set (generateVolumes m @ GenerateOrchardVolumes m)"
      if "orchardEnabled m" using orchard_mounts_declared [OF that] \<open>?ok\<close> that by blast
    have "vm_Name v \<in> vol_Name ` set (generateVolumes m @ GenerateOrchardVolumes m)"
      if "c \<in> set (ps_Containers (generatePodSpec m))" and "v \<in> set (c_VolumeMounts c)" for c v
      using that mint_mounts_declared [of m] sidecar_mounts_declared [of m] orchard data
      by (auto simp: orchardEnabled_def optP_iff subset_iff image_iff split: if_splits)
    then show ?thesis unfolding closed by blast
  qed
  moreover have ?ok if "mountsClosed (generatePodSpec m)"
  proof
    assume mtls: "orchardEnabled m \<and> orchardMintRPCMTLS m"
    then obtain c where "cms_Orchard (cm_Spec m) = Some c" "oc_Enabled c" by (auto simp: orchardEnabled_def optP_iff)
    with mtls have "\<exists>c \<in> set (ps_Containers (generatePodSpec m)).
        newMount managementRPCTLSVolumeName orchardManagementRPCTLSMountPath '''' True \<in> set (c_VolumeMounts c)"
      by (auto simp: generateOrchardVolumeMounts_def)
    with that have "managementRPCTLSVolumeName \<in> vol_Name ` set (generateVolumes m @ GenerateOrchardVolumes m)"
      unfolding closed by fastforce
    then show "ManagementRPCTLSEnabled (cm_Spec m)" by (rule tls_volume_declared)
  qed
  ultimately show ?thesis using accepted_mtls [of cmp m] by blast
qed

theorem pod_mounts_closed_witness:
  "validateCashuMint cmpSample sampleOrchard = None \<and> mountsClosed (generatePodSpec sampleOrchard)"
  using pod_mounts_closed [of sampleOrchard cmpSample] samples_accepted(3) [of cmpSample] by blast

subsection \<open>Unique names\<close>

definition portNames :: "PodSpec \<Rightarrow> string list" where
  "portNames ps = concat (map (\<lambda>c. map cp_Name (c_Ports c)) (ps_Containers ps))"

lemma map_optL_whenL [simp]: "concat (optL p f) = optL p (\<lambda>x. concat (f x))" "concat (whenL b xs) = whenL b (concat xs)"
  by (auto simp: optL_def whenL_def split: option.splits)

lemma subseq_distinct: "subseq xs ys \<Longrightarrow> distinct ys \<Longrightarrow> distinct xs"
  by (metis subseq_conv_nths distinct_nthsI)

lemma subseq_optional:
  "subseq xs ys \<Longrightarrow> subseq (whenL b xs) ys"
  "(\<And>x. subseq (f x) ys) \<Longrightarrow> subseq (optL p f) ys"
  by (auto simp: whenL_def optL_def split: option.splits)

lemmas subseq_intros = list_emb_append_mono subseq_optional subseq_order.order_refl

text \<open>The names of the volumes, in order, are some of a fixed list.\<close>

lemma mint_volume_names:
  "subseq (map vol_Name (generateVolumes m))
     ([''config'', ''data''] @ ([''lnd-macaroon''] @ [''lnd-cert'']) @ [''grpc-tls''] @ [''management-rpc-tls'']
      @ [''sidecar-tls''])"
  unfolding generateVolumes_def Let_def map_append map_optL map_whenL secretVolume_names list.map part_simps
    managementRPCTLSVolumeName_def
  by (intro subseq_intros)

lemma orchard_volume_names_ok:
  "subseq (map vol_Name (GenerateOrchardVolumes m))
     ([''orchard-data'', ''orchard-tmp''] @
      (([''orchard-lightning-macaroon''] @ [''orchard-lightning-cert''] @ [''orchard-lightning-key'']
        @ [''orchard-lightning-ca'']) @ [''orchard-taproot-macaroon''] @ [''orchard-taproot-cert'']))"
proof (cases "orchardEnabled m")
  case True
  then show ?thesis
    unfolding GenerateOrchardVolumes_def map_append map_optL map_whenL secretVolume_names list.map part_simps
      orchard_volume_names
    by (simp only: simp_thms if_True if_False map_append map_optL map_whenL secretVolume_names list.map part_simps)
       (intro subseq_intros)
qed (simp add: GenerateOrchardVolumes_def)

lemma container_names:
  "subseq (map c_Name (ps_Containers (generatePodSpec m))) ([''grpc-processor''] @ [''ldk-node''] @ [''mintd''] @ [''orchard''])"
  unfolding generatePodSpec_simps map_append map_optL map_whenL list.map container_simps
  by (intro subseq_intros)

lemma port_names:
  "subseq (portNames (generatePodSpec m))
     ([''grpc''] @ [''ldk'', ''webserver''] @ ([''api''] @ [''metrics'']) @ [''orchard''])"
  unfolding portNames_def generatePodSpec_simps map_append map_optL map_whenL list.map container_simps mint_ports
    concat_append map_optL_whenL concat.simps append_Nil2 part_simps
  by (intro subseq_intros)

text \<open>
  C34: no two volumes, no two containers and no two container ports of the generated pod share a
  name, whatever is enabled. The API server rejects a pod with duplicate volume or container
  names, and a service that targets a port by name needs the name to be unique.
\<close>

theorem pod_names_unique:
  "distinct (volumeNames (generatePodSpec m)) \<and>
   distinct (map c_Name (ps_Containers (generatePodSpec m))) \<and>
   distinct (portNames (generatePodSpec m))"
proof (intro conjI)
  show "distinct (volumeNames (generatePodSpec m))"
    unfolding volumeNames_def generatePodSpec_simps map_append
    by (rule subseq_distinct [OF list_emb_append_mono [OF mint_volume_names orchard_volume_names_ok]]) simp
  show "distinct (map c_Name (ps_Containers (generatePodSpec m)))"
    by (rule subseq_distinct [OF container_names]) simp
  show "distinct (portNames (generatePodSpec m))"
    by (rule subseq_distinct [OF port_names]) simp
qed

subsection \<open>Services reach the pod\<close>

text \<open>A service reaches a pod template when it selects its labels, every port it targets by name is a port
  of one of the containers, with the number the service exposes, and every port it targets by
  number is the one that mintd's environment makes the management RPC listen on.\<close>

definition portOf :: "PodSpec \<Rightarrow> string \<Rightarrow> int32 \<Rightarrow> bool" where
  "portOf ps n i = list_ex (\<lambda>c. list_ex (\<lambda>q. cp_Name q = n \<and> cp_ContainerPort q = i) (c_Ports c)) (ps_Containers ps)"

definition managementPort :: "PodSpec \<Rightarrow> int32 \<Rightarrow> bool" where
  "managementPort ps i =
     list_ex (\<lambda>c. c_Name c = ''mintd''
       \<and> list_ex (\<lambda>e. e = envValue ''CDK_MINTD_MINT_MANAGEMENT_ENABLED'' ''true'') (c_Env c)
       \<and> list_ex (\<lambda>e. e = envValue ''CDK_MINTD_MANAGEMENT_PORT'' (itoa i)) (c_Env c)) (ps_Containers ps)"

definition reachesPod :: "Service \<Rightarrow> PodTemplateSpec \<Rightarrow> bool" where
  "reachesPod svc pt =
     (selects (svc_Selector svc) (pt_Labels pt) \<and>
      list_all (\<lambda>p. case sp_TargetPort p of
          FromString n \<Rightarrow> portOf (pt_Spec pt) n (sp_Port p)
        | FromInt i \<Rightarrow> i = sp_Port p \<and> managementPort (pt_Spec pt) i) (svc_Ports svc))"

lemma deploymentObject_template [simp, gen_simps]:
  "dep_Meta (deploymentObject m h) = newMeta (mintName m) (mintNamespace m) (mintSelectorLabels m) Map.empty"
  "pt_Spec (dep_Template (deploymentObject m h)) = generatePodSpec m"
  "pt_Labels (dep_Template (deploymentObject m h)) = mintSelectorLabels m"
  "pt_Annotations (dep_Template (deploymentObject m h)) = [''config-hash'' \<mapsto> h]"
  "dep_Selector (deploymentObject m h) = mintSelectorLabels m"
  by (simp_all add: deploymentObject_def)

lemma GenerateDeployment_Some:
  "GenerateDeployment X m h = Ok (Some dep) \<Longrightarrow>
   \<exists>meta. x_SetControllerReference X m (dep_Meta (deploymentObject m h)) = Ok meta
          \<and> dep = (deploymentObject m h)\<lparr> dep_Meta := meta \<rparr>"
  by (auto simp: GenerateDeployment_def)

lemma pod_ports:
  "portOf (generatePodSpec m) ''api'' (listenPort m)"
  "cms_Prometheus (cm_Spec m) = Some c \<Longrightarrow> pc_Enabled c \<Longrightarrow> portOf (generatePodSpec m) ''metrics'' (metricsPort c)"
  "cms_LDKNode (cm_Spec m) = Some l \<Longrightarrow> ldk_Enabled l \<Longrightarrow> portOf (generatePodSpec m) ''ldk'' (orInt (ldk_Port l) 8090)"
  "cms_LDKNode (cm_Spec m) = Some l \<Longrightarrow> ldk_Enabled l \<Longrightarrow>
     portOf (generatePodSpec m) ''webserver'' (orInt (ldk_WebserverPort l) 8888)"
  "orchardEnabled m \<Longrightarrow> portOf (generatePodSpec m) ''orchard'' (orchardPort m)"
  by (auto simp: portOf_def orchardEnabled_def orchardPort_def optP_iff orInt_def)

lemma pod_management_port:
  "cms_ManagementRPC (cm_Spec m) = Some c \<Longrightarrow> mr_Enabled c \<Longrightarrow> managementPort (generatePodSpec m) (orInt (mr_Port c) 8086)"
  by (simp add: managementPort_def generateEnvironmentVariables_def mintManagementRPCEnvVars_def trueStr_def)

lemma mintService_reaches: "reachesPod (mintService m) (dep_Template (deploymentObject m h))"
  by (auto simp: pod_management_port reachesPod_def servicePorts_def Let_def list_all_iff pod_ports ldkEnabled_def rpcEnabled_def
      prometheusEnabled_def optP_iff prometheusMetricsPortName_def)

text \<open>
  C17: the service of the mint, the service of Orchard and the pod monitor select the pods of the
  deployment. Each port they target by name is a port of one of its containers, with the port
  number the service exposes. The only port targeted by number is that of the management RPC, which
  no container declares; it is the port that mintd, in its environment, is told to serve it on.
\<close>

theorem services_reach_pod:
  assumes "GenerateDeployment X m h = Ok (Some dep)"
  shows "(GenerateService X m = Ok (Some svc) \<longrightarrow> reachesPod svc (dep_Template dep)) \<and>
         (GenerateOrchardService X m = Ok (Some osvc) \<longrightarrow> reachesPod osvc (dep_Template dep)) \<and>
         (GeneratePodMonitor X m = Ok (Some pm) \<longrightarrow>
            selects (pm_Selector pm) (pt_Labels (dep_Template dep)) \<and>
            (\<forall>(port, path) \<in> set (pm_Endpoints pm). \<exists>n i. port = Some n \<and> portOf (pt_Spec (dep_Template dep)) n i))"
proof -
  from GenerateDeployment_Some [OF assms] obtain meta where dep: "dep = (deploymentObject m h)\<lparr> dep_Meta := meta \<rparr>"
    by blast
  have 1: "reachesPod svc (dep_Template dep)" if "GenerateService X m = Ok (Some svc)"
    using generator_Some(1) [OF that] mintService_reaches [of m h] dep
    by (auto simp: reachesPod_def)
  have 2: "reachesPod osvc (dep_Template dep)" if "GenerateOrchardService X m = Ok (Some osvc)"
    using generator_Some(3) [OF that] pod_ports(5) [of m] dep
    by (auto simp: reachesPod_def orchardStr_def)
  have 3: "selects (pm_Selector pm) (pt_Labels (dep_Template dep)) \<and>
      (\<forall>(port, path) \<in> set (pm_Endpoints pm). \<exists>n i. port = Some n \<and> portOf (pt_Spec (dep_Template dep)) n i)"
    if "GeneratePodMonitor X m = Ok (Some pm)"
    using that dep pod_ports(2) [of m]
    by (auto simp: GeneratePodMonitor_def podMonitorObject_def prometheusEnabled_def optP_iff
        prometheusMetricsPortName_def split: if_splits)
  from 1 2 3 show ?thesis by blast
qed

lemma sampleOrchard_deployment: "\<exists>dep. GenerateDeployment sampleExt sampleOrchard h = Ok (Some dep)"
  by (simp add: GenerateDeployment_def sampleExt_def setOwner_def)

theorem services_reach_pod_witness:
  "\<exists>dep svc osvc.
     GenerateDeployment sampleExt sampleOrchard ''h'' = Ok (Some dep) \<and>
     GenerateService sampleExt sampleOrchard = Ok (Some svc) \<and>
     GenerateOrchardService sampleExt sampleOrchard = Ok (Some osvc) \<and>
     reachesPod svc (dep_Template dep) \<and> reachesPod osvc (dep_Template dep)"
  using services_reach_pod [of sampleExt sampleOrchard "''h''"] sampleOrchard_deployment
    sampleOrchard_generated(2,4) by metis

subsection \<open>Volumes refer to generated objects\<close>

definition claimNames :: "PodSpec \<Rightarrow> string set" where
  "claimNames ps = {n. PVCSource n \<in> vol_Source ` set (ps_Volumes ps)}"

definition pvcNames :: "PersistentVolumeClaim option \<Rightarrow> string set" where
  "pvcNames p = (case p of None \<Rightarrow> {} | Some c \<Rightarrow> {om_Name (pvc_Meta c)})"

lemma secretVolume_no_claim [simp]: "v \<in> set (secretVolume n r) \<Longrightarrow> vol_Source v \<noteq> PVCSource x"
  by (cases r) (auto simp: secretVolume_def)

lemma mint_claims:
  "PVCSource n \<in> vol_Source ` set (generateVolumes m) \<longleftrightarrow>
     db_Engine (cms_Database (cm_Spec m)) \<in> {''sqlite'', ''redb''} \<and> n = mintName m @ ''-data''"
  by (auto simp: generateVolumes_def Let_def image_iff secretVolume_def split: if_splits dest: sym)

lemma orchard_claims:
  "PVCSource n \<in> vol_Source ` set (GenerateOrchardVolumes m) \<longleftrightarrow> orchardEnabled m \<and> n = orchardPVCName m"
  by (auto simp: GenerateOrchardVolumes_def image_iff secretVolume_def split: if_splits dest: sym)

text \<open>
  C18: the persistent volume claims the pod mounts are exactly the claims the operator generates,
  by name: a claim is generated if and only if a volume uses it.
\<close>

theorem claims_match_volumes:
  assumes own: "owner_references (x_SetControllerReference X)"
    and "GeneratePVC X m = Ok p" and "GenerateOrchardPVC X m = Ok q"
  shows "claimNames (generatePodSpec m) = pvcNames p \<union> pvcNames q"
proof -
  have p: "pvcNames p = {n. db_Engine (cms_Database (cm_Spec m)) \<in> {''sqlite'', ''redb''} \<and> n = mintName m @ ''-data''}"
    using assms(2) owner_identity(1) [OF own]
    by (auto simp: GeneratePVC_def Let_def pvcNames_def pvcObject_def split: if_splits)
  have q: "pvcNames q = {n. orchardEnabled m \<and> n = orchardPVCName m}"
    using assms(3) owner_identity(1) [OF own]
    by (auto simp: GenerateOrchardPVC_def pvcNames_def pvcObject_def split: if_splits)
  show ?thesis
    unfolding claimNames_def p q generatePodSpec_simps set_append image_Un Un_iff mint_claims orchard_claims
    by blast
qed

theorem claims_match_volumes_witness:
  "\<exists>p q. GeneratePVC sampleExt sampleMinimal = Ok p \<and> GenerateOrchardPVC sampleExt sampleMinimal = Ok q \<and>
     claimNames (generatePodSpec sampleMinimal) = pvcNames p \<union> pvcNames q"
proof -
  have "\<exists>p. GeneratePVC sampleExt sampleMinimal = Ok p" "\<exists>q. GenerateOrchardPVC sampleExt sampleMinimal = Ok q"
    by (simp_all add: GeneratePVC_def GenerateOrchardPVC_def orchardEnabled_def mustParse_def storageSize_def
        sampleExt_def setOwner_def pvcObject_def sample_defs Let_def)
  with claims_match_volumes [OF sampleExt_owner] show ?thesis by metis
qed

end
