(* ===== verification/EnvAgreement.thy ===== *)
theory EnvAgreement
  imports GenDeployment
begin

text \<open>The environment of the mintd container against its configuration file: a variable that
  mintd would let override an entry of the file always carries the value of that entry.\<close>

section \<open>The environment agrees with the configuration file\<close>

text \<open>
  mintd overlays its environment on the configuration file, so a variable that differs from the file
  would silently win. A variable that the operator sets is of one of four kinds: it shadows an entry
  that the file has exactly when the variable is set (\<open>shadowedEntries\<close>); it is \<^verbatim>\<open>CDK_MINTD_LOGGING_OUTPUT\<close>, which is
  always set and shadows an entry that the file may lack; it is \<^verbatim>\<open>REDIS_CONNECTION_STRING\<close>, which shadows an entry
  unless it comes from a secret; or it has no entry in the file (\<open>environmentOnly\<close>).
\<close>

definition shadowedEntries :: "(string \<times> string \<times> string) list" where
  "shadowedEntries =
     [(''CDK_MINTD_URL'', ''info'', ''url''),
      (''CDK_MINTD_LISTEN_HOST'', ''info'', ''listen_host''),
      (''CDK_MINTD_LISTEN_PORT'', ''info'', ''listen_port''),
      (''CDK_MINTD_LN_BACKEND'', ''ln'', ''ln_backend''),
      (''CDK_MINTD_DATABASE'', ''database'', ''engine''),
      (''CDK_MINTD_LOGGING_CONSOLE_LEVEL'', ''info.logging'', ''console_level''),
      (''CDK_MINTD_LOGGING_FILE_LEVEL'', ''info.logging'', ''file_level''),
      (''CDK_MINTD_MINT_MANAGEMENT_ENABLED'', ''mint_management_rpc'', ''enabled''),
      (''CDK_MINTD_MANAGEMENT_ADDRESS'', ''mint_management_rpc'', ''address''),
      (''CDK_MINTD_MANAGEMENT_PORT'', ''mint_management_rpc'', ''port''),
      (''CDK_MINTD_MANAGEMENT_TLS_DIR_PATH'', ''mint_management_rpc'', ''tls_dir_path''),
      (''CDK_MINTD_PROMETHEUS_ENABLED'', ''prometheus'', ''enabled''),
      (''CDK_MINTD_GRPC_PAYMENT_PROCESSOR_SUPPORTED_UNITS'', ''grpc_processor'', ''supported_units''),
      (''CDK_MINTD_GRPC_PAYMENT_PROCESSOR_ADDRESS'', ''grpc_processor'', ''addr''),
      (''CDK_MINTD_GRPC_PAYMENT_PROCESSOR_PORT'', ''grpc_processor'', ''port''),
      (''CDK_MINTD_GRPC_PAYMENT_PROCESSOR_TLS_DIR'', ''grpc_processor'', ''tls_dir'')]"

text \<open>Directories, the log filter of the Rust runtime, and secrets that the file never holds.\<close>

definition environmentOnly :: "string list" where
  "environmentOnly =
     [''CDK_MINTD_WORK_DIR'', ''HOME'', ''RUST_LOG'', ''CDK_MINTD_MNEMONIC'', ''LNBITS_ADMIN_API_KEY'',
      ''LNBITS_INVOICE_API_KEY'', ''BITCOIN_RPC_USER'', ''BITCOIN_RPC_PASSWORD'', ''CDK_LDK_NODE_MNEMONIC'']"

text \<open>The text of a value in the environment; the elements of an array are separated by commas.\<close>

fun plainText :: "tomlValue \<Rightarrow> string option" where
  "plainText (Quoted s) = Some s"
| "plainText (Decimal i) = Some (itoa i)"
| "plainText (Boolean b) = Some (formatBool b)"
| "plainText (JoinedArray xs) = Some (joinStr '','' xs)"
| "plainText (Fixed x) = Some (fmtF x)"

text \<open>The value of a variable and the entry of a key. The variables of a container are a list keyed by
  name, in which the server admits a name once; the names that the operator gives to mintd are shown
  to be distinct below.\<close>

definition envLookup :: "EnvVar list \<Rightarrow> string \<Rightarrow> string option" where
  "envLookup es n = map_option env_Value (find (\<lambda>e. env_Name e = n) es)"

definition atKey :: "string \<Rightarrow> string \<Rightarrow> string \<times> string \<times> tomlValue \<Rightarrow> bool" where
  "atKey s k e \<longleftrightarrow> fst e = s \<and> fst (snd e) = k"

definition found :: "(string \<times> string \<times> tomlValue) list \<Rightarrow> string \<Rightarrow> string \<Rightarrow> tomlValue option" where
  "found es s k = map_option (\<lambda>e. snd (snd e)) (find (atKey s k) es)"

definition entryText :: "(string \<times> string \<times> tomlValue) list \<Rightarrow> string \<Rightarrow> string \<Rightarrow> string option" where
  "entryText es s k = Option.bind (found es s k) plainText"

fun headerStart :: "tomlItem list \<Rightarrow> bool" where
  "headerStart (Entry k v # is) = False"
| "headerStart is = True"

lemma headerStart_append: "headerStart a \<Longrightarrow> headerStart b \<Longrightarrow> headerStart (a @ b)"
  by (cases a rule: headerStart.cases) auto

lemma headerStart_opt [simp]:
  "headerStart (optL p f) = pred_option (\<lambda>x. headerStart (f x)) p"
  "headerStart (whenL b is) = (b \<longrightarrow> headerStart is)"
  by (auto simp: optL_def whenL_def split: option.splits)

lemma entriesOf_headerStart: "headerStart is \<Longrightarrow> entriesOf s is = entriesOf '''' is"
  by (cases "is" rule: headerStart.cases) auto

definition look :: "tomlItem list \<Rightarrow> string \<Rightarrow> string \<Rightarrow> string option" where
  "look is s k = entryText (entriesOf '''' is) s k"

definition firstSome :: "'a option \<Rightarrow> 'a option \<Rightarrow> 'a option" where
  "firstSome a b = (case a of None \<Rightarrow> b | Some x \<Rightarrow> Some x)"

lemma find_append: "find P (xs @ ys) = firstSome (find P xs) (find P ys)"
  by (induction xs) (auto simp: firstSome_def)

lemma entries_keys: "(s, k, v) \<in> set (entriesOf sec items) \<Longrightarrow> (s, k) \<in> set (keysIn sec items)"
  by (force simp: keysIn_def)

lemma found_append: "found (xs @ ys) s k = firstSome (found xs s k) (found ys s k)"
  by (simp add: found_def find_append firstSome_def split: option.splits)

lemma found_outside:
  assumes "keysOK A items" and "s \<notin> A"
  shows "found (entriesOf sec items) s k = None"
proof -
  have "\<not> atKey s k e" if "e \<in> set (entriesOf sec items)" for e
    using that assms entries_keys [of "fst e" "fst (snd e)" "snd (snd e)" sec items]
    by (fastforce simp: keysOK_def atKey_def)
  then show ?thesis by (simp add: found_def find_None_iff)
qed

lemma found_outside_all:
  assumes "\<forall>p \<in> set ps. keysOK (fst p) (snd p) \<and> s \<notin> fst p"
  shows "found (entriesOf sec (concat (map snd ps))) s k = None"
  using assms
proof (induction ps arbitrary: sec)
  case Nil
  then show ?case by (simp add: found_def)
next
  case (Cons p ps)
  then show ?case
    using found_outside [of "fst p" "snd p" s sec k]
    by (simp add: entriesOf_append found_append firstSome_def)
qed

lemma look_middle:
  assumes "\<forall>p \<in> set (pre @ post). keysOK (fst p) (snd p) \<and> s \<notin> fst p" and "headerStart is"
  shows "look (concat (map snd pre) @ is @ concat (map snd post)) s k = look is s k"
proof -
  have pre: "found (entriesOf sec (concat (map snd pre))) s k = None" for sec
    using assms(1) by (intro found_outside_all) simp
  have post: "found (entriesOf sec (concat (map snd post))) s k = None" for sec
    using assms(1) by (intro found_outside_all) simp
  have mid: "entriesOf (secAfter '''' (concat (map snd pre))) is = entriesOf '''' is"
    by (rule entriesOf_headerStart [OF assms(2)])
  have "found (entriesOf '''' (concat (map snd pre) @ is @ concat (map snd post))) s k = found (entriesOf '''' is) s k"
    by (simp only: entriesOf_append mid found_append pre post) (simp add: firstSome_def split: option.splits)
  then show ?thesis by (simp only: look_def entryText_def)
qed

lemma writer_starts:
  "headerStart (writeInfoSection m)" "headerStart (writeDatabaseSection m pw)"
  "headerStart (writePaymentBackendSection m)" "headerStart (writeManagementRPCSection m)"
  "headerStart (writePrometheusSection m)"
  by (simp_all add: write_defs Let_def)

definition infoKeys :: "string set" where
  "infoKeys = {''info'', ''info.quote_ttl'', ''info.http_cache'', ''info.logging''}"

definition databaseKeys :: "string set" where
  "databaseKeys = {''database'', ''database.postgres'', ''auth_database.postgres''}"

definition paymentKeys :: "string set" where
  "paymentKeys = {''ln''} \<union> backendSections"

lemma config_keys:
  "keysOK infoKeys (writeInfoSection m)" "keysOK {''mint_info''} (writeMintInfoSection m)"
  "keysOK databaseKeys (writeDatabaseSection m pw)" "keysOK paymentKeys (writePaymentBackendSection m)"
  "keysOK {''ldk_node''} (writeLDKNodeSection m)" "keysOK {''auth''} (writeAuthSection m)"
  "keysOK {''mint_management_rpc''} (writeManagementRPCSection m)" "keysOK {''limits''} (writeLimitsSection m)"
  "keysOK {''prometheus''} (writePrometheusSection m)"
  unfolding infoKeys_def databaseKeys_def paymentKeys_def
  by (rule keysOK_info keysOK_database keysOK_payment keysOK_simple_sections)+

lemmas key_set_defs = infoKeys_def databaseKeys_def paymentKeys_def backendSections_def

text \<open>A key of the file is looked up in the section writer that owns its section.\<close>

lemma look_config:
  "s \<in> infoKeys \<Longrightarrow> look (configItems m pw) s k = look (writeInfoSection m) s k"
  "s \<in> databaseKeys \<Longrightarrow> look (configItems m pw) s k = look (writeDatabaseSection m pw) s k"
  "s \<in> {''ln'', ''grpc_processor''} \<Longrightarrow> look (configItems m pw) s k = look (writePaymentBackendSection m) s k"
  "look (configItems m pw) ''mint_management_rpc'' k = look (writeManagementRPCSection m) ''mint_management_rpc'' k"
  "look (configItems m pw) ''prometheus'' k = look (writePrometheusSection m) ''prometheus'' k"
proof -
  let ?i = "(infoKeys, writeInfoSection m)" and ?m = "({''mint_info''}, writeMintInfoSection m)"
  let ?d = "(databaseKeys, writeDatabaseSection m pw)" and ?p = "(paymentKeys, writePaymentBackendSection m)"
  let ?l = "({''ldk_node''}, writeLDKNodeSection m)" and ?a = "({''auth''}, writeAuthSection m)"
  let ?r = "({''mint_management_rpc''}, writeManagementRPCSection m)"
  let ?t = "({''limits''}, writeLimitsSection m)" and ?q = "({''prometheus''}, writePrometheusSection m)"
  note k = config_keys [of m] config_keys(3) [of m pw] and w = writer_starts [of m] writer_starts(2) [of m pw]
  show "look (configItems m pw) s k = look (writeInfoSection m) s k" if "s \<in> infoKeys"
    using look_middle [of "[]" "[?m, ?d, ?p, ?l, ?a, ?r, ?t, ?q]" s "writeInfoSection m" k] that
    by (auto simp: configItems_def k w infoKeys_def) (simp_all add: databaseKeys_def paymentKeys_def backendSections_def)
  show "look (configItems m pw) s k = look (writeDatabaseSection m pw) s k" if "s \<in> databaseKeys"
    using look_middle [of "[?i, ?m]" "[?p, ?l, ?a, ?r, ?t, ?q]" s "writeDatabaseSection m pw" k] that
    by (auto simp: configItems_def k w databaseKeys_def) (simp_all add: infoKeys_def paymentKeys_def backendSections_def)
  show "look (configItems m pw) s k = look (writePaymentBackendSection m) s k" if "s \<in> {''ln'', ''grpc_processor''}"
    using look_middle [of "[?i, ?m, ?d]" "[?l, ?a, ?r, ?t, ?q]" s "writePaymentBackendSection m" k] that
    by (auto simp: configItems_def k w) (simp_all add: key_set_defs)
  show "look (configItems m pw) ''mint_management_rpc'' k = look (writeManagementRPCSection m) ''mint_management_rpc'' k"
    using look_middle [of "[?i, ?m, ?d, ?p, ?l, ?a]" "[?t, ?q]" "''mint_management_rpc''" "writeManagementRPCSection m" k]
    by (simp add: configItems_def k w) (simp add: key_set_defs)
  show "look (configItems m pw) ''prometheus'' k = look (writePrometheusSection m) ''prometheus'' k"
    using look_middle [of "[?i, ?m, ?d, ?p, ?l, ?a, ?r, ?t]" "[]" "''prometheus''" "writePrometheusSection m" k]
    by (simp add: configItems_def k w) (simp add: key_set_defs)
qed

text \<open>Inside a section writer: the parts that open no such section are skipped, and the lookup in a
  part that opens only this section follows its entries.\<close>

lemma found_Nil [simp]: "found [] s k = None"
  by (simp add: found_def)

lemma found_Cons [simp]: "found ((s', k', v) # es) s k = (if s' = s \<and> k' = k then Some v else found es s k)"
  by (simp add: found_def atKey_def)

lemma firstSome_simps [simp]: "firstSome None b = b" "firstSome (Some x) b = Some x" "firstSome a None = a"
  by (simp_all add: firstSome_def split: option.splits)

lemma entriesOf_optional [simp]:
  "entriesOf s (optL p f) = optL p (\<lambda>x. entriesOf s (f x))"
  "entriesOf s (whenL b is) = whenL b (entriesOf s is)"
  by (auto simp: optL_def whenL_def split: option.splits)

lemma found_optional [simp]:
  "found (optL p f) s k = Option.bind p (\<lambda>x. found (f x) s k)"
  "found (whenL b es) s k = (if b then found es s k else None)"
  by (auto simp: optL_def whenL_def split: option.splits)

lemma headersOf_optional [simp]:
  "set (headersOf (optL p f)) = \<Union> ((\<lambda>x. set (headersOf (f x))) ` set_option p)"
  "set (headersOf (whenL b is)) = (if b then set (headersOf is) else {})"
  by (auto simp: optL_def whenL_def split: option.splits)

lemma headersOf_entry [simp]:
  "headersOf (strEntry k x) = []" "headersOf (intEntry k i) = []" "headersOf (boolEntry k b) = []"
  by (simp_all add: strEntry_def intEntry_def boolEntry_def optL_def whenL_def split: option.splits)

lemma found_elsewhere: "sec \<noteq> s \<Longrightarrow> s \<notin> set (headersOf items) \<Longrightarrow> found (entriesOf sec items) s k = None"
  by (induction sec items rule: entriesOf.induct) auto

lemma found_key_elsewhere [simp]:
  "k' \<noteq> k \<Longrightarrow> found (entriesOf sec (strEntry k' x)) s k = None"
  "k' \<noteq> k \<Longrightarrow> found (entriesOf sec (intEntry k' i)) s k = None"
  "k' \<noteq> k \<Longrightarrow> found (entriesOf sec (boolEntry k' b)) s k = None"
  by (simp_all add: strEntry_def intEntry_def boolEntry_def split: Option.bind_splits)

lemma look_writeInfoSection:
  "look (writeInfoSection m) ''info'' ''url'' = Some (mi_URL (cms_MintInfo (cm_Spec m)))"
  "look (writeInfoSection m) ''info'' ''listen_host'' = Some (listenHost m)"
  "look (writeInfoSection m) ''info'' ''listen_port'' = Some (itoa (listenPort m))"
  by (simp_all add: look_def entryText_def writeInfoSection_def Let_def)

definition loggingItems :: "LoggingConfig \<Rightarrow> tomlItem list" where
  "loggingItems l = [Header True ''info.logging'', Entry ''output'' (Quoted ''stderr'')]
     @ strEntry ''console_level'' (lg_Level l) @ strEntry ''file_level'' (lg_FileLevel l)"

definition cacheItems :: "HTTPCacheConfig \<Rightarrow> tomlItem list" where
  "cacheItems h = [Header True ''info.http_cache'', Entry ''backend'' (Quoted (orStr (hc_Backend h) ''memory''))]
     @ intEntry ''ttl'' (hc_TTL h) @ intEntry ''tti'' (hc_TTI h)
     @ whenL (hc_Backend h = ''redis'') (optL (hc_Redis h) (\<lambda>r.
         strEntry ''key_prefix'' (rd_KeyPrefix r) @ strEntry ''connection_string'' (rd_ConnectionString r)))"

lemma writeInfoSection_split:
  "\<exists>a. writeInfoSection m = a @ optL (cms_HTTPCache (cm_Spec m)) cacheItems @ optL (cms_Logging (cm_Spec m)) loggingItems
     \<and> set (headersOf a) \<subseteq> {''info'', ''info.quote_ttl''}"
  unfolding writeInfoSection_def Let_def loggingItems_def [abs_def] cacheItems_def [abs_def] append_assoc [symmetric]
  by (rule exI, rule conjI, rule refl) auto

lemma info_parts:
  "''info.logging'' \<notin> set (headersOf (optL (cms_HTTPCache (cm_Spec m)) cacheItems))"
  "''info.http_cache'' \<notin> set (headersOf (optL (cms_Logging (cm_Spec m)) loggingItems))"
  by (auto simp: cacheItems_def loggingItems_def)

lemma look_info_part:
  "look (writeInfoSection m) ''info.logging'' k = look (optL (cms_Logging (cm_Spec m)) loggingItems) ''info.logging'' k"
  "look (writeInfoSection m) ''info.http_cache'' k = look (optL (cms_HTTPCache (cm_Spec m)) cacheItems) ''info.http_cache'' k"
proof -
  obtain a where w: "writeInfoSection m = a @ optL (cms_HTTPCache (cm_Spec m)) cacheItems @ optL (cms_Logging (cm_Spec m)) loggingItems"
    and h: "set (headersOf a) \<subseteq> {''info'', ''info.quote_ttl''}" using writeInfoSection_split by blast
  have f: "found (entriesOf '''' a) s k = None" if "s \<in> {''info.logging'', ''info.http_cache''}" for s k
    using h that by (intro found_elsewhere) auto
  have start: "headerStart (optL (cms_HTTPCache (cm_Spec m)) cacheItems)" "headerStart (optL (cms_Logging (cm_Spec m)) loggingItems)"
    by (simp_all add: cacheItems_def loggingItems_def)
  note parts = entriesOf_headerStart [OF start(1)] entriesOf_headerStart [OF start(2)]
  have c: "found (entriesOf '''' (optL (cms_HTTPCache (cm_Spec m)) cacheItems)) ''info.logging'' k = None"
    and l: "found (entriesOf '''' (optL (cms_Logging (cm_Spec m)) loggingItems)) ''info.http_cache'' k = None" for k
    using info_parts [of m] by (intro found_elsewhere; simp)+
  show "look (writeInfoSection m) ''info.logging'' k = look (optL (cms_Logging (cm_Spec m)) loggingItems) ''info.logging'' k"
    "look (writeInfoSection m) ''info.http_cache'' k = look (optL (cms_HTTPCache (cm_Spec m)) cacheItems) ''info.http_cache'' k"
    unfolding w look_def entryText_def entriesOf_append found_append parts(1) [of "secAfter _ _"] parts(2) [of "secAfter _ _"]
    by (simp_all only: f c l insertI1 insertI2 firstSome_simps)
qed

lemma look_logging:
  "look (writeInfoSection m) ''info.logging'' ''console_level''
   = Option.bind (cms_Logging (cm_Spec m)) (\<lambda>l. if lg_Level l = '''' then None else Some (lg_Level l))"
  "look (writeInfoSection m) ''info.logging'' ''file_level''
   = Option.bind (cms_Logging (cm_Spec m)) (\<lambda>l. if lg_FileLevel l = '''' then None else Some (lg_FileLevel l))"
  "look (writeInfoSection m) ''info.logging'' ''output'' = map_option (\<lambda>_. ''stderr'') (cms_Logging (cm_Spec m))"
  unfolding look_info_part
  by (auto simp: look_def entryText_def loggingItems_def strEntry_def whenL_def split: Option.bind_splits option.splits)

lemma look_cache:
  "look (writeInfoSection m) ''info.http_cache'' ''connection_string''
   = Option.bind (cms_HTTPCache (cm_Spec m)) (\<lambda>h. if hc_Backend h = ''redis'' then Option.bind (hc_Redis h)
       (\<lambda>r. if rd_ConnectionString r = '''' then None else Some (rd_ConnectionString r)) else None)"
  unfolding look_info_part
  by (auto simp: look_def entryText_def cacheItems_def entriesOf_append found_append secAfter_no_headers strEntry_def whenL_def
      split: Option.bind_splits option.splits)

lemma look_database: "look (writeDatabaseSection m pw) ''database'' ''engine'' = Some (db_Engine (cms_Database (cm_Spec m)))"
  by (simp add: look_def entryText_def writeDatabaseSection_def Let_def)

lemma look_payment:
  "look (writePaymentBackendSection m) ''ln'' ''ln_backend'' = Some (ActiveBackend (cms_PaymentBackend (cm_Spec m)))"
  by (simp add: look_def entryText_def writePaymentBackendSection_def Let_def)

lemma backend_headers:
  "''grpc_processor'' \<notin> set (headersOf (writeLNDSection m))" "''grpc_processor'' \<notin> set (headersOf (writeCLNSection m))"
  "''grpc_processor'' \<notin> set (headersOf (writeLNBitsSection m))"
  "''grpc_processor'' \<notin> set (headersOf (writeFakeWalletSection m))"
  by (auto simp: write_defs floatEntry_def Let_def)

lemma writePaymentBackendSection_split:
  "\<exists>a b. writePaymentBackendSection m = a @ b @
     whenL (ActiveBackend (cms_PaymentBackend (cm_Spec m)) = PaymentBackendGRPCProcessor) (writeGRPCProcessorSection m)
   \<and> ''grpc_processor'' \<notin> set (headersOf (a @ b))"
proof -
  let ?p = "cms_PaymentBackend (cm_Spec m)"
  let ?a = "[Header True ''ln'', Entry ''ln_backend'' (Quoted (ActiveBackend ?p))]
      @ intEntry ''min_mint'' (pb_MinMint ?p) @ intEntry ''max_mint'' (pb_MaxMint ?p)
      @ intEntry ''min_melt'' (pb_MinMelt ?p) @ intEntry ''max_melt'' (pb_MaxMelt ?p)"
  let ?b = "ActiveBackend ?p"
  let ?w = "if ?b = PaymentBackendLND then writeLNDSection m else if ?b = PaymentBackendCLN then writeCLNSection m
      else if ?b = PaymentBackendLNBits then writeLNBitsSection m
      else if ?b = PaymentBackendFakeWallet then writeFakeWalletSection m else []"
  have "writePaymentBackendSection m = ?a @ ?w @ whenL (?b = PaymentBackendGRPCProcessor) (writeGRPCProcessorSection m)"
    by (simp add: writePaymentBackendSection_def Let_def whenL_def backend_defs)
  moreover have "''grpc_processor'' \<notin> set (headersOf (?a @ ?w))" using backend_headers by simp
  ultimately show ?thesis by blast
qed

lemma look_grpc:
  "look (writePaymentBackendSection m) ''grpc_processor'' k
   = (if ActiveBackend (cms_PaymentBackend (cm_Spec m)) = PaymentBackendGRPCProcessor
      then look (writeGRPCProcessorSection m) ''grpc_processor'' k else None)"
proof -
  let ?g = "whenL (ActiveBackend (cms_PaymentBackend (cm_Spec m)) = PaymentBackendGRPCProcessor) (writeGRPCProcessorSection m)"
  obtain a b where w: "writePaymentBackendSection m = (a @ b) @ ?g"
    and h: "''grpc_processor'' \<notin> set (headersOf (a @ b))" using writePaymentBackendSection_split [of m] by auto
  have f: "found (entriesOf '''' (a @ b)) ''grpc_processor'' k = None"
    by (rule found_elsewhere [OF _ h]) simp
  have g: "headerStart (writeGRPCProcessorSection m)" by (simp add: writeGRPCProcessorSection_def Let_def)
  show ?thesis
    unfolding w look_def entryText_def entriesOf_append [of _ "a @ b"] found_append f
    by (simp add: entriesOf_headerStart [OF g, of "secAfter _ _"])
qed

text \<open>The lookups of a variable.\<close>

lemma envLookup_simps [simp]:
  "envLookup [] n = None"
  "envLookup (e # es) n = (if env_Name e = n then Some (env_Value e) else envLookup es n)"
  "envLookup (xs @ ys) n = firstSome (envLookup xs n) (envLookup ys n)"
  "envLookup (optL p f) n = Option.bind p (\<lambda>x. envLookup (f x) n)"
  "envLookup (whenL b es) n = (if b then envLookup es n else None)"
  by (auto simp: envLookup_def find_append firstSome_def optL_def whenL_def split: option.splits)

text \<open>Each shadowed entry.\<close>

lemmas env_defs = generateEnvironmentVariables_def mintCoreEnvVars_def mintLoggingEnvVars_def mintMnemonicEnvVars_def
  mintManagementRPCEnvVars_def mintPrometheusEnvVars_def mintLDKEnvVars_def mintHTTPCacheEnvVars_def
  mintPaymentBackendEnvVars_def mintLNBitsEnvVars_def mintGRPCProcessorEnvVars_def

lemma env_mnemonic [simp]: "n \<noteq> ''CDK_MINTD_MNEMONIC'' \<Longrightarrow> envLookup (mintMnemonicEnvVars m) n = None"
  by (auto simp: mintMnemonicEnvVars_def split: Option.bind_splits)

lemma env_ldk [simp]:
  "n \<notin> {''BITCOIN_RPC_USER'', ''BITCOIN_RPC_PASSWORD'', ''CDK_LDK_NODE_MNEMONIC''}
   \<Longrightarrow> envLookup (mintLDKEnvVars m) n = None"
  by (auto simp: mintLDKEnvVars_def split: Option.bind_splits)

lemma env_cache [simp]: "n \<noteq> ''REDIS_CONNECTION_STRING'' \<Longrightarrow> envLookup (mintHTTPCacheEnvVars m) n = None"
  by (auto simp: mintHTTPCacheEnvVars_def split: Option.bind_splits option.splits)

lemma env_core [simp]:
  "envLookup (mintCoreEnvVars m) ''CDK_MINTD_LN_BACKEND'' = Some (ActiveBackend (cms_PaymentBackend (cm_Spec m)))"
  "envLookup (mintCoreEnvVars m) ''CDK_MINTD_URL'' = Some (mi_URL (cms_MintInfo (cm_Spec m)))"
  "envLookup (mintCoreEnvVars m) ''CDK_MINTD_LISTEN_HOST'' = Some (listenHost m)"
  "envLookup (mintCoreEnvVars m) ''CDK_MINTD_LISTEN_PORT'' = Some (itoa (listenPort m))"
  "envLookup (mintCoreEnvVars m) ''CDK_MINTD_DATABASE'' = Some (db_Engine (cms_Database (cm_Spec m)))"
  by (simp_all add: mintCoreEnvVars_def)

lemma env_core_None [simp]:
  "n \<notin> {''CDK_MINTD_WORK_DIR'', ''HOME'', ''CDK_MINTD_LN_BACKEND'', ''CDK_MINTD_URL'', ''CDK_MINTD_LISTEN_HOST'',
     ''CDK_MINTD_LISTEN_PORT'', ''CDK_MINTD_DATABASE'', ''CDK_MINTD_LOGGING_OUTPUT''} \<Longrightarrow>
   envLookup (mintCoreEnvVars m) n = None"
  by (auto simp: mintCoreEnvVars_def)

lemma env_logging_None [simp]:
  "n \<notin> {''RUST_LOG'', ''CDK_MINTD_LOGGING_CONSOLE_LEVEL'', ''CDK_MINTD_LOGGING_FILE_LEVEL''} \<Longrightarrow>
   envLookup (mintLoggingEnvVars m) n = None"
  by (auto simp: mintLoggingEnvVars_def split: Option.bind_splits)

lemma env_management_None [simp]:
  "n \<notin> {''CDK_MINTD_MINT_MANAGEMENT_ENABLED'', ''CDK_MINTD_MANAGEMENT_ADDRESS'', ''CDK_MINTD_MANAGEMENT_PORT'',
     ''CDK_MINTD_MANAGEMENT_TLS_DIR_PATH''} \<Longrightarrow>
   envLookup (mintManagementRPCEnvVars m) n = None"
  by (auto simp: mintManagementRPCEnvVars_def split: Option.bind_splits)

lemma env_prometheus_None [simp]:
  "n \<noteq> ''CDK_MINTD_PROMETHEUS_ENABLED'' \<Longrightarrow> envLookup (mintPrometheusEnvVars m) n = None"
  by (auto simp: mintPrometheusEnvVars_def)

lemma env_payment_None [simp]:
  "n \<notin> {''LNBITS_ADMIN_API_KEY'', ''LNBITS_INVOICE_API_KEY'', ''CDK_MINTD_GRPC_PAYMENT_PROCESSOR_SUPPORTED_UNITS'',
     ''CDK_MINTD_GRPC_PAYMENT_PROCESSOR_ADDRESS'', ''CDK_MINTD_GRPC_PAYMENT_PROCESSOR_PORT'',
     ''CDK_MINTD_GRPC_PAYMENT_PROCESSOR_TLS_DIR''} \<Longrightarrow>
   envLookup (mintPaymentBackendEnvVars m) n = None"
  by (auto simp: mintPaymentBackendEnvVars_def mintLNBitsEnvVars_def mintGRPCProcessorEnvVars_def Let_def
      split: Option.bind_splits)

definition agrees :: "CashuMint \<Rightarrow> string \<Rightarrow> string \<times> string \<times> string \<Rightarrow> bool" where
  "agrees m pw p = (envLookup (generateEnvironmentVariables m) (fst p)
                    = look (configItems m pw) (fst (snd p)) (snd (snd p)))"

lemma env_core_agrees:
  "agrees m pw (''CDK_MINTD_URL'', ''info'', ''url'')"
  "agrees m pw (''CDK_MINTD_LISTEN_HOST'', ''info'', ''listen_host'')"
  "agrees m pw (''CDK_MINTD_LISTEN_PORT'', ''info'', ''listen_port'')"
  "agrees m pw (''CDK_MINTD_LN_BACKEND'', ''ln'', ''ln_backend'')"
  "agrees m pw (''CDK_MINTD_DATABASE'', ''database'', ''engine'')"
  by (simp_all add: agrees_def generateEnvironmentVariables_def look_config databaseKeys_def infoKeys_def
      look_writeInfoSection look_database look_payment)

lemma env_logging_agrees:
  "agrees m pw (''CDK_MINTD_LOGGING_CONSOLE_LEVEL'', ''info.logging'', ''console_level'')"
  "agrees m pw (''CDK_MINTD_LOGGING_FILE_LEVEL'', ''info.logging'', ''file_level'')"
  by (simp_all add: agrees_def generateEnvironmentVariables_def look_config infoKeys_def look_logging mintLoggingEnvVars_def
      split: Option.bind_splits)

lemma env_management_agrees:
  "agrees m pw (''CDK_MINTD_MINT_MANAGEMENT_ENABLED'', ''mint_management_rpc'', ''enabled'')"
  "agrees m pw (''CDK_MINTD_MANAGEMENT_ADDRESS'', ''mint_management_rpc'', ''address'')"
  "agrees m pw (''CDK_MINTD_MANAGEMENT_PORT'', ''mint_management_rpc'', ''port'')"
  "agrees m pw (''CDK_MINTD_MANAGEMENT_TLS_DIR_PATH'', ''mint_management_rpc'', ''tls_dir_path'')"
  by (simp_all add: agrees_def generateEnvironmentVariables_def look_config mintManagementRPCEnvVars_def)
    (simp_all add: writeManagementRPCSection_def look_def entryText_def formatBool_def trueStr_def split: Option.bind_splits)

lemma env_prometheus_agrees: "agrees m pw (''CDK_MINTD_PROMETHEUS_ENABLED'', ''prometheus'', ''enabled'')"
  by (simp add: agrees_def generateEnvironmentVariables_def look_config mintPrometheusEnvVars_def prometheusEnabled_def)
    (simp add: writePrometheusSection_def look_def entryText_def formatBool_def trueStr_def optP_def
      split: Option.bind_splits option.splits)

lemma env_grpc_agrees:
  "agrees m pw (''CDK_MINTD_GRPC_PAYMENT_PROCESSOR_SUPPORTED_UNITS'', ''grpc_processor'', ''supported_units'')"
  "agrees m pw (''CDK_MINTD_GRPC_PAYMENT_PROCESSOR_ADDRESS'', ''grpc_processor'', ''addr'')"
  "agrees m pw (''CDK_MINTD_GRPC_PAYMENT_PROCESSOR_PORT'', ''grpc_processor'', ''port'')"
  "agrees m pw (''CDK_MINTD_GRPC_PAYMENT_PROCESSOR_TLS_DIR'', ''grpc_processor'', ''tls_dir'')"
  by (simp_all add: agrees_def generateEnvironmentVariables_def look_config look_grpc mintPaymentBackendEnvVars_def
      mintLNBitsEnvVars_def mintGRPCProcessorEnvVars_def backend_defs Let_def)
    (simp_all add: writeGRPCProcessorSection_def Let_def look_def entryText_def split: Option.bind_splits)

lemma env_all_agree: "list_all (agrees m pw) shadowedEntries"
  unfolding shadowedEntries_def list.pred_inject
  by (intro conjI TrueI list.pred_inject(1) env_core_agrees env_logging_agrees env_management_agrees env_prometheus_agrees env_grpc_agrees)

text \<open>The connection string of the cache: from a secret, or as in the file.\<close>

definition redisSecret :: "CashuMint \<Rightarrow> SecretKeySelector option" where
  "redisSecret m = Option.bind (cms_HTTPCache (cm_Spec m)) (\<lambda>h. if hc_Backend h = ''redis''
     then Option.bind (hc_Redis h) rd_ConnectionStringSecretRef else None)"

lemma env_redis:
  "redisSecret m = None \<Longrightarrow> agrees m pw (''REDIS_CONNECTION_STRING'', ''info.http_cache'', ''connection_string'')"
  by (auto simp: redisSecret_def agrees_def generateEnvironmentVariables_def look_config infoKeys_def look_cache
      mintHTTPCacheEnvVars_def split: Option.bind_splits option.splits if_splits)

lemma env_redis_secret:
  assumes "redisSecret m = Some ref"
  shows "envSecret ''REDIS_CONNECTION_STRING'' ref \<in> set (generateEnvironmentVariables m)"
proof -
  from assms have "mintHTTPCacheEnvVars m = [envSecret ''REDIS_CONNECTION_STRING'' ref]"
    by (auto simp: redisSecret_def mintHTTPCacheEnvVars_def bind_eq_Some_conv split: if_splits)
  then show ?thesis by (simp add: generateEnvironmentVariables_def)
qed

lemma env_output:
  "envLookup (generateEnvironmentVariables m) ''CDK_MINTD_LOGGING_OUTPUT'' = Some ''stderr''"
  "look (configItems m pw) ''info.logging'' ''output'' = map_option (\<lambda>_. ''stderr'') (cms_Logging (cm_Spec m))"
  by (simp_all add: generateEnvironmentVariables_def mintCoreEnvVars_def look_config infoKeys_def look_logging)

text \<open>The names, in order, are some of a fixed list.\<close>

definition variableNames :: "string list" where
  "variableNames =
     [''CDK_MINTD_WORK_DIR'', ''HOME'', ''CDK_MINTD_LN_BACKEND'', ''CDK_MINTD_URL'', ''CDK_MINTD_LISTEN_HOST'',
      ''CDK_MINTD_LISTEN_PORT'', ''CDK_MINTD_DATABASE'', ''CDK_MINTD_LOGGING_OUTPUT'']
     @ ([''RUST_LOG'', ''CDK_MINTD_LOGGING_CONSOLE_LEVEL''] @ [''CDK_MINTD_LOGGING_FILE_LEVEL''])
     @ [''CDK_MINTD_MNEMONIC'']
     @ ([''CDK_MINTD_MINT_MANAGEMENT_ENABLED'', ''CDK_MINTD_MANAGEMENT_ADDRESS'', ''CDK_MINTD_MANAGEMENT_PORT'']
        @ [''CDK_MINTD_MANAGEMENT_TLS_DIR_PATH''])
     @ [''CDK_MINTD_PROMETHEUS_ENABLED'']
     @ ([''LNBITS_ADMIN_API_KEY'', ''LNBITS_INVOICE_API_KEY'']
        @ ([''CDK_MINTD_GRPC_PAYMENT_PROCESSOR_SUPPORTED_UNITS'', ''CDK_MINTD_GRPC_PAYMENT_PROCESSOR_ADDRESS'',
            ''CDK_MINTD_GRPC_PAYMENT_PROCESSOR_PORT''] @ [''CDK_MINTD_GRPC_PAYMENT_PROCESSOR_TLS_DIR'']))
     @ ([''BITCOIN_RPC_USER'', ''BITCOIN_RPC_PASSWORD''] @ [''CDK_LDK_NODE_MNEMONIC''])
     @ [''REDIS_CONNECTION_STRING'']"

lemma variable_parts:
  "subseq (map env_Name (mintMnemonicEnvVars m)) [''CDK_MINTD_MNEMONIC'']"
  "subseq (map env_Name (mintPrometheusEnvVars m)) [''CDK_MINTD_PROMETHEUS_ENABLED'']"
  "subseq (map env_Name (mintHTTPCacheEnvVars m)) [''REDIS_CONNECTION_STRING'']"
  "subseq (map env_Name (mintLoggingEnvVars m))
     ([''RUST_LOG'', ''CDK_MINTD_LOGGING_CONSOLE_LEVEL''] @ [''CDK_MINTD_LOGGING_FILE_LEVEL''])"
  "subseq (map env_Name (mintManagementRPCEnvVars m))
     ([''CDK_MINTD_MINT_MANAGEMENT_ENABLED'', ''CDK_MINTD_MANAGEMENT_ADDRESS'', ''CDK_MINTD_MANAGEMENT_PORT'']
        @ [''CDK_MINTD_MANAGEMENT_TLS_DIR_PATH''])"
  "subseq (map env_Name (mintLDKEnvVars m)) ([''BITCOIN_RPC_USER'', ''BITCOIN_RPC_PASSWORD''] @ [''CDK_LDK_NODE_MNEMONIC''])"
  "subseq (map env_Name (mintPaymentBackendEnvVars m)) ([''LNBITS_ADMIN_API_KEY'', ''LNBITS_INVOICE_API_KEY'']
     @ ([''CDK_MINTD_GRPC_PAYMENT_PROCESSOR_SUPPORTED_UNITS'', ''CDK_MINTD_GRPC_PAYMENT_PROCESSOR_ADDRESS'',
         ''CDK_MINTD_GRPC_PAYMENT_PROCESSOR_PORT''] @ [''CDK_MINTD_GRPC_PAYMENT_PROCESSOR_TLS_DIR'']))"
  by (auto simp: env_defs optL_def whenL_def Let_def split: option.splits)

lemma variable_names: "subseq (map env_Name (generateEnvironmentVariables m)) variableNames"
  unfolding generateEnvironmentVariables_def variableNames_def map_append
  by (intro list_emb_append_mono variable_parts) (simp add: mintCoreEnvVars_def)


end
