(* ===== verification/GoCrypto.thy ===== *)
theory GoCrypto
  imports GoLib
begin

section \<open>Byte encodings and SHA-256\<close>

text \<open>
  \<^verbatim>\<open>hex.EncodeToString\<close>, \<^verbatim>\<open>base64.URLEncoding.EncodeToString\<close> and \<^verbatim>\<open>sha256.Sum256\<close>
  (FIPS 180-4), as \<^verbatim>\<open>helpers.go\<close>, \<^verbatim>\<open>backup.go\<close>, \<^verbatim>\<open>postgres.go\<close> and \<^verbatim>\<open>mnemonic.go\<close> use
  them, with the facts about lengths and alphabets the components rely on.
\<close>

unbundle bit_operations_syntax

definition stringBytes :: "string \<Rightarrow> byte list" where
  "stringBytes s = map (\<lambda>c. of_nat (of_char c)) s"

definition bytesString :: "byte list \<Rightarrow> string" where
  "bytesString bs = map (\<lambda>b. char_of (unat b)) bs"

lemma length_stringBytes [simp]: "length (stringBytes s) = length s"
  by (simp add: stringBytes_def)

lemma stringBytes_inject [simp]: "(stringBytes s = stringBytes t) = (s = t)"
proof -
  have "bytesString (stringBytes s) = s" for s
  proof -
    have "char_of (unat (of_nat (of_char c) :: byte)) = c" for c
    proof -
      have "(of_char c :: nat) < 256" by simp
      then have "unat (of_nat (of_char c) :: byte) = of_char c"
        by (simp add: unat_of_nat)
      then show ?thesis by simp
    qed
    then show ?thesis by (simp add: bytesString_def stringBytes_def o_def)
  qed
  then show ?thesis by metis
qed

subsection \<open>Hexadecimal\<close>

definition hexByte :: "byte \<Rightarrow> string" where
  "hexByte b = [hexChar (unat b div 16), hexChar (unat b mod 16)]"

definition hexEncode :: "byte list \<Rightarrow> string" where
  "hexEncode bs = concat (map hexByte bs)"

lemma length_hexEncode [simp]: "length (hexEncode bs) = 2 * length bs"
  by (induction bs) (auto simp: hexEncode_def hexByte_def)

lemma hexChar_inject: "a < 16 \<Longrightarrow> b < 16 \<Longrightarrow> (hexChar a = hexChar b) = (a = b)"
proof
  assume ab: "a < 16" "b < 16" and "hexChar a = hexChar b"
  then have "of_char (hexChar a) = (of_char (hexChar b) :: nat)" by simp
  with ab show "a = b" by (auto simp: hexChar_def split: if_splits)
qed simp

lemma unat_byte_less [simp]: "unat (b :: byte) < 256"
  by (rule order.strict_trans2 [OF unsigned_less]) simp

lemma hexByte_inject [simp]: "(hexByte a = hexByte b) = (a = b)"
proof
  assume "hexByte a = hexByte b"
  then have "unat a div 16 = unat b div 16" "unat a mod 16 = unat b mod 16"
    by (auto simp: hexByte_def hexChar_inject less_mult_imp_div_less)
  then have "unat a = unat b" by (metis div_mult_mod_eq)
  then show "a = b" by (simp add: word_unat_eq_iff)
qed simp

lemma hexEncode_inject [simp]: "(hexEncode a = hexEncode b) = (a = b)"
proof (induction a arbitrary: b)
  case Nil
  then show ?case by (cases b) (auto simp: hexEncode_def hexByte_def)
next
  case (Cons x xs)
  show ?case
  proof (cases b)
    case Nil
    then show ?thesis by (auto simp: hexEncode_def hexByte_def)
  next
    case (Cons y ys)
    have "length (hexByte x) = length (hexByte y)" by (simp add: hexByte_def)
    then show ?thesis using Cons.IH [of ys] Cons by (auto simp: hexEncode_def)
  qed
qed

subsection \<open>Base64, URL alphabet\<close>

definition b64Alphabet :: string where
  "b64Alphabet = ''ABCDEFGHIJKLMNOPQRSTUVWXYZabcdefghijklmnopqrstuvwxyz0123456789-_''"

definition b64Char :: "nat \<Rightarrow> char" where
  "b64Char i = b64Alphabet ! i"

fun base64URL :: "byte list \<Rightarrow> string" where
  "base64URL [] = ''''"
| "base64URL [a] =
     [b64Char (unat a div 4), b64Char (unat a mod 4 * 16), CHR ''='', CHR ''='']"
| "base64URL [a, b] =
     [b64Char (unat a div 4), b64Char (unat a mod 4 * 16 + unat b div 16),
      b64Char (unat b mod 16 * 4), CHR ''='']"
| "base64URL (a # b # c # r) =
     [b64Char (unat a div 4), b64Char (unat a mod 4 * 16 + unat b div 16),
      b64Char (unat b mod 16 * 4 + unat c div 64), b64Char (unat c mod 64)] @ base64URL r"

lemma length_b64Alphabet [simp]: "length b64Alphabet = 64"
  by (simp add: b64Alphabet_def)

lemma b64Char_in [simp]: "i < 64 \<Longrightarrow> b64Char i \<in> set b64Alphabet"
  by (simp add: b64Char_def)

lemma length_base64URL: "length (base64URL bs) = 4 * ((length bs + 2) div 3)"
proof (induction bs rule: base64URL.induct)
  case (4 a b c r)
  have "(length r + 5) div 3 = (length r + 2) div 3 + 1"
    using div_add_self2 [of 3 "length r + 2"] by simp
  with 4 show ?case by (simp add: add.commute)
qed auto

lemma base64URL_take:
  "3 * k \<le> length bs \<Longrightarrow> take (4 * k) (base64URL bs) = base64URL (take (3 * k) bs)"
proof (induction k arbitrary: bs)
  case (Suc k)
  from Suc.prems obtain a b c r where "bs = a # b # c # r"
    by (cases bs rule: base64URL.cases) auto
  moreover have "4 * Suc k = Suc (Suc (Suc (Suc (4 * k))))" "3 * Suc k = Suc (Suc (Suc (3 * k)))"
    by simp_all
  ultimately show ?case using Suc by (simp only: base64URL.simps take_Suc_Cons append_Cons append_Nil) simp
qed simp

lemma b64Alphabet_distinct: "distinct b64Alphabet"
  by (simp add: b64Alphabet_def)

lemma b64Char_inject: "i < 64 \<Longrightarrow> j < 64 \<Longrightarrow> (b64Char i = b64Char j) = (i = j)"
  by (simp add: b64Char_def nth_eq_iff_index_eq [OF b64Alphabet_distinct])

lemma sextets:
  "unat (a::byte) div 4 < 64" "unat (a::byte) mod 4 * 16 + unat (b::byte) div 16 < 64"
  "unat (b::byte) mod 16 * 4 + unat (c::byte) div 64 < 64" "unat (c::byte) mod 64 < 64"
proof -
  have "unat a mod 4 \<le> 3" "unat b div 16 \<le> 15" "unat b mod 16 \<le> 15" "unat c div 64 \<le> 3"
    using unat_byte_less [of b] unat_byte_less [of c]
    by (simp_all add: less_Suc_eq_le [symmetric] less_mult_imp_div_less del: unat_byte_less)
  then show "unat a mod 4 * 16 + unat b div 16 < 64" "unat b mod 16 * 4 + unat c div 64 < 64"
    by linarith+
qed (simp_all add: less_mult_imp_div_less)

lemma base64URL_alphabet:
  "length bs mod 3 = 0 \<Longrightarrow> set (base64URL bs) \<subseteq> set b64Alphabet"
  by (induction bs rule: base64URL.induct) (auto simp: sextets)

lemma mixed_radix: "(x * n + y = x' * n + y') \<longleftrightarrow> x = x' \<and> y = y'" if "y < n" "y' < n" for x y n :: nat
proof
  assume e: "x * n + y = x' * n + y'"
  from that have "(x * n + y) div n = x" "(x' * n + y') div n = x'" by simp_all
  with e have "x = x'" by metis
  with e show "x = x' \<and> y = y'" by simp
qed simp

lemma base64_triple_inject:
  assumes "unat (a::byte) div 4 = unat (a'::byte) div 4"
    and "unat a mod 4 * 16 + unat (b::byte) div 16 = unat a' mod 4 * 16 + unat (b'::byte) div 16"
    and "unat b mod 16 * 4 + unat (c::byte) div 64 = unat b' mod 16 * 4 + unat (c'::byte) div 64"
    and "unat c mod 64 = unat c' mod 64"
  shows "a = a' \<and> b = b' \<and> c = c'"
proof -
  have "unat x div 16 < 16" "unat x div 64 < 4" for x :: byte
    by (simp_all add: less_mult_imp_div_less)
  with assms(2,3) have "unat a mod 4 = unat a' mod 4" "unat b div 16 = unat b' div 16"
    "unat b mod 16 = unat b' mod 16" "unat c div 64 = unat c' div 64"
    by (simp_all add: mixed_radix)
  with assms(1,4) have "unat a = unat a'" "unat b = unat b'" "unat c = unat c'"
    by (metis div_mult_mod_eq)+
  then show ?thesis by (simp add: word_unat_eq_iff)
qed

lemma base64URL_inject:
  "length xs = length ys \<Longrightarrow> length xs mod 3 = 0 \<Longrightarrow> (base64URL xs = base64URL ys) = (xs = ys)"
proof (induction xs arbitrary: ys rule: base64URL.induct)
  case (4 a b c r)
  then obtain a' b' c' r' where ys: "ys = a' # b' # c' # r'"
    by (cases ys rule: base64URL.cases) auto
  with 4 have "(base64URL r = base64URL r') = (r = r')" by simp
  then show ?case using base64_triple_inject [of a a' b b' c c'] by (auto simp: ys b64Char_inject sextets)
qed auto
subsection \<open>SHA-256\<close>

type_synonym word32 = "32 word"

definition rotr32 :: "nat \<Rightarrow> word32 \<Rightarrow> word32" where
  "rotr32 n x = drop_bit n x OR push_bit (32 - n) x"

definition sha_K :: "word32 list" where
  "sha_K =
    [0x428a2f98, 0x71374491, 0xb5c0fbcf, 0xe9b5dba5, 0x3956c25b, 0x59f111f1, 0x923f82a4, 0xab1c5ed5,
     0xd807aa98, 0x12835b01, 0x243185be, 0x550c7dc3, 0x72be5d74, 0x80deb1fe, 0x9bdc06a7, 0xc19bf174,
     0xe49b69c1, 0xefbe4786, 0x0fc19dc6, 0x240ca1cc, 0x2de92c6f, 0x4a7484aa, 0x5cb0a9dc, 0x76f988da,
     0x983e5152, 0xa831c66d, 0xb00327c8, 0xbf597fc7, 0xc6e00bf3, 0xd5a79147, 0x06ca6351, 0x14292967,
     0x27b70a85, 0x2e1b2138, 0x4d2c6dfc, 0x53380d13, 0x650a7354, 0x766a0abb, 0x81c2c92e, 0x92722c85,
     0xa2bfe8a1, 0xa81a664b, 0xc24b8b70, 0xc76c51a3, 0xd192e819, 0xd6990624, 0xf40e3585, 0x106aa070,
     0x19a4c116, 0x1e376c08, 0x2748774c, 0x34b0bcb5, 0x391c0cb3, 0x4ed8aa4a, 0x5b9cca4f, 0x682e6ff3,
     0x748f82ee, 0x78a5636f, 0x84c87814, 0x8cc70208, 0x90befffa, 0xa4506ceb, 0xbef9a3f7, 0xc67178f2]"

definition ssig0 :: "word32 \<Rightarrow> word32" where
  "ssig0 x = rotr32 7 x XOR rotr32 18 x XOR drop_bit 3 x"

definition ssig1 :: "word32 \<Rightarrow> word32" where
  "ssig1 x = rotr32 17 x XOR rotr32 19 x XOR drop_bit 10 x"

definition bsig0 :: "word32 \<Rightarrow> word32" where
  "bsig0 x = rotr32 2 x XOR rotr32 13 x XOR rotr32 22 x"

definition bsig1 :: "word32 \<Rightarrow> word32" where
  "bsig1 x = rotr32 6 x XOR rotr32 11 x XOR rotr32 25 x"

definition sha_ch :: "word32 \<Rightarrow> word32 \<Rightarrow> word32 \<Rightarrow> word32" where
  "sha_ch e f g = (e AND f) XOR (NOT e AND g)"

definition sha_maj :: "word32 \<Rightarrow> word32 \<Rightarrow> word32 \<Rightarrow> word32" where
  "sha_maj a b c = (a AND b) XOR (a AND c) XOR (b AND c)"

text \<open>The eight working variables, and one round with the next word of the message schedule;
  the schedule is kept as the window of its last sixteen words, oldest first.\<close>

datatype sha_state = Sha word32 word32 word32 word32 word32 word32 word32 word32

fun sha_round :: "word32 \<Rightarrow> word32 \<Rightarrow> sha_state \<Rightarrow> sha_state" where
  "sha_round k w (Sha a b c d e f g h) =
     (let t1 = h + bsig1 e + sha_ch e f g + k + w; t2 = bsig0 a + sha_maj a b c
      in Sha (t1 + t2) a b c (d + t1) e f g)"

fun sha_rounds :: "word32 list \<Rightarrow> word32 list \<Rightarrow> sha_state \<Rightarrow> sha_state" where
  "sha_rounds [] ws s = s"
| "sha_rounds (k # ks) ws s =
     (let w = ws ! 0; wn = ssig1 (ws ! 14) + ws ! 9 + ssig0 (ws ! 1) + w
      in sha_rounds ks (tl ws @ [wn]) (sha_round k w s))"

fun sha_add :: "sha_state \<Rightarrow> sha_state \<Rightarrow> sha_state" where
  "sha_add (Sha a b c d e f g h) (Sha a' b' c' d' e' f' g' h') =
     Sha (a + a') (b + b') (c + c') (d + d') (e + e') (f + f') (g + g') (h + h')"

definition sha_init :: sha_state where
  "sha_init = Sha 0x6a09e667 0xbb67ae85 0x3c6ef372 0xa54ff53a 0x510e527f 0x9b05688c 0x1f83d9ab 0x5be0cd19"

text \<open>Big-endian numbers of \<open>n\<close> bytes, the padding of a message, and its words.\<close>

definition bytesBE :: "nat \<Rightarrow> nat \<Rightarrow> byte list" where
  "bytesBE n x = map (\<lambda>i. of_nat (x div 256 ^ (n - 1 - i))) [0..<n]"

definition sha_pad :: "byte list \<Rightarrow> byte list" where
  "sha_pad bs = bs @ [0x80] @ replicate ((119 - length bs mod 64) mod 64) 0 @ bytesBE 8 (8 * length bs)"

fun words32BE :: "byte list \<Rightarrow> word32 list" where
  "words32BE (a # b # c # d # r) =
     of_nat (((unat a * 256 + unat b) * 256 + unat c) * 256 + unat d) # words32BE r"
| "words32BE _ = []"

fun sha_blocks :: "nat \<Rightarrow> word32 list \<Rightarrow> sha_state \<Rightarrow> sha_state" where
  "sha_blocks 0 ws s = s"
| "sha_blocks (Suc n) ws s =
     sha_blocks n (drop 16 ws) (sha_add (sha_rounds sha_K (take 16 ws) s) s)"

fun sha_digest :: "sha_state \<Rightarrow> byte list" where
  "sha_digest (Sha a b c d e f g h) =
     concat (map (\<lambda>x. bytesBE 4 (unat x)) [a, b, c, d, e, f, g, h])"

definition sha256 :: "byte list \<Rightarrow> byte list" where
  "sha256 bs =
     (let p = sha_pad bs in sha_digest (sha_blocks (length p div 64) (words32BE p) sha_init))"

lemma length_bytesBE [simp]: "length (bytesBE n x) = n"
  by (simp add: bytesBE_def)

lemma length_sha_pad: "64 dvd length (sha_pad bs)"
proof -
  let ?m = "length bs mod 64"
  have m: "?m < 64" by simp
  have "64 dvd ?m + 9 + (119 - ?m) mod 64"
  proof (cases "?m < 56")
    case True
    then have "(119 - ?m) mod 64 = 55 - ?m" by (subst le_mod_geq) auto
    with True show ?thesis by simp
  next
    case False
    then have "(119 - ?m) mod 64 = 119 - ?m" by simp
    with m have "?m + 9 + (119 - ?m) mod 64 = 2 * 64" by simp
    then show ?thesis by (metis dvd_triv_right)
  qed
  then have "64 dvd 64 * (length bs div 64) + (?m + 9 + (119 - ?m) mod 64)"
    by (rule dvd_add [OF dvd_triv_left])
  also have "\<dots> = length (sha_pad bs)"
    using mult_div_mod_eq [of 64 "length bs"] by (simp add: sha_pad_def)
  finally show ?thesis .
qed

lemma length_sha256 [simp]: "length (sha256 bs) = 32"
proof -
  have "length (sha_digest s) = 32" for s by (cases s) simp
  then show ?thesis by (simp add: sha256_def Let_def)
qed

end
