(* ===== verification/GenPostgres.thy ===== *)
theory GenPostgres
  imports EnvAgreement GoCrypto
begin

section \<open>The auto-provisioned PostgreSQL\<close>

text \<open>
  \<^verbatim>\<open>postgres.go\<close>: the credentials, the headless Service and the StatefulSet of the database the
  operator provisions. \<open>rand n\<close> is the outcome of \<^verbatim>\<open>rand.Read\<close> of \<^verbatim>\<open>crypto/rand\<close> on a slice of \<open>n\<close>
  bytes.
\<close>

definition postgresUser :: string where "postgresUser = ''cdk''"
definition postgresDatabase :: string where "postgresDatabase = ''cdk_mintd''"

subsection \<open>Credentials\<close>

definition generateSecurePassword :: "(nat \<Rightarrow> byte list result) \<Rightarrow> nat \<Rightarrow> string result" where
  "generateSecurePassword rand len = bindR (rand len) (\<lambda>bs. Ok (take len (base64URL bs)))"

definition postgresSecretName :: "CashuMint \<Rightarrow> string" where
  "postgresSecretName mint = mintName mint @ ''-postgres-secret''"

definition postgresName :: "CashuMint \<Rightarrow> string" where
  "postgresName mint = mintName mint @ ''-postgres''"

definition postgresLabels :: "CashuMint \<Rightarrow> strmap" where
  "postgresLabels mint = componentLabels ''postgresql'' mint ''database''"

definition postgresURL :: "CashuMint \<Rightarrow> string \<Rightarrow> string" where
  "postgresURL mint password =
     ''postgresql://'' @ postgresUser @ '':'' @ password @ ''@'' @ mintName mint @ ''-postgres:5432/''
     @ postgresDatabase @ ''?sslmode=disable''"

definition postgresSecret :: "CashuMint \<Rightarrow> string \<Rightarrow> Secret" where
  "postgresSecret mint password =
     \<lparr> sec_TypeMeta = typeMeta ''v1'' ''Secret'',
       sec_Meta = newMeta (postgresSecretName mint) (mintNamespace mint) (postgresLabels mint) Map.empty,
       sec_Type = ''Opaque'',
       sec_Data = Map.empty,
       sec_StringData = [''password'' \<mapsto> password, ''database-url'' \<mapsto> postgresURL mint password] \<rparr>"

definition GeneratePostgresSecret ::
  "(nat \<Rightarrow> byte list result) \<Rightarrow> CashuMint \<Rightarrow> string \<Rightarrow> Secret option result" where
  "GeneratePostgresSecret rand mint existingPassword =
     (if \<not> autoProvisioned mint then Ok None
      else bindR (if existingPassword = ''''
                  then mapErr (Wrapf ''failed to generate password'') (generateSecurePassword rand 32)
                  else Ok existingPassword)
        (\<lambda>password. Ok (Some (postgresSecret mint password))))"

subsection \<open>Service\<close>

definition postgresService :: "CashuMint \<Rightarrow> Service" where
  "postgresService mint =
     \<lparr> svc_TypeMeta = typeMeta ''v1'' ''Service'',
       svc_Meta = newMeta (postgresName mint) (mintNamespace mint) (postgresLabels mint) Map.empty,
       svc_Type = ''ClusterIP'',
       svc_Selector = postgresLabels mint,
       svc_Ports = [\<lparr> sp_Name = ''postgres'', sp_Port = 5432, sp_TargetPort = FromInt 0, sp_Protocol = ''TCP'' \<rparr>],
       svc_ClusterIP = ''None'',
       svc_LoadBalancerIP = '''' \<rparr>"

definition GeneratePostgresService :: "ext \<Rightarrow> CashuMint \<Rightarrow> Service option result" where
  "GeneratePostgresService X mint =
     (if \<not> autoProvisioned mint then Ok None
      else finish X mint svc_Meta svc_Meta_update (postgresService mint))"

subsection \<open>StatefulSet\<close>

definition SQ :: string where "SQ = [CHR 0x27]"

definition initPasswordScript :: string where
  \<open>initPasswordScript = joinStr [NL]
    [''set -e'',
     ''if [ -f /var/lib/postgresql/data/pgdata/PG_VERSION ]; then'',
     ''  echo "Database already initialized, ensuring password is correct..."'',
     ''  chown -R 999:999 /var/lib/postgresql/data/pgdata'',
     ''  chmod 0700 /var/lib/postgresql/data/pgdata'',
     ''  su-exec 999:999 pg_ctl -D /var/lib/postgresql/data/pgdata -o "-c listen_addresses='' @ SQ @ SQ
       @ '' -c local_preload_libraries='' @ SQ @ SQ @ ''" -w start'',
     ''  su-exec 999:999 psql -U '' @ postgresUser @ '' -d '' @ postgresDatabase @ '' -c "ALTER USER '' @ postgresUser
       @ '' WITH PASSWORD '' @ SQ @ ''${POSTGRES_PASSWORD}'' @ SQ @ '';"'',
     ''  su-exec 999:999 pg_ctl -D /var/lib/postgresql/data/pgdata -w stop'',
     ''  echo "Password updated successfully"'',
     ''else'',
     ''  echo "Database not yet initialized, skipping password update"'',
     ''fi'']\<close>

definition getPostgresResources :: "PostgresAutoProvisionSpec option \<Rightarrow> ResourceRequirements" where
  "getPostgresResources spec = derefOr (Option.bind spec ap_Resources)
     \<lparr> rr_Limits = [(''cpu'', ''1000m''), (''memory'', ''1Gi'')],
       rr_Requests = [(''cpu'', ''100m''), (''memory'', ''256Mi'')], rr_Claims = '''' \<rparr>"

text \<open>\<^verbatim>\<open>spec\<close> and the two defaults derived from it.\<close>

definition postgresSpec :: "CashuMint \<Rightarrow> PostgresAutoProvisionSpec" where
  "postgresSpec mint =
     derefOr (Option.bind (db_Postgres (cms_Database (cm_Spec mint))) pg_AutoProvisionSpec)
       \<lparr> ap_StorageSize = DefaultStorageSize, ap_StorageClassName = None, ap_Resources = None, ap_Version = ''15'' \<rparr>"

definition postgresVersion :: "CashuMint \<Rightarrow> string" where
  "postgresVersion mint = orStr (ap_Version (postgresSpec mint)) ''15''"

definition postgresStorageSize :: "CashuMint \<Rightarrow> string" where
  "postgresStorageSize mint = orStr (ap_StorageSize (postgresSpec mint)) DefaultStorageSize"

definition postgresImage :: "string \<Rightarrow> string" where
  "postgresImage version = ''postgres:'' @ version @ ''-alpine''"

definition passwordEnv :: "CashuMint \<Rightarrow> EnvVar" where
  "passwordEnv mint = envSecret ''POSTGRES_PASSWORD'' (newSelector (postgresSecretName mint) ''password'')"

definition pgdataEnv :: EnvVar where
  "pgdataEnv = envValue ''PGDATA'' ''/var/lib/postgresql/data/pgdata''"

definition initPasswordContainer :: "CashuMint \<Rightarrow> Container" where
  "initPasswordContainer mint =
     (newContainer ''init-password'' (postgresImage (postgresVersion mint)))
     \<lparr> c_Command := [''sh'', ''-c'', initPasswordScript],
       c_Env := [passwordEnv mint, pgdataEnv],
       c_VolumeMounts := [newMount ''data'' ''/var/lib/postgresql/data'' '''' False],
       c_SecurityContext := Some (emptySecurityContext\<lparr> sc_AllowPrivilegeEscalation := Some False,
         sc_RunAsNonRoot := Some False, sc_RunAsUser := Some 0 \<rparr>) \<rparr>"

definition pgReadyProbe :: "int32 \<Rightarrow> int32 \<Rightarrow> int32 \<Rightarrow> Probe" where
  "pgReadyProbe delay period timeout =
     \<lparr> pr_Handler = ExecProbe [''pg_isready'', ''-U'', postgresUser, ''-d'', postgresDatabase],
       pr_InitialDelaySeconds = delay, pr_PeriodSeconds = period, pr_TimeoutSeconds = timeout,
       pr_SuccessThreshold = 0, pr_FailureThreshold = 3 \<rparr>"

definition postgresContainer :: "CashuMint \<Rightarrow> Container" where
  "postgresContainer mint =
     (newContainer ''postgres'' (postgresImage (postgresVersion mint)))
     \<lparr> c_Env := [envValue ''POSTGRES_DB'' postgresDatabase, envValue ''POSTGRES_USER'' postgresUser,
                passwordEnv mint, pgdataEnv],
       c_Ports := [tcpPort ''postgres'' 5432],
       c_VolumeMounts := [newMount ''data'' ''/var/lib/postgresql/data'' '''' False],
       c_Resources := getPostgresResources (Some (postgresSpec mint)),
       c_LivenessProbe := Some (pgReadyProbe 30 10 5),
       c_ReadinessProbe := Some (pgReadyProbe 10 5 3),
       c_SecurityContext := Some (emptySecurityContext\<lparr> sc_AllowPrivilegeEscalation := Some False,
         sc_RunAsNonRoot := Some True, sc_RunAsUser := Some 999 \<rparr>) \<rparr>"

definition postgresPod :: "CashuMint \<Rightarrow> PodSpec" where
  "postgresPod mint =
     (newPodSpec [postgresContainer mint] [])
     \<lparr> ps_InitContainers := [initPasswordContainer mint],
       ps_SecurityContext := Some \<lparr> psc_RunAsNonRoot = None, psc_RunAsUser = None, psc_FSGroup = Some 999,
                                    psc_Other = '''' \<rparr> \<rparr>"

definition postgresStatefulSet :: "CashuMint \<Rightarrow> quantity \<Rightarrow> StatefulSet" where
  "postgresStatefulSet mint sz =
     \<lparr> sts_TypeMeta = typeMeta ''apps/v1'' ''StatefulSet'',
       sts_Meta = newMeta (postgresName mint) (mintNamespace mint) (postgresLabels mint) Map.empty,
       sts_Replicas = Some 1,
       sts_ServiceName = postgresName mint,
       sts_Selector = postgresLabels mint,
       sts_Template = \<lparr> pt_Labels = postgresLabels mint, pt_Annotations = Map.empty, pt_Spec = postgresPod mint \<rparr>,
       sts_VolumeClaimTemplates =
         [\<lparr> pvc_TypeMeta = typeMeta '''' '''',
            pvc_Meta = newMeta ''data'' '''' (postgresLabels mint) Map.empty,
            pvc_AccessModes = [''ReadWriteOnce''],
            pvc_Requests = [(''storage'', sz)],
            pvc_StorageClassName = ap_StorageClassName (postgresSpec mint) \<rparr>],
       sts_Status = \<lparr> ss_ReadyReplicas = 0, ss_CurrentReplicas = 0, ss_UpdatedReplicas = 0 \<rparr> \<rparr>"

definition GeneratePostgresStatefulSet :: "ext \<Rightarrow> CashuMint \<Rightarrow> StatefulSet option result" where
  "GeneratePostgresStatefulSet X mint =
     (if \<not> autoProvisioned mint then Ok None
      else bindR (mustParse X (postgresStorageSize mint)) (\<lambda>sz.
        finish X mint sts_Meta sts_Meta_update (postgresStatefulSet mint sz)))"

subsection \<open>The password\<close>

lemma generateSecurePassword_32:
  assumes "rand 32 = Ok bs" and "length bs = 32"
  shows "generateSecurePassword rand 32 = Ok (base64URL (take 24 bs))"
  using assms base64URL_take [of 8 bs] by (simp add: generateSecurePassword_def)

lemma password_properties:
  assumes "length bs = 32"
  shows "length (base64URL (take 24 bs)) = 32" "set (base64URL (take 24 bs)) \<subseteq> set b64Alphabet"
  using assms base64URL_alphabet [of "take 24 bs"] by (simp_all add: length_base64URL)

lemma GeneratePostgresSecret_fresh:
  assumes "autoProvisioned m" and "rand 32 = Ok bs" and "length bs = 32"
  shows "GeneratePostgresSecret rand m '''' = Ok (Some (postgresSecret m (base64URL (take 24 bs))))"
  using assms by (simp add: GeneratePostgresSecret_def generateSecurePassword_32)

definition passwordOf :: "Secret \<Rightarrow> string" where
  "passwordOf s = derefOr (sec_StringData s ''password'') ''''"

lemma passwordOf_postgresSecret [simp]: "passwordOf (postgresSecret m pw) = pw"
  by (simp add: passwordOf_def postgresSecret_def)

text \<open>The characters with a meaning in a URL, in the shell or in SQL that must not occur in a password.\<close>

definition passwordDelimiters :: "char list" where
  "passwordDelimiters = [CHR '':'', CHR ''@'', CHR ''/'', CHR ''?'', CHR ''#'', CHR ''%'', CHR '' '', CHR 0x27, CHR 0x22,
     CHR 0x24, CHR 0x5C, CHR 0x60]"

lemma delimiters_not_base64: "set passwordDelimiters \<inter> set b64Alphabet = {}"
  by (simp add: passwordDelimiters_def b64Alphabet_def)

text \<open>C26: when the database is auto-provisioned and the system's random source delivers the 32
  bytes asked for, a secret is generated; its password has exactly 32 characters, none of them a
  delimiter of a URL, a shell or an SQL string, and two draws give the same password exactly when
  they agree on the first 24 bytes: it carries 192 bits of the source's randomness.\<close>

theorem generated_password_strength:
  assumes "autoProvisioned m"
    and "rand 32 = Ok bs" and "length bs = 32" and "rand' 32 = Ok bs'" and "length bs' = 32"
  shows "\<exists>s s'. GeneratePostgresSecret rand m '''' = Ok (Some s) \<and> GeneratePostgresSecret rand' m '''' = Ok (Some s')
    \<and> length (passwordOf s) = 32 \<and> set (passwordOf s) \<inter> set passwordDelimiters = {}
    \<and> (passwordOf s = passwordOf s' \<longleftrightarrow> take 24 bs = take 24 bs')"
proof -
  have "base64URL (take 24 bs) = base64URL (take 24 bs') \<longleftrightarrow> take 24 bs = take 24 bs'"
    using assms by (intro base64URL_inject) simp_all
  then show ?thesis
    using GeneratePostgresSecret_fresh [of m rand bs] GeneratePostgresSecret_fresh [of m rand' bs'] assms
      password_properties [OF assms(3)] delimiters_not_base64
    by auto
qed

theorem generated_password_strength_witness:
  "\<exists>s s'. GeneratePostgresSecret (\<lambda>n. Ok (replicate n 7)) sampleBackup '''' = Ok (Some s)
    \<and> GeneratePostgresSecret (\<lambda>n. Ok (replicate n 8)) sampleBackup '''' = Ok (Some s')
    \<and> length (passwordOf s) = 32 \<and> passwordOf s \<noteq> passwordOf s'"
  using generated_password_strength [of sampleBackup "\<lambda>n. Ok (replicate n 7)" "replicate 32 7"
      "\<lambda>n. Ok (replicate n 8)" "replicate 32 8"]
  by (auto simp: autoProvisioned_def sample_defs)

subsection \<open>Coherence\<close>

lemma postgresURL_auto: "postgresURL m pw = autoProvisionURL m pw"
  by (simp add: postgresURL_def autoProvisionURL_def postgresUser_def postgresDatabase_def)

lemma look_database_url:
  assumes "autoProvisioned m" and "db_Engine (cms_Database (cm_Spec m)) = DatabaseEnginePostgres"
  shows "look (configItems m pw) ''database.postgres'' ''url'' = Some (autoProvisionURL m pw)"
proof -
  have "look (configItems m pw) ''database.postgres'' ''url'' = look (writeDatabaseSection m pw) ''database.postgres'' ''url''"
    by (rule look_config) (simp add: databaseKeys_def)
  then show ?thesis using assms
    by (auto simp: look_def entryText_def writeDatabaseSection_def Let_def autoProvisioned_def optP_iff)
qed

text \<open>C14: the database URL the credentials secret stores is, letter for letter, the URL in the
  configuration file mintd reads when that file is rendered with the secret's own password.\<close>

theorem secret_url_is_config_url:
  assumes "autoProvisioned m" and "db_Engine (cms_Database (cm_Spec m)) = DatabaseEnginePostgres"
    and "GeneratePostgresSecret rand m existing = Ok (Some s)"
  shows "sec_StringData s ''database-url'' = look (configItems m (passwordOf s)) ''database.postgres'' ''url''"
  using assms
  by (auto simp: GeneratePostgresSecret_def look_database_url postgresSecret_def passwordOf_def postgresURL_auto)

theorem secret_url_is_config_url_witness:
  "sec_StringData (postgresSecret sampleBackup ''s3cret'') ''database-url''
   = look (configItems sampleBackup ''s3cret'') ''database.postgres'' ''url''"
proof -
  have "GeneratePostgresSecret (\<lambda>n. Ok []) sampleBackup ''s3cret'' = Ok (Some (postgresSecret sampleBackup ''s3cret''))"
    by (simp add: GeneratePostgresSecret_def autoProvisioned_def sample_defs)
  then show ?thesis
    using secret_url_is_config_url [of sampleBackup "\<lambda>n. Ok []" "''s3cret''" "postgresSecret sampleBackup ''s3cret''"]
    by (simp add: autoProvisioned_def) (simp add: sample_defs)
qed

text \<open>The generated objects fit together: the Service the URL names selects the pods of the StatefulSet
  and its port is a port of their container, both containers read the password from the secret, and
  every mount is a claim template.\<close>

definition secretRefs :: "EnvVar list \<Rightarrow> SecretKeySelector list" where
  "secretRefs es = concat (map (\<lambda>e. optL (env_ValueFrom e) (\<lambda>v. optL (evs_SecretKeyRef v) (\<lambda>r. [r]))) es)"

lemma secretRefs_simps [simp]:
  "secretRefs [] = []" "secretRefs (envValue n v # es) = secretRefs es" "secretRefs (envSecret n r # es) = r # secretRefs es"
  by (simp_all add: secretRefs_def)

definition resolves :: "Secret \<Rightarrow> SecretKeySelector \<Rightarrow> bool" where
  "resolves s r = (sks_Name r = om_Name (sec_Meta s) \<and> sks_Key r \<in> dom (sec_StringData s))"

definition podContainers :: "PodTemplateSpec \<Rightarrow> Container list" where
  "podContainers t = ps_InitContainers (pt_Spec t) @ ps_Containers (pt_Spec t)"

lemma GeneratePostgres_Some:
  "GeneratePostgresSecret rand m existing = Ok (Some sec) \<Longrightarrow> \<exists>pw. sec = postgresSecret m pw"
  "GeneratePostgresService X m = Ok (Some svc) \<Longrightarrow>
     \<exists>meta. x_SetControllerReference X m (svc_Meta (postgresService m)) = Ok meta \<and> svc = (postgresService m)\<lparr> svc_Meta := meta \<rparr>"
  "GeneratePostgresStatefulSet X m = Ok (Some sts) \<Longrightarrow>
     \<exists>meta sz. x_SetControllerReference X m (sts_Meta (postgresStatefulSet m sz)) = Ok meta
       \<and> sts = (postgresStatefulSet m sz)\<lparr> sts_Meta := meta \<rparr>"
  by (auto simp: GeneratePostgresSecret_def GeneratePostgresService_def GeneratePostgresStatefulSet_def split: if_splits)

lemma postgres_containers:
  "podContainers (sts_Template (postgresStatefulSet m sz)) = [initPasswordContainer m, postgresContainer m]"
  "c_Env (initPasswordContainer m) = [passwordEnv m, pgdataEnv]"
  "c_Env (postgresContainer m) = [envValue ''POSTGRES_DB'' postgresDatabase, envValue ''POSTGRES_USER'' postgresUser,
     passwordEnv m, pgdataEnv]"
  "c_Ports (postgresContainer m) = [tcpPort ''postgres'' 5432]"
  "c_VolumeMounts (initPasswordContainer m) = [newMount ''data'' ''/var/lib/postgresql/data'' '''' False]"
  "c_VolumeMounts (postgresContainer m) = [newMount ''data'' ''/var/lib/postgresql/data'' '''' False]"
  by (simp_all add: podContainers_def postgresStatefulSet_def postgresPod_def initPasswordContainer_def postgresContainer_def)

definition wired :: "Secret \<Rightarrow> Service \<Rightarrow> StatefulSet \<Rightarrow> bool" where
  "wired sec svc sts =
     (let cs = podContainers (sts_Template sts); labels = pt_Labels (sts_Template sts) in
      sts_ServiceName sts = om_Name (svc_Meta svc)
      \<and> sts_Selector sts = labels \<and> svc_Selector svc = labels
      \<and> list_all (\<lambda>p. sp_Port p \<in> set (map cp_ContainerPort (concat (map c_Ports cs)))) (svc_Ports svc)
      \<and> list_all (\<lambda>c. list_all (resolves sec) (secretRefs (c_Env c))) cs
      \<and> list_all (\<lambda>c. list_all (\<lambda>v. vm_Name v \<in> set (map (\<lambda>p. om_Name (pvc_Meta p)) (sts_VolumeClaimTemplates sts)))
           (c_VolumeMounts c)) cs)"

text \<open>C13: the credentials secret, the Service and the StatefulSet generated for one mint are wired
  together: the StatefulSet's governing service is the Service, the selectors select its pods, the
  Service's port is a port of the pod, every secret key an environment variable reads is a key of
  the secret, and every mount names a claim template.\<close>

theorem postgres_wired:
  assumes "owner_references (x_SetControllerReference X)"
    and "GeneratePostgresSecret rand m existing = Ok (Some sec)"
    and "GeneratePostgresService X m = Ok (Some svc)" and "GeneratePostgresStatefulSet X m = Ok (Some sts)"
  shows "wired sec svc sts"
proof -
  obtain pw where sec: "sec = postgresSecret m pw" using GeneratePostgres_Some(1) [OF assms(2)] ..
  obtain meta where meta: "x_SetControllerReference X m (svc_Meta (postgresService m)) = Ok meta"
    and svc: "svc = (postgresService m)\<lparr> svc_Meta := meta \<rparr>" using GeneratePostgres_Some(2) [OF assms(3)] by blast
  obtain meta' sz where sts: "sts = (postgresStatefulSet m sz)\<lparr> sts_Meta := meta' \<rparr>"
    using GeneratePostgres_Some(3) [OF assms(4)] by blast
  have "om_Name meta = postgresName m"
    using owner_references.keeps_identity(1) [OF assms(1) meta] by (simp add: postgresService_def)
  moreover have "podContainers (sts_Template sts) = [initPasswordContainer m, postgresContainer m]"
    using postgres_containers(1) by (simp add: sts podContainers_def)
  ultimately show ?thesis
    by (simp add: wired_def Let_def postgres_containers passwordEnv_def pgdataEnv_def resolves_def)
      (simp add: sec svc sts postgresSecret_def postgresService_def postgresStatefulSet_def)
qed

lemma sampleBackup_postgres:
  "\<exists>sec svc sts. GeneratePostgresSecret (\<lambda>n. Ok (replicate n 7)) sampleBackup '''' = Ok (Some sec)
    \<and> GeneratePostgresService sampleExt sampleBackup = Ok (Some svc)
    \<and> GeneratePostgresStatefulSet sampleExt sampleBackup = Ok (Some sts)"
proof -
  have auto: "autoProvisioned sampleBackup" by (simp add: autoProvisioned_def sample_defs)
  have own: "\<exists>m. x_SetControllerReference sampleExt sampleBackup meta = Ok m"
    if "om_Namespace meta = mintNamespace sampleBackup" "om_OwnerReferences meta = []" for meta
    using documented.fresh_ok [OF that] by (simp add: sampleExt_def)
  have "\<exists>svc. GeneratePostgresService sampleExt sampleBackup = Ok (Some svc)"
    using own [of "svc_Meta (postgresService sampleBackup)"] auto
    by (auto simp: GeneratePostgresService_def postgresService_def)
  moreover have "\<exists>sts. GeneratePostgresStatefulSet sampleExt sampleBackup = Ok (Some sts)"
    using own [of "sts_Meta (postgresStatefulSet sampleBackup (postgresStorageSize sampleBackup))"] auto
    by (auto simp: GeneratePostgresStatefulSet_def postgresStatefulSet_def mustParse_def postgresStorageSize_def
        sampleExt_def default_constants_nonempty)
  ultimately show ?thesis
    using GeneratePostgresSecret_fresh [of sampleBackup "\<lambda>n. Ok (replicate n 7)" "replicate 32 7"] auto by auto
qed

theorem postgres_wired_witness:
  "\<exists>sec svc sts. GeneratePostgresService sampleExt sampleBackup = Ok (Some svc)
    \<and> GeneratePostgresStatefulSet sampleExt sampleBackup = Ok (Some sts) \<and> wired sec svc sts"
  using sampleBackup_postgres postgres_wired [OF sampleExt_owner] by blast

end
