(* ===== verification/GenBackup.thy ===== *)
theory GenBackup
  imports GenPostgres
begin

section \<open>Backups of the auto-provisioned database\<close>

text \<open>
  \<^verbatim>\<open>backup.go\<close>: the CronJob that dumps the database to an S3 bucket and the one-shot Job that
  restores a dump when the mint carries the restore annotations.
\<close>

definition RestoreObjectKeyAnnotation :: string where
  "RestoreObjectKeyAnnotation = ''mint.cashu.asmogo.github.io/restore-object-key''"

definition RestoreRequestIDAnnotation :: string where
  "RestoreRequestIDAnnotation = ''mint.cashu.asmogo.github.io/restore-request-id''"

definition shortHash :: "string \<Rightarrow> string" where
  "shortHash s = take 10 (hexEncode (sha256 (stringBytes s)))"

definition backupLabels :: "CashuMint \<Rightarrow> strmap" where
  "backupLabels mint = componentLabels ''cashu-mint'' mint ''backup''"

text \<open>The two guards both functions start with: the bucket to use, if there is one.\<close>

definition backupBucket :: "CashuMint \<Rightarrow> (BackupConfig \<times> S3BackupConfig) option" where
  "backupBucket mint =
     (let s = cm_Spec mint in
      case cms_Backup s of
        None \<Rightarrow> None
      | Some b \<Rightarrow>
          if \<not> bk_Enabled b then None
          else if db_Engine (cms_Database s) \<noteq> ''postgres'' \<or> \<not> autoProvisioned mint then None
          else map_option (Pair b) (bk_S3 b))"

definition backupVersion :: "CashuMint \<Rightarrow> string" where
  "backupVersion mint =
     (case Option.bind (db_Postgres (cms_Database (cm_Spec mint))) pg_AutoProvisionSpec of
        None \<Rightarrow> ''15''
      | Some a \<Rightarrow> orStr (ap_Version a) ''15'')"

definition databaseURLEnv :: "CashuMint \<Rightarrow> EnvVar" where
  "databaseURLEnv mint = envSecret ''DATABASE_URL'' (newSelector (postgresSecretName mint) ''database-url'')"

definition awsEnv :: "S3BackupConfig \<Rightarrow> EnvVar list" where
  "awsEnv c =
     [envSecret ''AWS_ACCESS_KEY_ID'' (s3_AccessKeyIDSecretRef c),
      envSecret ''AWS_SECRET_ACCESS_KEY'' (s3_SecretAccessKeySecretRef c)]
     @ whenL (s3_Region c \<noteq> '''') [envValue ''AWS_DEFAULT_REGION'' (s3_Region c)]
     @ whenL (s3_Endpoint c \<noteq> '''') [envValue ''S3_ENDPOINT'' (s3_Endpoint c)]"

definition backupScript :: string where
  \<open>backupScript = joinStr [NL]
    [''set -euo pipefail'',
     ''apk add --no-cache aws-cli >/dev/null'',
     ''timestamp="$(date -u +%Y%m%dT%H%M%SZ)"'',
     ''tmp_file="/tmp/${MINT_NAME}-${timestamp}.sql.gz"'',
     ''object_key="${MINT_NAME}-${timestamp}.sql.gz"'',
     ''if [ -n "${S3_PREFIX:-}" ]; then'',
     ''  prefix="${S3_PREFIX%/}"'',
     ''  object_key="${prefix}/${object_key}"'',
     ''fi'',
     ''pg_dump "${DATABASE_URL}" | gzip > "${tmp_file}"'',
     ''if [ -n "${S3_ENDPOINT:-}" ]; then'',
     ''  aws s3 cp "${tmp_file}" "s3://${S3_BUCKET}/${object_key}" --endpoint-url "${S3_ENDPOINT}"'',
     ''else'',
     ''  aws s3 cp "${tmp_file}" "s3://${S3_BUCKET}/${object_key}"'',
     ''fi'']\<close>

definition restoreScript :: string where
  \<open>restoreScript = joinStr [NL]
    [''set -euo pipefail'',
     ''apk add --no-cache aws-cli >/dev/null'',
     ''tmp_file="/tmp/restore.sql.gz"'',
     ''if [ -n "${S3_ENDPOINT:-}" ]; then'',
     ''  aws s3 cp "s3://${S3_BUCKET}/${RESTORE_OBJECT_KEY}" "${tmp_file}" --endpoint-url "${S3_ENDPOINT}"'',
     ''else'',
     ''  aws s3 cp "s3://${S3_BUCKET}/${RESTORE_OBJECT_KEY}" "${tmp_file}"'',
     ''fi'',
     ''gunzip -c "${tmp_file}" | psql "${DATABASE_URL}"'']\<close>

definition backupContainer :: "CashuMint \<Rightarrow> string \<Rightarrow> string \<Rightarrow> EnvVar list \<Rightarrow> Container" where
  "backupContainer mint name script env =
     (newContainer name (postgresImage (backupVersion mint)))
     \<lparr> c_Command := [''sh'', ''-ec'', script],
       c_Env := env,
       c_SecurityContext := Some (emptySecurityContext\<lparr> sc_AllowPrivilegeEscalation := Some False,
                                    sc_RunAsNonRoot := Some False \<rparr>) \<rparr>"

definition backupTemplate :: "CashuMint \<Rightarrow> Container \<Rightarrow> PodTemplateSpec" where
  "backupTemplate mint c =
     \<lparr> pt_Labels = backupLabels mint, pt_Annotations = Map.empty,
       pt_Spec = (newPodSpec [c] [])\<lparr> ps_RestartPolicy := ''OnFailure'' \<rparr> \<rparr>"

subsection \<open>The backup CronJob\<close>

definition backupEnv :: "CashuMint \<Rightarrow> S3BackupConfig \<Rightarrow> EnvVar list" where
  "backupEnv mint c =
     [databaseURLEnv mint,
      envValue ''MINT_NAME'' (mintName mint),
      envValue ''S3_BUCKET'' (s3_Bucket c),
      envValue ''S3_PREFIX'' (s3_Prefix c)] @ awsEnv c"

definition backupCronJob :: "CashuMint \<Rightarrow> BackupConfig \<Rightarrow> S3BackupConfig \<Rightarrow> CronJob" where
  "backupCronJob mint b c =
     (let history = derefOr (bk_RetentionCount b) 14 in
      \<lparr> cj_TypeMeta = typeMeta ''batch/v1'' ''CronJob'',
        cj_Meta = newMeta (mintName mint @ ''-backup'') (mintNamespace mint) (backupLabels mint) Map.empty,
        cj_Schedule = orStr (bk_Schedule b) ''0 */6 * * *'',
        cj_ConcurrencyPolicy = ''Forbid'',
        cj_SuccessfulJobsHistoryLimit = Some history,
        cj_FailedJobsHistoryLimit = Some history,
        cj_Template = backupTemplate mint (backupContainer mint ''postgres-backup'' backupScript (backupEnv mint c)) \<rparr>)"

definition GeneratePostgresBackupCronJob :: "ext \<Rightarrow> CashuMint \<Rightarrow> CronJob option result" where
  "GeneratePostgresBackupCronJob X mint =
     (case backupBucket mint of
        None \<Rightarrow> Ok None
      | Some (b, c) \<Rightarrow> finish X mint cj_Meta cj_Meta_update (backupCronJob mint b c))"

subsection \<open>The restore Job\<close>

definition annotation :: "CashuMint \<Rightarrow> string \<Rightarrow> string" where
  "annotation mint k = derefOr (om_Annotations (cm_Meta mint) k) ''''"

definition restoreObjectKey :: "CashuMint \<Rightarrow> string" where
  "restoreObjectKey mint = trimSpace (annotation mint RestoreObjectKeyAnnotation)"

definition restoreRequestID :: "CashuMint \<Rightarrow> string" where
  "restoreRequestID mint = orStr (trimSpace (annotation mint RestoreRequestIDAnnotation)) (restoreObjectKey mint)"

definition restoreJobName :: "CashuMint \<Rightarrow> string" where
  "restoreJobName mint =
     mintName mint @ ''-restore-'' @ shortHash (restoreRequestID mint @ '':'' @ restoreObjectKey mint)"

definition restoreEnv :: "CashuMint \<Rightarrow> S3BackupConfig \<Rightarrow> EnvVar list" where
  "restoreEnv mint c =
     [databaseURLEnv mint,
      envValue ''S3_BUCKET'' (s3_Bucket c),
      envValue ''RESTORE_OBJECT_KEY'' (restoreObjectKey mint)] @ awsEnv c"

definition restoreJob :: "CashuMint \<Rightarrow> S3BackupConfig \<Rightarrow> Job" where
  "restoreJob mint c =
     \<lparr> job_TypeMeta = typeMeta ''batch/v1'' ''Job'',
       job_Meta = newMeta (restoreJobName mint) (mintNamespace mint) (backupLabels mint)
         [RestoreObjectKeyAnnotation \<mapsto> restoreObjectKey mint, RestoreRequestIDAnnotation \<mapsto> restoreRequestID mint],
       job_BackoffLimit = Some 1,
       job_TTLSecondsAfterFinished = Some 86400,
       job_Template = backupTemplate mint (backupContainer mint ''postgres-restore'' restoreScript (restoreEnv mint c)) \<rparr>"

definition GeneratePostgresRestoreJob :: "ext \<Rightarrow> CashuMint \<Rightarrow> Job option result" where
  "GeneratePostgresRestoreJob X mint =
     (case backupBucket mint of
        None \<Rightarrow> Ok None
      | Some (b, c) \<Rightarrow>
          if restoreObjectKey mint = '''' then Ok None
          else finish X mint job_Meta job_Meta_update (restoreJob mint c))"

text \<open>Trimming keeps a string that starts and ends with a printable ASCII character.\<close>

definition graphic :: "char \<Rightarrow> bool" where
  "graphic c = (33 \<le> (of_char c :: nat) \<and> of_char c < (127 :: nat))"

lemma spaceSeqs_not_graphic: "list_all (\<lambda>p. p \<noteq> [] \<and> \<not> graphic (hd p) \<and> \<not> graphic (last p)) spaceSeqs"
  by code_simp

lemma trimSpace_graphic:
  assumes "s \<noteq> ''''" and "graphic (hd s)" and "graphic (last s)"
  shows "trimSpace s = s"
proof -
  have "\<not> hasPrefix s p \<and> \<not> hasPrefix (rev s) (rev p)" if "p \<in> set spaceSeqs" for p
  proof -
    have p: "p \<noteq> []" "\<not> graphic (hd p)" "\<not> graphic (last p)"
      using that spaceSeqs_not_graphic by (auto simp: list_all_iff)
    then have "hd s = hd p" if "hasPrefix s p" using that by (auto simp: hasPrefix_iff)
    moreover have "last s = last p" if "hasPrefix (rev s) (rev p)"
      using that p by (auto simp: hasPrefix_iff rev_eq_append_conv last_append)
    ultimately show ?thesis using p assms by auto
  qed
  then have "dropSpace s = None" "dropSpaceR s = None"
    by (simp_all add: dropSpace_def dropSpaceR_def find_None_iff)
  then show ?thesis using assms(1) by (cases s) (simp_all add: trimSpace_def Let_def)
qed

subsection \<open>What the jobs do\<close>

lemma accepted_bucket:
  assumes "validateCashuMint cmp m = None" and "cms_Backup (cm_Spec m) = Some b" and "bk_Enabled b"
  shows "\<exists>c. backupBucket m = Some (b, c) \<and> s3OK c"
  using assms by (auto simp: accepted_iff specOK_def backupOK_def backupBucket_def autoProvisioned_def Let_def optP_iff)

lemma backupBucket_auto: "backupBucket m = Some p \<Longrightarrow> autoProvisioned m"
  by (auto simp: backupBucket_def Let_def split: option.splits if_splits)

text \<open>The environment of the one container of a job template.\<close>

definition templateEnv :: "PodTemplateSpec \<Rightarrow> EnvVar list" where
  "templateEnv t = concat (map c_Env (ps_Containers (pt_Spec t)))"

lemma templateEnv_simps [simp]:
  "templateEnv (cj_Template (backupCronJob m b c)) = backupEnv m c"
  "templateEnv (job_Template (restoreJob m c)) = restoreEnv m c"
  by (simp_all add: templateEnv_def backupCronJob_def restoreJob_def backupTemplate_def backupContainer_def Let_def)

lemma resolves_databaseURL:
  "GeneratePostgresSecret rand m existing = Ok (Some sec) \<Longrightarrow>
   resolves sec (newSelector (postgresSecretName m) ''database-url'')"
  using GeneratePostgres_Some(1) [of rand m existing sec]
  by (auto simp: resolves_def postgresSecret_def)

text \<open>The variable of a job that holds the database URL.\<close>

definition urlRefs :: "EnvVar list \<Rightarrow> SecretKeySelector list" where
  "urlRefs es = secretRefs (filter (\<lambda>e. env_Name e = ''DATABASE_URL'') es)"

lemma urlRefs_jobs [simp]:
  "urlRefs (backupEnv m c) = [newSelector (postgresSecretName m) ''database-url'']"
  "urlRefs (restoreEnv m c) = [newSelector (postgresSecretName m) ''database-url'']"
  by (simp_all add: urlRefs_def backupEnv_def restoreEnv_def databaseURLEnv_def awsEnv_def whenL_def)

text \<open>C24: when the webhook accepted a mint with backups enabled, the CronJob is generated and
  controlled by the mint (the branch that reports that no backup resources were generated is
  never taken), it never runs two dumps at once, and the database URL it reads is a key of the
  credentials secret generated for the same mint.\<close>

theorem accepted_backup_is_scheduled:
  assumes "validateCashuMint cmp m = None" and "cms_Backup (cm_Spec m) = Some b" and "bk_Enabled b"
    and "owner_references (x_SetControllerReference X)"
    and "GeneratePostgresSecret rand m existing = Ok (Some sec)"
  shows "\<exists>cj. GeneratePostgresBackupCronJob X m = Ok (Some cj) \<and> ownedBy m (cj_Meta cj)
    \<and> cj_Schedule cj = bk_Schedule b \<and> cj_ConcurrencyPolicy cj = ''Forbid''
    \<and> urlRefs (templateEnv (cj_Template cj)) \<noteq> [] \<and> list_all (resolves sec) (urlRefs (templateEnv (cj_Template cj)))"
proof -
  obtain c where c: "backupBucket m = Some (b, c)" using accepted_bucket [OF assms(1-3)] by blast
  have "bk_Schedule b \<noteq> ''''"
    using assms(1-3) by (auto simp: accepted_iff specOK_def backupOK_def)
  moreover obtain meta where "x_SetControllerReference X m (cj_Meta (backupCronJob m b c)) = Ok meta"
    using owner_references.fresh_ok [OF assms(4), of "cj_Meta (backupCronJob m b c)" m]
    by (auto simp: backupCronJob_def Let_def)
  moreover from this have "ownedBy m meta" by (rule owner_references.owner_set [OF assms(4)])
  moreover have "templateEnv (cj_Template ((backupCronJob m b c)\<lparr> cj_Meta := meta \<rparr>)) = backupEnv m c"
    using templateEnv_simps(1) [of m b c] by simp
  ultimately show ?thesis
    using c resolves_databaseURL [OF assms(5)]
    by (auto simp: GeneratePostgresBackupCronJob_def) (simp_all add: backupCronJob_def Let_def)
qed

theorem accepted_backup_is_scheduled_witness:
  "\<exists>sec cj. GeneratePostgresSecret (\<lambda>n. Ok (replicate n 7)) sampleBackup '''' = Ok (Some sec)
    \<and> GeneratePostgresBackupCronJob sampleExt sampleBackup = Ok (Some cj) \<and> ownedBy sampleBackup (cj_Meta cj)
    \<and> list_all (resolves sec) (urlRefs (templateEnv (cj_Template cj)))"
proof -
  obtain b where "cms_Backup (cm_Spec sampleBackup) = Some b" "bk_Enabled b" by (simp add: sample_defs)
  moreover obtain sec where "GeneratePostgresSecret (\<lambda>n. Ok (replicate n 7)) sampleBackup '''' = Ok (Some sec)"
    using sampleBackup_postgres by blast
  ultimately show ?thesis
    using accepted_backup_is_scheduled [OF samples_accepted(4) _ _ sampleExt_owner] by blast
qed

definition hexAlphabet :: string where "hexAlphabet = ''0123456789abcdef''"

lemma hexChar_alphabet: "n < 16 \<Longrightarrow> hexChar n \<in> set hexAlphabet"
proof -
  have "list_all (\<lambda>n. hexChar n \<in> set hexAlphabet) [0..<16]" by code_simp
  then show "n < 16 \<Longrightarrow> hexChar n \<in> set hexAlphabet" by (auto simp: list_all_iff)
qed

lemma hexEncode_alphabet: "set (hexEncode bs) \<subseteq> set hexAlphabet"
proof -
  have "unat b div 16 < 16" for b :: byte by (simp add: less_mult_imp_div_less)
  then show ?thesis by (auto simp: hexEncode_def hexByte_def intro!: hexChar_alphabet)
qed

lemma shortHash_shape: "length (shortHash s) = 10" "set (shortHash s) \<subseteq> set hexAlphabet"
  using hexEncode_alphabet set_take_subset by (fastforce simp: shortHash_def)+

lemma restoreEnv_values:
  "envLookup (restoreEnv m c) ''RESTORE_OBJECT_KEY'' = Some (restoreObjectKey m)"
  "envLookup (restoreEnv m c) ''S3_BUCKET'' = Some (s3_Bucket c)"
  by (simp_all add: restoreEnv_def databaseURLEnv_def)

text \<open>What a restore Job of \<open>m\<close> is.\<close>

definition restores :: "CashuMint \<Rightarrow> Job \<Rightarrow> bool" where
  "restores m job =
     (case backupBucket m of
        None \<Rightarrow> False
      | Some (b, c) \<Rightarrow>
          restoreObjectKey m \<noteq> ''''
          \<and> ownedBy m (job_Meta job)
          \<and> envLookup (templateEnv (job_Template job)) ''RESTORE_OBJECT_KEY'' = Some (restoreObjectKey m)
          \<and> envLookup (templateEnv (job_Template job)) ''S3_BUCKET'' = Some (s3_Bucket c)
          \<and> urlRefs (templateEnv (job_Template job)) = [newSelector (postgresSecretName m) ''database-url'']
          \<and> job_BackoffLimit job = Some 1
          \<and> om_Name (job_Meta job) = restoreJobName m)"

text \<open>C25: a restore Job is generated exactly when backups are configured and the restore annotation
  is not blank; it is controlled by the mint, restores the object the annotation names, from the
  configured bucket into the database of the credentials secret, with one retry, and its name is
  the mint's name, \<open>-restore-\<close> and ten hexadecimal digits.\<close>

theorem restore_job_on_request:
  assumes "owner_references (x_SetControllerReference X)"
  shows "(case GeneratePostgresRestoreJob X m of
            Ok None \<Rightarrow> backupBucket m = None \<or> restoreObjectKey m = ''''
          | Ok (Some job) \<Rightarrow> restores m job
          | _ \<Rightarrow> False)
    \<and> (\<exists>h. restoreJobName m = mintName m @ ''-restore-'' @ h \<and> length h = 10 \<and> set h \<subseteq> set hexAlphabet)"
proof (cases "backupBucket m")
  case None
  then show ?thesis using shortHash_shape by (auto simp: GeneratePostgresRestoreJob_def restoreJobName_def)
next
  case (Some p)
  obtain b c where p: "p = (b, c)" by (cases p)
  obtain meta where meta: "x_SetControllerReference X m (job_Meta (restoreJob m c)) = Ok meta"
    using owner_references.fresh_ok [OF assms, of "job_Meta (restoreJob m c)" m] by (auto simp: restoreJob_def)
  have "ownedBy m meta" "om_Name meta = restoreJobName m"
    using owner_references.owner_set [OF assms meta] owner_references.keeps_identity(1) [OF assms meta]
    by (simp_all add: restoreJob_def)
  moreover have "templateEnv (job_Template ((restoreJob m c)\<lparr> job_Meta := meta \<rparr>)) = restoreEnv m c"
    using templateEnv_simps(2) [of m c] by simp
  moreover have "job_BackoffLimit ((restoreJob m c)\<lparr> job_Meta := meta \<rparr>) = Some 1" by (simp add: restoreJob_def)
  ultimately have "restores m ((restoreJob m c)\<lparr> job_Meta := meta \<rparr>)" if "restoreObjectKey m \<noteq> ''''"
    using that Some p by (simp add: restores_def restoreEnv_values)
  then show ?thesis using Some p meta shortHash_shape
    by (auto simp: GeneratePostgresRestoreJob_def restoreJobName_def finish_def)
qed

definition sampleRestore :: "string \<Rightarrow> string \<Rightarrow> CashuMint" where
  "sampleRestore key rid = sampleBackup\<lparr> cm_Meta := (cm_Meta sampleBackup)\<lparr> om_Annotations :=
     [RestoreObjectKeyAnnotation \<mapsto> key, RestoreRequestIDAnnotation \<mapsto> rid] \<rparr> \<rparr>"

lemma sampleRestore_annotations:
  "restoreObjectKey (sampleRestore key rid) = trimSpace key"
  "restoreRequestID (sampleRestore key rid) = orStr (trimSpace rid) (trimSpace key)"
  "mintName (sampleRestore key rid) = mintName sampleBackup" "backupBucket (sampleRestore key rid) = backupBucket sampleBackup"
  by (simp_all add: sampleRestore_def restoreObjectKey_def restoreRequestID_def annotation_def backupBucket_def
      autoProvisioned_def Let_def RestoreObjectKeyAnnotation_def RestoreRequestIDAnnotation_def split: option.split)

lemma trimSpace_samples [simp]:
  "trimSpace ''dump.sql.gz'' = ''dump.sql.gz''" "trimSpace ''req-1'' = ''req-1''" "trimSpace ''c'' = ''c''"
  "trimSpace ''a:b'' = ''a:b''" "trimSpace ''b:c'' = ''b:c''" "trimSpace ''a'' = ''a''"
  by (simp_all add: trimSpace_graphic graphic_def)

theorem restore_job_on_request_witness:
  "\<exists>job. GeneratePostgresRestoreJob sampleExt (sampleRestore ''dump.sql.gz'' ''req-1'') = Ok (Some job)
     \<and> restores (sampleRestore ''dump.sql.gz'' ''req-1'') job"
proof -
  let ?m = "sampleRestore ''dump.sql.gz'' ''req-1''"
  have "backupBucket ?m \<noteq> None"
    by (simp add: sampleRestore_annotations) (simp add: backupBucket_def autoProvisioned_def sample_defs)
  moreover have "restoreObjectKey ?m \<noteq> ''''" by (simp add: sampleRestore_annotations)
  ultimately show ?thesis
    using restore_job_on_request [OF sampleExt_owner, of ?m] by (auto split: result.splits option.splits)
qed

text \<open>The seed of the name of a restore Job is not injective: two different restore requests for
  one mint, which ask for different objects, can get the same Job.\<close>

lemma restore_requests_collide:
  "restoreObjectKey (sampleRestore ''c'' ''a:b'') \<noteq> restoreObjectKey (sampleRestore ''b:c'' ''a'')
   \<and> restoreJobName (sampleRestore ''c'' ''a:b'') = restoreJobName (sampleRestore ''b:c'' ''a'')"
  by (simp add: restoreJobName_def sampleRestore_annotations)

end
