(* ===== verification/GenMnemonic.thy ===== *)
theory GenMnemonic
  imports GenDeployment GoCrypto Bip39Words
begin

section \<open>The mint's mnemonic\<close>

text \<open>
  \<^verbatim>\<open>mnemonic.go\<close>: a fresh 24-word BIP39 mnemonic and the secret that holds it. The arbitrary
  precision integer \<^verbatim>\<open>combined\<close> is a natural number; \<open>rand n\<close> is the outcome of \<^verbatim>\<open>rand.Read\<close> on a
  slice of \<open>n\<close> bytes.
\<close>

text \<open>\<^verbatim>\<open>new(big.Int).SetBytes\<close>: the bytes are a big-endian unsigned integer.\<close>

definition setBytes :: "byte list \<Rightarrow> nat" where
  "setBytes bs = foldl (\<lambda>n b. n * 256 + unat b) 0 bs"

text \<open>The loop \<^verbatim>\<open>for i := 23; i >= 0; i--\<close>, from \<open>i\<close> words to go: \<open>words\<close> are the entries of the slice
  already filled, at its end. Indexing the word list out of its range would panic.\<close>

fun mnemonicLoop :: "nat \<Rightarrow> nat \<Rightarrow> string list \<Rightarrow> string list result" where
  "mnemonicLoop 0 combined words = Ok words"
| "mnemonicLoop (Suc i) combined words =
     (let idx = and combined 0x7FF in
      if idx < length bip39WordList
      then mnemonicLoop i (drop_bit 11 combined) (bip39WordList ! idx # words)
      else Panic ''index out of range'')"

definition generateBIP39Mnemonic :: "(nat \<Rightarrow> byte list result) \<Rightarrow> string result" where
  "generateBIP39Mnemonic rand =
     bindR (mapErr (Wrapf ''failed to read random entropy'') (rand 32)) (\<lambda>entropy.
       let entropyWithChecksum = entropy @ [sha256 entropy ! 0] in
       bindR (mnemonicLoop 24 (setBytes entropyWithChecksum) []) (\<lambda>words. Ok (joinStr '' '' words)))"

definition mnemonicSecret :: "CashuMint \<Rightarrow> string \<Rightarrow> Secret" where
  "mnemonicSecret mint mnemonic =
     \<lparr> sec_TypeMeta = typeMeta ''v1'' ''Secret'',
       sec_Meta = newMeta (MnemonicSecretName (mintName mint)) (mintNamespace mint)
         (componentLabels ''cashu-mint'' mint ''mnemonic'') Map.empty,
       sec_Type = ''Opaque'',
       sec_Data = Map.empty,
       sec_StringData = [MnemonicSecretKey \<mapsto> mnemonic] \<rparr>"

definition GenerateMnemonicSecret ::
  "ext \<Rightarrow> (nat \<Rightarrow> byte list result) \<Rightarrow> CashuMint \<Rightarrow> string \<Rightarrow> Secret result" where
  "GenerateMnemonicSecret X rand mint existingMnemonic =
     bindR (if existingMnemonic = ''''
            then mapErr (Wrapf ''failed to generate BIP39 mnemonic'') (generateBIP39Mnemonic rand)
            else Ok existingMnemonic) (\<lambda>mnemonic.
       bindR (mapErr (Wrapf ''failed to set controller reference on mnemonic secret'')
                (x_SetControllerReference X mint (sec_Meta (mnemonicSecret mint mnemonic)))) (\<lambda>meta.
         Ok ((mnemonicSecret mint mnemonic)\<lparr> sec_Meta := meta \<rparr>)))"

subsection \<open>A BIP39 reader\<close>

text \<open>The reference decoder: split at spaces, look every word up, put the 11-bit indices together,
  split off the checksum and check it.\<close>

fun splitSpace :: "string \<Rightarrow> string list" where
  "splitSpace [] = [[]]"
| "splitSpace (c # cs) =
     (if c = CHR '' '' then [] # splitSpace cs
      else case splitSpace cs of [] \<Rightarrow> [[c]] | w # ws \<Rightarrow> (c # w) # ws)"

definition wordIndex :: "string \<Rightarrow> nat option" where
  "wordIndex w = find (\<lambda>i. bip39WordList ! i = w) [0..<2048]"

fun readWords :: "nat \<Rightarrow> string list \<Rightarrow> nat option" where
  "readWords n [] = Some n"
| "readWords n (w # ws) = Option.bind (wordIndex w) (\<lambda>i. readWords (n * 2048 + i) ws)"

text \<open>The \<open>k\<close> big-endian bytes of a number.\<close>

definition bigEndian :: "nat \<Rightarrow> nat \<Rightarrow> byte list" where
  "bigEndian k n = map (\<lambda>i. of_nat (n div 256 ^ (k - 1 - i))) [0..<k]"

definition readMnemonic :: "string \<Rightarrow> byte list option" where
  "readMnemonic s =
     (let ws = splitSpace s in
      if length ws \<noteq> 24 then None
      else Option.bind (readWords 0 ws) (\<lambda>n.
        let bs = bigEndian 33 n; entropy = take 32 bs in
        if bs ! 32 = sha256 entropy ! 0 then Some entropy else None))"

subsection \<open>Round trip\<close>

lemma and_mask: "and n (0x7FF :: nat) = n mod 2048"
  using take_bit_eq_mask [of 11 n] by (simp add: take_bit_eq_mod mask_eq_exp_minus_1)

lemma mnemonicLoop_Suc:
  "mnemonicLoop (Suc i) n ws = mnemonicLoop i (n div 2048) (bip39WordList ! (n mod 2048) # ws)"
  by (simp add: and_mask drop_bit_eq_div)

lemma wordIndex_nth: "i < 2048 \<Longrightarrow> wordIndex (bip39WordList ! i) = Some i"
  unfolding wordIndex_def find_Some_iff
  using nth_eq_iff_index_eq [OF bip39WordList_distinct] by (intro exI [of _ i]) auto

lemma readWords_append: "readWords n (a @ b) = Option.bind (readWords n a) (\<lambda>m. readWords m b)"
  by (induction n a rule: readWords.induct) (auto split: Option.bind_splits)

text \<open>The words of a number, most significant first.\<close>

fun wordsOf :: "nat \<Rightarrow> nat \<Rightarrow> string list" where
  "wordsOf 0 n = []"
| "wordsOf (Suc k) n = wordsOf k (n div 2048) @ [bip39WordList ! (n mod 2048)]"

lemma mnemonicLoop_words: "mnemonicLoop k n ws = Ok (wordsOf k n @ ws)"
  by (induction k n arbitrary: ws rule: wordsOf.induct) (simp_all add: mnemonicLoop_Suc del: mnemonicLoop.simps(2))

lemma length_wordsOf [simp]: "length (wordsOf k n) = k"
  by (induction k n rule: wordsOf.induct) auto

lemma wordsOf_plain: "w \<in> set (wordsOf k n) \<Longrightarrow> plainWord w"
  by (induction k n rule: wordsOf.induct) (auto intro: bip39WordList_plain nth_mem)

lemma readWords_wordsOf: "n < 2048 ^ k \<Longrightarrow> readWords 0 (wordsOf k n) = Some n"
proof (induction k n rule: wordsOf.induct)
  case (2 k n)
  then have "n div 2048 < 2048 ^ k" by (simp add: less_mult_imp_div_less mult.commute)
  with 2 show ?case by (simp add: readWords_append wordIndex_nth)
qed simp

lemma splitSpace_word: "list_all (\<lambda>c. c \<noteq> CHR '' '') w \<Longrightarrow> splitSpace w = [w]"
  by (induction w) auto

lemma splitSpace_Cons: "list_all (\<lambda>c. c \<noteq> CHR '' '') w \<Longrightarrow> splitSpace (w @ '' '' @ s) = w # splitSpace s"
  by (induction w) auto

lemma splitSpace_join: "ws \<noteq> [] \<Longrightarrow> list_all plainWord ws \<Longrightarrow> splitSpace (joinStr '' '' ws) = ws"
proof (induction "'' ''" ws rule: joinStr.induct)
  case (3 x y ys)
  then show ?case using splitSpace_Cons [of x "joinStr '' '' (y # ys)"] by (auto simp: plainWord_def)
qed (auto simp: plainWord_def splitSpace_word)

lemma setBytes_snoc: "setBytes (bs @ [b]) = setBytes bs * 256 + unat b"
  by (simp add: setBytes_def)

lemma setBytes_less: "setBytes bs < 256 ^ length bs"
proof (induction bs rule: rev_induct)
  case (snoc b bs)
  have "unat b < 256" by simp
  moreover from snoc have "setBytes bs * 256 + 256 \<le> 256 ^ length bs * 256" by simp
  ultimately have "setBytes bs * 256 + unat b < 256 ^ length bs * 256" by linarith
  then show ?case by (simp add: setBytes_snoc mult.commute)
qed (simp add: setBytes_def)

lemma bigEndian_Suc: "bigEndian (Suc k) n = bigEndian k (n div 256) @ [of_nat n]"
proof -
  have "n div 256 ^ (k - i) = n div 256 div 256 ^ (k - 1 - i)" if "i < k" for i
  proof -
    have "k - i = Suc (k - 1 - i)" using that by simp
    then show ?thesis by (simp add: div_mult2_eq)
  qed
  then show ?thesis by (simp add: bigEndian_def)
qed

lemma bigEndian_setBytes: "bigEndian (length bs) (setBytes bs) = bs"
proof (induction bs rule: rev_induct)
  case (snoc b bs)
  have "unat b < 256" by simp
  then have "(setBytes bs * 256 + unat b) div 256 = setBytes bs" by simp
  moreover have "(of_nat (setBytes bs * 256 + unat b) :: byte) = b"
  proof -
    have "(of_nat (setBytes bs * 256 + unat b) :: byte) = of_nat (setBytes bs) * 256 + b" by simp
    moreover have "(256 :: byte) = 0" by simp
    ultimately show ?thesis by (simp only: mult_zero_right add_0)
  qed
  ultimately show ?case using snoc by (simp add: setBytes_snoc bigEndian_Suc)
qed (simp add: bigEndian_def)

lemma generateBIP39Mnemonic_words:
  assumes "rand 32 = Ok entropy"
  shows "generateBIP39Mnemonic rand = Ok (joinStr '' '' (wordsOf 24 (setBytes (entropy @ [sha256 entropy ! 0]))))"
  using assms by (simp add: generateBIP39Mnemonic_def Let_def mnemonicLoop_words del: mnemonicLoop.simps)

lemma readMnemonic_generated:
  assumes "length entropy = 32"
  shows "readMnemonic (joinStr '' '' (wordsOf 24 (setBytes (entropy @ [sha256 entropy ! 0])))) = Some entropy"
proof -
  let ?bs = "entropy @ [sha256 entropy ! 0]"
  have "(256::nat) ^ 33 = 2048 ^ 24" by simp
  then have "readWords 0 (wordsOf 24 (setBytes ?bs)) = Some (setBytes ?bs)"
    using setBytes_less [of ?bs] assms by (intro readWords_wordsOf) simp
  moreover have "splitSpace (joinStr '' '' (wordsOf 24 (setBytes ?bs))) = wordsOf 24 (setBytes ?bs)"
    by (rule splitSpace_join) (auto simp: list_all_iff dest: wordsOf_plain simp flip: length_greater_0_conv)
  moreover have "bigEndian 33 (setBytes ?bs) = ?bs" using bigEndian_setBytes [of ?bs] assms by simp
  ultimately show ?thesis using assms by (simp add: readMnemonic_def Let_def nth_append)
qed

text \<open>C15: when the random source delivers the 32 bytes asked for, the mnemonic secret is generated
  without an error or a panic, it is controlled by the mint, and the phrase in it is a valid BIP39
  mnemonic of exactly those bytes: a reader that checks the number of words, that each is in the
  list and the SHA-256 checksum recovers all 256 bits of entropy.\<close>

theorem mnemonic_encodes_entropy:
  assumes "owner_references (x_SetControllerReference X)"
    and "rand 32 = Ok entropy" and "length entropy = 32"
  shows "\<exists>sec phrase. GenerateMnemonicSecret X rand m '''' = Ok sec
    \<and> sec_StringData sec MnemonicSecretKey = Some phrase \<and> readMnemonic phrase = Some entropy
    \<and> om_Name (sec_Meta sec) = MnemonicSecretName (mintName m) \<and> ownedBy m (sec_Meta sec)"
proof -
  obtain phrase where p: "generateBIP39Mnemonic rand = Ok phrase" "readMnemonic phrase = Some entropy"
    using generateBIP39Mnemonic_words [of rand] readMnemonic_generated assms(2,3) by simp
  obtain meta where meta: "x_SetControllerReference X m (sec_Meta (mnemonicSecret m phrase)) = Ok meta"
    using owner_references.fresh_ok [OF assms(1), of "sec_Meta (mnemonicSecret m phrase)" m]
    by (auto simp: mnemonicSecret_def)
  have "om_Name meta = MnemonicSecretName (mintName m)" "ownedBy m meta"
    using owner_references.keeps_identity(1) [OF assms(1) meta] owner_references.owner_set [OF assms(1) meta]
    by (simp_all add: mnemonicSecret_def)
  then show ?thesis using p meta by (simp add: GenerateMnemonicSecret_def) (simp add: mnemonicSecret_def)
qed

theorem mnemonic_encodes_entropy_witness:
  "\<exists>sec phrase. GenerateMnemonicSecret sampleExt (\<lambda>n. Ok (replicate n 7)) sampleMinimal '''' = Ok sec
    \<and> sec_StringData sec MnemonicSecretKey = Some phrase \<and> readMnemonic phrase = Some (replicate 32 7)"
  using mnemonic_encodes_entropy [OF sampleExt_owner, of "\<lambda>n. Ok (replicate n 7)" "replicate 32 7" sampleMinimal] by auto

end
