(* ===== verification/GenManagementRPC.thy ===== *)
theory GenManagementRPC
  imports EnvAgreement
begin

section \<open>Mutual TLS of the management RPC\<close>

text \<open>
  \<^verbatim>\<open>management_rpc.go\<close>: a self-made certificate authority, a server and a client certificate, and
  the secret with the five PEM files. The cryptography of Go's standard library is the record
  \<open>crypto\<close>: keys and DER bytes are strings, time is a number of minutes. Each of its operations takes
  the number of its call, so that two calls can give different results; \<open>k_CreateCertificate\<close> takes
  the template, the parent, the public key and the signing key.
\<close>

datatype keyUsage = CertSign | CRLSign | DigitalSignature | KeyEncipherment

datatype extKeyUsage = ServerAuth | ClientAuth

record CertTemplate =
  ct_SerialNumber :: nat
  ct_CommonName :: string
  ct_Organization :: "string list"
  ct_NotBefore :: int
  ct_NotAfter :: int
  ct_KeyUsage :: "keyUsage list"
  ct_ExtKeyUsage :: "extKeyUsage list"
  ct_IsCA :: bool
  ct_BasicConstraintsValid :: bool
  ct_DNSNames :: "string list"
  ct_IPAddresses :: "string list"

record crypto =
  k_GenerateKey :: "nat \<Rightarrow> nat \<Rightarrow> string result"
  k_PublicKey :: "string \<Rightarrow> string"
  k_RandInt :: "nat \<Rightarrow> nat \<Rightarrow> nat result"
  k_Now :: int
  k_CreateCertificate :: "nat \<Rightarrow> CertTemplate \<Rightarrow> CertTemplate \<Rightarrow> string \<Rightarrow> string \<Rightarrow> string result"
  k_ParseCertificate :: "string \<Rightarrow> CertTemplate result"
  k_EncodePEM :: "string \<Rightarrow> string \<Rightarrow> string"
  k_MarshalPKCS1PrivateKey :: "string \<Rightarrow> string"

definition newTLSSerialNumber :: "crypto \<Rightarrow> nat \<Rightarrow> nat result" where
  "newTLSSerialNumber K i = k_RandInt K i (2 ^ 128)"

definition caTemplate :: "int \<Rightarrow> nat \<Rightarrow> CertTemplate" where
  "caTemplate now serial =
     \<lparr> ct_SerialNumber = serial, ct_CommonName = ''cashu-management-rpc-ca'', ct_Organization = [''cashu-operator''],
       ct_NotBefore = now - 5, ct_NotAfter = now + 3650 * 24 * 60,
       ct_KeyUsage = [CertSign, CRLSign, DigitalSignature], ct_ExtKeyUsage = [],
       ct_IsCA = True, ct_BasicConstraintsValid = True, ct_DNSNames = [], ct_IPAddresses = [] \<rparr>"

definition serverTemplate :: "int \<Rightarrow> nat \<Rightarrow> CertTemplate" where
  "serverTemplate now serial =
     \<lparr> ct_SerialNumber = serial, ct_CommonName = ''cashu-management-rpc-server'', ct_Organization = [''cashu-operator''],
       ct_NotBefore = now - 5, ct_NotAfter = now + 825 * 24 * 60,
       ct_KeyUsage = [DigitalSignature, KeyEncipherment], ct_ExtKeyUsage = [ServerAuth],
       ct_IsCA = False, ct_BasicConstraintsValid = False,
       ct_DNSNames = [''localhost''], ct_IPAddresses = [DefaultLoopbackHost] \<rparr>"

definition clientTemplate :: "int \<Rightarrow> nat \<Rightarrow> CertTemplate" where
  "clientTemplate now serial =
     \<lparr> ct_SerialNumber = serial, ct_CommonName = ''cashu-management-rpc-client'', ct_Organization = [''cashu-operator''],
       ct_NotBefore = now - 5, ct_NotAfter = now + 825 * 24 * 60,
       ct_KeyUsage = [DigitalSignature, KeyEncipherment], ct_ExtKeyUsage = [ClientAuth],
       ct_IsCA = False, ct_BasicConstraintsValid = False, ct_DNSNames = [], ct_IPAddresses = [] \<rparr>"

definition stage :: "string \<Rightarrow> 'a result \<Rightarrow> ('a \<Rightarrow> 'b result) \<Rightarrow> 'b result" where
  "stage what r k = bindR (mapErr (Wrapf (''failed to '' @ what)) r) k"

definition generateManagementRPCTLSBundle :: "crypto \<Rightarrow> strmap result" where
  "generateManagementRPCTLSBundle K =
     (let now = k_Now K; pub = k_PublicKey K in
      stage ''generate management RPC CA key'' (k_GenerateKey K 0 2048) (\<lambda>caKey.
      stage ''generate management RPC CA serial number'' (newTLSSerialNumber K 0) (\<lambda>caSerial.
      stage ''create management RPC CA certificate''
        (k_CreateCertificate K 0 (caTemplate now caSerial) (caTemplate now caSerial) (pub caKey) caKey) (\<lambda>caDER.
      stage ''parse management RPC CA certificate'' (k_ParseCertificate K caDER) (\<lambda>caCert.
      stage ''generate management RPC server key'' (k_GenerateKey K 1 2048) (\<lambda>serverKey.
      stage ''generate management RPC server serial number'' (newTLSSerialNumber K 1) (\<lambda>serverSerial.
      stage ''create management RPC server certificate''
        (k_CreateCertificate K 1 (serverTemplate now serverSerial) caCert (pub serverKey) caKey) (\<lambda>serverDER.
      stage ''generate management RPC client key'' (k_GenerateKey K 2 2048) (\<lambda>clientKey.
      stage ''generate management RPC client serial number'' (newTLSSerialNumber K 2) (\<lambda>clientSerial.
      stage ''create management RPC client certificate''
        (k_CreateCertificate K 2 (clientTemplate now clientSerial) caCert (pub clientKey) caKey) (\<lambda>clientDER.
      Ok [''ca.pem'' \<mapsto> k_EncodePEM K ''CERTIFICATE'' caDER,
          ''server.pem'' \<mapsto> k_EncodePEM K ''CERTIFICATE'' serverDER,
          ''server.key'' \<mapsto> k_EncodePEM K ''RSA PRIVATE KEY'' (k_MarshalPKCS1PrivateKey K serverKey),
          ''client.pem'' \<mapsto> k_EncodePEM K ''CERTIFICATE'' clientDER,
          ''client.key'' \<mapsto> k_EncodePEM K ''RSA PRIVATE KEY'' (k_MarshalPKCS1PrivateKey K clientKey)])))))))))))"

definition managementRPCTLSSecret :: "CashuMint \<Rightarrow> strmap \<Rightarrow> Secret" where
  "managementRPCTLSSecret mint bundle =
     \<lparr> sec_TypeMeta = typeMeta ''v1'' ''Secret'',
       sec_Meta = newMeta (ManagementRPCTLSSecretName (cm_Spec mint) (mintName mint)) (mintNamespace mint)
         (componentLabels ''cashu-mint'' mint ''management-rpc-tls'') Map.empty,
       sec_Type = ''Opaque'',
       sec_Data = bundle,
       sec_StringData = Map.empty \<rparr>"

definition GenerateManagementRPCTLSSecret :: "ext \<Rightarrow> crypto \<Rightarrow> CashuMint \<Rightarrow> Secret option result" where
  "GenerateManagementRPCTLSSecret X K mint =
     (if \<not> ManagementRPCTLSEnabled (cm_Spec mint) then Ok None
      else bindR (generateManagementRPCTLSBundle K) (\<lambda>bundle.
        finish X mint sec_Meta sec_Meta_update (managementRPCTLSSecret mint bundle)))"

subsection \<open>What the bundle holds\<close>

text \<open>A certificate of the bundle, with the certificate template, the parent and the keys it was
  created from: the contents of \<open>n.pem\<close> is the encoding of a certificate the authority's key signed.\<close>

definition issuedFor :: "crypto \<Rightarrow> strmap \<Rightarrow> string \<Rightarrow> CertTemplate \<Rightarrow> CertTemplate \<Rightarrow> string \<Rightarrow> string \<Rightarrow> bool" where
  "issuedFor K bundle n template parent key signer =
     (\<exists>i der. k_CreateCertificate K i template parent (k_PublicKey K key) signer = Ok der
        \<and> bundle (n @ ''.pem'') = Some (k_EncodePEM K ''CERTIFICATE'' der))"

definition keyFor :: "crypto \<Rightarrow> strmap \<Rightarrow> string \<Rightarrow> string \<Rightarrow> bool" where
  "keyFor K bundle n key =
     (bundle (n @ ''.key'') = Some (k_EncodePEM K ''RSA PRIVATE KEY'' (k_MarshalPKCS1PrivateKey K key)))"

lemma stage_eq_Ok [simp]: "(stage w r k = Ok y) = (\<exists>x. r = Ok x \<and> k x = Ok y)"
  by (simp add: stage_def)

definition tlsFiles :: "crypto \<Rightarrow> string \<Rightarrow> string \<Rightarrow> string \<Rightarrow> string \<Rightarrow> string \<Rightarrow> strmap" where
  "tlsFiles K caDER serverDER serverKey clientDER clientKey =
     [''ca.pem'' \<mapsto> k_EncodePEM K ''CERTIFICATE'' caDER,
      ''server.pem'' \<mapsto> k_EncodePEM K ''CERTIFICATE'' serverDER,
      ''server.key'' \<mapsto> k_EncodePEM K ''RSA PRIVATE KEY'' (k_MarshalPKCS1PrivateKey K serverKey),
      ''client.pem'' \<mapsto> k_EncodePEM K ''CERTIFICATE'' clientDER,
      ''client.key'' \<mapsto> k_EncodePEM K ''RSA PRIVATE KEY'' (k_MarshalPKCS1PrivateKey K clientKey)]"

lemma dom_tlsFiles: "dom (tlsFiles K a b c d e) = {''ca.pem'', ''server.pem'', ''server.key'', ''client.pem'', ''client.key''}"
  unfolding tlsFiles_def dom_fun_upd by auto

lemma bundle_inversion:
  assumes "generateManagementRPCTLSBundle K = Ok bundle"
  obtains caKey caSerial caDER caCert serverKey serverSerial serverDER clientKey clientSerial clientDER where
    "k_CreateCertificate K 0 (caTemplate (k_Now K) caSerial) (caTemplate (k_Now K) caSerial) (k_PublicKey K caKey) caKey = Ok caDER"
    "k_ParseCertificate K caDER = Ok caCert"
    "k_CreateCertificate K 1 (serverTemplate (k_Now K) serverSerial) caCert (k_PublicKey K serverKey) caKey = Ok serverDER"
    "k_CreateCertificate K 2 (clientTemplate (k_Now K) clientSerial) caCert (k_PublicKey K clientKey) caKey = Ok clientDER"
    "bundle = tlsFiles K caDER serverDER serverKey clientDER clientKey"
  using assms unfolding generateManagementRPCTLSBundle_def Let_def stage_eq_Ok result.inject tlsFiles_def by metis

text \<open>C22: a generated TLS bundle is a working mutual-TLS setup of one authority: its certificate is
  self-signed and a CA certificate, the server's and the client's certificates are signed by the
  authority's key under the certificate read back from \<open>ca.pem\<close>, for the server and the client
  usage respectively, the server's for the loopback address mintd listens on by default, and the
  private keys stored beside them are the keys they certify; the authority's own key is not
  stored.\<close>

theorem tls_bundle_is_a_chain:
  assumes "generateManagementRPCTLSBundle K = Ok bundle"
  shows "\<exists>caKey serverKey clientKey ca caDER caCert server client.
    issuedFor K bundle ''ca'' ca ca caKey caKey \<and> ct_IsCA ca \<and> CertSign \<in> set (ct_KeyUsage ca)
    \<and> bundle ''ca.pem'' = Some (k_EncodePEM K ''CERTIFICATE'' caDER) \<and> k_ParseCertificate K caDER = Ok caCert
    \<and> issuedFor K bundle ''server'' server caCert serverKey caKey \<and> keyFor K bundle ''server'' serverKey
    \<and> ct_ExtKeyUsage server = [ServerAuth] \<and> DefaultLoopbackHost \<in> set (ct_IPAddresses server)
    \<and> issuedFor K bundle ''client'' client caCert clientKey caKey \<and> keyFor K bundle ''client'' clientKey
    \<and> ct_ExtKeyUsage client = [ClientAuth]
    \<and> dom bundle = {''ca.pem'', ''server.pem'', ''server.key'', ''client.pem'', ''client.key''}"
proof -
  let ?now = "k_Now K" and ?pub = "k_PublicKey K"
  from assms obtain caKey caSerial caDER caCert serverKey serverSerial serverDER clientKey clientSerial clientDER where
    ca: "k_CreateCertificate K 0 (caTemplate ?now caSerial) (caTemplate ?now caSerial) (?pub caKey) caKey = Ok caDER"
      "k_ParseCertificate K caDER = Ok caCert"
    and server: "k_CreateCertificate K 1 (serverTemplate ?now serverSerial) caCert (?pub serverKey) caKey = Ok serverDER"
    and client: "k_CreateCertificate K 2 (clientTemplate ?now clientSerial) caCert (?pub clientKey) caKey = Ok clientDER"
    and b: "bundle = tlsFiles K caDER serverDER serverKey clientDER clientKey" by (rule bundle_inversion)
  have "issuedFor K bundle ''ca'' (caTemplate ?now caSerial) (caTemplate ?now caSerial) caKey caKey"
    "issuedFor K bundle ''server'' (serverTemplate ?now serverSerial) caCert serverKey caKey"
    "issuedFor K bundle ''client'' (clientTemplate ?now clientSerial) caCert clientKey caKey"
    using ca server client by (auto simp: issuedFor_def b tlsFiles_def)
  moreover have "keyFor K bundle ''server'' serverKey" "keyFor K bundle ''client'' clientKey"
    "bundle ''ca.pem'' = Some (k_EncodePEM K ''CERTIFICATE'' caDER)"
    "dom bundle = {''ca.pem'', ''server.pem'', ''server.key'', ''client.pem'', ''client.key''}"
    by (simp_all add: keyFor_def b dom_tlsFiles) (simp_all add: tlsFiles_def)
  moreover have "ct_IsCA (caTemplate ?now caSerial)" "CertSign \<in> set (ct_KeyUsage (caTemplate ?now caSerial))"
    "ct_ExtKeyUsage (serverTemplate ?now serverSerial) = [ServerAuth]"
    "DefaultLoopbackHost \<in> set (ct_IPAddresses (serverTemplate ?now serverSerial))"
    "ct_ExtKeyUsage (clientTemplate ?now clientSerial) = [ClientAuth]"
    by (simp_all add: caTemplate_def serverTemplate_def clientTemplate_def)
  ultimately show ?thesis using ca(2) by blast
qed

definition sampleCrypto :: crypto where
  "sampleCrypto =
     \<lparr> k_GenerateKey = (\<lambda>i n. Ok (''key'' @ itoa (int i))), k_PublicKey = (\<lambda>k. ''pub-'' @ k),
       k_RandInt = (\<lambda>i n. Ok i), k_Now = 0,
       k_CreateCertificate = (\<lambda>i t p pub key. Ok (ct_CommonName t)),
       k_ParseCertificate = (\<lambda>der. Ok (caTemplate 0 0)),
       k_EncodePEM = (\<lambda>ty s. ty @ s), k_MarshalPKCS1PrivateKey = (\<lambda>k. k) \<rparr>"

lemma sampleCrypto_bundle: "\<exists>b. generateManagementRPCTLSBundle sampleCrypto = Ok b"
  by (simp add: generateManagementRPCTLSBundle_def Let_def newTLSSerialNumber_def) (simp add: sampleCrypto_def)

theorem tls_bundle_is_a_chain_witness:
  "\<exists>bundle ca caKey. generateManagementRPCTLSBundle sampleCrypto = Ok bundle
     \<and> issuedFor sampleCrypto bundle ''ca'' ca ca caKey caKey \<and> ct_IsCA ca"
  using sampleCrypto_bundle tls_bundle_is_a_chain [of sampleCrypto] by meson

subsection \<open>Where the bundle is read\<close>

lemma GenerateManagementRPCTLSSecret_Some:
  "GenerateManagementRPCTLSSecret X K m = Ok (Some sec) \<Longrightarrow>
   \<exists>bundle meta. generateManagementRPCTLSBundle K = Ok bundle \<and> ManagementRPCTLSEnabled (cm_Spec m)
     \<and> x_SetControllerReference X m (sec_Meta (managementRPCTLSSecret m bundle)) = Ok meta
     \<and> sec = (managementRPCTLSSecret m bundle)\<lparr> sec_Meta := meta \<rparr>"
  by (auto simp: GenerateManagementRPCTLSSecret_def split: if_splits)

text \<open>A path is a file of the secret under the directory the secret is mounted at.\<close>

definition mountedFile :: "Secret \<Rightarrow> string \<Rightarrow> string \<Rightarrow> bool" where
  "mountedFile sec dir path = list_ex (\<lambda>f. f \<in> dom (sec_Data sec) \<and> path = dir @ ''/'' @ f)
     [''ca.pem'', ''server.pem'', ''server.key'', ''client.pem'', ''client.key'']"

lemma orchard_database_var: "generateOrchardMintDatabaseEnvVar m = Some e \<Longrightarrow> env_Name e = ''MINT_DATABASE''"
  by (auto simp: generateOrchardMintDatabaseEnvVar_def Let_def split: if_splits option.splits)

lemma orchard_tls_paths:
  assumes "orchardMintRPCMTLS m"
  shows "envLookup (generateOrchardEnvironmentVariables m orc) ''MINT_RPC_KEY''
           = Some (orchardManagementRPCTLSMountPath @ ''/client.key'')"
    "envLookup (generateOrchardEnvironmentVariables m orc) ''MINT_RPC_CERT''
           = Some (orchardManagementRPCTLSMountPath @ ''/client.pem'')"
    "envLookup (generateOrchardEnvironmentVariables m orc) ''MINT_RPC_CA''
           = Some (orchardManagementRPCTLSMountPath @ ''/ca.pem'')"
  using assms orchard_database_var [of m]
  by (cases "generateOrchardMintDatabaseEnvVar m"; simp add: generateOrchardEnvironmentVariables_def)+

lemma mintd_tls_dir:
  "ManagementRPCTLSEnabled (cm_Spec m) \<Longrightarrow>
   envLookup (generateEnvironmentVariables m) ''CDK_MINTD_MANAGEMENT_TLS_DIR_PATH'' = Some orchardManagementRPCTLSMountPath"
  by (auto simp: generateEnvironmentVariables_def mintManagementRPCEnvVars_def ManagementRPCTLSEnabled_iff optP_iff)

text \<open>C23: the secret generated for the management RPC is the one the pod mounts; mintd is told the
  directory it is mounted at, and the key, certificate and authority files Orchard is told to use
  are files of that secret in that directory.\<close>

theorem tls_material_is_mounted:
  assumes "owner_references (x_SetControllerReference X)"
    and "GenerateManagementRPCTLSSecret X K m = Ok (Some sec)"
  shows "newVolume managementRPCTLSVolumeName (SecretSource (om_Name (sec_Meta sec))) \<in> set (ps_Volumes (generatePodSpec m))
    \<and> newMount managementRPCTLSVolumeName orchardManagementRPCTLSMountPath '''' True \<in> set (generateVolumeMounts m)
    \<and> envLookup (generateEnvironmentVariables m) ''CDK_MINTD_MANAGEMENT_TLS_DIR_PATH''
        = Some orchardManagementRPCTLSMountPath
    \<and> (orchardMintRPCMTLS m \<longrightarrow>
         newMount managementRPCTLSVolumeName orchardManagementRPCTLSMountPath '''' True \<in> set (generateOrchardVolumeMounts m)
         \<and> list_all (\<lambda>n. optP (mountedFile sec orchardManagementRPCTLSMountPath)
                              (envLookup (generateOrchardEnvironmentVariables m orc) n))
              [''MINT_RPC_KEY'', ''MINT_RPC_CERT'', ''MINT_RPC_CA''])"
proof -
  obtain bdl meta where tls: "ManagementRPCTLSEnabled (cm_Spec m)" and b: "generateManagementRPCTLSBundle K = Ok bdl"
    and meta: "x_SetControllerReference X m (sec_Meta (managementRPCTLSSecret m bdl)) = Ok meta"
    and sec: "sec = (managementRPCTLSSecret m bdl)\<lparr> sec_Meta := meta \<rparr>"
    using GenerateManagementRPCTLSSecret_Some [OF assms(2)] by blast
  have "om_Name (sec_Meta sec) = ManagementRPCTLSSecretName (cm_Spec m) (mintName m)"
    using owner_references.keeps_identity(1) [OF assms(1) meta] by (simp add: sec managementRPCTLSSecret_def)
  then have "newVolume managementRPCTLSVolumeName (SecretSource (om_Name (sec_Meta sec))) \<in> set (ps_Volumes (generatePodSpec m))"
    using tls by (simp add: generateVolumes_def Let_def)
  moreover have "newMount managementRPCTLSVolumeName orchardManagementRPCTLSMountPath '''' True \<in> set (generateVolumeMounts m)"
    using tls by (simp add: generateVolumeMounts_def Let_def)
  moreover have "dom (sec_Data sec) = {''ca.pem'', ''server.pem'', ''server.key'', ''client.pem'', ''client.key''}"
    using b by (rule bundle_inversion) (simp add: sec managementRPCTLSSecret_def dom_tlsFiles)
  ultimately show ?thesis
    using mintd_tls_dir [OF tls] orchard_tls_paths [of m orc]
    by (simp add: mountedFile_def generateOrchardVolumeMounts_def)
qed

lemma sampleOrchard_tls: "\<exists>sec. GenerateManagementRPCTLSSecret sampleExt sampleCrypto sampleOrchard = Ok (Some sec)"
proof -
  let ?m = "sampleOrchard"
  obtain b where "generateManagementRPCTLSBundle sampleCrypto = Ok b" using sampleCrypto_bundle by blast
  moreover have "ManagementRPCTLSEnabled (cm_Spec ?m)"
    by (simp add: ManagementRPCTLSEnabled_iff sample_defs)
  moreover have "\<exists>meta. x_SetControllerReference sampleExt ?m (sec_Meta (managementRPCTLSSecret ?m b)) = Ok meta"
    using documented.fresh_ok [of "sec_Meta (managementRPCTLSSecret ?m b)" ?m]
    by (simp add: sampleExt_def managementRPCTLSSecret_def)
  ultimately show ?thesis by (auto simp: GenerateManagementRPCTLSSecret_def)
qed

theorem tls_material_is_mounted_witness:
  "\<exists>sec. GenerateManagementRPCTLSSecret sampleExt sampleCrypto sampleOrchard = Ok (Some sec)
    \<and> newVolume managementRPCTLSVolumeName (SecretSource (om_Name (sec_Meta sec)))
        \<in> set (ps_Volumes (generatePodSpec sampleOrchard))"
  using sampleOrchard_tls tls_material_is_mounted [OF sampleExt_owner] by blast

end
