(* ===== verification/Cluster.thy ===== *)
theory Cluster
  imports GenBackup GenMnemonic GenManagementRPC
begin

section \<open>The cluster as the controller sees it\<close>

text \<open>
  The controller talks to the API server through \<^verbatim>\<open>client.Client\<close>. Other actors change the cluster
  at any time and any call can fail, so the model fixes nothing about the server: a \<open>client\<close> is a
  record of functions that answer each request from the history of all requests made so far, and
  a theorem for all clients holds for every behaviour of the cluster. The controller's actions are
  functions on the history and the in-memory \<^verbatim>\<open>CashuMint\<close> that the code passes around by pointer; an
  action that fails keeps the changes made before. The recorder's events and the reads of the random
  source are requests of the history too; log lines are not modelled.
\<close>

subsection \<open>Requests\<close>

datatype object =
    OService Service
  | OConfigMap ConfigMap
  | ODeployment Deployment
  | OStatefulSet StatefulSet
  | OPVC PersistentVolumeClaim
  | OIngress Ingress
  | OCertificate Certificate
  | OPodMonitor PodMonitor
  | OCronJob CronJob
  | OJob Job
  | OSecret Secret

fun objMeta :: "object \<Rightarrow> ObjectMeta" where
  "objMeta (OService x) = svc_Meta x"
| "objMeta (OConfigMap x) = cfg_Meta x"
| "objMeta (ODeployment x) = dep_Meta x"
| "objMeta (OStatefulSet x) = sts_Meta x"
| "objMeta (OPVC x) = pvc_Meta x"
| "objMeta (OIngress x) = ing_Meta x"
| "objMeta (OCertificate x) = crt_Meta x"
| "objMeta (OPodMonitor x) = pm_Meta x"
| "objMeta (OCronJob x) = cj_Meta x"
| "objMeta (OJob x) = job_Meta x"
| "objMeta (OSecret x) = sec_Meta x"

datatype request =
    GetMint string string
  | GetSecret string string
  | GetConfigMap string string
  | GetDeployment string string
  | GetService string string
  | GetIngress string string
  | UpdateMint CashuMint
  | UpdateStatus CashuMint
  | CreateSecret Secret
  | DeleteSecret string string
  | DeletePodMonitor string string
  | Apply object
  | ReadRandom
  | Event string string string

type_synonym history = "request list"

text \<open>The answers. A get takes the namespace and the name; the answer to a server-side apply is the
  object as the server now has it, which the code looks at for the StatefulSet only.\<close>

record client =
  cl_getMint :: "history \<Rightarrow> string \<Rightarrow> string \<Rightarrow> CashuMint result"
  cl_getSecret :: "history \<Rightarrow> string \<Rightarrow> string \<Rightarrow> Secret result"
  cl_getConfigMap :: "history \<Rightarrow> string \<Rightarrow> string \<Rightarrow> ConfigMap result"
  cl_getDeployment :: "history \<Rightarrow> string \<Rightarrow> string \<Rightarrow> Deployment result"
  cl_getService :: "history \<Rightarrow> string \<Rightarrow> string \<Rightarrow> Service result"
  cl_getIngress :: "history \<Rightarrow> string \<Rightarrow> string \<Rightarrow> Ingress result"
  cl_updateMint :: "history \<Rightarrow> CashuMint \<Rightarrow> CashuMint result"
  cl_updateStatus :: "history \<Rightarrow> CashuMint \<Rightarrow> CashuMint result"
  cl_createSecret :: "history \<Rightarrow> Secret \<Rightarrow> unit result"
  cl_deleteSecret :: "history \<Rightarrow> string \<Rightarrow> string \<Rightarrow> unit result"
  cl_deletePodMonitor :: "history \<Rightarrow> string \<Rightarrow> string \<Rightarrow> unit result"
  cl_apply :: "history \<Rightarrow> object \<Rightarrow> unit result"
  cl_applyStatefulSet :: "history \<Rightarrow> StatefulSet \<Rightarrow> StatefulSet result"
  cl_random :: "history \<Rightarrow> nat \<Rightarrow> byte list result"
  cl_crypto :: "history \<Rightarrow> crypto"

text \<open>The pure functions of \<^verbatim>\<open>meta\<close> and \<^verbatim>\<open>controllerutil\<close> the controller calls.\<close>

record metalib =
  ml_SetStatusCondition :: "Condition list \<Rightarrow> Condition \<Rightarrow> Condition list"
  ml_ContainsFinalizer :: "ObjectMeta \<Rightarrow> string \<Rightarrow> bool"
  ml_AddFinalizer :: "ObjectMeta \<Rightarrow> string \<Rightarrow> ObjectMeta"
  ml_RemoveFinalizer :: "ObjectMeta \<Rightarrow> string \<Rightarrow> ObjectMeta"
  ml_IsNoMatchError :: "error \<Rightarrow> bool"

text \<open>\<^verbatim>\<open>type CashuMintReconciler struct\<close>; the scheme is inside \<open>ext\<close>, the recorder inside the history.\<close>

record CashuMintReconciler =
  r_Client :: client
  r_Ext :: ext
  r_Meta :: metalib

subsection \<open>Actions\<close>

record st =
  st_trace :: history
  st_mint :: CashuMint

type_synonym 'a act = "st \<Rightarrow> 'a result \<times> st"

definition ret :: "'a \<Rightarrow> 'a act" where
  "ret x = (\<lambda>s. (Ok x, s))"

definition fail :: "error \<Rightarrow> 'a act" where
  "fail e = (\<lambda>s. (Err e, s))"

definition bindA :: "'a act \<Rightarrow> ('a \<Rightarrow> 'b act) \<Rightarrow> 'b act" where
  "bindA m k = (\<lambda>s. case m s of
     (Ok x, s') \<Rightarrow> k x s'
   | (Err e, s') \<Rightarrow> (Err e, s')
   | (Panic p, s') \<Rightarrow> (Panic p, s'))"

definition seqA :: "unit act \<Rightarrow> 'b act \<Rightarrow> 'b act" where
  "seqA m k = bindA m (\<lambda>_. k)"

text \<open>The error as a value, as in \<^verbatim>\<open>x, err := f()\<close>; a panic is not caught.\<close>

definition tryA :: "'a act \<Rightarrow> 'a result act" where
  "tryA m = (\<lambda>s. case m s of
     (Ok x, s') \<Rightarrow> (Ok (Ok x), s')
   | (Err e, s') \<Rightarrow> (Ok (Err e), s')
   | (Panic p, s') \<Rightarrow> (Panic p, s'))"

text \<open>\<^verbatim>\<open>if err := f(); err != nil { return fmt.Errorf("prefix: %w", err) }\<close>.\<close>

definition wrapA :: "string \<Rightarrow> 'a act \<Rightarrow> 'a act" where
  "wrapA p m = (\<lambda>s. case m s of (r, s') \<Rightarrow> (mapErr (Wrapf p) r, s'))"

text \<open>A pure call that can fail, a request with its answer, an event, and the in-memory mint.\<close>

definition liftR :: "'a result \<Rightarrow> 'a act" where
  "liftR r = (\<lambda>s. (r, s))"

definition call :: "(history \<Rightarrow> 'a result) \<Rightarrow> request \<Rightarrow> 'a act" where
  "call f q = (\<lambda>s. (f (st_trace s), s\<lparr> st_trace := st_trace s @ [q] \<rparr>))"

definition event :: "string \<Rightarrow> string \<Rightarrow> string \<Rightarrow> unit act" where
  "event ty reason msg = call (\<lambda>_. Ok ()) (Event ty reason msg)"

definition theMint :: "CashuMint act" where
  "theMint = (\<lambda>s. (Ok (st_mint s), s))"

definition setMint :: "(CashuMint \<Rightarrow> CashuMint) \<Rightarrow> unit act" where
  "setMint f = (\<lambda>s. (Ok (), s\<lparr> st_mint := f (st_mint s) \<rparr>))"

definition whenA :: "bool \<Rightarrow> unit act \<Rightarrow> unit act" where
  "whenA b m = (if b then m else ret ())"

subsection \<open>The client's operations\<close>

definition getSecret :: "CashuMintReconciler \<Rightarrow> string \<Rightarrow> string \<Rightarrow> Secret act" where
  "getSecret R ns n = call (\<lambda>h. cl_getSecret (r_Client R) h ns n) (GetSecret ns n)"

definition getConfigMap :: "CashuMintReconciler \<Rightarrow> string \<Rightarrow> string \<Rightarrow> ConfigMap act" where
  "getConfigMap R ns n = call (\<lambda>h. cl_getConfigMap (r_Client R) h ns n) (GetConfigMap ns n)"

definition getDeployment :: "CashuMintReconciler \<Rightarrow> string \<Rightarrow> string \<Rightarrow> Deployment act" where
  "getDeployment R ns n = call (\<lambda>h. cl_getDeployment (r_Client R) h ns n) (GetDeployment ns n)"

definition getService :: "CashuMintReconciler \<Rightarrow> string \<Rightarrow> string \<Rightarrow> Service act" where
  "getService R ns n = call (\<lambda>h. cl_getService (r_Client R) h ns n) (GetService ns n)"

definition getIngress :: "CashuMintReconciler \<Rightarrow> string \<Rightarrow> string \<Rightarrow> Ingress act" where
  "getIngress R ns n = call (\<lambda>h. cl_getIngress (r_Client R) h ns n) (GetIngress ns n)"

definition getMint :: "CashuMintReconciler \<Rightarrow> string \<Rightarrow> string \<Rightarrow> CashuMint act" where
  "getMint R ns n = call (\<lambda>h. cl_getMint (r_Client R) h ns n) (GetMint ns n)"

definition updateMint :: "CashuMintReconciler \<Rightarrow> CashuMint \<Rightarrow> CashuMint act" where
  "updateMint R m = call (\<lambda>h. cl_updateMint (r_Client R) h m) (UpdateMint m)"

definition statusUpdate :: "CashuMintReconciler \<Rightarrow> CashuMint \<Rightarrow> CashuMint act" where
  "statusUpdate R m = call (\<lambda>h. cl_updateStatus (r_Client R) h m) (UpdateStatus m)"

definition createSecret :: "CashuMintReconciler \<Rightarrow> Secret \<Rightarrow> unit act" where
  "createSecret R s = call (\<lambda>h. cl_createSecret (r_Client R) h s) (CreateSecret s)"

definition deleteSecret :: "CashuMintReconciler \<Rightarrow> Secret \<Rightarrow> unit act" where
  "deleteSecret R s =
     (let ns = om_Namespace (sec_Meta s); n = om_Name (sec_Meta s) in
      call (\<lambda>h. cl_deleteSecret (r_Client R) h ns n) (DeleteSecret ns n))"

definition deletePodMonitor :: "CashuMintReconciler \<Rightarrow> string \<Rightarrow> string \<Rightarrow> unit act" where
  "deletePodMonitor R ns n = call (\<lambda>h. cl_deletePodMonitor (r_Client R) h ns n) (DeletePodMonitor ns n)"

text \<open>\<^verbatim>\<open>applyResource\<close> of \<^verbatim>\<open>helpers.go\<close>: a forced server-side apply.\<close>

definition applyResource :: "CashuMintReconciler \<Rightarrow> object \<Rightarrow> unit act" where
  "applyResource R x = call (\<lambda>h. cl_apply (r_Client R) h x) (Apply x)"

definition applyStatefulSet :: "CashuMintReconciler \<Rightarrow> StatefulSet \<Rightarrow> StatefulSet act" where
  "applyStatefulSet R x = call (\<lambda>h. cl_applyStatefulSet (r_Client R) h x) (Apply (OStatefulSet x))"

text \<open>A generator that reads the random source.\<close>

definition randomly :: "CashuMintReconciler \<Rightarrow> ((nat \<Rightarrow> byte list result) \<Rightarrow> 'a result) \<Rightarrow> 'a act" where
  "randomly R f = call (\<lambda>h. f (cl_random (r_Client R) h)) ReadRandom"

definition withCrypto :: "CashuMintReconciler \<Rightarrow> (crypto \<Rightarrow> 'a result) \<Rightarrow> 'a act" where
  "withCrypto R f = call (\<lambda>h. f (cl_crypto (r_Client R) h)) ReadRandom"

lemmas act_defs =
  ret_def fail_def bindA_def seqA_def tryA_def wrapA_def liftR_def call_def event_def theMint_def setMint_def whenA_def

lemmas op_defs =
  getSecret_def getConfigMap_def getDeployment_def getService_def getIngress_def getMint_def updateMint_def
  statusUpdate_def createSecret_def deleteSecret_def deletePodMonitor_def applyResource_def applyStatefulSet_def
  randomly_def withCrypto_def event_def

end
