(* ===== verification/Controller.thy ===== *)
theory Controller
  imports Cluster
begin

section \<open>The reconciler\<close>

text \<open>
  \<^verbatim>\<open>cashumint_controller.go\<close> and \<^verbatim>\<open>helpers.go\<close>, function by function. \<^verbatim>\<open>cashuMint\<close>, which the functions
  share by pointer, is the in-memory mint of the action's state. A \<^verbatim>\<open>ctrl.Result\<close> returned beside an
  error is always empty, so an action returns one or the other. Durations are in milliseconds.
\<close>

subsection \<open>helpers.go\<close>

text \<open>The data map of a decoded ConfigMap without data is nil.\<close>

definition calculateConfigHash :: "ConfigMap \<Rightarrow> string" where
  "calculateConfigHash cm =
     (if cfg_Data cm = Map.empty then ''''
      else hexEncode (sha256 (case cfg_Data cm ''config.toml'' of
             Some toml \<Rightarrow> stringBytes toml
           | None \<Rightarrow> [])))"

definition isDeploymentReady :: "Deployment \<Rightarrow> bool" where
  "isDeploymentReady d =
     (case dep_Replicas d of
        None \<Rightarrow> False
      | Some desired \<Rightarrow> ds_ReadyReplicas (dep_Status d) = desired \<and> ds_UpdatedReplicas (dep_Status d) = desired
          \<and> ds_AvailableReplicas (dep_Status d) = desired)"

definition isStatefulSetReady :: "StatefulSet \<Rightarrow> bool" where
  "isStatefulSetReady s =
     (case sts_Replicas s of
        None \<Rightarrow> False
      | Some desired \<Rightarrow> ss_ReadyReplicas (sts_Status s) = desired \<and> ss_CurrentReplicas (sts_Status s) = desired
          \<and> ss_UpdatedReplicas (sts_Status s) = desired)"

subsection \<open>Results, phases and conditions\<close>

record CtrlResult =
  cr_Requeue :: bool
  cr_RequeueAfter :: int

definition noRequeue :: CtrlResult where "noRequeue = \<lparr> cr_Requeue = False, cr_RequeueAfter = 0 \<rparr>"
definition requeueNow :: CtrlResult where "requeueNow = \<lparr> cr_Requeue = True, cr_RequeueAfter = 0 \<rparr>"
definition requeueAfter :: "int \<Rightarrow> CtrlResult" where "requeueAfter d = \<lparr> cr_Requeue = False, cr_RequeueAfter = d \<rparr>"

definition ReconcileInterval :: int where "ReconcileInterval = 5 * 60 * 1000"
definition UpdateReconcileInterval :: int where "UpdateReconcileInterval = 30 * 1000"
definition NotReadyRetryInterval :: int where "NotReadyRetryInterval = 10 * 1000"

definition cashuMintFinalizer :: string where
  "cashuMintFinalizer = ''mint.cashu.asmogo.github.io/finalizer''"

definition reconcileResultForPhase :: "MintPhase \<Rightarrow> CtrlResult" where
  "reconcileResultForPhase phase =
     (if phase = MintPhaseUpdating \<or> phase = MintPhaseProvisioning then requeueAfter UpdateReconcileInterval
      else requeueAfter ReconcileInterval)"

text \<open>\<^verbatim>\<open>meta.SetStatusCondition(&m.Status.Conditions, metav1.Condition{...})\<close> with the generation of \<open>m\<close>.\<close>

definition newCondition :: "string \<Rightarrow> ConditionStatus \<Rightarrow> int64 \<Rightarrow> string \<Rightarrow> string \<Rightarrow> Condition" where
  "newCondition ty status gen reason msg =
     \<lparr> cond_Type = ty, cond_Status = status, cond_ObservedGeneration = gen, cond_LastTransitionTime = '''',
       cond_Reason = reason, cond_Message = msg \<rparr>"

definition updStatus :: "(CashuMintStatus \<Rightarrow> CashuMintStatus) \<Rightarrow> CashuMint \<Rightarrow> CashuMint" where
  "updStatus f m = m\<lparr> cm_Status := f (cm_Status m) \<rparr>"

definition setCondition ::
  "CashuMintReconciler \<Rightarrow> string \<Rightarrow> ConditionStatus \<Rightarrow> string \<Rightarrow> string \<Rightarrow> CashuMint \<Rightarrow> CashuMint" where
  "setCondition R ty status reason msg m =
     updStatus (\<lambda>t. t\<lparr> sta_Conditions := ml_SetStatusCondition (r_Meta R) (sta_Conditions t)
                        (newCondition ty status (om_Generation (cm_Meta m)) reason msg) \<rparr>) m"

definition setPhase :: "MintPhase \<Rightarrow> CashuMint \<Rightarrow> CashuMint" where
  "setPhase p = updStatus (\<lambda>t. t\<lparr> sta_Phase := p \<rparr>)"

definition transitionReconciliationPhase :: "CashuMintReconciler \<Rightarrow> unit act" where
  "transitionReconciliationPhase R =
     bindA theMint (\<lambda>m0.
     seqA (whenA (sta_Phase (cm_Status m0) = MintPhasePending)
       (seqA (setMint (setPhase MintPhaseProvisioning))
        (seqA (setMint (setCondition R ConditionTypeReady ConditionFalse ''Provisioning'' ''Starting resource provisioning''))
         (event ''Normal'' ''Provisioning'' ''Starting resource provisioning''))))
     (bindA theMint (\<lambda>m.
       whenA (sta_ObservedGeneration (cm_Status m) \<noteq> 0
              \<and> sta_ObservedGeneration (cm_Status m) \<noteq> om_Generation (cm_Meta m))
         (seqA (setMint (setPhase MintPhaseUpdating))
          (seqA (setMint (setCondition R ConditionTypeReady ConditionFalse ''Updating''
                            ''Updating resources due to spec change''))
           (event ''Normal'' ''Updating'' ''Spec changed, updating resources''))))))"

subsection \<open>Which resources a mint needs\<close>

definition needsPVCReconciliation :: "CashuMint \<Rightarrow> bool" where
  "needsPVCReconciliation m =
     (let s = cm_Spec m in
      db_Engine (cms_Database s) = DatabaseEngineSQLite \<or> db_Engine (cms_Database s) = DatabaseEngineRedb
      \<or> optP oc_Enabled (cms_Orchard s))"

definition needsIngressReconciliation :: "CashuMint \<Rightarrow> bool" where
  "needsIngressReconciliation m =
     (let s = cm_Spec m in
      optP ic_Enabled (cms_Ingress s)
      \<or> optP (\<lambda>c. oc_Enabled c \<and> optP ic_Enabled (oc_Ingress c)) (cms_Orchard s))"

definition certificateIngress :: "IngressConfig \<Rightarrow> bool" where
  "certificateIngress i =
     (ic_Enabled i \<and> optP (\<lambda>t. itc_Enabled t \<and> optP cmc_Enabled (itc_CertManager t)) (ic_TLS i))"

definition needsCertificateReconciliation :: "CashuMint \<Rightarrow> bool" where
  "needsCertificateReconciliation m =
     (let s = cm_Spec m in
      optP certificateIngress (cms_Ingress s)
      \<or> optP (\<lambda>c. oc_Enabled c \<and> optP certificateIngress (oc_Ingress c)) (cms_Orchard s))"

subsection \<open>Generate and apply\<close>

text \<open>\<^verbatim>\<open>x, err := Generate(...)\<close>, the error check, and \<^verbatim>\<open>applyResource\<close> with its error check; the first form
  applies unconditionally (a nil object would be dereferenced), the second only \<^verbatim>\<open>if x != nil\<close>.\<close>

definition generateApply :: "CashuMintReconciler \<Rightarrow> string \<Rightarrow> ('a \<Rightarrow> object) \<Rightarrow> 'a option result \<Rightarrow> unit act" where
  "generateApply R what c r =
     bindA (wrapA (''failed to generate '' @ what) (liftR r)) (\<lambda>x.
       case x of
         None \<Rightarrow> liftR (Panic ''invalid memory address or nil pointer dereference'')
       | Some y \<Rightarrow> wrapA (''failed to apply '' @ what) (applyResource R (c y)))"

definition generateApplyOpt :: "CashuMintReconciler \<Rightarrow> string \<Rightarrow> ('a \<Rightarrow> object) \<Rightarrow> 'a option result \<Rightarrow> unit act" where
  "generateApplyOpt R what c r =
     bindA (wrapA (''failed to generate '' @ what) (liftR r)) (\<lambda>x.
       case x of
         None \<Rightarrow> ret ()
       | Some y \<Rightarrow> wrapA (''failed to apply '' @ what) (applyResource R (c y)))"

subsection \<open>Secrets created once\<close>

definition reconcileOptionalMnemonic :: "CashuMintReconciler \<Rightarrow> unit act" where
  "reconcileOptionalMnemonic R =
     bindA theMint (\<lambda>m.
     let mi = cms_MintInfo (cm_Spec m) in
     if \<not> mi_AutoGenerateMnemonic mi \<or> mi_MnemonicSecretRef mi \<noteq> None then ret ()
     else bindA (tryA (getSecret R (mintNamespace m) (MnemonicSecretName (mintName m)))) (\<lambda>existing.
       case existing of
         Err e \<Rightarrow>
           if \<not> IsNotFound e then fail (Wrapf ''failed to get mnemonic secret'' e)
           else bindA (wrapA ''failed to generate mnemonic secret''
                         (randomly R (\<lambda>rand. GenerateMnemonicSecret (r_Ext R) rand m ''''))) (\<lambda>secret.
             bindA (tryA (createSecret R secret)) (\<lambda>created.
               case created of
                 Err e' \<Rightarrow> if \<not> IsAlreadyExists e' then fail (Wrapf ''failed to create mnemonic secret'' e')
                           else event ''Normal'' ''MnemonicCreated'' ''Auto-generated BIP39 mnemonic secret created''
               | _ \<Rightarrow> event ''Normal'' ''MnemonicCreated'' ''Auto-generated BIP39 mnemonic secret created''))
       | _ \<Rightarrow> ret ()))"

definition reconcileManagementRPCTLSSecret :: "CashuMintReconciler \<Rightarrow> unit act" where
  "reconcileManagementRPCTLSSecret R =
     bindA theMint (\<lambda>m.
     if \<not> ManagementRPCTLSEnabled (cm_Spec m) then ret ()
     else bindA (tryA (getSecret R (mintNamespace m) (ManagementRPCTLSSecretName (cm_Spec m) (mintName m)))) (\<lambda>existing.
       case existing of
         Err e \<Rightarrow>
           if \<not> IsNotFound e then fail (Wrapf ''failed to get management RPC TLS secret'' e)
           else bindA (wrapA ''failed to generate management RPC TLS secret''
                         (withCrypto R (\<lambda>K. GenerateManagementRPCTLSSecret (r_Ext R) K m))) (\<lambda>secret.
             case secret of
               None \<Rightarrow> ret ()
             | Some sec \<Rightarrow> bindA (tryA (createSecret R sec)) (\<lambda>created.
                 case created of
                   Err e' \<Rightarrow> if \<not> IsAlreadyExists e' then fail (Wrapf ''failed to create management RPC TLS secret'' e')
                             else ret ()
                 | _ \<Rightarrow> ret ()))
       | _ \<Rightarrow> ret ()))"

definition ensurePostgresSecret :: "CashuMintReconciler \<Rightarrow> unit act" where
  "ensurePostgresSecret R =
     bindA theMint (\<lambda>m.
     bindA (tryA (getSecret R (mintNamespace m) (mintName m @ ''-postgres-secret''))) (\<lambda>existing.
       case existing of
         Err e \<Rightarrow>
           if \<not> IsNotFound e then fail (Wrapf ''failed to get postgres secret'' e)
           else bindA (wrapA ''failed to generate PostgreSQL secret''
                         (randomly R (\<lambda>rand. GeneratePostgresSecret rand m ''''))) (\<lambda>secret.
             case secret of
               None \<Rightarrow> ret ()
             | Some sec \<Rightarrow> bindA (tryA (createSecret R sec)) (\<lambda>created.
                 case created of
                   Err e' \<Rightarrow> if \<not> IsAlreadyExists e' then fail (Wrapf ''failed to create PostgreSQL secret'' e')
                             else ret ()
                 | _ \<Rightarrow> ret ()))
       | _ \<Rightarrow> ret ()))"

subsection \<open>PostgreSQL and backups\<close>

definition postgresCondition :: "CashuMintReconciler \<Rightarrow> StatefulSet \<Rightarrow> unit act" where
  "postgresCondition R sts =
     (if isStatefulSetReady sts
      then setMint (setCondition R ConditionTypeDatabaseReady ConditionTrue ''PostgreSQLReady'' ''PostgreSQL database is ready'')
      else setMint (setCondition R ConditionTypeDatabaseReady ConditionFalse ''PostgreSQLNotReady''
                      ''Waiting for PostgreSQL to be ready''))"

definition reconcilePostgreSQL :: "CashuMintReconciler \<Rightarrow> unit act" where
  "reconcilePostgreSQL R =
     seqA (ensurePostgresSecret R)
     (bindA theMint (\<lambda>m.
     seqA (generateApplyOpt R ''PostgreSQL service'' OService (GeneratePostgresService (r_Ext R) m))
     (bindA (wrapA ''failed to generate PostgreSQL StatefulSet'' (liftR (GeneratePostgresStatefulSet (r_Ext R) m))) (\<lambda>x.
        case x of
          None \<Rightarrow> ret ()
        | Some sts \<Rightarrow> bindA (wrapA ''failed to apply PostgreSQL StatefulSet'' (applyStatefulSet R sts))
                       (postgresCondition R)))))"

definition reconcileOptionalPostgreSQL :: "CashuMintReconciler \<Rightarrow> unit act" where
  "reconcileOptionalPostgreSQL R =
     bindA theMint (\<lambda>m.
     if \<not> autoProvisioned m then ret ()
     else bindA (tryA (reconcilePostgreSQL R)) (\<lambda>r.
       case r of
         Err e \<Rightarrow> seqA (event ''Warning'' ''PostgreSQLFailed'' (''Failed to reconcile PostgreSQL: '' @ errString e))
                    (fail (Wrapf ''failed to reconcile PostgreSQL'' e))
       | _ \<Rightarrow> ret ()))"

definition backupCondition :: "CashuMintReconciler \<Rightarrow> ConditionStatus \<Rightarrow> string \<Rightarrow> string \<Rightarrow> unit act" where
  "backupCondition R status reason msg = setMint (setCondition R ConditionTypeBackupReady status reason msg)"

definition reconcileBackup :: "CashuMintReconciler \<Rightarrow> unit act" where
  "reconcileBackup R =
     bindA theMint (\<lambda>m.
     bindA (wrapA ''failed to generate backup CronJob'' (liftR (GeneratePostgresBackupCronJob (r_Ext R) m))) (\<lambda>x.
       case x of
         None \<Rightarrow> backupCondition R ConditionFalse ''BackupNotReconciled''
                   ''Backup is enabled but no backup resources were generated''
       | Some cj \<Rightarrow>
           seqA (wrapA ''failed to apply backup CronJob'' (applyResource R (OCronJob cj)))
           (bindA (wrapA ''failed to generate restore Job'' (liftR (GeneratePostgresRestoreJob (r_Ext R) m))) (\<lambda>y.
              case y of
                None \<Rightarrow> backupCondition R ConditionTrue ''BackupScheduleReady''
                          (''Backup CronJob '' @ om_Name (cj_Meta cj) @ '' reconciled'')
              | Some job \<Rightarrow>
                  seqA (wrapA ''failed to apply restore Job'' (applyResource R (OJob job)))
                    (backupCondition R ConditionTrue ''RestoreJobReconciled''
                      (''Restore Job '' @ om_Name (job_Meta job) @ '' reconciled for requested backup object''))))))"

definition reconcileOptionalBackup :: "CashuMintReconciler \<Rightarrow> unit act" where
  "reconcileOptionalBackup R =
     bindA theMint (\<lambda>m.
     if \<not> optP bk_Enabled (cms_Backup (cm_Spec m)) then ret ()
     else wrapA ''failed to reconcile backup resources'' (reconcileBackup R))"

subsection \<open>Configuration\<close>

definition resolveRequiredSecretValue ::
  "CashuMintReconciler \<Rightarrow> string \<Rightarrow> SecretKeySelector option \<Rightarrow> string \<Rightarrow> string act" where
  "resolveRequiredSecretValue R ns ref fieldPath =
     (case ref of
        None \<Rightarrow> ret ''''
      | Some r \<Rightarrow>
          if sks_Name r = '''' \<or> sks_Key r = ''''
          then fail (Errorf (fieldPath @ '' must specify both secret name and key''))
          else bindA (wrapA (fieldPath @ '' secret '' @ sks_Name r @ '' not ready yet'') (getSecret R ns (sks_Name r))) (\<lambda>sec.
            case sec_Data sec (sks_Key r) of
              Some v \<Rightarrow> if v = '''' then fail (Errorf (fieldPath @ '' references secret '' @ sks_Name r @ '' key '' @ sks_Key r
                                             @ '', but it is missing or empty''))
                         else ret v
            | None \<Rightarrow> fail (Errorf (fieldPath @ '' references secret '' @ sks_Name r @ '' key '' @ sks_Key r
                                             @ '', but it is missing or empty''))))"

definition setDatabaseURL :: "string \<Rightarrow> CashuMint \<Rightarrow> CashuMint" where
  "setDatabaseURL url m = m\<lparr> cm_Spec := (cm_Spec m)\<lparr> cms_Database := (cms_Database (cm_Spec m))
     \<lparr> db_Postgres := map_option (\<lambda>pg. pg\<lparr> pg_URL := url, pg_URLSecretRef := None \<rparr>)
         (db_Postgres (cms_Database (cm_Spec m))) \<rparr> \<rparr> \<rparr>"

definition setAuthURL :: "string \<Rightarrow> CashuMint \<Rightarrow> CashuMint" where
  "setAuthURL url m = m\<lparr> cm_Spec := (cm_Spec m)\<lparr> cms_Auth := map_option (\<lambda>a. a\<lparr> au_Database :=
     map_option (\<lambda>d. d\<lparr> ad_Postgres := map_option (\<lambda>pg. pg\<lparr> pg_URL := url, pg_URLSecretRef := None \<rparr>) (ad_Postgres d) \<rparr>)
       (au_Database a) \<rparr>) (cms_Auth (cm_Spec m)) \<rparr> \<rparr>"

text \<open>The database part: the password to render with and the copy of the mint to render.\<close>

definition configDatabase :: "CashuMintReconciler \<Rightarrow> CashuMint \<Rightarrow> (string \<times> CashuMint) act" where
  "configDatabase R m =
     (case db_Postgres (cms_Database (cm_Spec m)) of
        None \<Rightarrow> ret ('''', m)
      | Some pg \<Rightarrow>
          if db_Engine (cms_Database (cm_Spec m)) \<noteq> DatabaseEnginePostgres then ret ('''', m)
          else if pg_AutoProvision pg then
            (let secretName = mintName m @ ''-postgres-secret'' in
             bindA (wrapA (''postgres secret '' @ secretName @ '' not ready yet'')
                      (getSecret R (mintNamespace m) secretName)) (\<lambda>sec.
               let dbPassword = derefOr (sec_Data sec ''password'') '''' in
               if dbPassword = '''' then fail (Errorf (''postgres secret '' @ secretName @ '' exists but password key is empty''))
               else ret (dbPassword, m)))
          else if pg_URLSecretRef pg \<noteq> None then
            bindA (resolveRequiredSecretValue R (mintNamespace m) (pg_URLSecretRef pg) ''spec.database.postgres.urlSecretRef'')
              (\<lambda>url. ret ('''', setDatabaseURL url m))
          else ret ('''', m))"

definition authURLRef :: "CashuMint \<Rightarrow> SecretKeySelector option" where
  "authURLRef m =
     (case cms_Auth (cm_Spec m) of
        None \<Rightarrow> None
      | Some a \<Rightarrow> if au_Enabled a then Option.bind (Option.bind (au_Database a) ad_Postgres) pg_URLSecretRef else None)"

definition configAuth :: "CashuMintReconciler \<Rightarrow> CashuMint \<Rightarrow> CashuMint act" where
  "configAuth R m =
     (if authURLRef m = None then ret m
      else bindA (resolveRequiredSecretValue R (mintNamespace m) (authURLRef m) ''spec.auth.database.postgres.urlSecretRef'')
             (\<lambda>url. ret (setAuthURL url m)))"

definition reconcileConfigMap :: "CashuMintReconciler \<Rightarrow> unit act" where
  "reconcileConfigMap R =
     bindA theMint (\<lambda>m.
     bindA (configDatabase R m) (\<lambda>(dbPassword, m1).
     bindA (configAuth R m1) (\<lambda>configMint.
     seqA (generateApply R ''ConfigMap'' OConfigMap (GenerateConfigMap (r_Ext R) configMint dbPassword))
       (setMint (setCondition R ConditionTypeConfigValid ConditionTrue ''ConfigurationValid''
                   ''Configuration is valid and applied'')))))"

subsection \<open>The workload and its network\<close>

definition reconcilePVC :: "CashuMintReconciler \<Rightarrow> unit act" where
  "reconcilePVC R =
     bindA theMint (\<lambda>m.
     seqA (generateApplyOpt R ''PVC'' OPVC (GeneratePVC (r_Ext R) m))
       (generateApplyOpt R ''Orchard PVC'' OPVC (GenerateOrchardPVC (r_Ext R) m)))"

definition reconcileDeployment :: "CashuMintReconciler \<Rightarrow> unit act" where
  "reconcileDeployment R =
     bindA theMint (\<lambda>m.
     bindA (wrapA ''failed to get ConfigMap for hash calculation''
              (getConfigMap R (mintNamespace m) (mintName m @ ''-config''))) (\<lambda>configMap.
       generateApply R ''Deployment'' ODeployment (GenerateDeployment (r_Ext R) m (calculateConfigHash configMap))))"

definition reconcileService :: "CashuMintReconciler \<Rightarrow> unit act" where
  "reconcileService R =
     bindA theMint (\<lambda>m.
     seqA (generateApply R ''Service'' OService (GenerateService (r_Ext R) m))
       (generateApplyOpt R ''Orchard Service'' OService (GenerateOrchardService (r_Ext R) m)))"

definition reconcilePodMonitor :: "CashuMintReconciler \<Rightarrow> unit act" where
  "reconcilePodMonitor R =
     bindA theMint (\<lambda>m.
     if \<not> prometheusEnabled m then
       bindA (tryA (deletePodMonitor R (mintNamespace m) (mintName m))) (\<lambda>r.
         case r of
           Err e \<Rightarrow> if IsNotFound e \<or> ml_IsNoMatchError (r_Meta R) e then ret ()
                    else fail (Wrapf ''failed to delete PodMonitor'' e)
         | _ \<Rightarrow> ret ())
     else bindA (wrapA ''failed to generate PodMonitor'' (liftR (GeneratePodMonitor (r_Ext R) m))) (\<lambda>x.
       case x of
         None \<Rightarrow> ret ()
       | Some pm \<Rightarrow> bindA (tryA (applyResource R (OPodMonitor pm))) (\<lambda>r.
           case r of
             Err e \<Rightarrow> if ml_IsNoMatchError (r_Meta R) e
                      then fail (Wrapf ''failed to apply PodMonitor: Prometheus Operator PodMonitor CRD is not installed'' e)
                      else fail (Wrapf ''failed to apply PodMonitor'' e)
           | _ \<Rightarrow> ret ())))"

definition reconcileIngress :: "CashuMintReconciler \<Rightarrow> unit act" where
  "reconcileIngress R =
     bindA theMint (\<lambda>m.
     seqA (generateApplyOpt R ''Ingress'' OIngress (GenerateIngress (r_Ext R) m))
       (generateApplyOpt R ''Orchard Ingress'' OIngress (GenerateOrchardIngress (r_Ext R) m)))"

definition reconcileCertificate :: "CashuMintReconciler \<Rightarrow> unit act" where
  "reconcileCertificate R =
     bindA theMint (\<lambda>m.
     seqA (generateApplyOpt R ''Certificate'' OCertificate (GenerateCertificate (r_Ext R) m))
       (generateApplyOpt R ''Orchard Certificate'' OCertificate (GenerateOrchardCertificate (r_Ext R) m)))"

definition reconcileCoreResources :: "CashuMintReconciler \<Rightarrow> unit act" where
  "reconcileCoreResources R =
     seqA (wrapA ''failed to reconcile management RPC TLS secret'' (reconcileManagementRPCTLSSecret R))
     (seqA (wrapA ''failed to reconcile ConfigMap'' (reconcileConfigMap R))
     (bindA theMint (\<lambda>m.
     seqA (whenA (needsPVCReconciliation m) (wrapA ''failed to reconcile PVC'' (reconcilePVC R)))
     (seqA (wrapA ''failed to reconcile Deployment'' (reconcileDeployment R))
     (seqA (wrapA ''failed to reconcile Service'' (reconcileService R))
     (wrapA ''failed to reconcile PodMonitor'' (reconcilePodMonitor R)))))))"

definition reconcileOptionalIngressResources :: "CashuMintReconciler \<Rightarrow> unit act" where
  "reconcileOptionalIngressResources R =
     bindA theMint (\<lambda>m.
     if \<not> needsIngressReconciliation m then ret ()
     else seqA (wrapA ''failed to reconcile Ingress'' (reconcileIngress R))
       (whenA (needsCertificateReconciliation m) (wrapA ''failed to reconcile Certificate'' (reconcileCertificate R))))"

definition updateDeploymentReadiness :: "CashuMintReconciler \<Rightarrow> unit act" where
  "updateDeploymentReadiness R =
     bindA theMint (\<lambda>m.
     bindA (tryA (getDeployment R (mintNamespace m) (mintName m))) (\<lambda>r.
       case r of
         Err e \<Rightarrow> if IsNotFound e then ret () else fail (Wrapf ''failed to get Deployment readiness'' e)
       | Ok d \<Rightarrow>
           if isDeploymentReady d then
             seqA (whenA (sta_Phase (cm_Status m) \<noteq> MintPhaseReady)
                     (event ''Normal'' ''Ready'' ''CashuMint is ready and operational''))
             (seqA (setMint (setPhase MintPhaseReady))
               (setMint (setCondition R ConditionTypeReady ConditionTrue ''ReconciliationComplete''
                           ''All resources reconciled successfully'')))
           else setMint (setCondition R ConditionTypeReady ConditionFalse ''DeploymentNotReady''
                           ''Waiting for deployment to be ready'')
       | Panic p \<Rightarrow> liftR (Panic p)))"

definition reconcileResources :: "CashuMintReconciler \<Rightarrow> CtrlResult act" where
  "reconcileResources R =
     seqA (transitionReconciliationPhase R)
     (seqA (reconcileOptionalMnemonic R)
     (seqA (reconcileOptionalPostgreSQL R)
     (seqA (reconcileOptionalBackup R)
     (seqA (reconcileCoreResources R)
     (seqA (reconcileOptionalIngressResources R)
     (seqA (updateDeploymentReadiness R)
     (bindA theMint (\<lambda>m. ret (reconcileResultForPhase (sta_Phase (cm_Status m)))))))))))"

subsection \<open>Status and errors\<close>

definition handleError :: "CashuMintReconciler \<Rightarrow> error \<Rightarrow> CtrlResult act" where
  "handleError R err =
     (if IsConflict err then ret (requeueAfter 1)
      else if IsNotFound err then
        seqA (event ''Warning'' ''DependencyNotFound'' ''Waiting for dependencies to be created'')
          (ret (requeueAfter NotReadyRetryInterval))
      else
        seqA (setMint (setPhase MintPhaseFailed))
        (seqA (setMint (setCondition R ConditionTypeReady ConditionFalse ''ReconciliationFailed'' (errString err)))
        (seqA (event ''Warning'' ''ReconciliationFailed'' (errString err))
        (bindA theMint (\<lambda>m.
        bindA (tryA (statusUpdate R m)) (\<lambda>_. fail err))))))"

definition observeDeployment :: "Deployment result \<Rightarrow> CashuMint \<Rightarrow> CashuMint" where
  "observeDeployment r current =
     (case r of Ok d \<Rightarrow> updStatus (\<lambda>t. t\<lparr> sta_ReadyReplicas := ds_ReadyReplicas (dep_Status d),
                                           sta_DeploymentName := om_Name (dep_Meta d) \<rparr>) current
      | _ \<Rightarrow> current)"

definition observeService :: "Service result \<Rightarrow> CashuMint \<Rightarrow> CashuMint" where
  "observeService r current =
     (case r of Ok x \<Rightarrow> updStatus (\<lambda>t. t\<lparr> sta_ServiceName := om_Name (svc_Meta x) \<rparr>) current | _ \<Rightarrow> current)"

definition observeIngress :: "CashuMintReconciler \<Rightarrow> IngressConfig \<Rightarrow> Ingress result \<Rightarrow> CashuMint \<Rightarrow> CashuMint" where
  "observeIngress R i r current =
     (case r of
        Ok ing \<Rightarrow>
          (let c1 = updStatus (\<lambda>t. t\<lparr> sta_IngressName := om_Name (ing_Meta ing) \<rparr>) current in
           if ing_LoadBalancer ing \<noteq> [] then
             setCondition R ConditionTypeIngressReady ConditionTrue ''IngressReady'' ''Ingress is ready and accessible''
               (updStatus (\<lambda>t. t\<lparr> sta_URL := (if ing_TLS ing \<noteq> [] then ''https://'' else ''http://'') @ ic_Host i \<rparr>) c1)
           else setCondition R ConditionTypeIngressReady ConditionFalse ''IngressNotReady''
                  ''Waiting for ingress to be assigned'' c1)
      | _ \<Rightarrow> current)"

definition observeConfigMap :: "ConfigMap result \<Rightarrow> CashuMint \<Rightarrow> CashuMint" where
  "observeConfigMap r current =
     (case r of Ok x \<Rightarrow> updStatus (\<lambda>t. t\<lparr> sta_ConfigMapName := om_Name (cfg_Meta x) \<rparr>) current | _ \<Rightarrow> current)"

definition observeIngressOpt :: "CashuMintReconciler \<Rightarrow> CashuMint \<Rightarrow> CashuMint act" where
  "observeIngressOpt R current =
     (case cms_Ingress (cm_Spec current) of
        None \<Rightarrow> ret current
      | Some i \<Rightarrow>
          if ic_Enabled i
          then bindA (tryA (getIngress R (mintNamespace current) (mintName current)))
                 (\<lambda>r. ret (observeIngress R i r current))
          else ret current)"

definition updateStatus :: "CashuMintReconciler \<Rightarrow> unit act" where
  "updateStatus R =
     bindA theMint (\<lambda>desired.
     bindA (wrapA ''failed to re-fetch CashuMint for status update''
              (getMint R (mintNamespace desired) (mintName desired))) (\<lambda>fetched.
     let c0 = fetched\<lparr> cm_Status := cm_Status desired \<rparr>; ns = mintNamespace c0; name = mintName c0 in
     bindA (tryA (getDeployment R ns name)) (\<lambda>d.
     bindA (tryA (getService R ns name)) (\<lambda>sv.
     bindA (observeIngressOpt R (observeService sv (observeDeployment d c0))) (\<lambda>c1.
     bindA (tryA (getConfigMap R ns (name @ ''-config''))) (\<lambda>cm.
     let c2 = observeConfigMap cm c1;
         current = updStatus (\<lambda>t. t\<lparr> sta_ObservedGeneration := om_Generation (cm_Meta c2) \<rparr>) c2 in
     bindA (tryA (statusUpdate R current)) (\<lambda>u.
       case u of
         Err e \<Rightarrow> if IsConflict e then ret () else fail e
       | _ \<Rightarrow> ret ())))))))"

subsection \<open>Deletion and the entry point\<close>

definition cleanupPostgresSecret :: "CashuMintReconciler \<Rightarrow> unit act" where
  "cleanupPostgresSecret R =
     bindA theMint (\<lambda>m.
     if \<not> autoProvisioned m then ret ()
     else bindA (tryA (getSecret R (mintNamespace m) (mintName m @ ''-postgres-secret''))) (\<lambda>r.
       case r of
         Ok secret \<Rightarrow> bindA (tryA (deleteSecret R secret)) (\<lambda>deleted.
           case deleted of
             Err e \<Rightarrow>
               if \<not> IsNotFound e then
                 seqA (event ''Warning'' ''CleanupFailed'' (''Failed to delete PostgreSQL secret: '' @ errString e)) (fail e)
               else event ''Normal'' ''SecretDeleted'' ''Auto-provisioned PostgreSQL secret deleted''
           | _ \<Rightarrow> event ''Normal'' ''SecretDeleted'' ''Auto-provisioned PostgreSQL secret deleted'')
       | Err e \<Rightarrow> if \<not> IsNotFound e then fail e else ret ()
       | Panic p \<Rightarrow> liftR (Panic p)))"

definition updMeta :: "(ObjectMeta \<Rightarrow> ObjectMeta) \<Rightarrow> CashuMint \<Rightarrow> CashuMint" where
  "updMeta f m = m\<lparr> cm_Meta := f (cm_Meta m) \<rparr>"

definition handleDeletion :: "CashuMintReconciler \<Rightarrow> CtrlResult act" where
  "handleDeletion R =
     bindA theMint (\<lambda>m.
     if \<not> ml_ContainsFinalizer (r_Meta R) (cm_Meta m) cashuMintFinalizer then ret noRequeue
     else
       seqA (cleanupPostgresSecret R)
       (seqA (event ''Normal'' ''Deleted'' ''CashuMint cleanup completed'')
       (seqA (setMint (updMeta (\<lambda>x. ml_RemoveFinalizer (r_Meta R) x cashuMintFinalizer)))
       (bindA theMint (\<lambda>m'.
       bindA (updateMint R m') (\<lambda>_. ret noRequeue))))))"

definition reconcileMint :: "CashuMintReconciler \<Rightarrow> CtrlResult act" where
  "reconcileMint R =
     bindA theMint (\<lambda>m.
     if om_DeletionTimestamp (cm_Meta m) \<noteq> None then handleDeletion R
     else if \<not> ml_ContainsFinalizer (r_Meta R) (cm_Meta m) cashuMintFinalizer then
       seqA (setMint (updMeta (\<lambda>x. ml_AddFinalizer (r_Meta R) x cashuMintFinalizer)))
       (bindA theMint (\<lambda>m'. bindA (updateMint R m') (\<lambda>_. ret requeueNow)))
     else if sta_Phase (cm_Status m) = '''' then
       seqA (setMint (setPhase MintPhasePending))
       (bindA theMint (\<lambda>m'. bindA (statusUpdate R m') (\<lambda>_.
        seqA (event ''Normal'' ''Created'' ''CashuMint resource created'') (ret requeueNow))))
     else bindA (tryA (reconcileResources R)) (\<lambda>r.
       case r of
         Err e \<Rightarrow> handleError R e
       | Ok result \<Rightarrow> seqA (updateStatus R) (ret result)
       | Panic p \<Rightarrow> liftR (Panic p)))"

text \<open>\<^verbatim>\<open>Reconcile\<close> for the request \<open>ns/name\<close>, after the history \<open>h\<close>.\<close>

definition Reconcile :: "CashuMintReconciler \<Rightarrow> string \<Rightarrow> string \<Rightarrow> history \<Rightarrow> CtrlResult result \<times> history" where
  "Reconcile R ns name h =
     (let h' = h @ [GetMint ns name] in
      case cl_getMint (r_Client R) h ns name of
        Ok m \<Rightarrow> (case reconcileMint R \<lparr> st_trace = h', st_mint = m \<rparr> of (r, s) \<Rightarrow> (r, st_trace s))
      | Err e \<Rightarrow> if IsNotFound e then (Ok noRequeue, h') else (Err e, h')
      | Panic p \<Rightarrow> (Panic p, h'))"

end
