(* ===== verification/ActionLogic.thy ===== *)
theory ActionLogic
  imports Controller
begin

section \<open>Reasoning about actions\<close>

text \<open>
  A rule set for the actions of the controller. \<open>steps ok t t'\<close> says that the history grew from \<open>t\<close> to
  \<open>t'\<close> and that every request was allowed by \<open>ok\<close> at the moment it was made, given the history before
  it; \<open>wp ok m Q s\<close> that running \<open>m\<close> from \<open>s\<close> makes only such requests and ends, in a value, an error or a
  panic, as \<open>Q\<close> says; \<open>keeps ok I m\<close> that \<open>m\<close> makes only such requests from every state whose in-memory
  mint satisfies \<open>I\<close>, and leaves one that does.
\<close>

subsection \<open>Guarded growth of the history\<close>

definition steps :: "(history \<Rightarrow> request \<Rightarrow> bool) \<Rightarrow> history \<Rightarrow> history \<Rightarrow> bool" where
  "steps ok t t' = (\<exists>new. t' = t @ new \<and> (\<forall>a q b. new = a @ q # b \<longrightarrow> ok (t @ a) q))"

lemma steps_refl [simp, intro]: "steps ok t t"
  by (simp add: steps_def)

lemma steps_snoc [simp]: "steps ok t (t @ [q]) = ok t q"
  by (auto simp: steps_def append_eq_Cons_conv Cons_eq_append_conv)

lemma steps_trans [trans]:
  assumes "steps ok t u" and "steps ok u v"
  shows "steps ok t v"
proof -
  from assms obtain x y where u: "u = t @ x" and v: "v = t @ x @ y"
    and x: "\<And>a q b. x = a @ q # b \<Longrightarrow> ok (t @ a) q"
    and y: "\<And>a q b. y = a @ q # b \<Longrightarrow> ok ((t @ x) @ a) q"
    by (auto simp: steps_def)
  have "ok (t @ a) q" if "x @ y = a @ q # b" for a q b
    using that x [of a q] y [of "[]" q b] y [of _ q b]
    by (fastforce simp: append_eq_append_conv2 Cons_eq_append_conv append_eq_Cons_conv)
  then show ?thesis by (auto simp: steps_def v)
qed

lemma steps_mono: "steps ok t t' \<Longrightarrow> (\<And>h q. ok h q \<Longrightarrow> ok' h q) \<Longrightarrow> steps ok' t t'"
  by (auto simp: steps_def)

lemma stepsD: "steps ok t (t @ a @ q # b) \<Longrightarrow> ok (t @ a) q"
  by (auto simp: steps_def)

subsection \<open>Weakest preconditions\<close>

definition wp :: "(history \<Rightarrow> request \<Rightarrow> bool) \<Rightarrow> 'a act \<Rightarrow> ('a result \<Rightarrow> st \<Rightarrow> bool) \<Rightarrow> st \<Rightarrow> bool" where
  "wp ok m Q s = (steps ok (st_trace s) (st_trace (snd (m s))) \<and> Q (fst (m s)) (snd (m s)))"

text \<open>The postcondition of the first half of a sequence.\<close>

definition andThen :: "(history \<Rightarrow> request \<Rightarrow> bool) \<Rightarrow> ('a \<Rightarrow> 'b act) \<Rightarrow> ('b result \<Rightarrow> st \<Rightarrow> bool) \<Rightarrow> 'a result \<Rightarrow> st \<Rightarrow> bool" where
  "andThen ok k Q r s = (case r of Ok x \<Rightarrow> wp ok (k x) Q s | Err e \<Rightarrow> Q (Err e) s | Panic p \<Rightarrow> Q (Panic p) s)"

definition caught :: "('a result result \<Rightarrow> st \<Rightarrow> bool) \<Rightarrow> 'a result \<Rightarrow> st \<Rightarrow> bool" where
  "caught Q r s = (case r of Panic p \<Rightarrow> Q (Panic p) s | _ \<Rightarrow> Q (Ok r) s)"

lemma andThen_simps [simp]:
  "andThen ok k Q (Ok x) s = wp ok (k x) Q s" "andThen ok k Q (Err e) s = Q (Err e) s"
  "andThen ok k Q (Panic p) s = Q (Panic p) s"
  by (simp_all add: andThen_def)

lemma caught_simps [simp]:
  "caught Q (Ok x) s = Q (Ok (Ok x)) s" "caught Q (Err e) s = Q (Ok (Err e)) s" "caught Q (Panic p) s = Q (Panic p) s"
  by (simp_all add: caught_def)

lemma wp_simps [simp]:
  "wp ok (ret x) Q s = Q (Ok x) s"
  "wp ok (fail e) Q s = Q (Err e) s"
  "wp ok (liftR r) Q s = Q r s"
  "wp ok theMint Q' s = Q' (Ok (st_mint s)) s"
  "wp ok (setMint f) Q'' s = Q'' (Ok ()) (s\<lparr> st_mint := f (st_mint s) \<rparr>)"
  "wp ok (call g q) Q s = (ok (st_trace s) q \<and> Q (g (st_trace s)) (s\<lparr> st_trace := st_trace s @ [q] \<rparr>))"
  by (auto simp: wp_def act_defs)

lemma wp_bind: "wp ok m (andThen ok k Q) s \<Longrightarrow> wp ok (bindA m k) Q s"
  by (auto simp: wp_def bindA_def andThen_def split: prod.splits result.splits elim: steps_trans)

lemma wp_seq: "wp ok m (andThen ok (\<lambda>_. k) Q) s \<Longrightarrow> wp ok (seqA m k) Q s"
  unfolding seqA_def by (rule wp_bind)

lemma wp_try: "wp ok m (caught Q) s \<Longrightarrow> wp ok (tryA m) Q s"
  by (auto simp: wp_def tryA_def caught_def split: prod.splits result.splits)

lemma wp_wrap: "wp ok m (\<lambda>r. Q (mapErr (Wrapf p) r)) s \<Longrightarrow> wp ok (wrapA p m) Q s"
  by (auto simp: wp_def wrapA_def split: prod.splits)

lemma wp_conseq: "wp ok m Q s \<Longrightarrow> (\<And>r s'. Q r s' \<Longrightarrow> Q' r s') \<Longrightarrow> wp ok m Q' s"
  by (auto simp: wp_def)

lemmas wp_rules = wp_bind wp_seq wp_try wp_wrap

subsection \<open>Keeping an invariant of the mint\<close>

definition keeps :: "(history \<Rightarrow> request \<Rightarrow> bool) \<Rightarrow> (CashuMint \<Rightarrow> bool) \<Rightarrow> 'a act \<Rightarrow> bool" where
  "keeps ok I m = (\<forall>s. I (st_mint s) \<longrightarrow> wp ok m (\<lambda>_ s'. I (st_mint s')) s)"

lemma keepsI: "(\<And>s. I (st_mint s) \<Longrightarrow> wp ok m (\<lambda>_ s'. I (st_mint s')) s) \<Longrightarrow> keeps ok I m"
  by (simp add: keeps_def)

lemma keepsD: "keeps ok I m \<Longrightarrow> I (st_mint s) \<Longrightarrow> wp ok m (\<lambda>_ s'. I (st_mint s')) s"
  by (simp add: keeps_def)

lemma keeps_basic [keeps_rules]:
  "keeps ok I (ret x)" "keeps ok I (fail e)" "keeps ok I (liftR r)" "keeps ok I theMint"
  by (simp_all add: keeps_def)

lemma keeps_bind [keeps_rules]: "keeps ok I m \<Longrightarrow> (\<And>x. keeps ok I (k x)) \<Longrightarrow> keeps ok I (bindA m k)"
  by (rule keepsI, rule wp_bind, rule wp_conseq, erule (1) keepsD)
    (auto simp: andThen_def keeps_def split: result.splits)

lemma keeps_bind_mint: "(\<And>m. I m \<Longrightarrow> keeps ok I (k m)) \<Longrightarrow> keeps ok I (bindA theMint k)"
  by (rule keepsI, rule wp_bind) (simp add: keepsD)

lemma keeps_seq [keeps_rules]: "keeps ok I m \<Longrightarrow> keeps ok I k \<Longrightarrow> keeps ok I (seqA m k)"
  unfolding seqA_def by (rule keeps_bind)

lemma keeps_try [keeps_rules]: "keeps ok I m \<Longrightarrow> keeps ok I (tryA m)"
  by (rule keepsI, rule wp_try, rule wp_conseq, erule (1) keepsD) (auto simp: caught_def split: result.splits)

lemma keeps_wrap [keeps_rules]: "keeps ok I m \<Longrightarrow> keeps ok I (wrapA p m)"
  by (rule keepsI, rule wp_wrap, erule (1) keepsD)

lemma keeps_when [keeps_rules]: "(b \<Longrightarrow> keeps ok I m) \<Longrightarrow> keeps ok I (whenA b m)"
  by (simp add: whenA_def keeps_basic)

lemma keeps_if [keeps_rules]: "(b \<Longrightarrow> keeps ok I m) \<Longrightarrow> (\<not> b \<Longrightarrow> keeps ok I m') \<Longrightarrow> keeps ok I (if b then m else m')"
  by simp

lemma keeps_call: "(\<And>h. ok h q) \<Longrightarrow> keeps ok I (call f q)"
  by (simp add: keeps_def)

lemma keeps_set: "(\<And>m. I m \<Longrightarrow> I (f m)) \<Longrightarrow> keeps ok I (setMint f)"
  by (simp add: keeps_def)

lemma keeps_option [keeps_rules]:
  "(x = None \<Longrightarrow> keeps ok I m) \<Longrightarrow> (\<And>y. x = Some y \<Longrightarrow> keeps ok I (k y)) \<Longrightarrow>
   keeps ok I (case x of None \<Rightarrow> m | Some y \<Rightarrow> k y)"
  by (cases x) auto

lemma keeps_result [keeps_rules]:
  "(\<And>y. x = Ok y \<Longrightarrow> keeps ok I (f y)) \<Longrightarrow> (\<And>e. x = Err e \<Longrightarrow> keeps ok I (g e)) \<Longrightarrow>
   (\<And>p. x = Panic p \<Longrightarrow> keeps ok I (h p)) \<Longrightarrow>
   keeps ok I (case x of Ok y \<Rightarrow> f y | Err e \<Rightarrow> g e | Panic p \<Rightarrow> h p)"
  by (cases x) auto

text \<open>A generated object is applied only when the generator made it.\<close>

lemma keeps_generateApply:
  "(\<And>y h. r = Ok (Some y) \<Longrightarrow> ok h (Apply (c y))) \<Longrightarrow> keeps ok I (generateApply R what c r)"
  "(\<And>y h. r = Ok (Some y) \<Longrightarrow> ok h (Apply (c y))) \<Longrightarrow> keeps ok I (generateApplyOpt R what c r)"
  unfolding generateApply_def generateApplyOpt_def
  by (rule keepsI, rule wp_bind, rule wp_wrap,
      cases r; simp add: applyResource_def split: option.split; intro allI impI; rule wp_wrap; simp)+

lemma keeps_bind_lift: "(\<And>x. r = Ok x \<Longrightarrow> keeps ok I (k x)) \<Longrightarrow> keeps ok I (bindA (wrapA p (liftR r)) k)"
  by (rule keepsI, rule wp_bind, rule wp_wrap) (cases r; simp add: keepsD)

lemma keeps_apply: "(\<And>h. ok h (Apply x)) \<Longrightarrow> keeps ok I (applyResource R x)"
  "(\<And>h. ok h (Apply (OStatefulSet sts))) \<Longrightarrow> keeps ok I (applyStatefulSet R sts)"
  unfolding applyResource_def applyStatefulSet_def by (rule keeps_call; simp)+

text \<open>\<open>yields ok I P m\<close> is
  \<open>keeps\<close> with a postcondition on the value returned.\<close>

definition yields :: "(history \<Rightarrow> request \<Rightarrow> bool) \<Rightarrow> (CashuMint \<Rightarrow> bool) \<Rightarrow> ('a \<Rightarrow> bool) \<Rightarrow> 'a act \<Rightarrow> bool" where
  "yields ok I P m = (\<forall>s. I (st_mint s) \<longrightarrow> wp ok m (\<lambda>r s'. I (st_mint s') \<and> (\<forall>x. r = Ok x \<longrightarrow> P x)) s)"

lemma yieldsD: "yields ok I P m \<Longrightarrow> I (st_mint s) \<Longrightarrow> wp ok m (\<lambda>r s'. I (st_mint s') \<and> (\<forall>x. r = Ok x \<longrightarrow> P x)) s"
  by (simp add: yields_def)

lemma yields_ret: "P x \<Longrightarrow> yields ok I P (ret x)" "yields ok I P (fail e)"
  by (simp_all add: yields_def)

lemma yields_bind: "keeps ok I m \<Longrightarrow> (\<And>x. yields ok I P (k x)) \<Longrightarrow> yields ok I P (bindA m k)"
  unfolding yields_def
  by (intro allI impI, rule wp_bind, rule wp_conseq, erule (1) keepsD) (auto simp: andThen_def split: result.splits)

lemma keeps_bind_yields: "yields ok I P m \<Longrightarrow> (\<And>x. P x \<Longrightarrow> keeps ok I (k x)) \<Longrightarrow> keeps ok I (bindA m k)"
  by (rule keepsI, rule wp_bind, rule wp_conseq, erule (1) yieldsD)
    (auto simp: andThen_def dest: keepsD split: result.splits)

end
