(* ===== verification/Apimachinery.thy ===== *)
theory Apimachinery
  imports ActionLogic
begin

section \<open>The metadata library\<close>

text \<open>
  The functions of \<^verbatim>\<open>k8s.io/apimachinery/pkg/api/meta\<close> and \<^verbatim>\<open>controllerutil\<close> that the controller calls are a
  parameter of the model, the record \<open>metalib\<close>. The locale \<open>apimachinery\<close> is what their documentation
  promises; it is interpreted on functions that do what the documentation says. The lemmas of the
  locale say what the controller's own status functions write under these laws.
\<close>

subsection \<open>The contract\<close>

text \<open>\<^verbatim>\<open>meta.FindStatusCondition\<close>.\<close>

definition findCondition :: "Condition list \<Rightarrow> string \<Rightarrow> Condition option" where
  "findCondition cs ty = List.find (\<lambda>c. cond_Type c = ty) cs"

text \<open>Two conditions that differ in the time of the last transition only, which the library fills in.\<close>

definition agree :: "Condition \<Rightarrow> Condition \<Rightarrow> bool" where
  "agree c d = (c\<lparr> cond_LastTransitionTime := '''' \<rparr> = d\<lparr> cond_LastTransitionTime := '''' \<rparr>)"

locale apimachinery =
  fixes L :: metalib
  assumes condition_set:
    "\<exists>d. findCondition (ml_SetStatusCondition L cs c) (cond_Type c) = Some d \<and> agree c d"
  and condition_kept:
    "ty \<noteq> cond_Type c \<Longrightarrow> findCondition (ml_SetStatusCondition L cs c) ty = findCondition cs ty"
  and contains_add: "ml_ContainsFinalizer L (ml_AddFinalizer L meta f) f' = (f' = f \<or> ml_ContainsFinalizer L meta f')"
  and contains_remove: "ml_ContainsFinalizer L (ml_RemoveFinalizer L meta f) f' = (f' \<noteq> f \<and> ml_ContainsFinalizer L meta f')"
  and add_only: "\<exists>fs. ml_AddFinalizer L meta f = meta\<lparr> om_Finalizers := fs \<rparr>"
  and remove_only: "\<exists>fs. ml_RemoveFinalizer L meta f = meta\<lparr> om_Finalizers := fs \<rparr>"
begin

text \<open>What \<^verbatim>\<open>setCondition\<close> writes: the condition itself, with the mint's generation, and nothing else.\<close>

lemma setCondition_reads:
  assumes "r_Meta R = L"
  shows "\<exists>d. findCondition (sta_Conditions (cm_Status (setCondition R ty status reason msg m))) ty = Some d
      \<and> cond_Status d = status \<and> cond_Reason d = reason \<and> cond_Message d = msg
      \<and> cond_ObservedGeneration d = om_Generation (cm_Meta m)"
  using condition_set [of "sta_Conditions (cm_Status m)" "newCondition ty status (om_Generation (cm_Meta m)) reason msg"] assms
  by (auto simp: setCondition_def updStatus_def newCondition_def agree_def Condition.splits)

lemma setCondition_keeps:
  assumes "r_Meta R = L" and "ty' \<noteq> ty"
  shows "findCondition (sta_Conditions (cm_Status (setCondition R ty status reason msg m))) ty'
      = findCondition (sta_Conditions (cm_Status m)) ty'"
  using condition_kept [of ty' "newCondition ty status (om_Generation (cm_Meta m)) reason msg"] assms
  by (simp add: setCondition_def updStatus_def newCondition_def)

text \<open>Adding and removing a finalizer leaves the identity, the generation and the deletion mark alone.\<close>

lemma finalizer_identity:
  "om_Name (ml_AddFinalizer L meta f) = om_Name meta" "om_Namespace (ml_AddFinalizer L meta f) = om_Namespace meta"
  "om_DeletionTimestamp (ml_AddFinalizer L meta f) = om_DeletionTimestamp meta"
  "om_Name (ml_RemoveFinalizer L meta f) = om_Name meta" "om_Namespace (ml_RemoveFinalizer L meta f) = om_Namespace meta"
  using add_only [of meta f] remove_only [of meta f] by auto

end

subsection \<open>The documented functions\<close>

text \<open>\<^verbatim>\<open>SetStatusCondition\<close> overwrites the condition of the same type in place, keeping the transition time when
  the status does not change, and appends a condition of a new type.\<close>

fun setStatusCondition :: "Condition list \<Rightarrow> Condition \<Rightarrow> Condition list" where
  "setStatusCondition [] c = [c]"
| "setStatusCondition (d # ds) c =
     (if cond_Type d = cond_Type c
      then (if cond_Status d = cond_Status c then c\<lparr> cond_LastTransitionTime := cond_LastTransitionTime d \<rparr> else c) # ds
      else d # setStatusCondition ds c)"

definition documentedMeta :: metalib where
  "documentedMeta =
     \<lparr> ml_SetStatusCondition = setStatusCondition,
       ml_ContainsFinalizer = (\<lambda>meta f. f \<in> set (om_Finalizers meta)),
       ml_AddFinalizer = (\<lambda>meta f. if f \<in> set (om_Finalizers meta) then meta
                                    else meta\<lparr> om_Finalizers := om_Finalizers meta @ [f] \<rparr>),
       ml_RemoveFinalizer = (\<lambda>meta f. meta\<lparr> om_Finalizers := filter (\<lambda>g. g \<noteq> f) (om_Finalizers meta) \<rparr>),
       ml_IsNoMatchError = IsNoMatchError \<rparr>"

lemma setStatusCondition_set: "\<exists>d. findCondition (setStatusCondition cs c) (cond_Type c) = Some d \<and> agree c d"
  by (induction cs c rule: setStatusCondition.induct) (auto simp: findCondition_def agree_def)

lemma setStatusCondition_kept: "ty \<noteq> cond_Type c \<Longrightarrow> findCondition (setStatusCondition cs c) ty = findCondition cs ty"
  by (induction cs c rule: setStatusCondition.induct) (auto simp: findCondition_def)

lemma finalizers_unchanged: "\<exists>fs. meta = meta\<lparr> om_Finalizers := fs \<rparr>"
  by (rule exI [of _ "om_Finalizers meta"]) simp

interpretation meta: apimachinery documentedMeta
  by unfold_locales
    (auto simp: documentedMeta_def setStatusCondition_set setStatusCondition_kept finalizers_unchanged)

end
