(* ===== verification/SampleCluster.thy ===== *)
theory SampleCluster
  imports Apimachinery
begin

section \<open>Concrete clusters\<close>

text \<open>
  A simple cluster for the witnesses: it holds one mint and a ConfigMap or none, has none of the
  secrets, and refuses the writes that a given predicate does not allow.
\<close>

definition missing :: "string \<Rightarrow> 'a result" where
  "missing n = Err (APIError NotFound (n @ '' not found''))"

definition answer :: "bool \<Rightarrow> 'a \<Rightarrow> 'a result" where
  "answer allowed x = (if allowed then Ok x else Err (APIError (OtherReason ''Forbidden'') ''forbidden''))"

definition sampleClient :: "CashuMint \<Rightarrow> ConfigMap option \<Rightarrow> (request \<Rightarrow> bool) \<Rightarrow> client" where
  "sampleClient m cfg allow =
     \<lparr> cl_getMint = (\<lambda>_ ns n. if ns = mintNamespace m \<and> n = mintName m then Ok m else missing n),
       cl_getSecret = (\<lambda>_ _ n. missing n),
       cl_getConfigMap = (\<lambda>_ _ n. case cfg of None \<Rightarrow> missing n | Some c \<Rightarrow> Ok c),
       cl_getDeployment = (\<lambda>_ _ n. missing n),
       cl_getService = (\<lambda>_ _ n. missing n),
       cl_getIngress = (\<lambda>_ _ n. missing n),
       cl_updateMint = (\<lambda>_ x. answer (allow (UpdateMint x)) x),
       cl_updateStatus = (\<lambda>_ x. answer (allow (UpdateStatus x)) x),
       cl_createSecret = (\<lambda>_ x. answer (allow (CreateSecret x)) ()),
       cl_deleteSecret = (\<lambda>_ ns n. answer (allow (DeleteSecret ns n)) ()),
       cl_deletePodMonitor = (\<lambda>_ _ n. missing n),
       cl_apply = (\<lambda>_ x. answer (allow (Apply x)) ()),
       cl_applyStatefulSet = (\<lambda>_ x. answer (allow (Apply (OStatefulSet x))) x),
       cl_random = (\<lambda>_ n. Ok (replicate n 0)),
       cl_crypto = (\<lambda>_. sampleCrypto) \<rparr>"

definition sampleReconciler :: "client \<Rightarrow> CashuMintReconciler" where
  "sampleReconciler c = \<lparr> r_Client = c, r_Ext = sampleExt, r_Meta = documentedMeta \<rparr>"

text \<open>A sample mint at a later point of its life.\<close>

definition inPhase :: "MintPhase \<Rightarrow> CashuMint \<Rightarrow> CashuMint" where
  "inPhase p m = setPhase p (updMeta (\<lambda>x. x\<lparr> om_Finalizers := [cashuMintFinalizer] \<rparr>) m)"

definition marked :: "CashuMint \<Rightarrow> CashuMint" where
  "marked m = updMeta (\<lambda>x. x\<lparr> om_DeletionTimestamp := Some ''2025-01-01T00:00:00Z'' \<rparr>) m"

lemmas cluster_defs =
  sampleReconciler_def sampleClient_def documentedMeta_def missing_def answer_def inPhase_def marked_def

lemma sampleReconciler_owner [simp]: "owner_references (x_SetControllerReference (r_Ext (sampleReconciler c)))"
  by (simp add: sampleReconciler_def)

subsection \<open>The objects generated on the sample scheme\<close>

definition owned :: "CashuMint \<Rightarrow> ObjectMeta \<Rightarrow> ObjectMeta" where
  "owned m meta = meta\<lparr> om_OwnerReferences := [ownerRef m] \<rparr>"

lemma finish_sample:
  assumes "get obj = newMeta n (mintNamespace m) l a" and "upd (\<lambda>_. owned m (get obj)) obj = upd (owned m) obj"
  shows "finish sampleExt m get upd obj = Ok (Some (upd (owned m) obj))"
  using assms by (simp add: finish_def sampleExt_def setOwner_def newMeta_def owned_def)

definition sampleConfigMap :: "CashuMint \<Rightarrow> string \<Rightarrow> ConfigMap" where
  "sampleConfigMap m pw = cfg_Meta_update (owned m) (configMapObject sampleExt m pw)"

definition sampleDeployment :: "CashuMint \<Rightarrow> string \<Rightarrow> Deployment" where
  "sampleDeployment m hash = dep_Meta_update (owned m) (deploymentObject m hash)"

definition sampleService :: "CashuMint \<Rightarrow> Service" where
  "sampleService m = svc_Meta_update (owned m) (mintService m)"

definition sampleMnemonic :: "CashuMint \<Rightarrow> Secret" where
  "sampleMnemonic m = sec_Meta_update (owned m) (mnemonicSecret m
     (joinStr '' '' (wordsOf 24 (setBytes (replicate 32 0 @ [sha256 (replicate 32 0) ! 0])))))"

lemma sample_generated:
  "GenerateConfigMap sampleExt m pw = Ok (Some (sampleConfigMap m pw))"
  "GenerateDeployment sampleExt m hash = Ok (Some (sampleDeployment m hash))"
  "GenerateService sampleExt m = Ok (Some (sampleService m))"
  unfolding GenerateConfigMap_def sampleConfigMap_def GenerateDeployment_def sampleDeployment_def GenerateService_def
    sampleService_def
  by (rule finish_sample; simp add: configMapObject_def deploymentObject_def mintService_def Let_def)+

lemma sample_mnemonic:
  "GenerateMnemonicSecret sampleExt (\<lambda>n. Ok (replicate n 0)) m '''' = Ok (sampleMnemonic m)"
  by (simp add: sampleMnemonic_def GenerateMnemonicSecret_def generateBIP39Mnemonic_words mnemonicSecret_def sampleExt_def
      setOwner_def newMeta_def owned_def)

text \<open>\<^verbatim>\<open>mint_v1alpha1_cashumint_lnd.yaml\<close> with a database outside the cluster.\<close>

definition sampleExternal :: CashuMint where
  "sampleExternal = sampleLND\<lparr> cm_Spec := (cm_Spec sampleLND)\<lparr> cms_Database :=
     zeroDatabase\<lparr> db_Engine := ''postgres'', db_Postgres :=
       Some (zeroPostgres\<lparr> pg_URL := ''postgresql://cdk@db.example.com/cdk'' \<rparr>) \<rparr> \<rparr> \<rparr>"

lemmas run_defs =
  Reconcile_def reconcileMint_def reconcileResources_def transitionReconciliationPhase_def reconcileOptionalMnemonic_def
  reconcileOptionalPostgreSQL_def reconcileOptionalBackup_def reconcileCoreResources_def
  reconcileManagementRPCTLSSecret_def reconcileConfigMap_def configDatabase_def configAuth_def authURLRef_def
  generateApply_def generateApplyOpt_def handleError_def act_defs op_defs Let_def updMeta_def setPhase_def updStatus_def
  setCondition_def phase_defs autoProvisioned_def needsPVCReconciliation_def reconcileDeployment_def ManagementRPCTLSEnabled_def

lemmas sample_run_defs = run_defs cluster_defs sample_defs sampleExternal_def newMeta_def sample_generated sample_mnemonic

end
