(* ===== verification/StatusFrame.thy ===== *)
theory StatusFrame
  imports SampleCluster
begin

section \<open>Generated objects do not depend on the status\<close>

text \<open>
  The reconciler changes the status of the in-memory mint between the calls of the generators. No
  generator looks at it: each gives the same object for a mint with another status, provided that
  \<^verbatim>\<open>SetControllerReference\<close> looks at the owner's metadata only. The rules go up the call graph of the
  generators.
\<close>

named_theorems frame

lemma frame_fields [frame]:
  "cm_Spec (m\<lparr> cm_Status := t \<rparr>) = cm_Spec m" "cm_Meta (m\<lparr> cm_Status := t \<rparr>) = cm_Meta m"
  by simp_all

text \<open>Names and flags.\<close>

lemma frame_GenBase1 [frame]:
  "orchardEnabled (m\<lparr> cm_Status := t \<rparr>) = orchardEnabled m"
  "orchardResourceName (m\<lparr> cm_Status := t \<rparr>) = orchardResourceName m"
  "orchardPVCName (m\<lparr> cm_Status := t \<rparr>) = orchardPVCName m"
  "mintSelectorLabels (m\<lparr> cm_Status := t \<rparr>) = mintSelectorLabels m"
  "componentLabels x4 (m\<lparr> cm_Status := t \<rparr>) z4 = componentLabels x4 m z4"
  "orchardLabels (m\<lparr> cm_Status := t \<rparr>) = orchardLabels m"
  by (simp_all only: orchardEnabled_def orchardResourceName_def orchardPVCName_def mintSelectorLabels_def
      componentLabels_def orchardLabels_def frame cong: if_cong option.case_cong)

lemma frame_GenBase2 [frame]:
  "listenPort (m\<lparr> cm_Status := t \<rparr>) = listenPort m"
  "prometheusEnabled (m\<lparr> cm_Status := t \<rparr>) = prometheusEnabled m"
  "ldkEnabled (m\<lparr> cm_Status := t \<rparr>) = ldkEnabled m"
  "rpcEnabled (m\<lparr> cm_Status := t \<rparr>) = rpcEnabled m"
  "autoProvisioned (m\<lparr> cm_Status := t \<rparr>) = autoProvisioned m"
  "orchardPort (m\<lparr> cm_Status := t \<rparr>) = orchardPort m"
  by (simp_all only: listenPort_def prometheusEnabled_def ldkEnabled_def rpcEnabled_def autoProvisioned_def
      orchardPort_def frame cong: if_cong option.case_cong)

text \<open>Network objects.\<close>

lemma frame_GenNetwork1 [frame]:
  "servicePorts (m\<lparr> cm_Status := t \<rparr>) = servicePorts m"
  "mintService (m\<lparr> cm_Status := t \<rparr>) = mintService m"
  "orchardServiceConfig (m\<lparr> cm_Status := t \<rparr>) = orchardServiceConfig m"
  "orchardService (m\<lparr> cm_Status := t \<rparr>) = orchardService m"
  "orchardIngressConfig (m\<lparr> cm_Status := t \<rparr>) = orchardIngressConfig m"
  "podMonitorObject (m\<lparr> cm_Status := t \<rparr>) = podMonitorObject m"
  by (simp_all only: servicePorts_def mintService_def orchardServiceConfig_def orchardService_def
      orchardIngressConfig_def podMonitorObject_def frame cong: if_cong option.case_cong)

lemma frame_GenNetwork2 [frame]:
  "orchardStorageConfig (m\<lparr> cm_Status := t \<rparr>) = orchardStorageConfig m"
  by (simp_all only: orchardStorageConfig_def frame cong: if_cong option.case_cong)

text \<open>The configuration file.\<close>

lemma frame_GenConfig1 [frame]:
  "listenHost (m\<lparr> cm_Status := t \<rparr>) = listenHost m"
  "writeInfoSection (m\<lparr> cm_Status := t \<rparr>) = writeInfoSection m"
  "writeMintInfoSection (m\<lparr> cm_Status := t \<rparr>) = writeMintInfoSection m"
  "autoProvisionURL (m\<lparr> cm_Status := t \<rparr>) y12 = autoProvisionURL m y12"
  "writeDatabaseSection (m\<lparr> cm_Status := t \<rparr>) y13 = writeDatabaseSection m y13"
  "writeLNDSection (m\<lparr> cm_Status := t \<rparr>) = writeLNDSection m"
  by (simp_all only: listenHost_def writeInfoSection_def writeMintInfoSection_def autoProvisionURL_def
      writeDatabaseSection_def writeLNDSection_def frame cong: if_cong option.case_cong)

lemma frame_GenConfig2 [frame]:
  "writeCLNSection (m\<lparr> cm_Status := t \<rparr>) = writeCLNSection m"
  "writeLNBitsSection (m\<lparr> cm_Status := t \<rparr>) = writeLNBitsSection m"
  "writeFakeWalletSection (m\<lparr> cm_Status := t \<rparr>) = writeFakeWalletSection m"
  "writeGRPCProcessorSection (m\<lparr> cm_Status := t \<rparr>) = writeGRPCProcessorSection m"
  "writePaymentBackendSection (m\<lparr> cm_Status := t \<rparr>) = writePaymentBackendSection m"
  "writeLDKNodeSection (m\<lparr> cm_Status := t \<rparr>) = writeLDKNodeSection m"
  by (simp_all only: writeCLNSection_def writeLNBitsSection_def writeFakeWalletSection_def
      writeGRPCProcessorSection_def writePaymentBackendSection_def writeLDKNodeSection_def frame cong: if_cong option.case_cong)

lemma frame_GenConfig3 [frame]:
  "writeAuthSection (m\<lparr> cm_Status := t \<rparr>) = writeAuthSection m"
  "writeManagementRPCSection (m\<lparr> cm_Status := t \<rparr>) = writeManagementRPCSection m"
  "writeLimitsSection (m\<lparr> cm_Status := t \<rparr>) = writeLimitsSection m"
  "writePrometheusSection (m\<lparr> cm_Status := t \<rparr>) = writePrometheusSection m"
  "configItems (m\<lparr> cm_Status := t \<rparr>) y25 = configItems m y25"
  "generateConfigToml x26 (m\<lparr> cm_Status := t \<rparr>) z26 = generateConfigToml x26 m z26"
  by (simp_all only: writeAuthSection_def writeManagementRPCSection_def writeLimitsSection_def
      writePrometheusSection_def configItems_def generateConfigToml_def frame cong: if_cong option.case_cong)

lemma frame_GenConfig4 [frame]:
  "configMapObject x (m\<lparr> cm_Status := t \<rparr>) z27 = configMapObject x m z27"
  by (simp_all only: configMapObject_def frame cong: if_cong option.case_cong)

text \<open>Orchard.\<close>

lemma frame_GenOrchard1 [frame]:
  "orchardMintConfig (m\<lparr> cm_Status := t \<rparr>) = orchardMintConfig m"
  "orchardMintRPC (m\<lparr> cm_Status := t \<rparr>) = orchardMintRPC m"
  "orchardMintType (m\<lparr> cm_Status := t \<rparr>) = orchardMintType m"
  "orchardMintAPI (m\<lparr> cm_Status := t \<rparr>) = orchardMintAPI m"
  "orchardMintRPCHost (m\<lparr> cm_Status := t \<rparr>) = orchardMintRPCHost m"
  "orchardMintRPCPort (m\<lparr> cm_Status := t \<rparr>) = orchardMintRPCPort m"
  by (simp_all only: orchardMintConfig_def orchardMintRPC_def orchardMintType_def orchardMintAPI_def
      orchardMintRPCHost_def orchardMintRPCPort_def frame cong: if_cong option.case_cong)

lemma frame_GenOrchard2 [frame]:
  "orchardMintRPCMTLS (m\<lparr> cm_Status := t \<rparr>) = orchardMintRPCMTLS m"
  "generateOrchardMintDatabaseEnvVar (m\<lparr> cm_Status := t \<rparr>) = generateOrchardMintDatabaseEnvVar m"
  "generateOrchardEnvironmentVariables (m\<lparr> cm_Status := t \<rparr>) K = generateOrchardEnvironmentVariables m K"
  "generateOrchardVolumeMounts (m\<lparr> cm_Status := t \<rparr>) = generateOrchardVolumeMounts m"
  "GenerateOrchardVolumes (m\<lparr> cm_Status := t \<rparr>) = GenerateOrchardVolumes m"
  "GenerateOrchardContainer (m\<lparr> cm_Status := t \<rparr>) y21 = GenerateOrchardContainer m y21"
  by (simp_all only: orchardMintRPCMTLS_def generateOrchardMintDatabaseEnvVar_def
      generateOrchardEnvironmentVariables_def generateOrchardVolumeMounts_def GenerateOrchardVolumes_def
      GenerateOrchardContainer_def frame cong: if_cong option.case_cong)

text \<open>The Deployment.\<close>

lemma frame_GenDeployment1 [frame]:
  "mintCoreEnvVars (m\<lparr> cm_Status := t \<rparr>) = mintCoreEnvVars m"
  "mintLoggingEnvVars (m\<lparr> cm_Status := t \<rparr>) = mintLoggingEnvVars m"
  "mnemonicRef (m\<lparr> cm_Status := t \<rparr>) = mnemonicRef m"
  "mintMnemonicEnvVars (m\<lparr> cm_Status := t \<rparr>) = mintMnemonicEnvVars m"
  "mintManagementRPCEnvVars (m\<lparr> cm_Status := t \<rparr>) = mintManagementRPCEnvVars m"
  "mintPrometheusEnvVars (m\<lparr> cm_Status := t \<rparr>) = mintPrometheusEnvVars m"
  by (simp_all only: mintCoreEnvVars_def mintLoggingEnvVars_def mnemonicRef_def mintMnemonicEnvVars_def
      mintManagementRPCEnvVars_def mintPrometheusEnvVars_def frame cong: if_cong option.case_cong)

lemma frame_GenDeployment2 [frame]:
  "mintLNBitsEnvVars (m\<lparr> cm_Status := t \<rparr>) = mintLNBitsEnvVars m"
  "mintGRPCProcessorEnvVars (m\<lparr> cm_Status := t \<rparr>) = mintGRPCProcessorEnvVars m"
  "mintPaymentBackendEnvVars (m\<lparr> cm_Status := t \<rparr>) = mintPaymentBackendEnvVars m"
  "mintLDKEnvVars (m\<lparr> cm_Status := t \<rparr>) = mintLDKEnvVars m"
  "mintHTTPCacheEnvVars (m\<lparr> cm_Status := t \<rparr>) = mintHTTPCacheEnvVars m"
  "generateEnvironmentVariables (m\<lparr> cm_Status := t \<rparr>) = generateEnvironmentVariables m"
  by (simp_all only: mintLNBitsEnvVars_def mintGRPCProcessorEnvVars_def mintPaymentBackendEnvVars_def
      mintLDKEnvVars_def mintHTTPCacheEnvVars_def generateEnvironmentVariables_def frame cong: if_cong option.case_cong)

lemma frame_GenDeployment3 [frame]:
  "generateVolumeMounts (m\<lparr> cm_Status := t \<rparr>) = generateVolumeMounts m"
  "enabledSidecar (m\<lparr> cm_Status := t \<rparr>) = enabledSidecar m"
  "generateVolumes (m\<lparr> cm_Status := t \<rparr>) = generateVolumes m"
  "getResourceRequirements (m\<lparr> cm_Status := t \<rparr>) = getResourceRequirements m"
  "getPodSecurityContext (m\<lparr> cm_Status := t \<rparr>) = getPodSecurityContext m"
  "getContainerSecurityContext (m\<lparr> cm_Status := t \<rparr>) = getContainerSecurityContext m"
  by (simp_all only: generateVolumeMounts_def enabledSidecar_def generateVolumes_def getResourceRequirements_def
      getPodSecurityContext_def getContainerSecurityContext_def frame cong: if_cong option.case_cong)

lemma frame_GenDeployment4 [frame]:
  "generateMintContainer (m\<lparr> cm_Status := t \<rparr>) = generateMintContainer m"
  "generateSidecarProcessorContainer (m\<lparr> cm_Status := t \<rparr>) y29 = generateSidecarProcessorContainer m y29"
  "generatePodSpec (m\<lparr> cm_Status := t \<rparr>) = generatePodSpec m"
  "deploymentObject (m\<lparr> cm_Status := t \<rparr>) y31 = deploymentObject m y31"
  by (simp_all only: generateMintContainer_def generateSidecarProcessorContainer_def generatePodSpec_def
      deploymentObject_def frame cong: if_cong option.case_cong)

text \<open>PostgreSQL.\<close>

lemma frame_GenPostgres1 [frame]:
  "postgresSecretName (m\<lparr> cm_Status := t \<rparr>) = postgresSecretName m"
  "postgresName (m\<lparr> cm_Status := t \<rparr>) = postgresName m"
  "postgresLabels (m\<lparr> cm_Status := t \<rparr>) = postgresLabels m"
  "postgresURL (m\<lparr> cm_Status := t \<rparr>) y14 = postgresURL m y14"
  "postgresSecret (m\<lparr> cm_Status := t \<rparr>) y15 = postgresSecret m y15"
  "postgresService (m\<lparr> cm_Status := t \<rparr>) = postgresService m"
  by (simp_all only: postgresSecretName_def postgresName_def postgresLabels_def postgresURL_def
      postgresSecret_def postgresService_def frame cong: if_cong option.case_cong)

lemma frame_GenPostgres2 [frame]:
  "postgresSpec (m\<lparr> cm_Status := t \<rparr>) = postgresSpec m"
  "postgresVersion (m\<lparr> cm_Status := t \<rparr>) = postgresVersion m"
  "postgresStorageSize (m\<lparr> cm_Status := t \<rparr>) = postgresStorageSize m"
  "passwordEnv (m\<lparr> cm_Status := t \<rparr>) = passwordEnv m"
  "initPasswordContainer (m\<lparr> cm_Status := t \<rparr>) = initPasswordContainer m"
  "postgresContainer (m\<lparr> cm_Status := t \<rparr>) = postgresContainer m"
  by (simp_all only: postgresSpec_def postgresVersion_def postgresStorageSize_def passwordEnv_def
      initPasswordContainer_def postgresContainer_def frame cong: if_cong option.case_cong)

lemma frame_GenPostgres3 [frame]:
  "postgresPod (m\<lparr> cm_Status := t \<rparr>) = postgresPod m"
  "postgresStatefulSet (m\<lparr> cm_Status := t \<rparr>) y26 = postgresStatefulSet m y26"
  by (simp_all only: postgresPod_def postgresStatefulSet_def frame cong: if_cong option.case_cong)

text \<open>Backups.\<close>

lemma frame_GenBackup1 [frame]:
  "backupLabels (m\<lparr> cm_Status := t \<rparr>) = backupLabels m"
  "backupBucket (m\<lparr> cm_Status := t \<rparr>) = backupBucket m"
  "backupVersion (m\<lparr> cm_Status := t \<rparr>) = backupVersion m"
  "databaseURLEnv (m\<lparr> cm_Status := t \<rparr>) = databaseURLEnv m"
  "backupContainer (m\<lparr> cm_Status := t \<rparr>) K z18 u18 = backupContainer m K z18 u18"
  "backupTemplate (m\<lparr> cm_Status := t \<rparr>) y19 = backupTemplate m y19"
  by (simp_all only: backupLabels_def backupBucket_def backupVersion_def databaseURLEnv_def backupContainer_def
      backupTemplate_def frame cong: if_cong option.case_cong)

lemma frame_GenBackup2 [frame]:
  "backupEnv (m\<lparr> cm_Status := t \<rparr>) y20 = backupEnv m y20"
  "backupCronJob (m\<lparr> cm_Status := t \<rparr>) y21 z21 = backupCronJob m y21 z21"
  "annotation (m\<lparr> cm_Status := t \<rparr>) y23 = annotation m y23"
  "restoreObjectKey (m\<lparr> cm_Status := t \<rparr>) = restoreObjectKey m"
  "restoreRequestID (m\<lparr> cm_Status := t \<rparr>) = restoreRequestID m"
  "restoreJobName (m\<lparr> cm_Status := t \<rparr>) = restoreJobName m"
  by (simp_all only: backupEnv_def backupCronJob_def annotation_def restoreObjectKey_def restoreRequestID_def
      restoreJobName_def frame cong: if_cong option.case_cong)

lemma frame_GenBackup3 [frame]:
  "restoreEnv (m\<lparr> cm_Status := t \<rparr>) y27 = restoreEnv m y27"
  "restoreJob (m\<lparr> cm_Status := t \<rparr>) y28 = restoreJob m y28"
  by (simp_all only: restoreEnv_def restoreJob_def frame cong: if_cong option.case_cong)

text \<open>The mnemonic.\<close>

lemma frame_GenMnemonic1 [frame]:
  "mnemonicSecret (m\<lparr> cm_Status := t \<rparr>) y16 = mnemonicSecret m y16"
  by (simp_all only: mnemonicSecret_def frame cong: if_cong option.case_cong)

text \<open>Management RPC.\<close>

lemma frame_GenManagementRPC1 [frame]:
  "managementRPCTLSSecret (m\<lparr> cm_Status := t \<rparr>) rand = managementRPCTLSSecret m rand"
  by (simp_all only: managementRPCTLSSecret_def frame cong: if_cong option.case_cong)

text \<open>The generators.\<close>

lemma finish_frame:
  assumes "owner_references (x_SetControllerReference X)"
  shows "finish X (m\<lparr> cm_Status := t \<rparr>) get upd obj = finish X m get upd obj"
  using owner_references.owner_metadata [OF assms, of "m\<lparr> cm_Status := t \<rparr>" m] by (simp add: finish_def)

lemma generated_frame:
  assumes own: "owner_references (x_SetControllerReference x)"
  shows "GenerateService x (m\<lparr> cm_Status := t \<rparr>) = GenerateService x m"
    and "GenerateOrchardService x (m\<lparr> cm_Status := t \<rparr>) = GenerateOrchardService x m"
    and "GenerateIngress x (m\<lparr> cm_Status := t \<rparr>) = GenerateIngress x m"
    and "GenerateOrchardIngress x (m\<lparr> cm_Status := t \<rparr>) = GenerateOrchardIngress x m"
    and "GenerateCertificate x (m\<lparr> cm_Status := t \<rparr>) = GenerateCertificate x m"
    and "GenerateOrchardCertificate x (m\<lparr> cm_Status := t \<rparr>) = GenerateOrchardCertificate x m"
    and "GeneratePodMonitor x (m\<lparr> cm_Status := t \<rparr>) = GeneratePodMonitor x m"
    and "GeneratePVC x (m\<lparr> cm_Status := t \<rparr>) = GeneratePVC x m"
    and "GenerateOrchardPVC x (m\<lparr> cm_Status := t \<rparr>) = GenerateOrchardPVC x m"
    and "GenerateConfigMap x (m\<lparr> cm_Status := t \<rparr>) pw = GenerateConfigMap x m pw"
    and "GenerateDeployment x (m\<lparr> cm_Status := t \<rparr>) hash = GenerateDeployment x m hash"
    and "GeneratePostgresSecret rand (m\<lparr> cm_Status := t \<rparr>) old = GeneratePostgresSecret rand m old"
    and "GeneratePostgresService x (m\<lparr> cm_Status := t \<rparr>) = GeneratePostgresService x m"
    and "GeneratePostgresStatefulSet x (m\<lparr> cm_Status := t \<rparr>) = GeneratePostgresStatefulSet x m"
    and "GeneratePostgresBackupCronJob x (m\<lparr> cm_Status := t \<rparr>) = GeneratePostgresBackupCronJob x m"
    and "GeneratePostgresRestoreJob x (m\<lparr> cm_Status := t \<rparr>) = GeneratePostgresRestoreJob x m"
    and "GenerateMnemonicSecret x rand (m\<lparr> cm_Status := t \<rparr>) phrase = GenerateMnemonicSecret x rand m phrase"
    and "GenerateManagementRPCTLSSecret x K (m\<lparr> cm_Status := t \<rparr>) = GenerateManagementRPCTLSSecret x K m"
  unfolding GenerateService_def GenerateOrchardService_def GenerateIngress_def GenerateOrchardIngress_def
    GenerateCertificate_def GenerateOrchardCertificate_def GeneratePodMonitor_def GeneratePVC_def
    GenerateOrchardPVC_def GenerateConfigMap_def GenerateDeployment_def GeneratePostgresSecret_def
    GeneratePostgresService_def GeneratePostgresStatefulSet_def GeneratePostgresBackupCronJob_def
    GeneratePostgresRestoreJob_def GenerateMnemonicSecret_def GenerateManagementRPCTLSSecret_def
  by (simp_all only: owner_references.owner_metadata [OF own frame_fields(2)] frame finish_frame [OF own]
      cong: if_cong option.case_cong)

end
