(* ===== verification/ControllerSafety.thy ===== *)
theory ControllerSafety
  imports SampleCluster
begin

section \<open>What the reconciler may ask of the cluster\<close>

text \<open>
  The discipline of a reconciliation, proved for every behaviour of the cluster: it reads and
  writes only in the mint's namespace, applies only objects named after the mint and controlled by
  it, never writes a secret except to create one of its three after the server said that it does
  not exist, and gives the Deployment the hash of a ConfigMap it has read.
\<close>

subsection \<open>Placement of generated objects\<close>

definition managedNames :: "CashuMint \<Rightarrow> string list" where
  "managedNames m =
     [mintName m, mintName m @ ''-config'', mintName m @ ''-data'', orchardResourceName m, orchardPVCName m,
      postgresName m, mintName m @ ''-backup'', restoreJobName m]"

definition placed :: "CashuMint \<Rightarrow> ObjectMeta \<Rightarrow> bool" where
  "placed m meta =
     (om_Namespace meta = mintNamespace m \<and> om_Name meta \<in> set (managedNames m) \<and> ownedBy m meta)"

lemma placed_cong: "cm_Meta m = cm_Meta m' \<Longrightarrow> placed m = placed m'"
  by (simp add: placed_def [abs_def] managedNames_def orchardResourceName_def orchardPVCName_def postgresName_def
      restoreJobName_def restoreRequestID_def restoreObjectKey_def annotation_def ownedBy_def)

lemma finish_placed:
  assumes "owner_references (x_SetControllerReference X)"
    and "finish X m get upd obj = Ok (Some y)" and "\<And>f x. get (upd f x) = f (get x)"
    and "get obj = newMeta n (mintNamespace m) l a" and "n \<in> set (managedNames m)"
  shows "placed m (get y)"
proof -
  from assms(2) obtain meta where meta: "x_SetControllerReference X m (get obj) = Ok meta" and y: "y = upd (\<lambda>_. meta) obj"
    by auto
  from y assms(3) have "get y = meta" by simp
  then show ?thesis
    using owner_references.keeps_identity [OF assms(1) meta] owner_references.owner_set [OF assms(1) meta] assms(4,5)
    by (simp add: placed_def)
qed

lemmas generator_defs =
  GenerateService_def GenerateOrchardService_def GenerateIngress_def GenerateOrchardIngress_def GenerateCertificate_def
  GenerateOrchardCertificate_def GeneratePodMonitor_def GeneratePVC_def GenerateOrchardPVC_def GenerateConfigMap_def
  GenerateDeployment_def GeneratePostgresService_def GeneratePostgresStatefulSet_def GeneratePostgresBackupCronJob_def
  GeneratePostgresRestoreJob_def

lemma generated_placed:
  assumes "owner_references (x_SetControllerReference X)"
  shows "GenerateService X m = Ok (Some svc) \<Longrightarrow> placed m (svc_Meta svc)"
    and "GenerateOrchardService X m = Ok (Some svc) \<Longrightarrow> placed m (svc_Meta svc)"
    and "GeneratePostgresService X m = Ok (Some svc) \<Longrightarrow> placed m (svc_Meta svc)"
    and "GenerateIngress X m = Ok (Some ing) \<Longrightarrow> placed m (ing_Meta ing)"
    and "GenerateOrchardIngress X m = Ok (Some ing) \<Longrightarrow> placed m (ing_Meta ing)"
    and "GenerateCertificate X m = Ok (Some crt) \<Longrightarrow> placed m (crt_Meta crt)"
    and "GenerateOrchardCertificate X m = Ok (Some crt) \<Longrightarrow> placed m (crt_Meta crt)"
    and "GeneratePodMonitor X m = Ok (Some pm) \<Longrightarrow> placed m (pm_Meta pm)"
    and "GeneratePVC X m = Ok (Some pvc) \<Longrightarrow> placed m (pvc_Meta pvc)"
    and "GenerateOrchardPVC X m = Ok (Some pvc) \<Longrightarrow> placed m (pvc_Meta pvc)"
    and "GenerateConfigMap X m pw = Ok (Some cfg) \<Longrightarrow> placed m (cfg_Meta cfg)"
    and "GenerateDeployment X m hash = Ok (Some dep) \<Longrightarrow> placed m (dep_Meta dep)"
    and "GeneratePostgresStatefulSet X m = Ok (Some sts) \<Longrightarrow> placed m (sts_Meta sts)"
    and "GeneratePostgresBackupCronJob X m = Ok (Some cj) \<Longrightarrow> placed m (cj_Meta cj)"
    and "GeneratePostgresRestoreJob X m = Ok (Some job) \<Longrightarrow> placed m (job_Meta job)"
  unfolding generator_defs
  by (auto simp del: finish_eq_Ok simp: Let_def managedNames_def mintService_def orchardService_def postgresService_def
      ingressObject_def certificateObject_def podMonitorObject_def pvcObject_def configMapObject_def deploymentObject_def
      postgresStatefulSet_def backupCronJob_def restoreJob_def
      split: if_splits option.splits prod.splits elim!: finish_placed [OF assms])

subsection \<open>The discipline\<close>

text \<open>The last request asked for the secret and the server answered that it does not exist.\<close>

definition foundAbsent :: "CashuMintReconciler \<Rightarrow> history \<Rightarrow> string \<Rightarrow> string \<Rightarrow> bool" where
  "foundAbsent R h ns n =
     (\<exists>a e. h = a @ [GetSecret ns n] \<and> cl_getSecret (r_Client R) a ns n = Err e \<and> IsNotFound e)"

text \<open>The last request read the mint's ConfigMap, and the pod template carries the hash of the answer.\<close>

definition rollsWith :: "CashuMintReconciler \<Rightarrow> CashuMint \<Rightarrow> history \<Rightarrow> Deployment \<Rightarrow> bool" where
  "rollsWith R m h d =
     (\<exists>a cm. h = a @ [GetConfigMap (mintNamespace m) (mintName m @ ''-config'')]
        \<and> cl_getConfigMap (r_Client R) a (mintNamespace m) (mintName m @ ''-config'') = Ok cm
        \<and> pt_Annotations (dep_Template d) ''config-hash'' = Some (calculateConfigHash cm))"

definition managedSecrets :: "CashuMint \<Rightarrow> string list" where
  "managedSecrets m =
     [MnemonicSecretName (mintName m), postgresSecretName m, ManagementRPCTLSSecretName (cm_Spec m) (mintName m)]"

fun disciplined :: "CashuMintReconciler \<Rightarrow> CashuMint \<Rightarrow> history \<Rightarrow> request \<Rightarrow> bool" where
  "disciplined R m h (Apply x) =
     (placed m (objMeta x) \<and> (case x of OSecret _ \<Rightarrow> False | ODeployment d \<Rightarrow> rollsWith R m h d | _ \<Rightarrow> True))"
| "disciplined R m h (CreateSecret s) =
     (om_Namespace (sec_Meta s) = mintNamespace m \<and> om_Name (sec_Meta s) \<in> set (managedSecrets m)
      \<and> (\<exists>a. h = a @ [ReadRandom] \<and> foundAbsent R a (mintNamespace m) (om_Name (sec_Meta s))))"
| "disciplined R m h (DeleteSecret ns n) = False"
| "disciplined R m h (DeletePodMonitor ns n) = (ns = mintNamespace m \<and> n = mintName m \<and> \<not> prometheusEnabled m)"
| "disciplined R m h (UpdateMint _) = False"
| "disciplined R m h (UpdateStatus _) = False"
| "disciplined R m h (GetMint ns n) = False"
| "disciplined R m h (GetSecret ns n) = (ns = mintNamespace m)"
| "disciplined R m h (GetConfigMap ns n) = (ns = mintNamespace m \<and> n = mintName m @ ''-config'')"
| "disciplined R m h (GetDeployment ns n) = (ns = mintNamespace m \<and> n = mintName m)"
| "disciplined R m h (GetService ns n) = (ns = mintNamespace m \<and> n = mintName m)"
| "disciplined R m h (GetIngress ns n) = (ns = mintNamespace m \<and> n = mintName m)"
| "disciplined R m h ReadRandom = True"
| "disciplined R m h (Event _ _ _) = True"

text \<open>The in-memory mint differs from the one fetched in its status only.\<close>

definition sameMint :: "CashuMint \<Rightarrow> CashuMint \<Rightarrow> bool" where
  "sameMint m0 m = (cm_Meta m = cm_Meta m0 \<and> cm_Spec m = cm_Spec m0)"

lemma sameMint_refl [simp]: "sameMint m m"
  by (simp add: sameMint_def)

lemma sameMint_upd [simp]:
  "sameMint m0 (updStatus f m) = sameMint m0 m" "sameMint m0 (setPhase p m) = sameMint m0 m"
  "sameMint m0 (setCondition R ty st re msg m) = sameMint m0 m"
  by (simp_all add: sameMint_def updStatus_def setPhase_def setCondition_def)

lemma sameMint_placed: "sameMint m0 m \<Longrightarrow> placed m0 = placed m"
  by (rule placed_cong) (simp add: sameMint_def)

lemma keeps_event [keeps_rules]: "keeps (disciplined R m0) I (event a b c)"
  unfolding event_def by (rule keeps_call) simp

lemma keeps_status [keeps_rules]:
  "keeps ok (sameMint m0) (setMint (setPhase p))" "keeps ok (sameMint m0) (setMint (setCondition R ty st re msg))"
  by (rule keeps_set, simp)+

subsection \<open>The secrets\<close>

text \<open>The metadata of the generated secrets.\<close>

lemma generated_secret_meta:
  assumes "owner_references (x_SetControllerReference X)"
  shows "GenerateMnemonicSecret X rand m old = Ok sec \<Longrightarrow>
      om_Namespace (sec_Meta sec) = mintNamespace m \<and> om_Name (sec_Meta sec) = MnemonicSecretName (mintName m)"
    and "GeneratePostgresSecret rand m old = Ok (Some sec) \<Longrightarrow>
      om_Namespace (sec_Meta sec) = mintNamespace m \<and> om_Name (sec_Meta sec) = mintName m @ ''-postgres-secret''"
    and "GenerateManagementRPCTLSSecret X K m = Ok (Some sec) \<Longrightarrow>
      om_Namespace (sec_Meta sec) = mintNamespace m
      \<and> om_Name (sec_Meta sec) = ManagementRPCTLSSecretName (cm_Spec m) (mintName m)"
  using owner_references.keeps_identity [OF assms]
  by (auto simp: GenerateMnemonicSecret_def GeneratePostgresSecret_def GenerateManagementRPCTLSSecret_def
      mnemonicSecret_def postgresSecret_def managementRPCTLSSecret_def postgresSecretName_def split: if_splits)

text \<open>Get, generate, create: the steps the three functions share. After a get that found nothing,
  the secret may be created.\<close>

lemma keeps_ifAbsent:
  assumes "ns = mintNamespace m0"
    and absent: "\<And>s e. IsNotFound e \<Longrightarrow> I (st_mint s) \<Longrightarrow> foundAbsent R (st_trace s) ns n \<Longrightarrow>
      wp (disciplined R m0) (k (Err e)) (\<lambda>_ s'. I (st_mint s')) s"
    and "\<And>e. \<not> IsNotFound e \<Longrightarrow> keeps (disciplined R m0) I (k (Err e))"
    and "\<And>x. keeps (disciplined R m0) I (k (Ok x))"
  shows "keeps (disciplined R m0) I (bindA (tryA (getSecret R ns n)) k)"
proof (rule keepsI, rule wp_bind, rule wp_try)
  fix s :: st assume I: "I (st_mint s)"
  let ?s = "s\<lparr> st_trace := st_trace s @ [GetSecret ns n] \<rparr>"
  have "caught (andThen (disciplined R m0) k (\<lambda>_ s'. I (st_mint s'))) (cl_getSecret (r_Client R) (st_trace s) ns n) ?s"
  proof (cases "cl_getSecret (r_Client R) (st_trace s) ns n")
    case (Err e)
    show ?thesis
    proof (cases "IsNotFound e")
      case True
      then have "foundAbsent R (st_trace ?s) ns n" using Err by (simp add: foundAbsent_def)
      with absent [OF True, of ?s] I Err show ?thesis by simp
    qed (use keepsD [OF assms(3), where s = ?s] I Err in simp)
  qed (use keepsD [OF assms(4), where s = ?s] I in simp_all)
  then show "wp (disciplined R m0) (getSecret R ns n) (caught (andThen (disciplined R m0) k (\<lambda>_ s'. I (st_mint s')))) s"
    using assms(1) by (simp add: getSecret_def)
qed

lemma wp_generate:
  assumes "I (st_mint s)"
    and "\<And>x. f (st_trace s) = Ok x \<Longrightarrow> wp (disciplined R m0) (k x) (\<lambda>_ s'. I (st_mint s')) (s\<lparr> st_trace := st_trace s @ [ReadRandom] \<rparr>)"
  shows "wp (disciplined R m0) (bindA (wrapA p (call f ReadRandom)) k) (\<lambda>_ s'. I (st_mint s')) s"
  by (rule wp_bind, rule wp_wrap) (use assms in \<open>cases "f (st_trace s)"; simp\<close>)

lemma wp_create:
  assumes "I (st_mint s)" and "disciplined R m0 (st_trace s) (CreateSecret sec)"
    and "\<And>r. keeps (disciplined R m0) I (k r)"
  shows "wp (disciplined R m0) (bindA (tryA (createSecret R sec)) k) (\<lambda>_ s'. I (st_mint s')) s"
  by (rule wp_bind, rule wp_try)
    (use assms in \<open>cases "cl_createSecret (r_Client R) (st_trace s) sec"; simp add: createSecret_def keepsD\<close>)

lemma keeps_mnemonic:
  assumes own: "owner_references (x_SetControllerReference (r_Ext R))"
  shows "keeps (disciplined R m0) (sameMint m0) (reconcileOptionalMnemonic R)"
  unfolding reconcileOptionalMnemonic_def Let_def randomly_def
  by (rule keeps_bind_mint, rule keeps_if, rule keeps_basic, rule keeps_ifAbsent)
    (auto simp: sameMint_def managedSecrets_def
      intro!: keeps_rules wp_generate wp_create dest!: generated_secret_meta(1) [OF own] split: option.splits result.splits)

lemma keeps_tlsSecret:
  assumes own: "owner_references (x_SetControllerReference (r_Ext R))"
  shows "keeps (disciplined R m0) (sameMint m0) (reconcileManagementRPCTLSSecret R)"
  unfolding reconcileManagementRPCTLSSecret_def withCrypto_def
  by (rule keeps_bind_mint, rule keeps_if, rule keeps_basic, rule keeps_ifAbsent)
    (auto simp: sameMint_def managedSecrets_def
      intro!: keeps_rules wp_generate wp_create dest!: generated_secret_meta(3) [OF own] split: option.splits result.splits)

lemma keeps_postgresSecret:
  assumes own: "owner_references (x_SetControllerReference (r_Ext R))"
  shows "keeps (disciplined R m0) (sameMint m0) (ensurePostgresSecret R)"
  unfolding ensurePostgresSecret_def randomly_def
  by (rule keeps_bind_mint, rule keeps_ifAbsent)
    (auto simp: sameMint_def managedSecrets_def postgresSecretName_def
      intro!: keeps_rules wp_generate wp_create dest!: generated_secret_meta(2) [OF own] split: option.splits result.splits)

subsection \<open>Every function keeps the discipline\<close>

text \<open>An object that a generator made for a mint with the same metadata may be applied; the Deployment
  needs the ConfigMap first.\<close>

lemma generated_allowed:
  assumes "owner_references (x_SetControllerReference (r_Ext R))" and m: "cm_Meta m = cm_Meta m0"
  shows "GenerateService (r_Ext R) m = Ok (Some svc) \<Longrightarrow> disciplined R m0 h (Apply (OService svc))"
    and "GenerateOrchardService (r_Ext R) m = Ok (Some svc) \<Longrightarrow> disciplined R m0 h (Apply (OService svc))"
    and "GeneratePostgresService (r_Ext R) m = Ok (Some svc) \<Longrightarrow> disciplined R m0 h (Apply (OService svc))"
    and "GenerateIngress (r_Ext R) m = Ok (Some ing) \<Longrightarrow> disciplined R m0 h (Apply (OIngress ing))"
    and "GenerateOrchardIngress (r_Ext R) m = Ok (Some ing) \<Longrightarrow> disciplined R m0 h (Apply (OIngress ing))"
    and "GenerateCertificate (r_Ext R) m = Ok (Some crt) \<Longrightarrow> disciplined R m0 h (Apply (OCertificate crt))"
    and "GenerateOrchardCertificate (r_Ext R) m = Ok (Some crt) \<Longrightarrow> disciplined R m0 h (Apply (OCertificate crt))"
    and "GeneratePodMonitor (r_Ext R) m = Ok (Some pm) \<Longrightarrow> disciplined R m0 h (Apply (OPodMonitor pm))"
    and "GeneratePVC (r_Ext R) m = Ok (Some pvc) \<Longrightarrow> disciplined R m0 h (Apply (OPVC pvc))"
    and "GenerateOrchardPVC (r_Ext R) m = Ok (Some pvc) \<Longrightarrow> disciplined R m0 h (Apply (OPVC pvc))"
    and "GenerateConfigMap (r_Ext R) m pw = Ok (Some cfg) \<Longrightarrow> disciplined R m0 h (Apply (OConfigMap cfg))"
    and "GeneratePostgresStatefulSet (r_Ext R) m = Ok (Some sts) \<Longrightarrow> disciplined R m0 h (Apply (OStatefulSet sts))"
    and "GeneratePostgresBackupCronJob (r_Ext R) m = Ok (Some cj) \<Longrightarrow> disciplined R m0 h (Apply (OCronJob cj))"
    and "GeneratePostgresRestoreJob (r_Ext R) m = Ok (Some job) \<Longrightarrow> disciplined R m0 h (Apply (OJob job))"
  using generated_placed [OF assms(1), of m] placed_cong [OF m] by simp_all

lemma sameMintD: "sameMint m0 m \<Longrightarrow> cm_Meta m = cm_Meta m0"
  by (simp add: sameMint_def)

lemmas generated_keeps = generated_allowed [OF _ sameMintD]

lemma keeps_transition: "keeps (disciplined R m0) (sameMint m0) (transitionReconciliationPhase R)"
  unfolding transitionReconciliationPhase_def by (intro keeps_rules)

lemma keeps_postgreSQL:
  assumes own: "owner_references (x_SetControllerReference (r_Ext R))"
  shows "keeps (disciplined R m0) (sameMint m0) (reconcileOptionalPostgreSQL R)"
  unfolding reconcileOptionalPostgreSQL_def reconcilePostgreSQL_def postgresCondition_def
  by (rule keeps_bind_mint keeps_bind_lift keeps_generateApply keeps_apply keeps_rules keeps_postgresSecret [OF own]
      | blast intro: generated_keeps [OF own])+

lemma keeps_backup:
  assumes own: "owner_references (x_SetControllerReference (r_Ext R))"
  shows "keeps (disciplined R m0) (sameMint m0) (reconcileOptionalBackup R)"
  unfolding reconcileOptionalBackup_def reconcileBackup_def backupCondition_def
  by (rule keeps_bind_mint keeps_bind_lift keeps_apply keeps_rules | blast intro: generated_keeps [OF own])+

lemma keeps_gets [keeps_rules]:
  "ns = mintNamespace m0 \<Longrightarrow> keeps (disciplined R m0) I (getSecret R ns n)"
  "ns = mintNamespace m0 \<Longrightarrow> n = mintName m0 \<Longrightarrow> keeps (disciplined R m0) I (getDeployment R ns n)"
  "ns = mintNamespace m0 \<Longrightarrow> n = mintName m0 \<Longrightarrow> \<not> prometheusEnabled m0 \<Longrightarrow> keeps (disciplined R m0) I (deletePodMonitor R ns n)"
  unfolding op_defs by (rule keeps_call; simp)+

text \<open>The configuration is rendered from a copy of the mint with the same metadata.\<close>

lemma keeps_resolve: "ns = mintNamespace m0 \<Longrightarrow> keeps (disciplined R m0) I (resolveRequiredSecretValue R ns ref field)"
  unfolding resolveRequiredSecretValue_def by (intro keeps_rules)

lemma yields_config:
  "cm_Meta m = cm_Meta m0 \<Longrightarrow> yields (disciplined R m0) I (\<lambda>(_, m'). cm_Meta m' = cm_Meta m0) (configDatabase R m)"
  "cm_Meta m = cm_Meta m0 \<Longrightarrow> yields (disciplined R m0) I (\<lambda>m'. cm_Meta m' = cm_Meta m0) (configAuth R m)"
  unfolding configDatabase_def configAuth_def Let_def
  by (auto simp: setDatabaseURL_def setAuthURL_def split: option.split
      intro!: yields_ret yields_bind keeps_wrap keeps_gets keeps_resolve)

lemma keeps_configMap:
  assumes own: "owner_references (x_SetControllerReference (r_Ext R))"
  shows "keeps (disciplined R m0) (sameMint m0) (reconcileConfigMap R)"
  unfolding reconcileConfigMap_def
  by (rule keeps_bind_mint, rule keeps_bind_yields, rule yields_config(1), erule sameMintD, clarsimp,
      rule keeps_bind_yields, erule yields_config(2), rule keeps_seq, rule keeps_generateApply,
      erule (1) generated_allowed(11) [OF own], rule keeps_status)

text \<open>The Deployment is rendered after the ConfigMap has been read, with its hash.\<close>

lemma deployment_hash: "GenerateDeployment X m hash = Ok (Some d) \<Longrightarrow> pt_Annotations (dep_Template d) ''config-hash'' = Some hash"
  by (auto simp: GenerateDeployment_def deploymentObject_def)

lemma keeps_deployment:
  assumes own: "owner_references (x_SetControllerReference (r_Ext R))"
  shows "keeps (disciplined R m0) (sameMint m0) (reconcileDeployment R)"
  unfolding reconcileDeployment_def
proof (rule keeps_bind_mint, rule keepsI, rule wp_bind, rule wp_wrap)
  fix m and s :: st
  assume m: "sameMint m0 m" and s: "sameMint m0 (st_mint s)"
  let ?ns = "mintNamespace m" and ?n = "mintName m @ ''-config''"
  let ?s = "s\<lparr> st_trace := st_trace s @ [GetConfigMap ?ns ?n] \<rparr>"
  have m0: "?ns = mintNamespace m0" "?n = mintName m0 @ ''-config''" using m by (simp_all add: sameMint_def)
  have "wp (disciplined R m0) (generateApply R ''Deployment'' ODeployment (GenerateDeployment (r_Ext R) m (calculateConfigHash cm)))
      (\<lambda>_ s'. sameMint m0 (st_mint s')) ?s" if cm: "cl_getConfigMap (r_Client R) (st_trace s) ?ns ?n = Ok cm" for cm
  proof -
    have "disciplined R m0 (st_trace ?s) (Apply (ODeployment d))"
      if d: "GenerateDeployment (r_Ext R) m (calculateConfigHash cm) = Ok (Some d)" for d
      using generated_placed(12) [OF own d] sameMint_placed [OF m] deployment_hash [OF d] cm m0
      by (auto simp: rollsWith_def)
    then show ?thesis
      unfolding generateApply_def
      by (intro wp_bind wp_wrap) (cases "GenerateDeployment (r_Ext R) m (calculateConfigHash cm)";
        use s in \<open>auto simp: applyResource_def split: option.split intro!: wp_wrap\<close>)
  qed
  then show "wp (disciplined R m0) (getConfigMap R ?ns ?n) (\<lambda>r. andThen (disciplined R m0) (\<lambda>cm.
      generateApply R ''Deployment'' ODeployment (GenerateDeployment (r_Ext R) m (calculateConfigHash cm)))
      (\<lambda>_ s'. sameMint m0 (st_mint s')) (mapErr (Wrapf ''failed to get ConfigMap for hash calculation'') r)) s"
    using m0 s by (cases "cl_getConfigMap (r_Client R) (st_trace s) ?ns ?n") (simp_all add: getConfigMap_def)
qed

lemma keeps_network:
  assumes own: "owner_references (x_SetControllerReference (r_Ext R))"
  shows "keeps (disciplined R m0) (sameMint m0) (reconcilePVC R)"
    and "keeps (disciplined R m0) (sameMint m0) (reconcileService R)"
    and "keeps (disciplined R m0) (sameMint m0) (reconcileIngress R)"
    and "keeps (disciplined R m0) (sameMint m0) (reconcileCertificate R)"
  unfolding reconcilePVC_def reconcileService_def reconcileIngress_def reconcileCertificate_def
  by (rule keeps_bind_mint keeps_seq keeps_generateApply | blast intro: generated_keeps [OF own])+

lemma keeps_podMonitor:
  assumes own: "owner_references (x_SetControllerReference (r_Ext R))"
  shows "keeps (disciplined R m0) (sameMint m0) (reconcilePodMonitor R)"
  unfolding reconcilePodMonitor_def
  by (rule keeps_bind_mint keeps_bind_lift keeps_apply keeps_rules | blast intro: generated_keeps [OF own]
      | simp add: sameMint_def prometheusEnabled_def)+

lemma keeps_readiness: "keeps (disciplined R m0) (sameMint m0) (updateDeploymentReadiness R)"
  unfolding updateDeploymentReadiness_def
  by (rule keeps_bind_mint keeps_rules | simp add: sameMint_def)+

lemma keeps_reconcileResources:
  assumes own: "owner_references (x_SetControllerReference (r_Ext R))"
  shows "keeps (disciplined R m0) (sameMint m0) (reconcileResources R)"
  unfolding reconcileResources_def reconcileCoreResources_def reconcileOptionalIngressResources_def
  by (intro keeps_rules keeps_transition keeps_mnemonic [OF own] keeps_tlsSecret [OF own] keeps_postgreSQL [OF own]
      keeps_backup [OF own] keeps_configMap [OF own] keeps_deployment [OF own] keeps_network [OF own]
      keeps_podMonitor [OF own] keeps_readiness)

end
