(* ===== verification/ReconcileSafety.thy ===== *)
theory ReconcileSafety
  imports ControllerSafety
begin

section \<open>The writes of a reconciliation\<close>

text \<open>
  The discipline of \<^verbatim>\<open>Reconcile\<close> as a whole, for every cluster: which requests that write it may make, and
  when. \<open>lawful\<close> states it request by request; the properties read it off.
\<close>

subsection \<open>The states of the mint's life\<close>

definition deleting :: "CashuMint \<Rightarrow> bool" where
  "deleting m = (om_DeletionTimestamp (cm_Meta m) \<noteq> None)"

definition guarded :: "CashuMintReconciler \<Rightarrow> CashuMint \<Rightarrow> bool" where
  "guarded R m = ml_ContainsFinalizer (r_Meta R) (cm_Meta m) cashuMintFinalizer"

definition serving :: "CashuMintReconciler \<Rightarrow> CashuMint \<Rightarrow> bool" where
  "serving R m = (\<not> deleting m \<and> guarded R m \<and> sta_Phase (cm_Status m) \<noteq> '''')"

text \<open>The password secret is gone: the history ends in a get that did not find it, or in its deletion,
  followed by the events of the clean-up.\<close>

definition cleanedUp :: "CashuMintReconciler \<Rightarrow> CashuMint \<Rightarrow> history \<Rightarrow> bool" where
  "cleanedUp R m h =
     (let ns = mintNamespace m; n = mintName m @ ''-postgres-secret''; deleted = Event ''Normal'' ''Deleted'' ''CashuMint cleanup completed'' in
      \<not> autoProvisioned m
      \<or> (\<exists>a e. h = a @ [GetSecret ns n, deleted] \<and> cl_getSecret (r_Client R) a ns n = Err e \<and> IsNotFound e)
      \<or> (\<exists>a sec ev. h = a @ [GetSecret ns n, DeleteSecret (om_Namespace (sec_Meta sec)) (om_Name (sec_Meta sec)), ev, deleted]
           \<and> cl_getSecret (r_Client R) a ns n = Ok sec
           \<and> (case cl_deleteSecret (r_Client R) (a @ [GetSecret ns n]) (om_Namespace (sec_Meta sec)) (om_Name (sec_Meta sec)) of
                Ok _ \<Rightarrow> True | Err e \<Rightarrow> IsNotFound e | Panic _ \<Rightarrow> False)))"

fun lawful :: "CashuMintReconciler \<Rightarrow> CashuMint \<Rightarrow> history \<Rightarrow> request \<Rightarrow> bool" where
  "lawful R m h (Apply x) = (serving R m \<and> disciplined R m h (Apply x))"
| "lawful R m h (CreateSecret s) = (serving R m \<and> disciplined R m h (CreateSecret s))"
| "lawful R m h (DeletePodMonitor ns n) = (serving R m \<and> disciplined R m h (DeletePodMonitor ns n))"
| "lawful R m h (DeleteSecret ns n) =
     (deleting m \<and> guarded R m \<and> autoProvisioned m
      \<and> (\<exists>a sec. h = a @ [GetSecret (mintNamespace m) (mintName m @ ''-postgres-secret'')]
           \<and> cl_getSecret (r_Client R) a (mintNamespace m) (mintName m @ ''-postgres-secret'') = Ok sec
           \<and> ns = om_Namespace (sec_Meta sec) \<and> n = om_Name (sec_Meta sec)))"
| "lawful R m h (UpdateMint m') =
     (if deleting m
      then guarded R m \<and> cleanedUp R m h \<and> m' = updMeta (\<lambda>x. ml_RemoveFinalizer (r_Meta R) x cashuMintFinalizer) m
      else \<not> guarded R m \<and> m' = updMeta (\<lambda>x. ml_AddFinalizer (r_Meta R) x cashuMintFinalizer) m)"
| "lawful R m h (UpdateStatus m') = (\<not> deleting m \<and> guarded R m)"
| "lawful R m h _ = True"

subsection \<open>The proof\<close>

lemma disciplined_lawful: "serving R m \<Longrightarrow> disciplined R m h q \<Longrightarrow> lawful R m h q"
  by (cases q) (auto simp: serving_def)

lemma wp_mono: "wp ok m Q s \<Longrightarrow> (\<And>h q. ok h q \<Longrightarrow> ok' h q) \<Longrightarrow> wp ok' m Q s"
  by (auto simp: wp_def elim!: steps_mono)

lemma keeps_mono: "keeps ok I m \<Longrightarrow> (\<And>h q. ok h q \<Longrightarrow> ok' h q) \<Longrightarrow> keeps ok' I m"
  by (blast intro: keepsI wp_mono dest: keepsD)

text \<open>Reading and reporting are always lawful.\<close>

lemma keeps_reads [keeps_rules]:
  "keeps (lawful R m0) I (getMint R ns n)" "keeps (lawful R m0) I (getDeployment R ns n)"
  "keeps (lawful R m0) I (getService R ns n)" "keeps (lawful R m0) I (getIngress R ns n)"
  "keeps (lawful R m0) I (getConfigMap R ns n)" "keeps (lawful R m0) I (event a b c)"
  unfolding op_defs by (rule keeps_call; simp)+

lemma keeps_statusUpdate: "\<not> deleting m0 \<Longrightarrow> guarded R m0 \<Longrightarrow> keeps (lawful R m0) I (statusUpdate R m)"
  unfolding statusUpdate_def by (rule keeps_call) simp

lemma keeps_handleError:
  "\<not> deleting m0 \<Longrightarrow> guarded R m0 \<Longrightarrow> keeps (lawful R m0) (sameMint m0) (handleError R e)"
  unfolding handleError_def by (intro keeps_rules keeps_statusUpdate)

lemma keeps_updateStatus:
  "\<not> deleting m0 \<Longrightarrow> guarded R m0 \<Longrightarrow> keeps (lawful R m0) (sameMint m0) (updateStatus R)"
  unfolding updateStatus_def observeIngressOpt_def Let_def by (intro keeps_rules keeps_statusUpdate)

lemma wp_serving:
  assumes own: "owner_references (x_SetControllerReference (r_Ext R))" and "serving R (st_mint s)"
  shows "wp (lawful R (st_mint s)) (reconcileMint R) (\<lambda>_ _. True) s"
proof -
  let ?m = "st_mint s"
  have live: "\<not> deleting ?m" "guarded R ?m" "sta_Phase (cm_Status ?m) \<noteq> ''''" using assms(2) by (auto simp: serving_def)
  have "keeps (lawful R ?m) (sameMint ?m) (reconcileResources R)"
    by (rule keeps_mono [OF keeps_reconcileResources [OF own]]) (rule disciplined_lawful [OF assms(2)])
  then have "keeps (lawful R ?m) (sameMint ?m)
      (bindA (tryA (reconcileResources R)) (\<lambda>r. case r of
         Err e \<Rightarrow> handleError R e
       | Ok result \<Rightarrow> seqA (updateStatus R) (ret result)
       | Panic p \<Rightarrow> liftR (Panic p)))"
    by (intro keeps_rules keeps_handleError keeps_updateStatus live(1,2))
  from keepsD [OF this, of s] live show ?thesis
    unfolding reconcileMint_def
    by (intro wp_bind) (auto simp: deleting_def guarded_def elim: wp_conseq)
qed

lemma wp_starting:
  assumes "\<not> deleting (st_mint s)" and "\<not> serving R (st_mint s)"
  shows "wp (lawful R (st_mint s)) (reconcileMint R) (\<lambda>_ _. True) s"
  unfolding reconcileMint_def
  by (intro wp_bind) (use assms in \<open>auto simp: serving_def deleting_def guarded_def op_defs andThen_def updMeta_def
      intro!: wp_bind wp_seq split: result.splits\<close>)

lemma wp_cleanup:
  assumes "deleting (st_mint s)" and "guarded R (st_mint s)"
  shows "wp (lawful R (st_mint s)) (cleanupPostgresSecret R)
    (\<lambda>r s'. st_mint s' = st_mint s \<and>
       (\<forall>u. r = Ok u \<longrightarrow> cleanedUp R (st_mint s) (st_trace s' @ [Event ''Normal'' ''Deleted'' ''CashuMint cleanup completed'']))) s"
proof -
  let ?ns = "mintNamespace (st_mint s)" and ?n = "mintName (st_mint s) @ ''-postgres-secret''"
  let ?h = "st_trace s @ [GetSecret ?ns ?n]"
  note defs = cleanupPostgresSecret_def op_defs Let_def
  show ?thesis
  proof (cases "autoProvisioned (st_mint s)")
    case auto: True
    show ?thesis
    proof (cases "cl_getSecret (r_Client R) (st_trace s) ?ns ?n")
      case (Ok sec)
      with auto assms show ?thesis
        by (cases "cl_deleteSecret (r_Client R) ?h (om_Namespace (sec_Meta sec)) (om_Name (sec_Meta sec))")
          (auto simp: defs cleanedUp_def intro!: wp_bind wp_try wp_seq)
    qed (use auto in \<open>auto simp: defs cleanedUp_def intro!: wp_bind wp_try\<close>)
  qed (simp add: defs cleanedUp_def wp_bind)
qed

lemma wp_deleting:
  assumes "deleting (st_mint s)"
  shows "wp (lawful R (st_mint s)) (reconcileMint R) (\<lambda>_ _. True) s"
proof (cases "guarded R (st_mint s)")
  case True
  have "wp (lawful R (st_mint s)) (handleDeletion R) (\<lambda>_ _. True) s"
    unfolding handleDeletion_def
  proof (rule wp_bind, use True in \<open>simp add: guarded_def\<close>, rule wp_seq, rule wp_conseq, rule wp_cleanup [OF assms True])
    fix r and s' :: st
    assume "st_mint s' = st_mint s \<and> (\<forall>u. r = Ok u \<longrightarrow>
      cleanedUp R (st_mint s) (st_trace s' @ [Event ''Normal'' ''Deleted'' ''CashuMint cleanup completed'']))"
    then show "andThen (lawful R (st_mint s)) (\<lambda>_. seqA (event ''Normal'' ''Deleted'' ''CashuMint cleanup completed'')
       (seqA (setMint (updMeta (\<lambda>x. ml_RemoveFinalizer (r_Meta R) x cashuMintFinalizer)))
         (bindA theMint (\<lambda>m'. bindA (updateMint R m') (\<lambda>_. ret noRequeue))))) (\<lambda>_ _. True) r s'"
      using assms True
      by (cases r) (auto simp: op_defs andThen_def intro!: wp_bind wp_seq split: result.split)
  qed
  with assms show ?thesis unfolding reconcileMint_def by (intro wp_bind) (simp add: deleting_def)
qed (use assms in \<open>auto simp: reconcileMint_def handleDeletion_def deleting_def guarded_def intro!: wp_bind\<close>)

theorem reconcile_lawful:
  assumes "owner_references (x_SetControllerReference (r_Ext R))" and "cl_getMint (r_Client R) h ns name = Ok m"
  shows "steps (lawful R m) (h @ [GetMint ns name]) (snd (Reconcile R ns name h))"
proof -
  let ?s = "\<lparr> st_trace = h @ [GetMint ns name], st_mint = m \<rparr>"
  have "wp (lawful R m) (reconcileMint R) (\<lambda>_ _. True) ?s"
    using wp_serving [OF assms(1), of ?s] wp_starting [of ?s R] wp_deleting [of ?s R] by auto
  then show ?thesis
    using assms(2) by (auto simp: wp_def Reconcile_def Let_def split: prod.splits)
qed

text \<open>Every request of a reconciliation after the first, with the history it was made in.\<close>

lemma reconcile_request:
  assumes "owner_references (x_SetControllerReference (r_Ext R))" and "snd (Reconcile R ns name h) = h @ GetMint ns name # a @ q # b"
  shows "\<exists>m. cl_getMint (r_Client R) h ns name = Ok m \<and> lawful R m (h @ GetMint ns name # a) q"
proof (cases "cl_getMint (r_Client R) h ns name")
  case (Ok m)
  then show ?thesis
    using stepsD [of "lawful R m" "h @ [GetMint ns name]" a q b] reconcile_lawful [OF assms(1) Ok] assms(2) by simp
qed (use assms(2) in \<open>auto simp: Reconcile_def Let_def split: if_splits\<close>)

subsection \<open>Requests just made\<close>

lemma last_requests:
  assumes "q \<noteq> GetMint ns name"
  shows "(h @ GetMint ns name # a = b @ [q]) = (\<exists>a'. a = a' @ [q] \<and> b = h @ GetMint ns name # a')"
  by (cases a rule: rev_cases) (use assms in auto)

lemma foundAbsent_here:
  "foundAbsent R (h @ GetMint ns name # a) ns' n \<longleftrightarrow>
     (\<exists>a' e. a = a' @ [GetSecret ns' n] \<and> cl_getSecret (r_Client R) (h @ GetMint ns name # a') ns' n = Err e \<and> IsNotFound e)"
  by (auto simp: foundAbsent_def last_requests)

subsection \<open>Sample runs\<close>

text \<open>A first reconciliation that may write nothing, and one that may write the ConfigMap only.\<close>

definition mnemonicRun :: CashuMintReconciler where
  "mnemonicRun = sampleReconciler (sampleClient (inPhase MintPhasePending sampleMinimal) None (\<lambda>_. False))"

definition configRun :: CashuMintReconciler where
  "configRun = (let m = inPhase MintPhasePending sampleExternal in
     sampleReconciler (sampleClient m (Some (sampleConfigMap m ''''))
       (\<lambda>q. case q of Apply (OConfigMap _) \<Rightarrow> True | _ \<Rightarrow> False)))"

text \<open>The last reconciliation of a mint whose password secret is gone already.\<close>

definition deletionRun :: CashuMintReconciler where
  "deletionRun = sampleReconciler (sampleClient (marked (inPhase MintPhaseReady sampleLND)) None (\<lambda>_. True))"

lemma mnemonicRun_history:
  "\<exists>s b. snd (Reconcile mnemonicRun ''default'' ''cashumint-minimal'' []) =
     [] @ GetMint ''default'' ''cashumint-minimal''
       # [Event ''Normal'' ''Provisioning'' ''Starting resource provisioning'',
          GetSecret ''default'' ''cashumint-minimal-mnemonic'', ReadRandom] @ CreateSecret s # b"
  by (simp add: mnemonicRun_def sample_run_defs MnemonicSecretName_def MnemonicSecretKeySuffix_def)

lemma configRun_history:
  "\<exists>c d b. snd (Reconcile configRun ''default'' ''cashumint-lnd'' []) =
     [] @ GetMint ''default'' ''cashumint-lnd''
       # [Event ''Normal'' ''Provisioning'' ''Starting resource provisioning'', Apply (OConfigMap c),
          GetConfigMap ''default'' ''cashumint-lnd-config''] @ Apply (ODeployment d) # b"
  by (simp add: configRun_def sample_run_defs)

lemma deletionRun_history:
  "\<exists>m'. snd (Reconcile deletionRun ''default'' ''cashumint-lnd'' []) =
     [] @ GetMint ''default'' ''cashumint-lnd''
       # [GetSecret ''default'' ''cashumint-lnd-postgres-secret'', Event ''Normal'' ''Deleted'' ''CashuMint cleanup completed'']
       @ UpdateMint m' # []"
  by (simp add: deletionRun_def sample_run_defs handleDeletion_def cleanupPostgresSecret_def)

subsection \<open>The properties\<close>

text \<open>
  C2: a secret is never overwritten. Whatever the cluster answers, the reconciler applies no
  secret, creates one only right after the server answered that this very secret does not exist
  (with nothing but the drawing of random bytes in between), and deletes one only for a mint that
  is being deleted and has a provisioned database.
\<close>

theorem secrets_created_once:
  assumes "owner_references (x_SetControllerReference (r_Ext R))"
    and "snd (Reconcile R ns name h) = h @ GetMint ns name # a @ q # b"
  shows "case q of
      Apply x \<Rightarrow> \<forall>s. x \<noteq> OSecret s
    | CreateSecret s \<Rightarrow>
        (\<exists>a' e. a = a' @ [GetSecret (om_Namespace (sec_Meta s)) (om_Name (sec_Meta s)), ReadRandom]
           \<and> cl_getSecret (r_Client R) (h @ GetMint ns name # a') (om_Namespace (sec_Meta s)) (om_Name (sec_Meta s)) = Err e
           \<and> IsNotFound e)
    | DeleteSecret _ _ \<Rightarrow>
        (\<exists>m. cl_getMint (r_Client R) h ns name = Ok m \<and> om_DeletionTimestamp (cm_Meta m) \<noteq> None \<and> autoProvisioned m)
    | _ \<Rightarrow> True"
proof -
  from reconcile_request [OF assms] obtain m where "cl_getMint (r_Client R) h ns name = Ok m"
    and "lawful R m (h @ GetMint ns name # a) q" by blast
  then show ?thesis
    by (cases q) (auto simp: last_requests foundAbsent_here deleting_def)
qed

theorem secrets_created_once_witness:
  "\<exists>s b. snd (Reconcile mnemonicRun ''default'' ''cashumint-minimal'' []) =
     [GetMint ''default'' ''cashumint-minimal'', Event ''Normal'' ''Provisioning'' ''Starting resource provisioning'',
      GetSecret ''default'' (om_Name (sec_Meta s)), ReadRandom, CreateSecret s] @ b"
proof -
  from mnemonicRun_history obtain s b where run: "snd (Reconcile mnemonicRun ''default'' ''cashumint-minimal'' []) =
     [] @ GetMint ''default'' ''cashumint-minimal''
       # [Event ''Normal'' ''Provisioning'' ''Starting resource provisioning'',
          GetSecret ''default'' ''cashumint-minimal-mnemonic'', ReadRandom] @ CreateSecret s # b" by blast
  have "owner_references (x_SetControllerReference (r_Ext mnemonicRun))" by (simp add: mnemonicRun_def)
  from secrets_created_once [OF this run] have "om_Name (sec_Meta s) = ''cashumint-minimal-mnemonic''" by auto
  with run show ?thesis by auto
qed

text \<open>
  C6: every object the reconciler applies belongs to the mint it reconciles: it is in the mint's
  namespace, has one of the names the operator derives from the mint's, and carries the mint as its
  controlling owner; and it is applied only while the mint is not being deleted, has the finalizer
  and has a phase.
\<close>

theorem applied_objects_belong_to_mint:
  assumes "owner_references (x_SetControllerReference (r_Ext R))"
    and "snd (Reconcile R ns name h) = h @ GetMint ns name # a @ Apply x # b"
  shows "\<exists>m. cl_getMint (r_Client R) h ns name = Ok m
    \<and> om_Namespace (objMeta x) = mintNamespace m \<and> om_Name (objMeta x) \<in> set (managedNames m) \<and> ownedBy m (objMeta x)
    \<and> om_DeletionTimestamp (cm_Meta m) = None \<and> ml_ContainsFinalizer (r_Meta R) (cm_Meta m) cashuMintFinalizer
    \<and> sta_Phase (cm_Status m) \<noteq> ''''"
  using reconcile_request [OF assms] by (auto simp: placed_def serving_def deleting_def guarded_def)

theorem applied_objects_belong_to_mint_witness:
  "\<exists>c a b. snd (Reconcile configRun ''default'' ''cashumint-lnd'' []) = GetMint ''default'' ''cashumint-lnd'' # a @ Apply (OConfigMap c) # b
     \<and> om_Namespace (cfg_Meta c) = ''default'' \<and> ownedBy (inPhase MintPhasePending sampleExternal) (cfg_Meta c)"
proof -
  from configRun_history obtain c b where run: "snd (Reconcile configRun ''default'' ''cashumint-lnd'' []) =
     [] @ GetMint ''default'' ''cashumint-lnd''
       # [Event ''Normal'' ''Provisioning'' ''Starting resource provisioning''] @ Apply (OConfigMap c) # b" by auto
  have "owner_references (x_SetControllerReference (r_Ext configRun))" by (simp add: configRun_def Let_def)
  from applied_objects_belong_to_mint [OF this run]
  have "om_Namespace (cfg_Meta c) = ''default'' \<and> ownedBy (inPhase MintPhasePending sampleExternal) (cfg_Meta c)"
    by (auto simp: configRun_def Let_def cluster_defs sample_defs sampleExternal_def newMeta_def updMeta_def setPhase_def
        updStatus_def split: if_splits)
  moreover from run have "snd (Reconcile configRun ''default'' ''cashumint-lnd'' []) = GetMint ''default'' ''cashumint-lnd''
      # [Event ''Normal'' ''Provisioning'' ''Starting resource provisioning''] @ Apply (OConfigMap c) # b" by simp
  ultimately show ?thesis by blast
qed

text \<open>
  C12: the pods roll with their configuration. A Deployment is applied only right after the mint's
  ConfigMap has been read, and its pod template is annotated with the SHA-256 of the \<^verbatim>\<open>config.toml\<close> in
  the answer, so that a change of the stored file changes the template.
\<close>

theorem deployment_rolls_with_config:
  assumes "owner_references (x_SetControllerReference (r_Ext R))"
    and "snd (Reconcile R ns name h) = h @ GetMint ns name # a @ Apply (ODeployment d) # b"
  shows "\<exists>m a' cm. cl_getMint (r_Client R) h ns name = Ok m
    \<and> a = a' @ [GetConfigMap (mintNamespace m) (mintName m @ ''-config'')]
    \<and> cl_getConfigMap (r_Client R) (h @ GetMint ns name # a') (mintNamespace m) (mintName m @ ''-config'') = Ok cm
    \<and> pt_Annotations (dep_Template d) ''config-hash'' = Some (calculateConfigHash cm)"
  using reconcile_request [OF assms] by (auto simp: rollsWith_def last_requests)

theorem deployment_rolls_with_config_witness:
  "\<exists>d a b cm. snd (Reconcile configRun ''default'' ''cashumint-lnd'' []) =
       GetMint ''default'' ''cashumint-lnd'' # a @ Apply (ODeployment d) # b
     \<and> pt_Annotations (dep_Template d) ''config-hash'' = Some (calculateConfigHash cm)"
proof -
  from configRun_history obtain c d b where run: "snd (Reconcile configRun ''default'' ''cashumint-lnd'' []) =
     [] @ GetMint ''default'' ''cashumint-lnd''
       # [Event ''Normal'' ''Provisioning'' ''Starting resource provisioning'', Apply (OConfigMap c),
          GetConfigMap ''default'' ''cashumint-lnd-config''] @ Apply (ODeployment d) # b" by blast
  have "owner_references (x_SetControllerReference (r_Ext configRun))" by (simp add: configRun_def Let_def)
  from deployment_rolls_with_config [OF this run] run show ?thesis by (metis append_Nil)
qed

text \<open>
  C10: the finalizer comes off last. The reconciler writes the mint object itself only to add its
  finalizer to a mint that lacks it, or, for a mint being deleted, to remove it; and it removes it
  only when the password secret of a provisioned database is gone: the preceding requests are a get
  that the server answered with not found, or the deletion of the secret it returned, which the
  server confirmed.
\<close>

theorem finalizer_removed_after_cleanup:
  assumes "owner_references (x_SetControllerReference (r_Ext R))"
    and "snd (Reconcile R ns name h) = h @ GetMint ns name # a @ UpdateMint m' # b"
  shows "\<exists>m. cl_getMint (r_Client R) h ns name = Ok m \<and>
    (if om_DeletionTimestamp (cm_Meta m) = None
     then \<not> ml_ContainsFinalizer (r_Meta R) (cm_Meta m) cashuMintFinalizer
        \<and> m' = updMeta (\<lambda>x. ml_AddFinalizer (r_Meta R) x cashuMintFinalizer) m
     else m' = updMeta (\<lambda>x. ml_RemoveFinalizer (r_Meta R) x cashuMintFinalizer) m
        \<and> cleanedUp R m (h @ GetMint ns name # a))"
  using reconcile_request [OF assms] by (auto simp: deleting_def guarded_def)

theorem finalizer_removed_after_cleanup_witness:
  "\<exists>m' a. snd (Reconcile deletionRun ''default'' ''cashumint-lnd'' []) = GetMint ''default'' ''cashumint-lnd'' # a @ [UpdateMint m']
     \<and> om_Finalizers (cm_Meta m') = []"
proof -
  from deletionRun_history obtain m' where run: "snd (Reconcile deletionRun ''default'' ''cashumint-lnd'' []) =
     [] @ GetMint ''default'' ''cashumint-lnd''
       # [GetSecret ''default'' ''cashumint-lnd-postgres-secret'', Event ''Normal'' ''Deleted'' ''CashuMint cleanup completed'']
       @ UpdateMint m' # []" by blast
  have "owner_references (x_SetControllerReference (r_Ext deletionRun))" by (simp add: deletionRun_def)
  from finalizer_removed_after_cleanup [OF this run] have "om_Finalizers (cm_Meta m') = []"
    by (auto simp: deletionRun_def cluster_defs sample_defs newMeta_def updMeta_def setPhase_def updStatus_def split: if_splits)
  moreover from run have "snd (Reconcile deletionRun ''default'' ''cashumint-lnd'' []) = GetMint ''default'' ''cashumint-lnd''
      # [GetSecret ''default'' ''cashumint-lnd-postgres-secret'', Event ''Normal'' ''Deleted'' ''CashuMint cleanup completed'']
       @ [UpdateMint m']" by simp
  ultimately show ?thesis by blast
qed

end
