(* ===== verification/RunCalculus.thy ===== *)
theory RunCalculus
  imports SampleCluster
begin

section \<open>Executing reconciliations\<close>

text \<open>
  Rules that execute an action step by step on a known state, for the runs that the witnesses
  exhibit, and the complete run of a mint whose Deployment is ready.
\<close>

subsection \<open>Step-by-step execution\<close>

lemma bindA_run:
  "m s = (Ok x, s') \<Longrightarrow> bindA m k s = k x s'"
  "m s = (Err e, s') \<Longrightarrow> bindA m k s = (Err e, s')"
  "m s = (Panic p, s') \<Longrightarrow> bindA m k s = (Panic p, s')"
  by (simp_all add: bindA_def)

lemma seqA_run:
  "m s = (Ok x, s') \<Longrightarrow> seqA m k' s = k' s'"
  "m s = (Err e, s') \<Longrightarrow> seqA m k' s = (Err e, s')"
  "m s = (Panic p, s') \<Longrightarrow> seqA m k' s = (Panic p, s')"
  by (simp_all add: seqA_def bindA_def)

lemma tryA_run:
  "m s = (Ok x, s') \<Longrightarrow> tryA m s = (Ok (Ok x), s')"
  "m s = (Err e, s') \<Longrightarrow> tryA m s = (Ok (Err e), s')"
  "m s = (Panic p, s') \<Longrightarrow> tryA m s = (Panic p, s')"
  by (simp_all add: tryA_def)

lemma wrapA_run:
  "m s = (r, s') \<Longrightarrow> wrapA t m s = (mapErr (Wrapf t) r, s')"
  by (simp_all add: wrapA_def)

lemma leaf_run:
  "ret x s = (Ok x, s)" "fail e s' = (Err e, s')" "liftR r s'' = (r, s'')" "theMint s = (Ok (st_mint s), s)"
  "setMint f s = (Ok (), s\<lparr> st_mint := f (st_mint s) \<rparr>)"
  "call g q s = (g (st_trace s), s\<lparr> st_trace := st_trace s @ [q] \<rparr>)"
  "event a b c s = (Ok (), s\<lparr> st_trace := st_trace s @ [Event a b c] \<rparr>)"
  "whenA True m = m" "whenA False m = ret ()"
  by (simp_all add: ret_def fail_def liftR_def theMint_def setMint_def call_def event_def whenA_def)

lemmas run_rules = bindA_run seqA_run tryA_run wrapA_run leaf_run

subsection \<open>What the status functions leave alone\<close>

lemma mint_upd [simp]: 
 "cm_Spec (setPhase p m) = cm_Spec m" "cm_Meta (setPhase p m) = cm_Meta m" 
 "cm_Spec (setCondition R a b c d m) = cm_Spec m" "cm_Meta (setCondition R a b c d m) = cm_Meta m" 
 "sta_Phase (cm_Status (setPhase p m)) = p" "sta_Phase (cm_Status (setCondition R a b c d m)) = sta_Phase (cm_Status m)"
 "sta_ObservedGeneration (cm_Status (setPhase p m)) = sta_ObservedGeneration (cm_Status m)" "sta_ObservedGeneration (cm_Status (setCondition R a b c d m)) = sta_ObservedGeneration (cm_Status m)"
  by (simp_all add: setPhase_def setCondition_def updStatus_def)

lemma observed_upd [simp]:
  "cm_Spec (observeDeployment d m) = cm_Spec m" "cm_Meta (observeDeployment d m) = cm_Meta m"
  "cm_Spec (observeService sv m) = cm_Spec m" "cm_Meta (observeService sv m) = cm_Meta m"
  "cm_Spec (observeConfigMap c m) = cm_Spec m" "cm_Meta (observeConfigMap c m) = cm_Meta m"
  "cm_Spec (observeIngress R i r m) = cm_Spec m" "cm_Meta (observeIngress R i r m) = cm_Meta m"
  by (simp_all add: observeDeployment_def observeService_def observeIngress_def observeConfigMap_def setCondition_def
      updStatus_def Let_def split: result.split)

lemma phase_observed [simp]:
  "sta_Phase (cm_Status (observeDeployment d m)) = sta_Phase (cm_Status m)"
  "sta_Phase (cm_Status (observeService sv m)) = sta_Phase (cm_Status m)"
  "sta_Phase (cm_Status (observeIngress R i r m)) = sta_Phase (cm_Status m)"
  "sta_Phase (cm_Status (observeConfigMap c m)) = sta_Phase (cm_Status m)"
  by (simp_all add: observeDeployment_def observeService_def observeIngress_def observeConfigMap_def setCondition_def
      updStatus_def Let_def split: result.split)

subsection \<open>A complete run\<close>

text \<open>The external-database sample without an ingress, in a cluster that accepts every write and where the
  mint's Deployment is ready.\<close>

definition headless :: CashuMint where
  "headless = (let m = inPhase MintPhasePending sampleExternal in m\<lparr> cm_Spec := (cm_Spec m)\<lparr> cms_Ingress := None \<rparr> \<rparr>)"

definition readyDeployment :: "CashuMint \<Rightarrow> Deployment" where
  "readyDeployment m = (sampleDeployment m '''')\<lparr> dep_Replicas := Some 1,
     dep_Status := \<lparr> ds_Replicas = 1, ds_UpdatedReplicas = 1, ds_ReadyReplicas = 1, ds_AvailableReplicas = 1 \<rparr> \<rparr>"

definition readyRun :: CashuMintReconciler where
  "readyRun = sampleReconciler ((sampleClient headless (Some (sampleConfigMap headless '''')) (\<lambda>_. True))
     \<lparr> cl_getDeployment := \<lambda>_ _ _. Ok (readyDeployment headless) \<rparr>)"

lemma headless_simps: 
  "mintName headless = ''cashumint-lnd''" "mintNamespace headless = ''default''" "om_DeletionTimestamp (cm_Meta headless) = None"
  "om_Finalizers (cm_Meta headless) = [cashuMintFinalizer]" "om_Generation (cm_Meta headless) = 0"
  "sta_Phase (cm_Status headless) = MintPhasePending" "sta_ObservedGeneration (cm_Status headless) = 0"
  "cms_Ingress (cm_Spec headless) = None" "cms_Orchard (cm_Spec headless) = None" "cms_Backup (cm_Spec headless) = None"
  "cms_Auth (cm_Spec headless) = None" "cms_ManagementRPC (cm_Spec headless) = None" "cms_Prometheus (cm_Spec headless) = None"
  "mi_AutoGenerateMnemonic (cms_MintInfo (cm_Spec headless)) = False"
  "db_Engine (cms_Database (cm_Spec headless)) = ''postgres''"
  "db_Postgres (cms_Database (cm_Spec headless)) = Some (zeroPostgres\<lparr> pg_URL := ''postgresql://cdk@db.example.com/cdk'' \<rparr>)"
  by (simp_all add: headless_def Let_def inPhase_def sampleExternal_def sample_defs updMeta_def setPhase_def updStatus_def newMeta_def)

lemma readyRun_simps:
  "cl_getMint (r_Client readyRun) h ''default'' ''cashumint-lnd'' = Ok headless"
  "cl_getDeployment (r_Client readyRun) h ns n = Ok (readyDeployment headless)"
  "cl_getConfigMap (r_Client readyRun) h ns n = Ok (sampleConfigMap headless '''')"
  "cl_getService (r_Client readyRun) h ns n = missing n"
  "cl_deletePodMonitor (r_Client readyRun) h ns n = missing n"
  "cl_apply (r_Client readyRun) h x = Ok ()"
  "cl_updateStatus (r_Client readyRun) h m = Ok m"
  "r_Ext readyRun = sampleExt" "r_Meta readyRun = documentedMeta"
  by (simp_all add: readyRun_def sampleReconciler_def sampleClient_def answer_def headless_simps)

lemmas function_defs =
  Reconcile_def reconcileMint_def reconcileResources_def transitionReconciliationPhase_def reconcileOptionalMnemonic_def
  reconcileOptionalPostgreSQL_def reconcileOptionalBackup_def reconcileCoreResources_def
  reconcileManagementRPCTLSSecret_def reconcileConfigMap_def configDatabase_def configAuth_def authURLRef_def
  generateApply_def generateApplyOpt_def handleError_def reconcileDeployment_def reconcileService_def
  reconcilePodMonitor_def reconcileOptionalIngressResources_def updateDeploymentReadiness_def updateStatus_def
  observeIngressOpt_def reconcileResultForPhase_def Let_def
  getSecret_def getConfigMap_def getDeployment_def getService_def getIngress_def getMint_def updateMint_def
  statusUpdate_def createSecret_def deleteSecret_def deletePodMonitor_def applyResource_def applyStatefulSet_def
  randomly_def withCrypto_def

lemmas guard_defs =
  autoProvisioned_def needsPVCReconciliation_def needsIngressReconciliation_def ManagementRPCTLSEnabled_def
  GenerateOrchardService_def orchardEnabled_def prometheusEnabled_def isDeploymentReady_def zeroPostgres_def phase_defs

lemma readyRun_result:
  "\<exists>c d svc m'. Reconcile readyRun ''default'' ''cashumint-lnd'' [] =
     (Ok (requeueAfter ReconcileInterval), [] @ GetMint ''default'' ''cashumint-lnd''
       # [Event ''Normal'' ''Provisioning'' ''Starting resource provisioning'', Apply (OConfigMap c),
          GetConfigMap ''default'' ''cashumint-lnd-config'', Apply (ODeployment d), Apply (OService svc),
          DeletePodMonitor ''default'' ''cashumint-lnd'', GetDeployment ''default'' ''cashumint-lnd'',
          Event ''Normal'' ''Ready'' ''CashuMint is ready and operational'', GetMint ''default'' ''cashumint-lnd'',
          GetDeployment ''default'' ''cashumint-lnd'', GetService ''default'' ''cashumint-lnd'',
          GetConfigMap ''default'' ''cashumint-lnd-config''] @ UpdateStatus m' # [])
     \<and> sta_Phase (cm_Status m') = MintPhaseReady"
  by (simp add: updStatus_def headless_simps readyRun_simps run_rules function_defs guard_defs sample_generated
      readyDeployment_def missing_def documentedMeta_def)

end
