(* ===== verification/ReconcileStatus.thy ===== *)
theory ReconcileStatus
  imports ReconcileSafety RunCalculus
begin

section \<open>Results, errors and the reported status\<close>

text \<open>
  What \<^verbatim>\<open>Reconcile\<close> returns and what it reports: the classes of errors, the requeue intervals, and when
  the phase \<^verbatim>\<open>Ready\<close> is written. All of it holds for every behaviour of the API server.
\<close>

subsection \<open>What the functions do to the in-memory mint\<close>

text \<open>Between the fetch and the readiness check, the in-memory mint changes only by conditions and by the
  phases \<^verbatim>\<open>Provisioning\<close> and \<^verbatim>\<open>Updating\<close>.\<close>

fun quiet :: "history \<Rightarrow> request \<Rightarrow> bool" where
  "quiet h (UpdateStatus m) = False"
| "quiet h (UpdateMint m) = False"
| "quiet h q = True"

lemma keeps_quiet [keeps_rules]: "quiet [] q \<Longrightarrow> keeps quiet I (call f q)"
  by (rule keeps_call) (cases q; simp)

lemma quiet_requests [keeps_rules]:
  "quiet h (GetMint ns n)" "quiet h (GetSecret ns n)" "quiet h (GetConfigMap ns n)" "quiet h (GetDeployment ns n)"
  "quiet h (CreateSecret sec)" "quiet h (DeletePodMonitor ns n)" "quiet h (Apply x)" "quiet h ReadRandom" "quiet h (Event a b c)"
  by simp_all

lemma keeps_resources:
  assumes "\<And>m ty st re msg. I m \<Longrightarrow> I (setCondition R ty st re msg m)"
  shows "keeps quiet I (reconcileOptionalMnemonic R)"
    and "keeps quiet I (reconcileOptionalPostgreSQL R)"
    and "keeps quiet I (reconcileOptionalBackup R)"
    and "keeps quiet I (reconcileCoreResources R)"
    and "keeps quiet I (reconcileOptionalIngressResources R)"
proof -
  have set_condition: "keeps quiet I (setMint (setCondition R ty st re msg))" for ty st re msg
    by (rule keeps_set) (rule assms)
  note rules = keeps_rules set_condition
  note apply_defs = generateApply_def generateApplyOpt_def op_defs Let_def
  show "keeps quiet I (reconcileOptionalMnemonic R)"
    unfolding reconcileOptionalMnemonic_def apply_defs by (intro rules)
  show "keeps quiet I (reconcileOptionalPostgreSQL R)"
    unfolding reconcileOptionalPostgreSQL_def reconcilePostgreSQL_def ensurePostgresSecret_def postgresCondition_def apply_defs
    by (intro rules)
  show "keeps quiet I (reconcileOptionalBackup R)"
    unfolding reconcileOptionalBackup_def reconcileBackup_def backupCondition_def apply_defs by (intro rules)
  have "keeps quiet I (reconcileManagementRPCTLSSecret R)"
    unfolding reconcileManagementRPCTLSSecret_def apply_defs by (intro rules)
  moreover have "keeps quiet I (reconcileConfigMap R)"
    unfolding reconcileConfigMap_def configDatabase_def configAuth_def resolveRequiredSecretValue_def apply_defs
    by (auto intro!: rules split: prod.split)
  moreover have "keeps quiet I (reconcilePVC R)" "keeps quiet I (reconcileDeployment R)"
    "keeps quiet I (reconcileService R)" "keeps quiet I (reconcilePodMonitor R)"
    unfolding reconcilePVC_def reconcileDeployment_def reconcileService_def reconcilePodMonitor_def apply_defs
    by (intro rules)+
  ultimately show "keeps quiet I (reconcileCoreResources R)"
    unfolding reconcileCoreResources_def by (intro rules)
  show "keeps quiet I (reconcileOptionalIngressResources R)"
    unfolding reconcileOptionalIngressResources_def reconcileIngress_def reconcileCertificate_def apply_defs
    by (intro rules)
qed

subsection \<open>The phases\<close>

text \<open>The phase after the transition at the start of a reconciliation.\<close>

definition nextPhase :: "CashuMint \<Rightarrow> MintPhase" where
  "nextPhase m =
     (if sta_ObservedGeneration (cm_Status m) \<noteq> 0 \<and> sta_ObservedGeneration (cm_Status m) \<noteq> om_Generation (cm_Meta m)
      then MintPhaseUpdating
      else if sta_Phase (cm_Status m) = MintPhasePending then MintPhaseProvisioning
      else sta_Phase (cm_Status m))"

text \<open>After the history \<open>h0\<close>, the server has returned a Deployment of the mint that is ready.\<close>

definition seenReady :: "CashuMintReconciler \<Rightarrow> CashuMint \<Rightarrow> history \<Rightarrow> history \<Rightarrow> bool" where
  "seenReady R m h0 h =
     (\<exists>a b d. h = h0 @ a @ GetDeployment (mintNamespace m) (mintName m) # b
        \<and> cl_getDeployment (r_Client R) (h0 @ a) (mintNamespace m) (mintName m) = Ok d \<and> isDeploymentReady d)"

text \<open>The state machine of the phases: which phase may be written for the mint \<open>m\<close> fetched after \<open>h0\<close>, when the
  history is \<open>h\<close>.\<close>

inductive phaseStep :: "CashuMintReconciler \<Rightarrow> CashuMint \<Rightarrow> history \<Rightarrow> history \<Rightarrow> MintPhase \<Rightarrow> bool"
  for R :: CashuMintReconciler and m :: CashuMint and h0 h :: history where
  created: "sta_Phase (cm_Status m) = '''' \<Longrightarrow> phaseStep R m h0 h MintPhasePending"
| progress: "sta_Phase (cm_Status m) \<noteq> '''' \<Longrightarrow> phaseStep R m h0 h (nextPhase m)"
| ready: "sta_Phase (cm_Status m) \<noteq> '''' \<Longrightarrow> seenReady R m h0 h \<Longrightarrow> phaseStep R m h0 h MintPhaseReady"
| failed: "sta_Phase (cm_Status m) \<noteq> '''' \<Longrightarrow> phaseStep R m h0 h MintPhaseFailed"

inductive_cases phaseStepE: "phaseStep R m h0 h p"

definition truthful :: "CashuMintReconciler \<Rightarrow> CashuMint \<Rightarrow> history \<Rightarrow> history \<Rightarrow> CashuMint \<Rightarrow> bool" where
  "truthful R m h0 h m' = phaseStep R m h0 h (sta_Phase (cm_Status m'))"

lemma phaseStep_ready:
  assumes "phaseStep R m h0 h MintPhaseReady"
  shows "seenReady R m h0 h \<or> (sta_Phase (cm_Status m) = MintPhaseReady
    \<and> (sta_ObservedGeneration (cm_Status m) = 0 \<or> sta_ObservedGeneration (cm_Status m) = om_Generation (cm_Meta m)))"
  using assms by cases (auto simp: nextPhase_def phase_defs split: if_splits)

lemma seenReady_append: "seenReady R m h0 h \<Longrightarrow> seenReady R m h0 (h @ x)"
  unfolding seenReady_def by (elim exE conjE) (intro exI conjI, simp_all)

lemma phaseStep_append: "phaseStep R m h0 h p \<Longrightarrow> phaseStep R m h0 (h @ x) p"
  by (erule phaseStepE) (auto intro: phaseStep.intros seenReady_append)

lemma wp_grows: "wp ok m Q s \<Longrightarrow> wp ok m (\<lambda>r s'. Q r s' \<and> (\<exists>x. st_trace s' = st_trace s @ x)) s"
  by (auto simp: wp_def steps_def)

text \<open>Until the readiness check, the phase is that of the transition.\<close>

definition notYet :: "CashuMint \<Rightarrow> CashuMint \<Rightarrow> bool" where
  "notYet m m' = (cm_Meta m' = cm_Meta m \<and> sta_Phase (cm_Status m') = nextPhase m)"

lemma notYet_setCondition: "notYet m m' \<Longrightarrow> notYet m (setCondition R ty st re msg m')"
  by (simp add: notYet_def)

lemma wp_transition: "wp quiet (transitionReconciliationPhase R) (\<lambda>_ s'. notYet (st_mint s) (st_mint s')) s"
  unfolding transitionReconciliationPhase_def whenA_def event_def
  by (intro wp_bind) (auto simp: notYet_def nextPhase_def intro!: wp_bind wp_seq)

lemma wp_readiness:
  assumes "notYet m (st_mint s)" and "st_trace s = h0 @ x" and p: "sta_Phase (cm_Status m) \<noteq> ''''"
  shows "wp quiet (updateDeploymentReadiness R) (\<lambda>_ s'. truthful R m h0 (st_trace s') (st_mint s')) s"
proof -
  let ?ns = "mintNamespace m" and ?n = "mintName m"
  from assms(1) have m: "mintNamespace (st_mint s) = ?ns" "mintName (st_mint s) = ?n"
    "sta_Phase (cm_Status (st_mint s)) = nextPhase m" by (auto simp: notYet_def)
  have next_phase: "phaseStep R m h0 t q" if "q = nextPhase m" for t q using that progress [OF p] by simp
  note defs = updateDeploymentReadiness_def op_defs whenA_def truthful_def
  show ?thesis
  proof (cases "cl_getDeployment (r_Client R) (st_trace s) ?ns ?n")
    case (Ok d)
    have seen: "seenReady R m h0 (st_trace s @ GetDeployment ?ns ?n # b)" if "isDeploymentReady d" for b
      using Ok that assms(2) unfolding seenReady_def by (intro exI [of _ x] exI [of _ b] exI [of _ d]) simp
    show ?thesis using Ok m
      by (auto simp: defs intro!: wp_bind wp_try wp_seq) (auto simp: next_phase ready [OF p seen])
  qed (use m next_phase in \<open>auto simp: defs intro!: wp_bind wp_try\<close>)
qed

lemma wp_seq_keeps:
  assumes "keeps ok I m" and "I (st_mint s)"
    and "\<And>s' x. I (st_mint s') \<Longrightarrow> st_trace s' = st_trace s @ x \<Longrightarrow> wp ok k Q s'"
    and "\<And>r s'. I (st_mint s') \<Longrightarrow> (\<And>x. r \<noteq> Ok x) \<Longrightarrow> Q r s'"
  shows "wp ok (seqA m k) Q s"
  by (rule wp_seq, rule wp_conseq, rule wp_grows, rule keepsD [OF assms(1,2)])
    (auto simp: andThen_def assms(3,4) split: result.split)

definition reported :: "CashuMintReconciler \<Rightarrow> CashuMint \<Rightarrow> history \<Rightarrow> CtrlResult result \<Rightarrow> st \<Rightarrow> bool" where
  "reported R m h0 r s' =
     (truthful R m h0 (st_trace s') (st_mint s')
      \<and> (\<forall>x. r = Ok x \<longrightarrow> x = reconcileResultForPhase (sta_Phase (cm_Status (st_mint s')))))"

lemma reported_notYet:
  "sta_Phase (cm_Status m) \<noteq> '''' \<Longrightarrow> notYet m (st_mint s') \<Longrightarrow> (\<And>x. r \<noteq> Ok x) \<Longrightarrow> reported R m h0 r s'"
  by (simp add: reported_def truthful_def notYet_def progress)

lemma wp_reconcileResources:
  assumes p: "sta_Phase (cm_Status (st_mint s)) \<noteq> ''''"
  shows "wp quiet (reconcileResources R) (reported R (st_mint s) (st_trace s)) s"
  unfolding reconcileResources_def
proof (rule wp_seq, rule wp_conseq, rule wp_grows, rule wp_transition)
  fix r and s1 :: st
  let ?m = "st_mint s" and ?h = "st_trace s"
  note keep = keeps_resources [of "notYet ?m" R, OF notYet_setCondition]
  assume "notYet ?m (st_mint s1) \<and> (\<exists>x. st_trace s1 = ?h @ x)"
  then obtain x where s1: "notYet ?m (st_mint s1)" "st_trace s1 = ?h @ x" by blast
  have last: "wp quiet (seqA (updateDeploymentReadiness R)
      (bindA theMint (\<lambda>m. ret (reconcileResultForPhase (sta_Phase (cm_Status m)))))) (reported R ?m ?h) s'"
    if "notYet ?m (st_mint s')" "st_trace s' = ?h @ y" for s' y
    by (rule wp_seq, rule wp_conseq, rule wp_readiness [OF that p])
      (auto simp: andThen_def reported_def intro!: wp_bind split: result.split)
  show "andThen quiet (\<lambda>_. seqA (reconcileOptionalMnemonic R) (seqA (reconcileOptionalPostgreSQL R)
      (seqA (reconcileOptionalBackup R) (seqA (reconcileCoreResources R) (seqA (reconcileOptionalIngressResources R)
      (seqA (updateDeploymentReadiness R) (bindA theMint (\<lambda>m. ret (reconcileResultForPhase (sta_Phase (cm_Status m)))))))))))
      (reported R ?m ?h) r s1"
    using s1
    by (cases r) (auto simp: reported_notYet [OF p] intro!: wp_seq_keeps [OF keep(1)] wp_seq_keeps [OF keep(2)]
        wp_seq_keeps [OF keep(3)] wp_seq_keeps [OF keep(4)] wp_seq_keeps [OF keep(5)] last)
qed

text \<open>The requests that report a status, and the results that bring the mint back.\<close>

fun honest :: "CashuMintReconciler \<Rightarrow> CashuMint \<Rightarrow> history \<Rightarrow> history \<Rightarrow> request \<Rightarrow> bool" where
  "honest R m h0 h (UpdateStatus m') = truthful R m h0 h m'"
| "honest R m h0 h q = True"

definition comesBack :: "CtrlResult \<Rightarrow> bool" where
  "comesBack r = (cr_Requeue r \<or> (0 < cr_RequeueAfter r \<and> cr_RequeueAfter r \<le> ReconcileInterval))"

lemma quiet_honest: "quiet h q \<Longrightarrow> honest R m h0 h q"
  by (cases q) auto

lemmas interval_defs =
  comesBack_def requeueAfter_def requeueNow_def ReconcileInterval_def UpdateReconcileInterval_def NotReadyRetryInterval_def

lemma wp_handleError:
  assumes "sta_Phase (cm_Status m) \<noteq> ''''"
  shows "wp (honest R m h0) (handleError R e) (\<lambda>r _. \<forall>x. r = Ok x \<longrightarrow> comesBack x) s"
  unfolding handleError_def op_defs
  by (auto simp: interval_defs truthful_def caught_def failed [OF assms] intro!: wp_bind wp_seq wp_try split: result.split)

lemma wp_updateStatus:
  assumes "truthful R m h0 (st_trace s) (st_mint s)"
  shows "wp (honest R m h0) (updateStatus R) (\<lambda>_ _. True) s"
  using assms unfolding updateStatus_def observeIngressOpt_def op_defs Let_def
  by (auto simp: andThen_def caught_def truthful_def updStatus_def phaseStep_append intro!: wp_bind wp_wrap wp_try
      split: result.split option.split)

lemma resultForPhase_comesBack: "comesBack (reconcileResultForPhase p)"
  by (simp add: reconcileResultForPhase_def interval_defs)

lemma wp_reconcileMint_status:
  assumes "\<not> deleting (st_mint s)"
  shows "wp (honest R (st_mint s) (st_trace s)) (reconcileMint R) (\<lambda>r _. \<forall>x. r = Ok x \<longrightarrow> comesBack x) s"
proof (cases "serving R (st_mint s)")
  case True
  let ?ok = "honest R (st_mint s) (st_trace s)" and ?Q = "\<lambda>r (_::st). \<forall>x. r = Ok x \<longrightarrow> comesBack x"
  let ?k = "\<lambda>r. case r of Err e \<Rightarrow> handleError R e | Ok result \<Rightarrow> seqA (updateStatus R) (ret result) | Panic p \<Rightarrow> liftR (Panic p)"
  from True have p: "sta_Phase (cm_Status (st_mint s)) \<noteq> ''''" by (simp add: serving_def)
  have resources: "wp ?ok (reconcileResources R) (reported R (st_mint s) (st_trace s)) s"
    by (rule wp_mono [OF wp_reconcileResources [OF p]]) (rule quiet_honest)
  have "wp ?ok (bindA (tryA (reconcileResources R)) ?k) ?Q s"
  proof (rule wp_bind, rule wp_try, rule wp_conseq [OF resources])
    fix r s' assume "reported R (st_mint s) (st_trace s) r s'"
    then show "caught (andThen ?ok ?k ?Q) r s'"
      by (cases r) (auto simp: reported_def resultForPhase_comesBack andThen_def intro!: wp_handleError [OF p] wp_seq
          wp_conseq [OF wp_updateStatus] split: result.split)
  qed
  with True show ?thesis
    unfolding reconcileMint_def by (intro wp_bind) (simp add: serving_def deleting_def guarded_def)
next
  case False
  with assms show ?thesis
    unfolding reconcileMint_def op_defs
    by (auto simp: serving_def deleting_def guarded_def interval_defs truthful_def created andThen_def intro!: wp_bind wp_seq split: result.split)
qed

subsection \<open>The properties\<close>

text \<open>
  C7: the phase \<^verbatim>\<open>Ready\<close> is never reported on faith. For every behaviour of the server, a status with
  the phase \<^verbatim>\<open>Ready\<close> is written only if, during the same reconciliation, the server returned the mint's
  Deployment with all its replicas ready, updated and available, or if the fetched mint was \<^verbatim>\<open>Ready\<close>
  already and its specification has not changed since.
\<close>

theorem ready_only_when_deployment_ready:
  assumes "cl_getMint (r_Client R) h ns name = Ok m" and "om_DeletionTimestamp (cm_Meta m) = None"
    and "snd (Reconcile R ns name h) = h @ GetMint ns name # a @ UpdateStatus m' # b"
    and "sta_Phase (cm_Status m') = MintPhaseReady"
  shows "(\<exists>a' b' d. a = a' @ GetDeployment (mintNamespace m) (mintName m) # b'
       \<and> cl_getDeployment (r_Client R) (h @ GetMint ns name # a') (mintNamespace m) (mintName m) = Ok d
       \<and> isDeploymentReady d)
    \<or> (sta_Phase (cm_Status m) = MintPhaseReady
       \<and> (sta_ObservedGeneration (cm_Status m) = 0 \<or> sta_ObservedGeneration (cm_Status m) = om_Generation (cm_Meta m)))"
proof -
  let ?s = "\<lparr> st_trace = h @ [GetMint ns name], st_mint = m \<rparr>"
  have "wp (honest R m (h @ [GetMint ns name])) (reconcileMint R) (\<lambda>r _. \<forall>x. r = Ok x \<longrightarrow> comesBack x) ?s"
    using wp_reconcileMint_status [of ?s R] assms(2) by (simp add: deleting_def)
  then have "steps (honest R m (h @ [GetMint ns name])) (h @ [GetMint ns name]) ((h @ [GetMint ns name]) @ a @ UpdateStatus m' # b)"
    using assms(1,3) by (auto simp: wp_def Reconcile_def Let_def split: prod.splits)
  from stepsD [OF this] assms(4) have "phaseStep R m (h @ [GetMint ns name]) (h @ GetMint ns name # a) MintPhaseReady"
    by (simp add: truthful_def)
  from phaseStep_ready [OF this] show ?thesis by (auto simp: seenReady_def)
qed

theorem ready_only_when_deployment_ready_witness:
  "\<exists>a m' d. snd (Reconcile readyRun ''default'' ''cashumint-lnd'' []) = GetMint ''default'' ''cashumint-lnd'' # a @ [UpdateStatus m']
     \<and> sta_Phase (cm_Status m') = MintPhaseReady \<and> GetDeployment ''default'' ''cashumint-lnd'' \<in> set a
     \<and> isDeploymentReady d"
proof -
  from readyRun_result obtain a m' where run: "snd (Reconcile readyRun ''default'' ''cashumint-lnd'' []) =
      [] @ GetMint ''default'' ''cashumint-lnd'' # a @ UpdateStatus m' # []"
    and ready: "sta_Phase (cm_Status m') = MintPhaseReady"
    by (metis snd_conv)
  have fetched: "cl_getMint (r_Client readyRun) [] ''default'' ''cashumint-lnd'' = Ok headless"
    "om_DeletionTimestamp (cm_Meta headless) = None" by (simp_all add: readyRun_simps headless_simps)
  from ready_only_when_deployment_ready [OF fetched run ready]
  have "\<exists>d. GetDeployment ''default'' ''cashumint-lnd'' \<in> set a \<and> isDeploymentReady d"
    by (auto simp: headless_simps phase_defs)
  with run ready show ?thesis by auto
qed

text \<open>
  C21: a mint that is not being deleted is never dropped. When the reconciliation of an existing mint
  that is not marked for deletion returns without an error, it asks to be run again, at once or after a positive
  delay of at most five minutes; with an error the work queue retries. This holds whatever the
  server answers.
\<close>

theorem live_mint_comes_back:
  assumes "cl_getMint (r_Client R) h ns name = Ok m" and "om_DeletionTimestamp (cm_Meta m) = None"
    and "fst (Reconcile R ns name h) = Ok r"
  shows "cr_Requeue r \<or> (0 < cr_RequeueAfter r \<and> cr_RequeueAfter r \<le> 5 * 60 * 1000)"
  using wp_reconcileMint_status [of "\<lparr> st_trace = h @ [GetMint ns name], st_mint = m \<rparr>" R] assms
  by (auto simp: wp_def Reconcile_def Let_def deleting_def comesBack_def ReconcileInterval_def split: prod.splits)

theorem live_mint_comes_back_witness:
  "\<exists>r. fst (Reconcile readyRun ''default'' ''cashumint-lnd'' []) = Ok r \<and> cr_RequeueAfter r = 300000
     \<and> (cr_Requeue r \<or> (0 < cr_RequeueAfter r \<and> cr_RequeueAfter r \<le> 5 * 60 * 1000))"
proof -
  have "fst (Reconcile readyRun ''default'' ''cashumint-lnd'' []) = Ok (requeueAfter ReconcileInterval)"
    using readyRun_result by auto
  from live_mint_comes_back [OF _ _ this, of headless] this show ?thesis
    by (simp add: readyRun_simps headless_simps requeueAfter_def ReconcileInterval_def)
qed

text \<open>
  Where a reconciliation of a live mint can fail: while the finalizer is stored, while the first phase is
  stored, in one of the resources, or when the status is written at the end.
\<close>

datatype stage = AddingFinalizer | SettingPending | ReconcilingResources | WritingStatus

inductive failsAt :: "CashuMintReconciler \<Rightarrow> st \<Rightarrow> stage \<Rightarrow> error \<Rightarrow> st \<Rightarrow> bool" for R :: CashuMintReconciler and s :: st where
  finalizer:
    "\<not> guarded R (st_mint s) \<Longrightarrow> m' = updMeta (\<lambda>x. ml_AddFinalizer (r_Meta R) x cashuMintFinalizer) (st_mint s) \<Longrightarrow>
     updateMint R m' (s\<lparr> st_mint := m' \<rparr>) = (Err e, s') \<Longrightarrow> failsAt R s AddingFinalizer e s'"
| pending:
    "guarded R (st_mint s) \<Longrightarrow> sta_Phase (cm_Status (st_mint s)) = '''' \<Longrightarrow> m' = setPhase MintPhasePending (st_mint s) \<Longrightarrow>
     statusUpdate R m' (s\<lparr> st_mint := m' \<rparr>) = (Err e, s') \<Longrightarrow> failsAt R s SettingPending e s'"
| resources:
    "guarded R (st_mint s) \<Longrightarrow> sta_Phase (cm_Status (st_mint s)) \<noteq> '''' \<Longrightarrow>
     reconcileResources R s = (Err e, s') \<Longrightarrow> failsAt R s ReconcilingResources e s'"
| status:
    "guarded R (st_mint s) \<Longrightarrow> sta_Phase (cm_Status (st_mint s)) \<noteq> '''' \<Longrightarrow>
     reconcileResources R s = (Ok r, s1) \<Longrightarrow> updateStatus R s1 = (Err e, s') \<Longrightarrow> failsAt R s WritingStatus e s'"

inductive_cases failsAt_resourcesE: "failsAt R s ReconcilingResources e s'"

text \<open>What \<^verbatim>\<open>handleError\<close> makes of an error: the result and the requests it adds.\<close>

lemma handleError_runs:
  assumes "\<And>t x p. cl_updateStatus (r_Client R) t x \<noteq> Panic p"
  shows "IsConflict e \<Longrightarrow> handleError R e s = (Ok (requeueAfter 1), s)"
    and "\<not> IsConflict e \<Longrightarrow> IsNotFound e \<Longrightarrow> handleError R e s = (Ok (requeueAfter 10000), s\<lparr> st_trace := st_trace s
          @ [Event ''Warning'' ''DependencyNotFound'' ''Waiting for dependencies to be created''] \<rparr>)"
    and "\<not> IsConflict e \<Longrightarrow> \<not> IsNotFound e \<Longrightarrow> \<exists>m'. m' = setCondition R ConditionTypeReady ConditionFalse
            ''ReconciliationFailed'' (errString e) (setPhase MintPhaseFailed (st_mint s))
          \<and> handleError R e s = (Err e, s\<lparr> st_trace := st_trace s
              @ [Event ''Warning'' ''ReconciliationFailed'' (errString e), UpdateStatus m'], st_mint := m' \<rparr>)"
proof -
  let ?m' = "setCondition R ConditionTypeReady ConditionFalse ''ReconciliationFailed'' (errString e)
    (setPhase MintPhaseFailed (st_mint s))"
  let ?t = "st_trace s @ [Event ''Warning'' ''ReconciliationFailed'' (errString e)]"
  show "\<exists>m'. m' = ?m' \<and> handleError R e s = (Err e, s\<lparr> st_trace := st_trace s
      @ [Event ''Warning'' ''ReconciliationFailed'' (errString e), UpdateStatus m'], st_mint := m' \<rparr>)"
    if "\<not> IsConflict e" "\<not> IsNotFound e"
    using that assms by (cases "cl_updateStatus (r_Client R) ?t ?m'")
      (simp_all add: handleError_def statusUpdate_def run_rules)
qed (simp_all add: handleError_def run_rules requeueAfter_def NotReadyRetryInterval_def)

lemma reconcileMint_stages:
  assumes "\<not> deleting (st_mint s)"
  shows "failsAt R s ReconcilingResources e s' \<Longrightarrow> reconcileMint R s = handleError R e s'"
    and "failsAt R s g e s' \<Longrightarrow> g \<noteq> ReconcilingResources \<Longrightarrow> reconcileMint R s = (Err e, s')"
proof -
  note defs = reconcileMint_def deleting_def guarded_def
  show "reconcileMint R s = handleError R e s'" if "failsAt R s ReconcilingResources e s'"
  proof -
    from that have "guarded R (st_mint s)" "sta_Phase (cm_Status (st_mint s)) \<noteq> ''''" and run: "reconcileResources R s = (Err e, s')"
      by (auto elim: failsAt_resourcesE)
    with assms show ?thesis by (simp add: defs run_rules)
  qed
  show "reconcileMint R s = (Err e, s')" if "failsAt R s g e s'" "g \<noteq> ReconcilingResources"
    using that assms by cases (simp_all add: defs run_rules)
qed

lemma handleError_same: "handleError R e s = (Err e', s') \<Longrightarrow> e' = e"
  by (auto simp: handleError_def act_defs op_defs split: if_splits result.splits prod.splits)

lemma reconcileMint_fails:
  assumes "\<not> deleting (st_mint s)" and "reconcileMint R s = (Err e, s')"
  shows "\<exists>g s''. failsAt R s g e s''"
proof (cases "serving R (st_mint s)")
  case True
  then have live: "guarded R (st_mint s)" "sta_Phase (cm_Status (st_mint s)) \<noteq> ''''" by (simp_all add: serving_def)
  obtain r s1 where run: "reconcileResources R s = (r, s1)" by fastforce
  show ?thesis
  proof (cases r)
    case (Ok x)
    with run assms live have "updateStatus R s1 = (Err e, s')"
      by (auto simp: reconcileMint_def deleting_def guarded_def act_defs split: prod.splits result.splits)
    with run live Ok status show ?thesis by blast
  next
    case (Err e1)
    with run have "failsAt R s ReconcilingResources e1 s1" using live resources by blast
    with assms have "handleError R e1 s1 = (Err e, s')" using reconcileMint_stages(1) by simp
    with handleError_same \<open>failsAt R s ReconcilingResources e1 s1\<close> show ?thesis by blast
  next
    case (Panic p)
    with run assms live show ?thesis by (simp add: reconcileMint_def deleting_def guarded_def run_rules)
  qed
next
  case False
  show ?thesis
  proof (cases "guarded R (st_mint s)")
    case True
    let ?m = "setPhase MintPhasePending (st_mint s)"
    from True False assms(1) have empty: "sta_Phase (cm_Status (st_mint s)) = ''''" by (simp add: serving_def)
    with True assms have "\<exists>s''. statusUpdate R ?m (s\<lparr> st_mint := ?m \<rparr>) = (Err e, s'')"
      by (auto simp: reconcileMint_def deleting_def guarded_def act_defs statusUpdate_def split: result.splits)
    with True empty pending show ?thesis by blast
  next
    case unguarded: False
    let ?m = "updMeta (\<lambda>x. ml_AddFinalizer (r_Meta R) x cashuMintFinalizer) (st_mint s)"
    from unguarded assms have "\<exists>s''. updateMint R ?m (s\<lparr> st_mint := ?m \<rparr>) = (Err e, s'')"
      by (auto simp: reconcileMint_def deleting_def guarded_def act_defs updateMint_def split: result.splits)
    with unguarded finalizer show ?thesis by blast
  qed
qed

text \<open>
  C8: the failures of the reconciliation of a live mint. An error met while the resources are reconciled
  is classified, wherever it arose there and however often it was wrapped: a conflict is retried after a
  millisecond and nothing is reported; an object that was not found is announced as a missing
  dependency and retried after ten seconds; any other error is returned, so that the work queue backs
  off, after the phase \<^verbatim>\<open>Failed\<close> and the condition \<^verbatim>\<open>Ready=False\<close> with the error's text have been written, on the
  specification as fetched, whether or not the server accepts the status. An error of the other three
  stages (storing the finalizer, storing the first phase, writing the status at the end) is not
  classified: it is returned as it is, with no event and no further request. There is no other way to fail:
  an error that the reconciliation returns was met in one of the four stages.
\<close>

theorem failures_are_classified:
  assumes "apimachinery (r_Meta R)"
    and "cl_getMint (r_Client R) h ns name = Ok m" and "om_DeletionTimestamp (cm_Meta m) = None"
    and "\<And>t x p. cl_updateStatus (r_Client R) t x \<noteq> Panic p"
  defines "s \<equiv> \<lparr> st_trace = h @ [GetMint ns name], st_mint = m \<rparr>"
  shows "(\<forall>e s'. failsAt R s ReconcilingResources e s' \<longrightarrow>
      (if IsConflict e then Reconcile R ns name h = (Ok (requeueAfter 1), st_trace s')
       else if IsNotFound e then Reconcile R ns name h =
         (Ok (requeueAfter 10000),
          st_trace s' @ [Event ''Warning'' ''DependencyNotFound'' ''Waiting for dependencies to be created''])
       else \<exists>m' c. Reconcile R ns name h =
           (Err e, st_trace s' @ [Event ''Warning'' ''ReconciliationFailed'' (errString e), UpdateStatus m'])
         \<and> sta_Phase (cm_Status m') = MintPhaseFailed \<and> cm_Spec m' = cm_Spec (st_mint s')
         \<and> findCondition (sta_Conditions (cm_Status m')) ConditionTypeReady = Some c
         \<and> cond_Status c = ConditionFalse \<and> cond_Message c = errString e))
    \<and> (\<forall>g e s'. failsAt R s g e s' \<and> g \<noteq> ReconcilingResources \<longrightarrow> Reconcile R ns name h = (Err e, st_trace s'))
    \<and> (\<forall>e h'. Reconcile R ns name h = (Err e, h') \<longrightarrow> (\<exists>g s'. failsAt R s g e s'))"
proof -
  have run: "Reconcile R ns name h = (case reconcileMint R s of (r, s'') \<Rightarrow> (r, st_trace s''))"
    using assms(2) by (simp add: Reconcile_def Let_def s_def)
  have live: "\<not> deleting (st_mint s)" using assms(3) by (simp add: deleting_def s_def)
  have reads: "\<exists>c. findCondition (sta_Conditions (cm_Status (setCondition R ConditionTypeReady ConditionFalse reason msg m'))) ConditionTypeReady
      = Some c \<and> cond_Status c = ConditionFalse \<and> cond_Message c = msg" for reason msg m'
    using apimachinery.setCondition_reads [OF assms(1) refl] by blast
  note stages = reconcileMint_stages [OF live]
  show ?thesis
  proof (intro conjI allI impI)
    fix e s' assume "failsAt R s ReconcilingResources e s'"
    then have "reconcileMint R s = handleError R e s'" by (rule stages(1))
    with run reads handleError_runs [OF assms(4), of e s'] show "if IsConflict e then Reconcile R ns name h = (Ok (requeueAfter 1), st_trace s')
       else if IsNotFound e then Reconcile R ns name h =
         (Ok (requeueAfter 10000),
          st_trace s' @ [Event ''Warning'' ''DependencyNotFound'' ''Waiting for dependencies to be created''])
       else \<exists>m' c. Reconcile R ns name h =
           (Err e, st_trace s' @ [Event ''Warning'' ''ReconciliationFailed'' (errString e), UpdateStatus m'])
         \<and> sta_Phase (cm_Status m') = MintPhaseFailed \<and> cm_Spec m' = cm_Spec (st_mint s')
         \<and> findCondition (sta_Conditions (cm_Status m')) ConditionTypeReady = Some c
         \<and> cond_Status c = ConditionFalse \<and> cond_Message c = errString e"
      by auto
  next
    fix g e s' assume "failsAt R s g e s' \<and> g \<noteq> ReconcilingResources"
    with stages(2) run show "Reconcile R ns name h = (Err e, st_trace s')" by auto
  next
    fix e h' assume "Reconcile R ns name h = (Err e, h')"
    then obtain s' where "reconcileMint R s = (Err e, s')" using run by (auto split: prod.splits)
    with reconcileMint_fails [OF live] show "\<exists>g s'. failsAt R s g e s'" by blast
  qed
qed

text \<open>The first reconciliation of a mint whose ConfigMap does not show up in the cache yet.\<close>

definition laggingRun :: CashuMintReconciler where
  "laggingRun = sampleReconciler (sampleClient headless None (\<lambda>_. True))"

lemma laggingRun_fails:
  "\<exists>e s'. reconcileResources laggingRun \<lparr> st_trace = [] @ [GetMint ''default'' ''cashumint-lnd''], st_mint = headless \<rparr> = (Err e, s')
     \<and> IsNotFound e \<and> \<not> IsConflict e"
  by (simp add: laggingRun_def sampleReconciler_def sampleClient_def answer_def headless_simps run_rules function_defs guard_defs
      sample_generated missing_def)

text \<open>A server that refuses the update with the finalizer.\<close>

definition refusingRun :: CashuMintReconciler where
  "refusingRun = sampleReconciler (sampleClient sampleMinimal None (\<lambda>_. False))"

theorem failures_are_classified_witness:
  "fst (Reconcile laggingRun ''default'' ''cashumint-lnd'' []) = Ok (requeueAfter 10000)
   \<and> (\<exists>e. fst (Reconcile refusingRun ''default'' ''cashumint-minimal'' []) = Err e)"
proof
  from laggingRun_fails obtain e s' where run: "reconcileResources laggingRun
      \<lparr> st_trace = [] @ [GetMint ''default'' ''cashumint-lnd''], st_mint = headless \<rparr> = (Err e, s')"
    and e: "IsNotFound e" "\<not> IsConflict e" by blast
  have lib: "apimachinery (r_Meta laggingRun)" "apimachinery (r_Meta refusingRun)"
    using meta.apimachinery_axioms by (simp_all add: laggingRun_def refusingRun_def sampleReconciler_def)
  have noPanic: "cl_updateStatus (r_Client laggingRun) t x \<noteq> Panic p" "cl_updateStatus (r_Client refusingRun) t x \<noteq> Panic p" for t x p
    by (simp_all add: laggingRun_def refusingRun_def sampleReconciler_def sampleClient_def answer_def)
  have get: "cl_getMint (r_Client laggingRun) [] ''default'' ''cashumint-lnd'' = Ok headless"
    by (simp add: laggingRun_def sampleReconciler_def sampleClient_def headless_simps)
  have "failsAt laggingRun \<lparr> st_trace = [] @ [GetMint ''default'' ''cashumint-lnd''], st_mint = headless \<rparr> ReconcilingResources e s'"
    by (rule resources [OF _ _ run])
      (simp_all add: guarded_def laggingRun_def sampleReconciler_def documentedMeta_def headless_simps phase_defs)
  with failures_are_classified [OF lib(1) get headless_simps(3) noPanic(1)] e
  show "fst (Reconcile laggingRun ''default'' ''cashumint-lnd'' []) = Ok (requeueAfter 10000)" by simp
  let ?s = "\<lparr> st_trace = [] @ [GetMint ''default'' ''cashumint-minimal''], st_mint = sampleMinimal \<rparr>"
  have minimal: "cl_getMint (r_Client refusingRun) [] ''default'' ''cashumint-minimal'' = Ok sampleMinimal"
    "om_DeletionTimestamp (cm_Meta sampleMinimal) = None"
    by (simp_all add: refusingRun_def sampleReconciler_def sampleClient_def sample_defs newMeta_def)
  have "\<exists>e s'. failsAt refusingRun ?s AddingFinalizer e s'"
    by (intro exI, rule finalizer [OF _ refl])
      (simp_all add: guarded_def refusingRun_def sampleReconciler_def documentedMeta_def sample_defs newMeta_def
        updateMint_def call_def sampleClient_def answer_def)
  with failures_are_classified [OF lib(2) minimal noPanic(2)]
  show "\<exists>e. fst (Reconcile refusingRun ''default'' ''cashumint-minimal'' []) = Err e" by fastforce
qed

subsection \<open>Two limits of the reported status\<close>

text \<open>A cluster where the replicas are not ready, and one where the mint has a newer generation by now.\<close>

definition outageRun :: CashuMintReconciler where
  "outageRun = sampleReconciler ((sampleClient headless None (\<lambda>_. True))\<lparr> cl_getDeployment := \<lambda>_ _ _.
     Ok ((readyDeployment headless)\<lparr> dep_Status := \<lparr> ds_Replicas = 1, ds_UpdatedReplicas = 1, ds_ReadyReplicas = 0,
       ds_AvailableReplicas = 0 \<rparr> \<rparr>) \<rparr>)"

definition changedRun :: CashuMintReconciler where
  "changedRun = sampleReconciler ((sampleClient headless None (\<lambda>_. True))\<lparr> cl_getMint := \<lambda>_ _ _.
     Ok (updMeta (\<lambda>x. x\<lparr> om_Generation := 2 \<rparr>) headless) \<rparr>)"

text \<open>
  C39: when the Deployment of a \<^verbatim>\<open>Ready\<close> mint stops being ready, the readiness check turns the condition
  \<^verbatim>\<open>Ready\<close> false but leaves the phase at \<^verbatim>\<open>Ready\<close>.
\<close>

theorem ready_phase_survives_outage:
  assumes "apimachinery (r_Meta R)" and "sta_Phase (cm_Status (st_mint s)) = MintPhaseReady"
    and "cl_getDeployment (r_Client R) (st_trace s) (mintNamespace (st_mint s)) (mintName (st_mint s)) = Ok d"
    and "\<not> isDeploymentReady d"
  shows "\<exists>s' c. updateDeploymentReadiness R s = (Ok (), s') \<and> sta_Phase (cm_Status (st_mint s')) = MintPhaseReady
    \<and> findCondition (sta_Conditions (cm_Status (st_mint s'))) ConditionTypeReady = Some c \<and> cond_Status c = ConditionFalse"
  using assms apimachinery.setCondition_reads [OF assms(1) refl]
  by (fastforce simp: updateDeploymentReadiness_def getDeployment_def run_rules)

theorem ready_phase_survives_outage_witness:
  "\<exists>s' c. updateDeploymentReadiness outageRun \<lparr> st_trace = [], st_mint = setPhase MintPhaseReady headless \<rparr> = (Ok (), s')
     \<and> sta_Phase (cm_Status (st_mint s')) = MintPhaseReady
     \<and> findCondition (sta_Conditions (cm_Status (st_mint s'))) ConditionTypeReady = Some c \<and> cond_Status c = ConditionFalse"
proof -
  let ?d = "(readyDeployment headless)\<lparr> dep_Status := \<lparr> ds_Replicas = 1, ds_UpdatedReplicas = 1, ds_ReadyReplicas = 0,
    ds_AvailableReplicas = 0 \<rparr> \<rparr>"
  have "apimachinery (r_Meta outageRun)" using meta.apimachinery_axioms by (simp add: outageRun_def sampleReconciler_def)
  moreover have "cl_getDeployment (r_Client outageRun) t ns n = Ok ?d" for t ns n
    by (simp add: outageRun_def sampleReconciler_def)
  moreover have "\<not> isDeploymentReady ?d" by (simp add: isDeploymentReady_def readyDeployment_def)
  ultimately show ?thesis
    using ready_phase_survives_outage [of outageRun "\<lparr> st_trace = [], st_mint = setPhase MintPhaseReady headless \<rparr>" ?d] by simp
qed

text \<open>
  C40: the generation that a status update reports as observed is that of the mint re-fetched for it,
  not of the one that was reconciled.
\<close>

theorem observed_generation_is_refetched:
  assumes "cl_getMint (r_Client R) (st_trace s) (mintNamespace (st_mint s)) (mintName (st_mint s)) = Ok f"
    and "updateStatus R s = (r, s')" and "UpdateStatus m' \<in> set (drop (length (st_trace s)) (st_trace s'))"
  shows "sta_ObservedGeneration (cm_Status m') = om_Generation (cm_Meta f)"
proof -
  let ?ok = "\<lambda>(_::history) q. \<forall>m'. q = UpdateStatus m' \<longrightarrow> sta_ObservedGeneration (cm_Status m') = om_Generation (cm_Meta f)"
  have "wp ?ok (updateStatus R) (\<lambda>_ _. True) s"
    using assms(1) unfolding updateStatus_def observeIngressOpt_def op_defs Let_def
    by (auto simp: andThen_def caught_def updStatus_def intro!: wp_bind wp_wrap wp_try split: result.split option.split)
  with assms(2) obtain new where "st_trace s' = st_trace s @ new" "\<And>a q b. new = a @ q # b \<Longrightarrow> ?ok (st_trace s @ a) q"
    by (auto simp: wp_def steps_def)
  with assms(3) split_list [of "UpdateStatus m'" new] show ?thesis by auto
qed

theorem observed_generation_is_refetched_witness:
  "\<exists>m' s'. updateStatus changedRun \<lparr> st_trace = [], st_mint = headless \<rparr> = (Ok (), s') \<and> UpdateStatus m' \<in> set (st_trace s')
     \<and> om_Generation (cm_Meta headless) = 0 \<and> sta_ObservedGeneration (cm_Status m') = 2"
proof -
  let ?s = "\<lparr> st_trace = [], st_mint = headless \<rparr>" and ?f = "updMeta (\<lambda>x. x\<lparr> om_Generation := 2 \<rparr>) headless"
  have f: "cl_getMint (r_Client changedRun) (st_trace ?s) (mintNamespace (st_mint ?s)) (mintName (st_mint ?s)) = Ok ?f"
    by (simp add: changedRun_def sampleReconciler_def)
  have "\<exists>m' s'. updateStatus changedRun ?s = (Ok (), s') \<and> UpdateStatus m' \<in> set (st_trace s')"
    by (simp add: changedRun_def sampleReconciler_def sampleClient_def answer_def missing_def updateStatus_def observeIngressOpt_def
        updMeta_def updStatus_def headless_simps run_rules function_defs)
  then obtain m' s' where run: "updateStatus changedRun ?s = (Ok (), s')" and m': "UpdateStatus m' \<in> set (st_trace s')" by blast
  from observed_generation_is_refetched [OF f run] m' have "sta_ObservedGeneration (cm_Status m') = 2" by (simp add: updMeta_def)
  with run m' show ?thesis by (auto simp: headless_simps)
qed

end
