(* ===== verification/DesiredState.thy ===== *)
theory DesiredState
  imports StatusFrame ReconcileStatus
begin

section \<open>The desired objects\<close>

text \<open>
  The abstract specification of a reconciliation is the list of objects the cluster should have for
  a mint, each generator's output in order, with none of the guards the reconciler puts around the
  calls. A reconciliation that succeeds applies exactly this list.
\<close>

subsection \<open>The specification\<close>

definition made :: "('a \<Rightarrow> object) \<Rightarrow> 'a option result \<Rightarrow> object list" where
  "made c r = (case r of Ok (Some y) \<Rightarrow> [c y] | _ \<Rightarrow> [])"

definition desiredObjects :: "ext \<Rightarrow> CashuMint \<Rightarrow> ConfigMap \<Rightarrow> Deployment \<Rightarrow> object list" where
  "desiredObjects X m cfg dep =
     made OService (GeneratePostgresService X m) @ made OStatefulSet (GeneratePostgresStatefulSet X m)
     @ made OCronJob (GeneratePostgresBackupCronJob X m) @ made OJob (GeneratePostgresRestoreJob X m)
     @ [OConfigMap cfg]
     @ made OPVC (GeneratePVC X m) @ made OPVC (GenerateOrchardPVC X m)
     @ [ODeployment dep]
     @ made OService (GenerateService X m) @ made OService (GenerateOrchardService X m)
     @ made OPodMonitor (GeneratePodMonitor X m)
     @ made OIngress (GenerateIngress X m) @ made OIngress (GenerateOrchardIngress X m)
     @ made OCertificate (GenerateCertificate X m) @ made OCertificate (GenerateOrchardCertificate X m)"

text \<open>The mint that the configuration is rendered from: the fetched one, with the URLs it takes from
  secrets filled in, and the password of a provisioned database; none of them is empty.\<close>

definition databaseResolved :: "CashuMint \<Rightarrow> string \<Rightarrow> CashuMint \<Rightarrow> bool" where
  "databaseResolved m pw m1 =
     (case db_Postgres (cms_Database (cm_Spec m)) of
        None \<Rightarrow> pw = '''' \<and> m1 = m
      | Some pg \<Rightarrow>
          if db_Engine (cms_Database (cm_Spec m)) \<noteq> DatabaseEnginePostgres then pw = '''' \<and> m1 = m
          else if pg_AutoProvision pg then pw \<noteq> '''' \<and> m1 = m
          else if pg_URLSecretRef pg \<noteq> None then pw = '''' \<and> (\<exists>url. url \<noteq> '''' \<and> m1 = setDatabaseURL url m)
          else pw = '''' \<and> m1 = m)"

definition authResolved :: "CashuMint \<Rightarrow> CashuMint \<Rightarrow> bool" where
  "authResolved m1 m2 =
     (if authURLRef m1 = None then m2 = m1 else \<exists>url. url \<noteq> '''' \<and> m2 = setAuthURL url m1)"

definition rendered :: "ext \<Rightarrow> CashuMint \<Rightarrow> ConfigMap \<Rightarrow> bool" where
  "rendered X m cfg =
     (\<exists>pw m1 m2. databaseResolved m pw m1 \<and> authResolved m1 m2 \<and> GenerateConfigMap X m2 pw = Ok (Some cfg))"

definition hashed :: "ext \<Rightarrow> CashuMint \<Rightarrow> Deployment \<Rightarrow> bool" where
  "hashed X m dep = (\<exists>cm. GenerateDeployment X m (calculateConfigHash cm) = Ok (Some dep))"

subsection \<open>The applied objects\<close>

fun applied :: "history \<Rightarrow> object list" where
  "applied [] = []"
| "applied (Apply x # h) = x # applied h"
| "applied (_ # h) = applied h"

lemma applied_append [simp]: "applied (h @ h') = applied h @ applied h'"
  by (induction h rule: applied.induct) auto

definition emits :: "(CashuMint \<Rightarrow> bool) \<Rightarrow> (object list \<Rightarrow> bool) \<Rightarrow> 'a act \<Rightarrow> bool" where
  "emits I P m = (\<forall>s r s'. I (st_mint s) \<longrightarrow> m s = (r, s') \<longrightarrow> I (st_mint s') \<and>
     (\<forall>x. r = Ok x \<longrightarrow> (\<exists>xs. applied (st_trace s') = applied (st_trace s) @ xs \<and> P xs)))"

definition andAlso :: "(object list \<Rightarrow> bool) \<Rightarrow> (object list \<Rightarrow> bool) \<Rightarrow> object list \<Rightarrow> bool" where
  "andAlso P Q zs = (\<exists>xs ys. zs = xs @ ys \<and> P xs \<and> Q ys)"

lemma emitsI:
  assumes "\<And>s r s'. I (st_mint s) \<Longrightarrow> m s = (r, s') \<Longrightarrow> I (st_mint s')"
    and "\<And>s x s'. I (st_mint s) \<Longrightarrow> m s = (Ok x, s') \<Longrightarrow> \<exists>xs. applied (st_trace s') = applied (st_trace s) @ xs \<and> P xs"
  shows "emits I P m"
  unfolding emits_def using assms by blast

lemma emitsD:
  assumes "emits I P m" and "I (st_mint s)" and "m s = (r, s')"
  shows "I (st_mint s')" and "r = Ok x \<Longrightarrow> \<exists>xs. applied (st_trace s') = applied (st_trace s) @ xs \<and> P xs"
  using assms unfolding emits_def by blast+

lemma emits_bind:
  assumes "emits I P m" and "\<And>x. emits I Q (k x)"
  shows "emits I (andAlso P Q) (bindA m k)"
proof (rule emitsI)
  fix s r s' assume "I (st_mint s)" "bindA m k s = (r, s')"
  then show "I (st_mint s')"
    using assms by (auto simp: bindA_def split: prod.splits result.splits dest: emitsD(1))
next
  fix s x s' assume I: "I (st_mint s)" and "bindA m k s = (Ok x, s')"
  then obtain y s1 where m: "m s = (Ok y, s1)" and k: "k y s1 = (Ok x, s')"
    by (auto simp: bindA_def split: prod.splits result.splits)
  obtain xs where xs: "applied (st_trace s1) = applied (st_trace s) @ xs" "P xs"
    using emitsD(2) [OF assms(1) I m] by blast
  obtain ys where ys: "applied (st_trace s') = applied (st_trace s1) @ ys" "Q ys"
    using emitsD(2) [OF assms(2) emitsD(1) [OF assms(1) I m] k] by blast
  show "\<exists>zs. applied (st_trace s') = applied (st_trace s) @ zs \<and> andAlso P Q zs"
    using xs ys by (auto simp: andAlso_def)
qed

lemma emits_seq: "emits I P m \<Longrightarrow> emits I Q k \<Longrightarrow> emits I (andAlso P Q) (seqA m k)"
  unfolding seqA_def by (rule emits_bind)

lemma emits_bind_mint: "(\<And>m. I m \<Longrightarrow> emits I P (k m)) \<Longrightarrow> emits I P (bindA theMint k)"
  unfolding emits_def bindA_def theMint_def by auto

lemma emits_bind_lift: "(\<And>x. r = Ok x \<Longrightarrow> emits I P (k x)) \<Longrightarrow> emits I P (bindA (wrapA p (liftR r)) k)"
  by (cases r) (auto simp: emits_def bindA_def wrapA_def liftR_def)

lemma emits_wrap: "emits I P m \<Longrightarrow> emits I P (wrapA p m)"
  unfolding emits_def wrapA_def by (auto split: prod.splits)

lemma emits_conseq: "emits I P m \<Longrightarrow> (\<And>xs. P xs \<Longrightarrow> Q xs) \<Longrightarrow> emits I Q m"
  unfolding emits_def by blast

text \<open>Actions that apply nothing, one object, or what a generator made.\<close>

definition noApply :: "history \<Rightarrow> request \<Rightarrow> bool" where
  "noApply h q = (\<forall>x. q \<noteq> Apply x)"

lemma applied_none: "(\<And>q x. q \<in> set new \<Longrightarrow> q \<noteq> Apply x) \<Longrightarrow> applied new = []"
  by (induction new rule: applied.induct) auto

lemma steps_noApply: "steps noApply t t' \<Longrightarrow> applied t' = applied t"
  by (fastforce simp: steps_def noApply_def dest: split_list intro: applied_none)

lemma emits_none:
  assumes "keeps noApply I m"
  shows "emits I (\<lambda>xs. xs = []) m"
proof (rule emitsI)
  fix s :: st and r s' assume "I (st_mint s)" "m s = (r, s')"
  then show "I (st_mint s')" using keepsD [OF assms, of s] by (simp add: wp_def)
next
  fix s x s' assume "I (st_mint s)" "m s = (Ok x, s')"
  then have "steps noApply (st_trace s) (st_trace s')" using keepsD [OF assms, of s] by (simp add: wp_def)
  then show "\<exists>xs. applied (st_trace s') = applied (st_trace s) @ xs \<and> xs = []"
    by (simp add: steps_noApply)
qed

lemma keeps_noApply [keeps_rules]: "noApply [] q \<Longrightarrow> keeps noApply I (call f q)"
  by (rule keeps_call) (simp add: noApply_def)

lemma noApply_requests [keeps_rules]:
  "noApply h (GetMint ns n)" "noApply h (GetSecret ns n)" "noApply h (GetConfigMap ns n)" "noApply h (GetDeployment ns n)"
  "noApply h (CreateSecret sec)" "noApply h (DeletePodMonitor ns n)" "noApply h ReadRandom" "noApply h (Event a b c)"
  by (simp_all add: noApply_def)

lemma emits_leaf:
  "emits I (\<lambda>xs. xs = []) (ret x)" "emits I (\<lambda>_. False) (fail e)" "emits I (\<lambda>_. False) (liftR (Panic p))"
  "emits I (\<lambda>xs. xs = [obj]) (applyResource R obj)"
  "emits I (\<lambda>xs. xs = [OStatefulSet sts]) (applyStatefulSet R sts)"
  by (auto simp: emits_def act_defs applyResource_def applyStatefulSet_def)

lemma emits_generateApply:
  "emits I (\<lambda>xs. \<exists>y. r = Ok (Some y) \<and> xs = [c y]) (generateApply R what c r)"
  "emits I (\<lambda>xs. xs = made c r) (generateApplyOpt R what c r)"
  unfolding generateApply_def generateApplyOpt_def
  by (rule emits_bind_lift, auto simp: made_def emits_leaf split: option.split
      intro!: emits_wrap emits_conseq [OF emits_leaf(4)] emits_conseq [OF emits_leaf(3)])+

lemma emits_try:
  assumes "emits I P m" and "\<And>e. emits I (\<lambda>_. False) (k (Err e))" and "\<And>x. emits I (\<lambda>xs. xs = []) (k (Ok x))"
  shows "emits I P (bindA (tryA m) k)"
proof (rule emitsI)
  fix s r s' assume I: "I (st_mint s)" and run: "bindA (tryA m) k s = (r, s')"
  obtain r1 s1 where m: "m s = (r1, s1)" by fastforce
  have "I (st_mint s1)" by (rule emitsD(1) [OF assms(1) I m])
  with run m show "I (st_mint s')"
    by (cases r1) (auto simp: bindA_def tryA_def dest: emitsD(1) [OF assms(2)] emitsD(1) [OF assms(3)])
next
  fix s x s' assume I: "I (st_mint s)" and run: "bindA (tryA m) k s = (Ok x, s')"
  obtain r s1 where m: "m s = (r, s1)" by fastforce
  have I1: "I (st_mint s1)" by (rule emitsD(1) [OF assms(1) I m])
  show "\<exists>xs. applied (st_trace s') = applied (st_trace s) @ xs \<and> P xs"
  proof (cases r)
    case (Ok y)
    with run m have "k (Ok y) s1 = (Ok x, s')" by (simp add: bindA_def tryA_def)
    from emitsD(2) [OF assms(3) I1 this] emitsD(2) [OF assms(1) I m] Ok show ?thesis by auto
  next
    case (Err e)
    with run m have "k (Err e) s1 = (Ok x, s')" by (simp add: bindA_def tryA_def)
    from emitsD(2) [OF assms(2) I1 this] show ?thesis by auto
  qed (use run m in \<open>simp add: bindA_def tryA_def\<close>)
qed

lemma emits_cases:
  "(b \<Longrightarrow> emits I P m) \<Longrightarrow> (\<not> b \<Longrightarrow> emits I P m') \<Longrightarrow> emits I P (if b then m else m')"
  "(b \<Longrightarrow> emits I P u) \<Longrightarrow> (\<not> b \<Longrightarrow> P []) \<Longrightarrow> emits I P (whenA b u)"
  by (auto simp: whenA_def intro: emits_conseq [OF emits_leaf(1)])

lemma emits_bind_yields:
  assumes "yields noApply I P m" and "\<And>x. P x \<Longrightarrow> emits I Q (k x)"
  shows "emits I Q (bindA m k)"
proof -
  have post: "I (st_mint s1) \<and> applied (st_trace s1) = applied (st_trace s) \<and> (\<forall>x. r = Ok x \<longrightarrow> P x)"
    if "I (st_mint s)" "m s = (r, s1)" for s r s1
    using yieldsD [OF assms(1) that(1)] that(2) by (simp add: wp_def steps_noApply)
  show ?thesis
  proof (rule emitsI)
    fix s r s' assume I: "I (st_mint s)" and run: "bindA m k s = (r, s')"
    obtain r1 s1 where m: "m s = (r1, s1)" by fastforce
    from post [OF I m] run m show "I (st_mint s')"
      by (cases r1) (auto simp: bindA_def dest: emitsD(1) [OF assms(2)])
  next
    fix s x s' assume I: "I (st_mint s)" and "bindA m k s = (Ok x, s')"
    then obtain y s1 where m: "m s = (Ok y, s1)" and k: "k y s1 = (Ok x, s')"
      by (auto simp: bindA_def split: prod.splits result.splits)
    from post [OF I m] have "I (st_mint s1)" "P y" "applied (st_trace s1) = applied (st_trace s)" by auto
    then show "\<exists>xs. applied (st_trace s') = applied (st_trace s) @ xs \<and> Q xs"
      using emitsD(2) [OF assms(2) _ k] by auto
  qed
qed

subsection \<open>What each function applies\<close>

lemma sameMint_status: "sameMint m0 m \<Longrightarrow> \<exists>t. m = m0\<lparr> cm_Status := t \<rparr>"
  by (rule exI [of _ "cm_Status m"]) (simp add: sameMint_def)

lemma generated_same:
  assumes own: "owner_references (x_SetControllerReference X)" and "sameMint m0 m"
  shows "GenerateService X m = GenerateService X m0" and "GenerateOrchardService X m = GenerateOrchardService X m0"
    and "GenerateIngress X m = GenerateIngress X m0" and "GenerateOrchardIngress X m = GenerateOrchardIngress X m0"
    and "GenerateCertificate X m = GenerateCertificate X m0"
    and "GenerateOrchardCertificate X m = GenerateOrchardCertificate X m0"
    and "GeneratePodMonitor X m = GeneratePodMonitor X m0" and "GeneratePVC X m = GeneratePVC X m0"
    and "GenerateOrchardPVC X m = GenerateOrchardPVC X m0" and "GenerateDeployment X m hash = GenerateDeployment X m0 hash"
    and "GeneratePostgresService X m = GeneratePostgresService X m0"
    and "GeneratePostgresStatefulSet X m = GeneratePostgresStatefulSet X m0"
    and "GeneratePostgresBackupCronJob X m = GeneratePostgresBackupCronJob X m0"
    and "GeneratePostgresRestoreJob X m = GeneratePostgresRestoreJob X m0"
  using sameMint_status [OF assms(2)] generated_frame [OF own] by auto

text \<open>Where a guard is off, the guarded generators make nothing.\<close>

lemma guards_complete:
  "\<not> autoProvisioned m \<Longrightarrow> GeneratePostgresService X m = Ok None"
  "\<not> autoProvisioned m \<Longrightarrow> GeneratePostgresStatefulSet X m = Ok None"
  "\<not> optP bk_Enabled (cms_Backup (cm_Spec m)) \<Longrightarrow> GeneratePostgresBackupCronJob X m = Ok None"
  "GeneratePostgresBackupCronJob X m = Ok None \<Longrightarrow> GeneratePostgresRestoreJob X m = Ok None"
  "\<not> needsPVCReconciliation m \<Longrightarrow> GeneratePVC X m = Ok None"
  "\<not> needsPVCReconciliation m \<Longrightarrow> GenerateOrchardPVC X m = Ok None"
  "\<not> prometheusEnabled m \<Longrightarrow> GeneratePodMonitor X m = Ok None"
  "\<not> needsIngressReconciliation m \<Longrightarrow> GenerateIngress X m = Ok None"
  "\<not> needsIngressReconciliation m \<Longrightarrow> GenerateOrchardIngress X m = Ok None"
  "\<not> needsIngressReconciliation m \<or> \<not> needsCertificateReconciliation m \<Longrightarrow> GenerateCertificate X m = Ok None"
  "\<not> needsIngressReconciliation m \<or> \<not> needsCertificateReconciliation m \<Longrightarrow> GenerateOrchardCertificate X m = Ok None"
  by (auto simp: GeneratePostgresService_def GeneratePostgresStatefulSet_def GeneratePostgresBackupCronJob_def
      GeneratePostgresRestoreJob_def GeneratePVC_def GenerateOrchardPVC_def GeneratePodMonitor_def GenerateIngress_def
      GenerateOrchardIngress_def GenerateCertificate_def GenerateOrchardCertificate_def backupBucket_def Let_def
      needsPVCReconciliation_def needsIngressReconciliation_def needsCertificateReconciliation_def certificateIngress_def
      certManager_def orchardEnabled_def orchardIngressConfig_def optP_iff split: option.splits prod.splits if_splits)

lemma keeps_setCondition [keeps_rules]: "keeps ok (sameMint m0) (backupCondition R st re msg)"
  "keeps ok (sameMint m0) (postgresCondition R sts)"
  unfolding backupCondition_def postgresCondition_def by (intro keeps_rules)+

lemma emits_silent:
  "emits (sameMint m0) (\<lambda>xs. xs = []) (transitionReconciliationPhase R)"
  "emits (sameMint m0) (\<lambda>xs. xs = []) (reconcileOptionalMnemonic R)"
  "emits (sameMint m0) (\<lambda>xs. xs = []) (ensurePostgresSecret R)"
  "emits (sameMint m0) (\<lambda>xs. xs = []) (reconcileManagementRPCTLSSecret R)"
  "emits (sameMint m0) (\<lambda>xs. xs = []) (updateDeploymentReadiness R)"
  "emits (sameMint m0) (\<lambda>xs. xs = []) (backupCondition R st re msg)"
  "emits (sameMint m0) (\<lambda>xs. xs = []) (postgresCondition R sts)"
  "emits (sameMint m0) (\<lambda>xs. xs = []) (event a b c)"
  unfolding transitionReconciliationPhase_def reconcileOptionalMnemonic_def ensurePostgresSecret_def
    reconcileManagementRPCTLSSecret_def updateDeploymentReadiness_def op_defs Let_def
  by (rule emits_none, intro keeps_rules)+

text \<open>The rules for known lists, with the list wanted as a side condition.\<close>

lemma emits_seq': "emits I (\<lambda>xs. xs = a) m \<Longrightarrow> emits I (\<lambda>ys. ys = b) k \<Longrightarrow> c = a @ b \<Longrightarrow> emits I (\<lambda>zs. zs = c) (seqA m k)"
  using emits_seq [of I "\<lambda>xs. xs = a" m "\<lambda>ys. ys = b" k] by (rule emits_conseq) (auto simp: andAlso_def)

lemma emits_bind':
  "emits I (\<lambda>xs. xs = a) m \<Longrightarrow> (\<And>x. emits I (\<lambda>ys. ys = b) (k x)) \<Longrightarrow> c = a @ b \<Longrightarrow> emits I (\<lambda>zs. zs = c) (bindA m k)"
  using emits_bind [of I "\<lambda>xs. xs = a" m "\<lambda>ys. ys = b" k] by (rule emits_conseq) (auto simp: andAlso_def)

lemma emits_made:
  "(r = Ok None \<Longrightarrow> emits I (\<lambda>xs. xs = []) (k None)) \<Longrightarrow>
   (\<And>y. r = Ok (Some y) \<Longrightarrow> emits I (\<lambda>xs. xs = [c y]) (k (Some y))) \<Longrightarrow>
   emits I (\<lambda>xs. xs = made c r) (bindA (wrapA p (liftR r)) k)"
  by (rule emits_bind_lift) (auto simp: made_def split: option.split)

lemma emits_postgreSQL:
  assumes own: "owner_references (x_SetControllerReference (r_Ext R))"
  shows "emits (sameMint m0) (\<lambda>xs. xs = made OService (GeneratePostgresService (r_Ext R) m0)
      @ made OStatefulSet (GeneratePostgresStatefulSet (r_Ext R) m0)) (reconcileOptionalPostgreSQL R)"
    (is "emits _ ?P _")
proof -
  have "emits (sameMint m0) ?P (reconcilePostgreSQL R)"
    unfolding reconcilePostgreSQL_def
    by (rule emits_seq', rule emits_silent(3), rule emits_bind_mint, rule emits_seq', rule emits_generateApply(2),
        rule emits_made)
      (auto simp: generated_same [OF own] intro: emits_leaf emits_bind' [OF emits_wrap [OF emits_leaf(5)] emits_silent(7)])
  moreover have "emits (sameMint m0) (\<lambda>_. False) (seqA (event a b c) (fail e))" for a b c e
    by (rule emits_conseq, rule emits_seq, rule emits_silent, rule emits_leaf(2)) (simp add: andAlso_def)
  ultimately show ?thesis
    unfolding reconcileOptionalPostgreSQL_def
    by (intro emits_bind_mint emits_cases(1) emits_try emits_conseq [OF emits_leaf(1)])
      (auto simp: generated_same [OF own, symmetric] guards_complete made_def emits_leaf)
qed

lemma emits_backup:
  assumes own: "owner_references (x_SetControllerReference (r_Ext R))"
  shows "emits (sameMint m0) (\<lambda>xs. xs = made OCronJob (GeneratePostgresBackupCronJob (r_Ext R) m0)
      @ made OJob (GeneratePostgresRestoreJob (r_Ext R) m0)) (reconcileOptionalBackup R)"
    (is "emits _ ?P _")
proof -
  have job: "emits (sameMint m0) (\<lambda>xs. xs = made OJob (GeneratePostgresRestoreJob (r_Ext R) m))
      (bindA (wrapA p (liftR (GeneratePostgresRestoreJob (r_Ext R) m))) (\<lambda>y. case y of
         None \<Rightarrow> backupCondition R st re msg
       | Some job \<Rightarrow> seqA (wrapA q (applyResource R (OJob job))) (backupCondition R st re' (msg' job))))"
    for m p q st re re' msg msg'
    by (rule emits_made) (auto intro: emits_silent emits_seq' [OF emits_wrap [OF emits_leaf(4)] emits_silent(6)])
  have "emits (sameMint m0) ?P (reconcileBackup R)"
    unfolding reconcileBackup_def
  proof (rule emits_bind_mint, rule emits_bind_lift)
    fix m x assume m: "sameMint m0 m" and x: "GeneratePostgresBackupCronJob (r_Ext R) m = Ok x"
    note same = generated_same(13,14) [OF own m]
    show "emits (sameMint m0) ?P (case x of
         None \<Rightarrow> backupCondition R ConditionFalse ''BackupNotReconciled'' ''Backup is enabled but no backup resources were generated''
       | Some cj \<Rightarrow> seqA (wrapA ''failed to apply backup CronJob'' (applyResource R (OCronJob cj)))
           (bindA (wrapA ''failed to generate restore Job'' (liftR (GeneratePostgresRestoreJob (r_Ext R) m))) (\<lambda>y. case y of
              None \<Rightarrow> backupCondition R ConditionTrue ''BackupScheduleReady'' (''Backup CronJob '' @ om_Name (cj_Meta cj) @ '' reconciled'')
            | Some job \<Rightarrow> seqA (wrapA ''failed to apply restore Job'' (applyResource R (OJob job)))
                (backupCondition R ConditionTrue ''RestoreJobReconciled''
                  (''Restore Job '' @ om_Name (job_Meta job) @ '' reconciled for requested backup object'')))))"
      using x guards_complete(4) [of "r_Ext R" m]
      by (cases x) (auto simp: same made_def [of OCronJob] made_def [of OJob "Ok None"] simp del: append_assoc
          intro: emits_silent emits_seq' [OF emits_wrap [OF emits_leaf(4)] job])
  qed
  then show ?thesis
    unfolding reconcileOptionalBackup_def
    by (intro emits_bind_mint emits_cases(1) emits_wrap emits_conseq [OF emits_leaf(1)])
      (auto simp: generated_same [OF own, symmetric] guards_complete made_def)
qed

text \<open>The configuration and the Deployment.\<close>

lemma yields_resolve: "ref \<noteq> None \<Longrightarrow> yields noApply I (\<lambda>v. v \<noteq> '''') (resolveRequiredSecretValue R ns ref field)"
  unfolding resolveRequiredSecretValue_def getSecret_def
  by (auto split: option.split intro!: yields_ret yields_bind keeps_rules)

lemma yields_mono: "yields ok I P m \<Longrightarrow> (\<And>x. P x \<Longrightarrow> Q x) \<Longrightarrow> yields ok I Q m"
  unfolding yields_def by (blast intro: wp_conseq)

lemma yields_bind_yields:
  assumes "yields ok I P m" and "\<And>x. P x \<Longrightarrow> yields ok I Q (k x)"
  shows "yields ok I Q (bindA m k)"
  unfolding yields_def
  by (intro allI impI, rule wp_bind, rule wp_conseq, erule yieldsD [OF assms(1)])
    (auto simp: andThen_def dest: yieldsD [OF assms(2)] split: result.splits)

lemma yields_databaseResolved: "yields noApply I (\<lambda>(pw, m1). databaseResolved m pw m1) (configDatabase R m)"
  unfolding configDatabase_def databaseResolved_def getSecret_def Let_def
  by (auto split: option.split intro!: yields_ret yields_bind keeps_rules yields_bind_yields [OF yields_resolve])

lemma yields_authResolved: "yields noApply I (authResolved m) (configAuth R m)"
  unfolding configAuth_def authResolved_def [abs_def]
  by (auto intro!: yields_ret yields_bind_yields [OF yields_resolve])

lemma resolved_frame:
  assumes "sameMint m0 m"
  shows "databaseResolved m pw m1 \<Longrightarrow> databaseResolved m0 pw (m1\<lparr> cm_Status := cm_Status m0 \<rparr>)"
    and "authResolved m1 m2 \<Longrightarrow> authResolved (m1\<lparr> cm_Status := t \<rparr>) (m2\<lparr> cm_Status := t \<rparr>)"
proof -
  have m: "m\<lparr> cm_Status := cm_Status m0 \<rparr> = m0" "cm_Spec m = cm_Spec m0" using assms by (simp_all add: sameMint_def)
  have "(setDatabaseURL url m)\<lparr> cm_Status := cm_Status m0 \<rparr> = setDatabaseURL url m0" for url
    using assms by (simp add: setDatabaseURL_def sameMint_def)
  then show "databaseResolved m pw m1 \<Longrightarrow> databaseResolved m0 pw (m1\<lparr> cm_Status := cm_Status m0 \<rparr>)"
    using m by (auto simp: databaseResolved_def split: option.splits if_splits)
  have ref: "authURLRef (m1\<lparr> cm_Status := t \<rparr>) = authURLRef m1"
    and url: "(setAuthURL v m1)\<lparr> cm_Status := t \<rparr> = setAuthURL v (m1\<lparr> cm_Status := t \<rparr>)" for v
    by (simp_all add: authURLRef_def setAuthURL_def)
  show "authResolved m1 m2 \<Longrightarrow> authResolved (m1\<lparr> cm_Status := t \<rparr>) (m2\<lparr> cm_Status := t \<rparr>)"
    unfolding authResolved_def by (auto simp: ref url split: if_splits)
qed

lemma emits_configMap:
  assumes own: "owner_references (x_SetControllerReference (r_Ext R))"
  shows "emits (sameMint m0) (\<lambda>xs. \<exists>cfg. rendered (r_Ext R) m0 cfg \<and> xs = [OConfigMap cfg]) (reconcileConfigMap R)"
  unfolding reconcileConfigMap_def
proof (rule emits_bind_mint, rule emits_bind_yields, rule yields_databaseResolved, clarsimp,
    rule emits_bind_yields, rule yields_authResolved)
  fix m pw m1 m2
  assume "sameMint m0 m" and "databaseResolved m pw m1" and "authResolved m1 m2"
  from resolved_frame(1) [OF this(1,2)] resolved_frame(2) [OF this(1,3)]
  have "rendered (r_Ext R) m0 cfg" if "GenerateConfigMap (r_Ext R) m2 pw = Ok (Some cfg)" for cfg
    using that generated_frame(10) [OF own, where m = m2 and t = "cm_Status m0" and pw = pw] unfolding rendered_def by metis
  then show "emits (sameMint m0) (\<lambda>xs. \<exists>cfg. rendered (r_Ext R) m0 cfg \<and> xs = [OConfigMap cfg])
      (seqA (generateApply R ''ConfigMap'' OConfigMap (GenerateConfigMap (r_Ext R) m2 pw))
       (setMint (setCondition R ConditionTypeConfigValid ConditionTrue ''ConfigurationValid'' ''Configuration is valid and applied'')))"
    by (intro emits_conseq [OF emits_seq [OF emits_generateApply(1) emits_none]] keeps_rules) (auto simp: andAlso_def)
qed

lemma emits_deployment:
  assumes own: "owner_references (x_SetControllerReference (r_Ext R))"
  shows "emits (sameMint m0) (\<lambda>xs. \<exists>dep. hashed (r_Ext R) m0 dep \<and> xs = [ODeployment dep]) (reconcileDeployment R)"
  unfolding reconcileDeployment_def
proof (rule emits_bind_mint)
  fix m assume m: "sameMint m0 m"
  have "emits (sameMint m0) (\<lambda>xs. \<exists>dep. hashed (r_Ext R) m0 dep \<and> xs = [ODeployment dep])
      (generateApply R ''Deployment'' ODeployment (GenerateDeployment (r_Ext R) m (calculateConfigHash cm)))" for cm
    by (rule emits_conseq, rule emits_generateApply(1)) (auto simp: hashed_def generated_same(10) [OF own m])
  then show "emits (sameMint m0) (\<lambda>xs. \<exists>dep. hashed (r_Ext R) m0 dep \<and> xs = [ODeployment dep])
      (bindA (wrapA ''failed to get ConfigMap for hash calculation'' (getConfigMap R (mintNamespace m) (mintName m @ ''-config'')))
        (\<lambda>configMap. generateApply R ''Deployment'' ODeployment (GenerateDeployment (r_Ext R) m (calculateConfigHash configMap))))"
    by (intro emits_conseq [OF emits_bind [OF emits_none]]) (auto simp: andAlso_def getConfigMap_def intro!: keeps_rules)
qed

text \<open>Claims, Services, the PodMonitor, Ingresses and Certificates.\<close>

lemma emits_network:
  assumes own: "owner_references (x_SetControllerReference (r_Ext R))"
  shows "emits (sameMint m0) (\<lambda>xs. xs = made OPVC (GeneratePVC (r_Ext R) m0) @ made OPVC (GenerateOrchardPVC (r_Ext R) m0)) (reconcilePVC R)"
    and "emits (sameMint m0) (\<lambda>xs. xs = made OService (GenerateService (r_Ext R) m0) @ made OService (GenerateOrchardService (r_Ext R) m0)) (reconcileService R)"
    and "emits (sameMint m0) (\<lambda>xs. xs = made OIngress (GenerateIngress (r_Ext R) m0) @ made OIngress (GenerateOrchardIngress (r_Ext R) m0)) (reconcileIngress R)"
    and "emits (sameMint m0) (\<lambda>xs. xs = made OCertificate (GenerateCertificate (r_Ext R) m0) @ made OCertificate (GenerateOrchardCertificate (r_Ext R) m0)) (reconcileCertificate R)"
proof -
  have service: "emits I (\<lambda>xs. xs = made OService r) (generateApply R what OService r)" for I what and r :: "Service option result"
    by (rule emits_conseq, rule emits_generateApply(1)) (auto simp: made_def)
  note same = generated_same [OF own]
  show "emits (sameMint m0) (\<lambda>xs. xs = made OService (GenerateService (r_Ext R) m0) @ made OService (GenerateOrchardService (r_Ext R) m0)) (reconcileService R)"
    unfolding reconcileService_def
    by (rule emits_bind_mint, rule emits_seq', rule service, rule emits_generateApply(2)) (simp add: same)
qed (unfold reconcilePVC_def reconcileIngress_def reconcileCertificate_def,
    (rule emits_bind_mint, rule emits_seq', rule emits_generateApply(2), rule emits_generateApply(2),
     simp add: generated_same [OF own])+)

lemma emits_podMonitor:
  assumes own: "owner_references (x_SetControllerReference (r_Ext R))"
  shows "emits (sameMint m0) (\<lambda>xs. xs = made OPodMonitor (GeneratePodMonitor (r_Ext R) m0)) (reconcilePodMonitor R)"
  unfolding reconcilePodMonitor_def
proof (rule emits_bind_mint, rule emits_cases(1))
  fix m assume m: "sameMint m0 m"
  note same = generated_same(7) [OF own m]
  show "emits (sameMint m0) (\<lambda>xs. xs = made OPodMonitor (GeneratePodMonitor (r_Ext R) m0))
      (bindA (tryA (deletePodMonitor R (mintNamespace m) (mintName m))) (\<lambda>r. case r of
         Err e \<Rightarrow> if IsNotFound e \<or> ml_IsNoMatchError (r_Meta R) e then ret () else fail (Wrapf ''failed to delete PodMonitor'' e)
       | _ \<Rightarrow> ret ()))" if "\<not> prometheusEnabled m"
    using guards_complete(7) [OF that, of "r_Ext R"] unfolding deletePodMonitor_def
    by (intro emits_conseq [OF emits_none]) (auto simp: same made_def intro!: keeps_rules)
  show "emits (sameMint m0) (\<lambda>xs. xs = made OPodMonitor (GeneratePodMonitor (r_Ext R) m0))
      (bindA (wrapA ''failed to generate PodMonitor'' (liftR (GeneratePodMonitor (r_Ext R) m))) (\<lambda>x. case x of
         None \<Rightarrow> ret ()
       | Some pm \<Rightarrow> bindA (tryA (applyResource R (OPodMonitor pm))) (\<lambda>r. case r of
           Err e \<Rightarrow> if ml_IsNoMatchError (r_Meta R) e
                    then fail (Wrapf ''failed to apply PodMonitor: Prometheus Operator PodMonitor CRD is not installed'' e)
                    else fail (Wrapf ''failed to apply PodMonitor'' e)
         | _ \<Rightarrow> ret ())))"
    unfolding same [symmetric]
    by (rule emits_made) (auto simp: emits_leaf intro!: emits_try)
qed

lemma emits_ingressResources:
  assumes own: "owner_references (x_SetControllerReference (r_Ext R))"
  shows "emits (sameMint m0) (\<lambda>xs. xs =
        (made OIngress (GenerateIngress (r_Ext R) m0) @ made OIngress (GenerateOrchardIngress (r_Ext R) m0))
        @ made OCertificate (GenerateCertificate (r_Ext R) m0) @ made OCertificate (GenerateOrchardCertificate (r_Ext R) m0))
      (reconcileOptionalIngressResources R)"
proof -
  have cert: "emits (sameMint m0) (\<lambda>xs. xs = made OCertificate (GenerateCertificate (r_Ext R) m0)
        @ made OCertificate (GenerateOrchardCertificate (r_Ext R) m0))
      (whenA (needsCertificateReconciliation m) (wrapA p (reconcileCertificate R)))" if "sameMint m0 m" for m p
    by (intro emits_cases(2) emits_wrap emits_network(4) [OF own])
      (simp_all add: generated_same [OF own that, symmetric] guards_complete made_def)
  show ?thesis
    unfolding reconcileOptionalIngressResources_def
    by (rule emits_bind_mint, rule emits_cases(1), rule emits_conseq [OF emits_leaf(1)])
      (simp_all add: generated_same [OF own, symmetric] guards_complete made_def [of _ "Ok None"]
        emits_seq' [OF emits_wrap [OF emits_network(3) [OF own]] cert])
qed

lemma emits_core:
  assumes own: "owner_references (x_SetControllerReference (r_Ext R))"
  shows "emits (sameMint m0) (\<lambda>xs. \<exists>cfg dep. rendered (r_Ext R) m0 cfg \<and> hashed (r_Ext R) m0 dep \<and> xs =
        [OConfigMap cfg] @ (made OPVC (GeneratePVC (r_Ext R) m0) @ made OPVC (GenerateOrchardPVC (r_Ext R) m0))
        @ [ODeployment dep]
        @ (made OService (GenerateService (r_Ext R) m0) @ made OService (GenerateOrchardService (r_Ext R) m0))
        @ made OPodMonitor (GeneratePodMonitor (r_Ext R) m0))
      (reconcileCoreResources R)"
proof -
  have pvc: "emits (sameMint m0) (\<lambda>xs. xs = made OPVC (GeneratePVC (r_Ext R) m0) @ made OPVC (GenerateOrchardPVC (r_Ext R) m0))
      (whenA (needsPVCReconciliation m) (wrapA p (reconcilePVC R)))" if "sameMint m0 m" for m p
    by (intro emits_cases(2) emits_wrap emits_network(1) [OF own])
      (simp_all add: generated_same [OF own that, symmetric] guards_complete made_def)
  have "emits (sameMint m0) (andAlso (\<lambda>xs. xs = []) (andAlso (\<lambda>xs. \<exists>cfg. rendered (r_Ext R) m0 cfg \<and> xs = [OConfigMap cfg])
      (andAlso (\<lambda>xs. xs = made OPVC (GeneratePVC (r_Ext R) m0) @ made OPVC (GenerateOrchardPVC (r_Ext R) m0))
      (andAlso (\<lambda>xs. \<exists>dep. hashed (r_Ext R) m0 dep \<and> xs = [ODeployment dep])
      (andAlso (\<lambda>xs. xs = made OService (GenerateService (r_Ext R) m0) @ made OService (GenerateOrchardService (r_Ext R) m0))
        (\<lambda>xs. xs = made OPodMonitor (GeneratePodMonitor (r_Ext R) m0))))))) (reconcileCoreResources R)"
    unfolding reconcileCoreResources_def
    by (intro emits_seq emits_wrap emits_silent emits_configMap [OF own] emits_bind_mint pvc emits_deployment [OF own]
        emits_network(2) [OF own] emits_podMonitor [OF own])
  then show ?thesis by (rule emits_conseq) (auto simp: andAlso_def)
qed

lemma emits_reconcileResources:
  assumes own: "owner_references (x_SetControllerReference (r_Ext R))"
  shows "emits (sameMint m0) (\<lambda>xs. \<exists>cfg dep. rendered (r_Ext R) m0 cfg \<and> hashed (r_Ext R) m0 dep
      \<and> xs = desiredObjects (r_Ext R) m0 cfg dep) (reconcileResources R)"
proof -
  have result: "emits (sameMint m0) (\<lambda>xs. xs = []) (bindA theMint (\<lambda>m. ret (reconcileResultForPhase (sta_Phase (cm_Status m)))))"
    by (intro emits_bind_mint emits_leaf)
  show ?thesis
    unfolding reconcileResources_def
    by (rule emits_conseq [OF emits_seq [OF emits_silent(1) emits_seq [OF emits_silent(2)
        emits_seq [OF emits_postgreSQL [OF own] emits_seq [OF emits_backup [OF own] emits_seq [OF emits_core [OF own]
        emits_seq [OF emits_ingressResources [OF own] emits_seq [OF emits_silent(5) result]]]]]]]])
      (force simp: andAlso_def desiredObjects_def)
qed

subsection \<open>The refinement\<close>

text \<open>
  C1: a reconciliation of resources that succeeds applies exactly the desired objects of the mint
  it started from, each once and in order: the database, its backups, the configuration, the
  claims, the Deployment, the Services, the monitor, the Ingresses and the Certificates. The guards
  in the reconciler never suppress an object that a generator would make, and the changes to the
  status made on the way do not change the objects. The configuration is rendered with the values
  of the secrets the mint refers to, none of them empty, and the Deployment carries the hash of a ConfigMap.
\<close>

theorem reconcile_applies_desired:
  assumes "owner_references (x_SetControllerReference (r_Ext R))"
    and "reconcileResources R \<lparr> st_trace = h, st_mint = m \<rparr> = (Ok r, s')"
  shows "\<exists>cfg dep. applied (st_trace s') = applied h @ desiredObjects (r_Ext R) m cfg dep
    \<and> rendered (r_Ext R) m cfg \<and> hashed (r_Ext R) m dep"
  using emitsD(2) [OF emits_reconcileResources [OF assms(1)] _ assms(2), of m] by auto

theorem reconcile_applies_desired_witness:
  "\<exists>cfg dep s' r. reconcileResources readyRun \<lparr> st_trace = [], st_mint = headless \<rparr> = (Ok r, s')
     \<and> applied (st_trace s') = desiredObjects sampleExt headless cfg dep"
proof -
  obtain r s' where run: "reconcileResources readyRun \<lparr> st_trace = [], st_mint = headless \<rparr> = (Ok r, s')"
    by (simp add: updStatus_def headless_simps readyRun_simps run_rules function_defs guard_defs sample_generated
      readyDeployment_def missing_def documentedMeta_def)
  have "owner_references (x_SetControllerReference (r_Ext readyRun))" by (simp add: readyRun_def)
  from reconcile_applies_desired [OF this run] run show ?thesis by (auto simp: readyRun_simps)
qed

subsection \<open>No object overwrites another\<close>

text \<open>The server keeps objects by kind, namespace and name.\<close>

fun objKind :: "object \<Rightarrow> string" where
  "objKind (OService _) = ''Service''"
| "objKind (OConfigMap _) = ''ConfigMap''"
| "objKind (ODeployment _) = ''Deployment''"
| "objKind (OStatefulSet _) = ''StatefulSet''"
| "objKind (OPVC _) = ''PersistentVolumeClaim''"
| "objKind (OIngress _) = ''Ingress''"
| "objKind (OCertificate _) = ''Certificate''"
| "objKind (OPodMonitor _) = ''PodMonitor''"
| "objKind (OCronJob _) = ''CronJob''"
| "objKind (OJob _) = ''Job''"
| "objKind (OSecret _) = ''Secret''"

definition objKey :: "object \<Rightarrow> string \<times> string \<times> string" where
  "objKey x = (objKind x, om_Namespace (objMeta x), om_Name (objMeta x))"

lemma finish_name:
  assumes "owner_references (x_SetControllerReference X)"
    and "finish X m get upd obj = Ok (Some y)" and "\<And>f x. get (upd f x) = f (get x)"
  shows "om_Name (get y) = om_Name (get obj)"
  using assms(2,3) owner_references.keeps_identity(1) [OF assms(1)] by auto

text \<open>The names of the objects of which there are several of one kind.\<close>

lemma generated_names:
  assumes own: "owner_references (x_SetControllerReference X)"
  shows "GenerateService X m = Ok (Some svc) \<Longrightarrow> om_Name (svc_Meta svc) = mintName m"
    and "GenerateOrchardService X m = Ok (Some svc) \<Longrightarrow> om_Name (svc_Meta svc) = orchardResourceName m"
    and "GeneratePostgresService X m = Ok (Some svc) \<Longrightarrow> om_Name (svc_Meta svc) = postgresName m"
    and "GenerateIngress X m = Ok (Some ing) \<Longrightarrow> om_Name (ing_Meta ing) = mintName m"
    and "GenerateOrchardIngress X m = Ok (Some ing) \<Longrightarrow> om_Name (ing_Meta ing) = orchardResourceName m"
    and "GenerateCertificate X m = Ok (Some crt) \<Longrightarrow> om_Name (crt_Meta crt) = mintName m"
    and "GenerateOrchardCertificate X m = Ok (Some crt) \<Longrightarrow> om_Name (crt_Meta crt) = orchardResourceName m"
    and "GeneratePVC X m = Ok (Some pvc) \<Longrightarrow> om_Name (pvc_Meta pvc) = mintName m @ ''-data''"
    and "GenerateOrchardPVC X m = Ok (Some pvc) \<Longrightarrow> om_Name (pvc_Meta pvc) = orchardPVCName m"
  unfolding generator_defs
  by (auto simp del: finish_eq_Ok simp: Let_def mintService_def orchardService_def postgresService_def
      ingressObject_def certificateObject_def pvcObject_def newMeta_def split: if_splits option.splits
      dest!: finish_name [OF own])

lemma set_made: "x \<in> set (made c r) \<longleftrightarrow> (\<exists>y. r = Ok (Some y) \<and> x = c y)"
  by (auto simp: made_def split: result.splits option.splits)

lemma distinct_made: "distinct (map f (made c r))"
  by (auto simp: made_def split: result.split option.split)

lemma objKey_eq:
  "objKey x = objKey y \<longleftrightarrow> objKind x = objKind y \<and> om_Namespace (objMeta x) = om_Namespace (objMeta y)
     \<and> om_Name (objMeta x) = om_Name (objMeta y)"
  by (simp add: objKey_def)

lemma distinct_map_append:
  "distinct (map f (xs @ ys)) \<longleftrightarrow> distinct (map f xs) \<and> distinct (map f ys) \<and> (\<forall>x\<in>set xs. \<forall>y\<in>set ys. f x \<noteq> f y)"
  by (auto simp: disjoint_iff image_iff)

text \<open>
  C33: the desired objects of a mint never overwrite each other: no two of them have the same kind,
  namespace and name, so that applying the list once leaves every one of them in the cluster.
\<close>

theorem desired_objects_distinct:
  assumes own: "owner_references (x_SetControllerReference X)"
  shows "distinct (map objKey (desiredObjects X m cfg dep))"
  unfolding desiredObjects_def
  by (simp only: distinct_map_append distinct_made set_append Un_iff objKey_eq)
    (auto simp: set_made generated_names [OF own] orchardResourceName_def orchardPVCName_def postgresName_def)

theorem desired_objects_distinct_witness:
  "distinct (map objKey (desiredObjects sampleExt sampleOrchard (sampleConfigMap sampleOrchard ''secret'')
     (sampleDeployment sampleOrchard ''hash'')))"
  by (rule desired_objects_distinct [OF sampleExt_owner])

subsection \<open>Two mints in one cluster\<close>

text \<open>The kind and the name of every object a mint can have.\<close>

definition objectNames :: "CashuMint \<Rightarrow> (string \<times> string) list" where
  "objectNames m =
     map (Pair ''Service'') [mintName m, orchardResourceName m, postgresName m]
     @ map (Pair ''Ingress'') [mintName m, orchardResourceName m]
     @ map (Pair ''Certificate'') [mintName m, orchardResourceName m]
     @ map (Pair ''PersistentVolumeClaim'') [mintName m @ ''-data'', orchardPVCName m]
     @ [(''StatefulSet'', postgresName m), (''Deployment'', mintName m), (''ConfigMap'', mintName m @ ''-config''),
        (''PodMonitor'', mintName m), (''CronJob'', mintName m @ ''-backup''), (''Job'', restoreJobName m)]"

lemma single_names:
  assumes own: "owner_references (x_SetControllerReference X)"
  shows "GeneratePostgresStatefulSet X m = Ok (Some sts) \<Longrightarrow> om_Name (sts_Meta sts) = postgresName m"
    and "GenerateDeployment X m hash = Ok (Some dep) \<Longrightarrow> om_Name (dep_Meta dep) = mintName m"
    and "GenerateConfigMap X m pw = Ok (Some cfg) \<Longrightarrow> om_Name (cfg_Meta cfg) = mintName m @ ''-config''"
    and "GeneratePodMonitor X m = Ok (Some pm) \<Longrightarrow> om_Name (pm_Meta pm) = mintName m"
    and "GeneratePostgresBackupCronJob X m = Ok (Some cj) \<Longrightarrow> om_Name (cj_Meta cj) = mintName m @ ''-backup''"
    and "GeneratePostgresRestoreJob X m = Ok (Some job) \<Longrightarrow> om_Name (job_Meta job) = restoreJobName m"
  unfolding generator_defs
  by (auto simp del: finish_eq_Ok simp: Let_def postgresStatefulSet_def deploymentObject_def configMapObject_def
      podMonitorObject_def backupCronJob_def restoreJob_def newMeta_def split: if_splits option.splits prod.splits
      dest!: finish_name [OF own])

lemma resolved_meta: "databaseResolved m pw m1 \<Longrightarrow> authResolved m1 m2 \<Longrightarrow> cm_Meta m2 = cm_Meta m"
  by (auto simp: databaseResolved_def authResolved_def setDatabaseURL_def setAuthURL_def split: option.splits if_splits)

lemma rendered_name:
  assumes own: "owner_references (x_SetControllerReference X)" and "rendered X m cfg"
  shows "placed m (cfg_Meta cfg)" and "om_Name (cfg_Meta cfg) = mintName m @ ''-config''"
proof -
  from assms(2) obtain pw m1 m2 where "databaseResolved m pw m1" "authResolved m1 m2" and made: "GenerateConfigMap X m2 pw = Ok (Some cfg)"
    by (auto simp: rendered_def)
  then have meta: "cm_Meta m2 = cm_Meta m" by (simp add: resolved_meta)
  show "placed m (cfg_Meta cfg)" using generated_placed(11) [OF own made] placed_cong [OF meta] by simp
  show "om_Name (cfg_Meta cfg) = mintName m @ ''-config''" using single_names(3) [OF own made] by (simp add: meta)
qed

lemma hashed_name:
  assumes own: "owner_references (x_SetControllerReference X)" and "hashed X m dep"
  shows "placed m (dep_Meta dep)" and "om_Name (dep_Meta dep) = mintName m"
  using assms(2) generated_placed(12) [OF own] single_names(2) [OF own] unfolding hashed_def by blast+

lemma desired_named:
  assumes own: "owner_references (x_SetControllerReference X)" and "rendered X m cfg" and "hashed X m dep"
    and "x \<in> set (desiredObjects X m cfg dep)"
  shows "placed m (objMeta x) \<and> (objKind x, om_Name (objMeta x)) \<in> set (objectNames m)"
  using assms(4) unfolding desiredObjects_def
  by (simp only: set_append Un_iff set_made list.set insert_iff empty_iff)
    (elim disjE exE conjE FalseE; simp only: objMeta.simps objKind.simps;
      rule conjI; simp add: objectNames_def generated_placed [OF own] generated_names [OF own] single_names [OF own]
        rendered_name [OF own assms(2)] hashed_name [OF own assms(3)])

text \<open>One name extends the other the way the generators name the dashboard and the database.\<close>

definition extendsName :: "CashuMint \<Rightarrow> CashuMint \<Rightarrow> bool" where
  "extendsName m m' = (mintName m' \<in> set [mintName m @ ''-orchard'', mintName m @ ''-postgres''])"

definition separate :: "CashuMint \<Rightarrow> CashuMint \<Rightarrow> bool" where
  "separate m m' = (mintNamespace m \<noteq> mintNamespace m'
     \<or> (mintName m \<noteq> mintName m' \<and> \<not> extendsName m m' \<and> \<not> extendsName m' m))"

lemma restoreJobName_inj: "restoreJobName m = restoreJobName m' \<Longrightarrow> mintName m = mintName m'"
  by (simp add: restoreJobName_def shortHash_shape flip: append_assoc)

lemma suffix_clash:
  "n @ ''-orchard'' \<noteq> n' @ ''-postgres''" "n @ ''-orchard-data'' = n' @ ''-data'' \<longleftrightarrow> n' = n @ ''-orchard''"
proof -
  show "n @ ''-orchard'' \<noteq> n' @ ''-postgres''"
  proof
    assume "n @ ''-orchard'' = n' @ ''-postgres''"
    then have "last (n @ ''-orchard'') = last (n' @ ''-postgres'')" by simp
    then show False by simp
  qed
  have "n @ ''-orchard-data'' = (n @ ''-orchard'') @ ''-data''" by simp
  then show "n @ ''-orchard-data'' = n' @ ''-data'' \<longleftrightarrow> n' = n @ ''-orchard''" by (metis append_same_eq)
qed

lemma objectNames_disjoint:
  assumes "mintName m \<noteq> mintName m'" and "\<not> extendsName m m'" and "\<not> extendsName m' m"
  shows "set (objectNames m) \<inter> set (objectNames m') = {}"
  using assms restoreJobName_inj [of m m'] suffix_clash [of "mintName m" "mintName m'"] suffix_clash [of "mintName m'" "mintName m"]
  by (auto simp: objectNames_def extendsName_def orchardResourceName_def orchardPVCName_def postgresName_def)

text \<open>
  C38: two mints of one cluster do not write each other's objects. The desired objects of two mints,
  each with its rendered configuration and its Deployment, have no kind, namespace and name in common
  when the mints are in different namespaces, or have different names of which neither is the other with
  \<^verbatim>\<open>-orchard\<close> or \<^verbatim>\<open>-postgres\<close> appended.
\<close>

theorem mints_share_no_object:
  assumes own: "owner_references (x_SetControllerReference X)" and "separate m m'"
    and "rendered X m cfg" and "hashed X m dep" and "rendered X m' cfg'" and "hashed X m' dep'"
  shows "objKey ` set (desiredObjects X m cfg dep) \<inter> objKey ` set (desiredObjects X m' cfg' dep') = {}"
proof (rule ccontr)
  assume "\<not> ?thesis"
  then obtain x y where x: "x \<in> set (desiredObjects X m cfg dep)" and y: "y \<in> set (desiredObjects X m' cfg' dep')"
    and key: "objKey x = objKey y" by blast
  note named = desired_named [OF own assms(3,4) x] desired_named [OF own assms(5,6) y]
  from named key have "mintNamespace m = mintNamespace m'" by (simp add: placed_def objKey_eq)
  with assms(2) have "set (objectNames m) \<inter> set (objectNames m') = {}"
    by (intro objectNames_disjoint) (simp_all add: separate_def)
  with named key show False by (auto simp: objKey_eq)
qed

theorem mints_share_no_object_witness:
  "objKey ` set (desiredObjects sampleExt headless (sampleConfigMap headless '''') (sampleDeployment headless (calculateConfigHash (sampleConfigMap headless ''''))))
   \<inter> objKey ` set (desiredObjects sampleExt sampleOrchard (sampleConfigMap sampleOrchard ''secret'')
       (sampleDeployment sampleOrchard (calculateConfigHash (sampleConfigMap sampleOrchard ''secret'')))) = {}"
proof -
  have names: "mintName sampleOrchard = ''cashumint-orchard-postgres''" by (simp add: sampleOrchard_def sampleMint_def newMeta_def)
  have "separate headless sampleOrchard" by (simp add: separate_def extendsName_def headless_simps names)
  moreover have "rendered sampleExt headless (sampleConfigMap headless '''')"
    unfolding rendered_def
    by (intro exI [of _ "''''"] exI [of _ headless])
      (simp add: databaseResolved_def authResolved_def authURLRef_def sample_generated headless_simps zeroPostgres_def)
  moreover have "rendered sampleExt sampleOrchard (sampleConfigMap sampleOrchard ''secret'')"
    unfolding rendered_def
    by (intro exI [of _ "''secret''"] exI [of _ sampleOrchard])
      (simp add: databaseResolved_def authResolved_def authURLRef_def sample_generated sample_defs)
  moreover have "hashed sampleExt m (sampleDeployment m (calculateConfigHash cm))" for m cm
    using sample_generated(2) by (auto simp: hashed_def)
  ultimately show ?thesis by (intro mints_share_no_object [OF sampleExt_owner])
qed

end
