(* ===== verification/Lifecycle.thy ===== *)
theory Lifecycle
  imports DesiredState
begin

section \<open>The life of a mint\<close>

text \<open>
  Sequences of reconciliations against a server that keeps what is written. The locale \<open>mint_server\<close> is
  the contract of the API server for one resource, with the status as a subresource: an update
  stores the object but not its status, a status update stores the status only, either is stored
  or not when it is not answered with success, and while no one else writes, other requests change
  nothing. An object marked for deletion goes with its last finalizer: from then on it is not found.
  The contract is interpreted on an in-memory server that replays the history.
\<close>

subsection \<open>The contract\<close>

text \<open>The server has removed the object: it was marked for deletion and its last finalizer is off.\<close>

definition removed :: "CashuMint \<Rightarrow> bool" where
  "removed m = (deleting m \<and> om_Finalizers (cm_Meta m) = [])"

text \<open>\<open>cur h\<close> is the mint as last stored.\<close>

locale mint_server =
  fixes c :: client and ns name :: string and cur :: "history \<Rightarrow> CashuMint"
  assumes get: "\<not> removed (cur h) \<Longrightarrow> cl_getMint c h ns name = Ok (cur h)"
    and gone: "removed (cur h) \<Longrightarrow> \<exists>e. cl_getMint c h ns name = Err e \<and> IsNotFound e"
    and update: "cl_updateMint c h m = Ok u \<Longrightarrow> cur (h @ [UpdateMint m]) = m\<lparr> cm_Status := cm_Status (cur h) \<rparr>"
    and status: "cl_updateStatus c h m = Ok u \<Longrightarrow> cur (h @ [UpdateStatus m]) = (cur h)\<lparr> cm_Status := cm_Status m \<rparr>"
    and update_once: "cur (h @ [UpdateMint m]) \<in> {m\<lparr> cm_Status := cm_Status (cur h) \<rparr>, cur h}"
    and status_once: "cur (h @ [UpdateStatus m]) \<in> {(cur h)\<lparr> cm_Status := cm_Status m \<rparr>, cur h}"
    and other: "(\<And>m. q \<noteq> UpdateMint m) \<Longrightarrow> (\<And>m. q \<noteq> UpdateStatus m) \<Longrightarrow> cur (h @ [q]) = cur h"
begin

lemma reads [simp]:
  "cur (h @ [GetMint ns' n]) = cur h" "cur (h @ [GetSecret ns' n]) = cur h" "cur (h @ [Event a b d]) = cur h"
  "cur (h @ [DeleteSecret ns' n]) = cur h"
  by (rule other; simp)+

lemma get_live: "\<not> deleting (cur h) \<Longrightarrow> cl_getMint c h ns name = Ok (cur h)"
  by (rule get) (simp add: removed_def)

text \<open>An invariant that every allowed request keeps holds at the end.\<close>

lemma invariant_steps:
  assumes "steps ok t t'" and "P (cur t)"
    and keep: "\<And>h q. P (cur h) \<Longrightarrow> ok h q \<Longrightarrow> P (cur (h @ [q]))"
  shows "P (cur t')"
proof -
  from assms(1) obtain new where t': "t' = t @ new" and ok: "\<And>a q b. new = a @ q # b \<Longrightarrow> ok (t @ a) q"
    by (auto simp: steps_def)
  have "P (cur (t @ a))" if "new = a @ b" for a b
    using that
  proof (induction a arbitrary: b rule: rev_induct)
    case (snoc q a)
    then have "P (cur (t @ a))" "ok (t @ a) q" using ok [of a q b] by simp_all
    from keep [OF this] show ?case by simp
  qed (simp add: assms(2))
  from this [of new "[]"] t' show ?thesis by simp
qed

text \<open>The two reconciliations that bring a new mint into service.\<close>

lemma adds_finalizer:
  assumes "r_Client R = c" and "apimachinery (r_Meta R)"
    and "\<not> deleting (cur h)" and "\<not> guarded R (cur h)" and "\<And>m. cl_updateMint c (h @ [GetMint ns name]) m = Ok m"
  defines "m \<equiv> updMeta (\<lambda>x. ml_AddFinalizer (r_Meta R) x cashuMintFinalizer) (cur h)"
  shows "Reconcile R ns name h = (Ok requeueNow, h @ [GetMint ns name, UpdateMint m])"
    and "cur (h @ [GetMint ns name, UpdateMint m]) = m" and "guarded R m" and "\<not> deleting m"
proof -
  show "Reconcile R ns name h = (Ok requeueNow, h @ [GetMint ns name, UpdateMint m])"
    using assms(1,3-5) get_live [of h]
    by (simp add: Reconcile_def reconcileMint_def deleting_def guarded_def run_rules updateMint_def Let_def m_def)
  show "cur (h @ [GetMint ns name, UpdateMint m]) = m"
    using update [OF assms(5) [of m]] by (simp add: m_def updMeta_def)
  show "guarded R m" "\<not> deleting m"
    using assms(2,3) by (simp_all add: m_def guarded_def deleting_def updMeta_def apimachinery.contains_add apimachinery.finalizer_identity)
qed

lemma sets_pending:
  assumes "r_Client R = c" and "\<not> deleting (cur h)" and "guarded R (cur h)" and "sta_Phase (cm_Status (cur h)) = ''''"
    and "\<And>m. cl_updateStatus c (h @ [GetMint ns name]) m = Ok m"
  defines "m \<equiv> setPhase MintPhasePending (cur h)"
  defines "h' \<equiv> h @ [GetMint ns name, UpdateStatus m, Event ''Normal'' ''Created'' ''CashuMint resource created'']"
  shows "Reconcile R ns name h = (Ok requeueNow, h')" and "serving R (cur h')"
    and "cm_Spec (cur h') = cm_Spec (cur h)"
proof -
  show "Reconcile R ns name h = (Ok requeueNow, h')"
    using assms(1-5) get_live [of h]
    by (simp add: Reconcile_def reconcileMint_def deleting_def guarded_def run_rules statusUpdate_def Let_def m_def h'_def)
  have "cur h' = (cur h)\<lparr> cm_Status := cm_Status m \<rparr>"
    using status [OF assms(5) [of m]] reads(3) [of "h @ [GetMint ns name, UpdateStatus m]"] by (simp add: h'_def)
  then show "serving R (cur h')" "cm_Spec (cur h') = cm_Spec (cur h)"
    using assms(2,3) by (simp_all add: serving_def deleting_def guarded_def m_def setPhase_def updStatus_def phase_defs)
qed

text \<open>The end: once the finalizer is off, nothing more is written, whether the object is gone or others hold it.\<close>

lemma gone_reads:
  assumes "r_Client R = c" and "removed (cur h)"
  shows "Reconcile R ns name h = (Ok noRequeue, h @ [GetMint ns name])"
  using gone [OF assms(2)] assms(1) by (auto simp: Reconcile_def Let_def)

lemma nothing_left:
  assumes "r_Client R = c" and "deleting (cur h)" and "\<not> guarded R (cur h)"
  shows "Reconcile R ns name h = (Ok noRequeue, h @ [GetMint ns name])"
proof (cases "removed (cur h)")
  case False
  from get [OF this] assms show ?thesis
    by (simp add: Reconcile_def reconcileMint_def handleDeletion_def deleting_def guarded_def run_rules Let_def)
qed (use gone_reads assms(1) in simp)

end

text \<open>A metadata library that looks finalizers up in the object's list, as \<^verbatim>\<open>controllerutil.ContainsFinalizer\<close>
  does, takes off exactly the finalizer it is given.\<close>

locale finalizer_list = apimachinery +
  assumes contains: "ml_ContainsFinalizer L meta f \<longleftrightarrow> f \<in> set (om_Finalizers meta)"
begin

lemma remaining: "set (om_Finalizers (ml_RemoveFinalizer L meta f)) = set (om_Finalizers meta) - {f}"
  using contains_remove [of meta f] unfolding contains by auto

lemma contains_present: "ml_ContainsFinalizer L (cm_Meta m) f \<Longrightarrow> \<not> removed m"
  by (auto simp: contains removed_def)

end

interpretation listed: finalizer_list documentedMeta
  by unfold_locales (simp add: documentedMeta_def)

subsection \<open>An in-memory server\<close>

fun store :: "CashuMint \<Rightarrow> request \<Rightarrow> CashuMint" where
  "store m (UpdateMint x) = (if removed m then m else x\<lparr> cm_Status := cm_Status m \<rparr>)"
| "store m (UpdateStatus x) = (if removed m then m else m\<lparr> cm_Status := cm_Status x \<rparr>)"
| "store m _ = m"

definition replay :: "CashuMint \<Rightarrow> history \<Rightarrow> CashuMint" where
  "replay = foldl store"

lemma replay_simps [simp]: "replay m [] = m" "replay m (h @ [q]) = store (replay m h) q"
  by (simp_all add: replay_def)

lemma store_other: "(\<And>m. q \<noteq> UpdateMint m) \<Longrightarrow> (\<And>m. q \<noteq> UpdateStatus m) \<Longrightarrow> store m q = m"
  by (cases q) auto

text \<open>It holds the mint until it is removed, and its password secret until that is deleted.\<close>

definition memoryClient :: "CashuMint \<Rightarrow> client" where
  "memoryClient m = (sampleClient m None (\<lambda>_. True))
     \<lparr> cl_getMint := \<lambda>h _ n. if removed (replay m h) then missing n else Ok (replay m h),
       cl_updateMint := \<lambda>h x. if removed (replay m h) then missing (mintName x) else Ok x,
       cl_updateStatus := \<lambda>h x. if removed (replay m h) then missing (mintName x) else Ok x,
       cl_getSecret := \<lambda>h ns n. if n = postgresSecretName m \<and> DeleteSecret ns n \<notin> set h
                                 then Ok (postgresSecret m ''s3cret'') else missing n \<rparr>"

lemma memoryClient_simps:
  "cl_getMint (memoryClient m) h ns n = (if removed (replay m h) then missing n else Ok (replay m h))"
  "cl_updateMint (memoryClient m) h x = (if removed (replay m h) then missing (mintName x) else Ok x)"
  "cl_updateStatus (memoryClient m) h x = (if removed (replay m h) then missing (mintName x) else Ok x)"
  "cl_getSecret (memoryClient m) h ns n =
     (if n = postgresSecretName m \<and> DeleteSecret ns n \<notin> set h then Ok (postgresSecret m ''s3cret'') else missing n)"
  "cl_deleteSecret (memoryClient m) h ns n = Ok ()"
  by (simp_all add: memoryClient_def sampleClient_def answer_def)

interpretation memory: mint_server "memoryClient m" ns name "replay m"
  by unfold_locales (auto simp: memoryClient_simps missing_def store_other split: if_splits)

text \<open>The clean-up succeeds when the server answers with success or not found.\<close>

lemma cleanup_succeeds:
  assumes server: "mint_server (r_Client R) ns name cur"
    and secret: "case cl_getSecret (r_Client R) (h @ [GetMint ns name]) (mintNamespace (cur h)) (mintName (cur h) @ ''-postgres-secret'') of
      Ok sec \<Rightarrow> (\<forall>t ns n. case cl_deleteSecret (r_Client R) t ns n of Ok _ \<Rightarrow> True | Err e \<Rightarrow> IsNotFound e | Panic _ \<Rightarrow> False)
    | Err e \<Rightarrow> IsNotFound e | Panic _ \<Rightarrow> False"
  defines "s \<equiv> \<lparr> st_trace = h @ [GetMint ns name], st_mint = cur h \<rparr>"
  shows "\<exists>t. cleanupPostgresSecret R s = (Ok (), s\<lparr> st_trace := t \<rparr>) \<and> cur t = cur h
    \<and> (\<forall>sec. autoProvisioned (cur h) \<longrightarrow> cl_getSecret (r_Client R) (h @ [GetMint ns name]) (mintNamespace (cur h))
         (mintName (cur h) @ ''-postgres-secret'') = Ok sec \<longrightarrow> DeleteSecret (om_Namespace (sec_Meta sec)) (om_Name (sec_Meta sec)) \<in> set t)"
proof -
  let ?ns = "mintNamespace (cur h)" and ?n = "mintName (cur h) @ ''-postgres-secret''"
  let ?h = "h @ [GetMint ns name]"
  note reads = mint_server.reads [OF server]
  note defs = cleanupPostgresSecret_def getSecret_def deleteSecret_def run_rules Let_def s_def
  show ?thesis
  proof (cases "autoProvisioned (cur h)")
    case auto: True
    show ?thesis
    proof (cases "cl_getSecret (r_Client R) ?h ?ns ?n")
      case (Ok sec)
      let ?del = "DeleteSecret (om_Namespace (sec_Meta sec)) (om_Name (sec_Meta sec))"
      let ?ev = "Event ''Normal'' ''SecretDeleted'' ''Auto-provisioned PostgreSQL secret deleted''"
      let ?t = "((?h @ [GetSecret ?ns ?n]) @ [?del]) @ [?ev]"
      let ?answer = "cl_deleteSecret (r_Client R) (?h @ [GetSecret ?ns ?n]) (om_Namespace (sec_Meta sec)) (om_Name (sec_Meta sec))"
      from secret Ok have "case ?answer of Ok _ \<Rightarrow> True | Err e \<Rightarrow> IsNotFound e | Panic _ \<Rightarrow> False" by (simp only: result.case)
      with Ok auto have "cleanupPostgresSecret R s = (Ok (), s\<lparr> st_trace := ?t \<rparr>)"
        by (cases ?answer) (simp_all add: defs)
      moreover have "cur ?t = cur h" by (simp only: reads)
      ultimately show ?thesis using Ok by auto
    next
      case (Err e)
      then have "cleanupPostgresSecret R s = (Ok (), s\<lparr> st_trace := ?h @ [GetSecret ?ns ?n] \<rparr>)"
        using secret auto by (simp add: defs)
      moreover have "cur (?h @ [GetSecret ?ns ?n]) = cur h" by (simp only: reads)
      ultimately show ?thesis using Err by auto
    qed (use secret in simp)
  next
    case False
    then have "cleanupPostgresSecret R s = (Ok (), s\<lparr> st_trace := ?h \<rparr>)" by (simp add: defs)
    with False reads(1) show ?thesis by auto
  qed
qed

subsection \<open>Any number of reconciliations\<close>

inductive reachable :: "CashuMintReconciler \<Rightarrow> string \<Rightarrow> string \<Rightarrow> history \<Rightarrow> history \<Rightarrow> bool"
  for R :: CashuMintReconciler and ns name :: string and h0 :: history where
  start: "reachable R ns name h0 h0"
| again: "reachable R ns name h0 h \<Longrightarrow> reachable R ns name h0 (snd (Reconcile R ns name h))"

definition knownPhases :: "MintPhase list" where
  "knownPhases = ['''', MintPhasePending, MintPhaseProvisioning, MintPhaseUpdating, MintPhaseReady, MintPhaseFailed]"

lemma phaseStep_known: "phaseStep R m h0 h p \<Longrightarrow> sta_Phase (cm_Status m) \<in> set knownPhases \<Longrightarrow> p \<in> set knownPhases"
  by (erule phaseStepE) (auto simp: knownPhases_def nextPhase_def)

lemma steps_conj: "steps ok t t' \<Longrightarrow> steps ok' t t' \<Longrightarrow> steps (\<lambda>h q. ok h q \<and> ok' h q) t t'"
  by (auto simp: steps_def)

lemma steps_imp: "(P \<Longrightarrow> steps ok t t') \<Longrightarrow> (\<not> P \<Longrightarrow> \<exists>x. t' = t @ x) \<Longrightarrow> steps (\<lambda>h q. P \<longrightarrow> ok h q) t t'"
  by (cases P) (auto simp: steps_def)

text \<open>The identity of a mint: what the operator never changes.\<close>

definition sameResource :: "CashuMint \<Rightarrow> CashuMint \<Rightarrow> bool" where
  "sameResource m m' =
     (cm_Spec m' = cm_Spec m \<and> om_DeletionTimestamp (cm_Meta m') = om_DeletionTimestamp (cm_Meta m)
      \<and> mintName m' = mintName m \<and> mintNamespace m' = mintNamespace m
      \<and> sta_Phase (cm_Status m') \<in> set knownPhases)"

lemma reconcile_keeps_present:
  assumes "mint_server (r_Client R) ns name cur" and "apimachinery (r_Meta R)"
    and "owner_references (x_SetControllerReference (r_Ext R))" and same: "sameResource m0 (cur h)"
    and present: "\<not> removed (cur h)"
  shows "sameResource m0 (cur (snd (Reconcile R ns name h)))"
proof -
  let ?m = "cur h" and ?t = "h @ [GetMint ns name]" and ?t' = "snd (Reconcile R ns name h)"
  have get: "cl_getMint (r_Client R) h ns name = Ok ?m" by (rule mint_server.get [OF assms(1) present])
  have lawful: "steps (lawful R ?m) ?t ?t'" by (rule reconcile_lawful [OF assms(3) get])
  have "steps (honest R ?m ?t) ?t ?t'" if "\<not> deleting ?m"
    using wp_reconcileMint_status [of "\<lparr> st_trace = ?t, st_mint = ?m \<rparr>" R] that get
    by (auto simp: wp_def Reconcile_def Let_def split: prod.splits)
  with lawful have both: "steps (\<lambda>t q. lawful R ?m t q \<and> (\<not> deleting ?m \<longrightarrow> honest R ?m ?t t q)) ?t ?t'"
    by (intro steps_conj steps_imp) (auto simp: steps_def)
  show ?thesis
  proof (rule mint_server.invariant_steps [OF assms(1) both])
    show "sameResource m0 (cur ?t)" using same mint_server.reads(1) [OF assms(1)] by simp
  next
    fix t q assume cur: "sameResource m0 (cur t)" and ok: "lawful R ?m t q \<and> (\<not> deleting ?m \<longrightarrow> honest R ?m ?t t q)"
    show "sameResource m0 (cur (t @ [q]))"
    proof (cases q)
      case (UpdateMint m')
      obtain fs fs' where fs: "ml_AddFinalizer (r_Meta R) (cm_Meta ?m) cashuMintFinalizer = (cm_Meta ?m)\<lparr> om_Finalizers := fs \<rparr>"
        "ml_RemoveFinalizer (r_Meta R) (cm_Meta ?m) cashuMintFinalizer = (cm_Meta ?m)\<lparr> om_Finalizers := fs' \<rparr>"
        using apimachinery.add_only [OF assms(2)] apimachinery.remove_only [OF assms(2)] by meson
      from UpdateMint ok have "m' = updMeta (\<lambda>x. x\<lparr> om_Finalizers := fs \<rparr>) ?m \<or> m' = updMeta (\<lambda>x. x\<lparr> om_Finalizers := fs' \<rparr>) ?m"
        by (auto simp: updMeta_def fs split: if_splits)
      with mint_server.update_once [OF assms(1), of t m'] same cur UpdateMint show ?thesis
        by (auto simp: sameResource_def updMeta_def)
    next
      case (UpdateStatus m')
      then have "phaseStep R ?m ?t t (sta_Phase (cm_Status m'))" using ok by (simp add: truthful_def)
      then have "sta_Phase (cm_Status m') \<in> set knownPhases" using same phaseStep_known by (auto simp: sameResource_def)
      with mint_server.status_once [OF assms(1), of t m'] cur UpdateStatus show ?thesis by (auto simp: sameResource_def)
    qed (use cur mint_server.other [OF assms(1), of q t] in simp_all)
  qed
qed

lemma reconcile_keeps_resource:
  assumes "mint_server (r_Client R) ns name cur" and "apimachinery (r_Meta R)"
    and "owner_references (x_SetControllerReference (r_Ext R))" and "sameResource m0 (cur h)"
  shows "sameResource m0 (cur (snd (Reconcile R ns name h)))"
proof (cases "removed (cur h)")
  case True
  with mint_server.gone_reads [OF assms(1) refl] mint_server.reads(1) [OF assms(1)] assms(4) show ?thesis by simp
qed (use reconcile_keeps_present assms in blast)

text \<open>Once the finalizer is off, no reconciliation writes any more.\<close>

lemma only_reads:
  assumes "mint_server (r_Client R) ns name cur" and "deleting (cur h1)" and "\<not> guarded R (cur h1)"
    and "reachable R ns name h1 h"
  shows "cur h = cur h1 \<and> (\<exists>k. h = h1 @ replicate k (GetMint ns name))
    \<and> Reconcile R ns name h = (Ok noRequeue, h @ [GetMint ns name])"
  using assms(4)
proof induction
  case start
  from mint_server.nothing_left [OF assms(1) refl assms(2,3)] show ?case by (simp add: exI [of _ 0])
next
  case (again h)
  then have h: "snd (Reconcile R ns name h) = h @ [GetMint ns name]" and cur: "cur h = cur h1" by simp_all
  with mint_server.reads(1) [OF assms(1), of h] have same: "cur (h @ [GetMint ns name]) = cur h1" by simp
  with mint_server.nothing_left [OF assms(1) refl, of "h @ [GetMint ns name]"] assms(2,3)
  have next_run: "Reconcile R ns name (h @ [GetMint ns name]) = (Ok noRequeue, (h @ [GetMint ns name]) @ [GetMint ns name])" by simp
  from again.IH obtain k where "h = h1 @ replicate k (GetMint ns name)" by blast
  then have "h @ [GetMint ns name] = h1 @ replicate (Suc k) (GetMint ns name)" by (simp add: replicate_append_same)
  with same next_run show ?case unfolding h by blast
qed

subsection \<open>The properties\<close>

text \<open>
  C20: a new mint is brought into service. Against a server that keeps what is written and accepts
  the updates, two reconciliations of a mint that has neither finalizer nor status leave it with the
  finalizer and the phase \<^verbatim>\<open>Pending\<close> and its specification untouched, each asking to be run again at
  once, and with no object applied before the finalizer was stored.
\<close>

theorem new_mint_enters_service:
  assumes "mint_server (r_Client R) ns name cur" and "apimachinery (r_Meta R)"
    and "\<And>h m. \<not> removed (cur h) \<Longrightarrow> cl_updateMint (r_Client R) h m = Ok m"
    and "\<And>h m. \<not> removed (cur h) \<Longrightarrow> cl_updateStatus (r_Client R) h m = Ok m"
    and "om_DeletionTimestamp (cm_Meta (cur h)) = None" and "sta_Phase (cm_Status (cur h)) = ''''"
    and "\<not> ml_ContainsFinalizer (r_Meta R) (cm_Meta (cur h)) cashuMintFinalizer"
  shows "\<exists>h1 h2. Reconcile R ns name h = (Ok requeueNow, h1) \<and> Reconcile R ns name h1 = (Ok requeueNow, h2)
    \<and> ml_ContainsFinalizer (r_Meta R) (cm_Meta (cur h2)) cashuMintFinalizer
    \<and> om_DeletionTimestamp (cm_Meta (cur h2)) = None \<and> sta_Phase (cm_Status (cur h2)) = MintPhasePending
    \<and> cm_Spec (cur h2) = cm_Spec (cur h) \<and> applied h2 = applied h"
proof -
  let ?m = "updMeta (\<lambda>x. ml_AddFinalizer (r_Meta R) x cashuMintFinalizer) (cur h)"
  let ?h1 = "h @ [GetMint ns name, UpdateMint ?m]"
  let ?h2 = "?h1 @ [GetMint ns name, UpdateStatus (setPhase MintPhasePending ?m),
    Event ''Normal'' ''Created'' ''CashuMint resource created'']"
  have "\<not> removed (cur (h @ [GetMint ns name]))"
    using assms(5) mint_server.reads(1) [OF assms(1)] by (simp add: removed_def deleting_def)
  then have first: "Reconcile R ns name h = (Ok requeueNow, ?h1)" "cur ?h1 = ?m" "guarded R ?m" "\<not> deleting ?m"
    using mint_server.adds_finalizer [OF assms(1) refl assms(2), of h] assms(3,5,7) by (simp_all add: deleting_def guarded_def)
  then have stored: "cur (?h1 @ [GetMint ns name]) = ?m" and present: "\<not> removed (cur (?h1 @ [GetMint ns name]))"
    using mint_server.reads(1) [OF assms(1), of ?h1] by (simp_all add: removed_def)
  have "sta_Phase (cm_Status ?m) = ''''" using assms(6) by (simp add: updMeta_def)
  then have second: "Reconcile R ns name ?h1 = (Ok requeueNow, ?h2)" "serving R (cur ?h2)" "cm_Spec (cur ?h2) = cm_Spec (cur ?h1)"
    using mint_server.sets_pending [OF assms(1) refl, of ?h1] first(2-4) assms(4) [OF present] by simp_all
  have "cur ?h2 = ?m\<lparr> cm_Status := cm_Status (setPhase MintPhasePending ?m) \<rparr>"
    using mint_server.status [OF assms(1) assms(4) [OF present], of "setPhase MintPhasePending ?m"] stored
      mint_server.reads(3) [OF assms(1), of "?h1 @ [GetMint ns name, UpdateStatus (setPhase MintPhasePending ?m)]"] by simp
  then have "sta_Phase (cm_Status (cur ?h2)) = MintPhasePending" by (simp add: setPhase_def updStatus_def)
  moreover have "cm_Spec ?m = cm_Spec (cur h)" "applied ?h2 = applied h" by (simp_all add: updMeta_def)
  ultimately show ?thesis
    using first second by (intro exI [of _ ?h1] exI [of _ ?h2]) (simp add: serving_def deleting_def guarded_def)
qed

theorem new_mint_enters_service_witness:
  "\<exists>h2. snd (Reconcile (sampleReconciler (memoryClient sampleMinimal)) ''default'' ''cashumint-minimal''
       (snd (Reconcile (sampleReconciler (memoryClient sampleMinimal)) ''default'' ''cashumint-minimal'' []))) = h2
     \<and> sta_Phase (cm_Status (replay sampleMinimal h2)) = MintPhasePending
     \<and> cashuMintFinalizer \<in> set (om_Finalizers (cm_Meta (replay sampleMinimal h2)))"
proof -
  let ?R = "sampleReconciler (memoryClient sampleMinimal)"
  have server: "mint_server (r_Client ?R) ''default'' ''cashumint-minimal'' (replay sampleMinimal)"
    using memory.mint_server_axioms by (simp add: sampleReconciler_def)
  have library: "apimachinery (r_Meta ?R)" using meta.apimachinery_axioms by (simp add: sampleReconciler_def)
  have accepts: "cl_updateMint (r_Client ?R) h m = Ok m" "cl_updateStatus (r_Client ?R) h m = Ok m"
    if "\<not> removed (replay sampleMinimal h)" for h m
    using that by (simp_all add: sampleReconciler_def memoryClient_simps)
  have fresh: "om_DeletionTimestamp (cm_Meta (replay sampleMinimal [])) = None" "sta_Phase (cm_Status (replay sampleMinimal [])) = ''''"
    "\<not> ml_ContainsFinalizer (r_Meta ?R) (cm_Meta (replay sampleMinimal [])) cashuMintFinalizer"
    by (simp_all add: sample_defs newMeta_def sampleReconciler_def documentedMeta_def)
  from new_mint_enters_service [OF server library accepts fresh]
  show ?thesis by (auto simp: sampleReconciler_def documentedMeta_def)
qed

text \<open>
  C19: deletion completes. For a mint marked for deletion that carries the finalizer, when the server
  answers the get and the deletion of the password secret with success or not found and accepts
  the update, one reconciliation takes the finalizer off the stored mint and asks for no retry. If no one
  else holds the mint by another finalizer, the server has then removed it and no longer finds it;
  otherwise it is still there. Either way every later reconciliation only asks for the mint, and asks for no retry.
  With a database provisioned and its secret present, the deletion of that secret has been requested,
  as the comments and the tests of the controller want it.
\<close>

theorem deletion_completes:
  assumes "mint_server (r_Client R) ns name cur" and "finalizer_list (r_Meta R)"
    and "\<And>h m. \<not> removed (cur h) \<Longrightarrow> cl_updateMint (r_Client R) h m = Ok m"
    and "om_DeletionTimestamp (cm_Meta (cur h)) \<noteq> None"
    and "ml_ContainsFinalizer (r_Meta R) (cm_Meta (cur h)) cashuMintFinalizer"
    and secret: "case cl_getSecret (r_Client R) (h @ [GetMint ns name]) (mintNamespace (cur h)) (mintName (cur h) @ ''-postgres-secret'') of
      Ok sec \<Rightarrow> (\<forall>t ns n. case cl_deleteSecret (r_Client R) t ns n of Ok _ \<Rightarrow> True | Err e \<Rightarrow> IsNotFound e | Panic _ \<Rightarrow> False)
    | Err e \<Rightarrow> IsNotFound e | Panic _ \<Rightarrow> False"
  shows "\<exists>h1. Reconcile R ns name h = (Ok noRequeue, h1)
    \<and> \<not> ml_ContainsFinalizer (r_Meta R) (cm_Meta (cur h1)) cashuMintFinalizer
    \<and> (if set (om_Finalizers (cm_Meta (cur h))) = {cashuMintFinalizer}
       then \<exists>e. cl_getMint (r_Client R) h1 ns name = Err e \<and> IsNotFound e
       else cl_getMint (r_Client R) h1 ns name = Ok (cur h1))
    \<and> (\<forall>h2. reachable R ns name h1 h2 \<longrightarrow> (\<exists>k. h2 = h1 @ replicate k (GetMint ns name))
          \<and> Reconcile R ns name h2 = (Ok noRequeue, h2 @ [GetMint ns name]))
    \<and> (\<forall>sec. autoProvisioned (cur h) \<and> cl_getSecret (r_Client R) (h @ [GetMint ns name]) (mintNamespace (cur h))
          (mintName (cur h) @ ''-postgres-secret'') = Ok sec \<longrightarrow> DeleteSecret (om_Namespace (sec_Meta sec)) (om_Name (sec_Meta sec)) \<in> set h1)"
proof -
  let ?s = "\<lparr> st_trace = h @ [GetMint ns name], st_mint = cur h \<rparr>"
  let ?ns = "mintNamespace (cur h)" and ?n = "mintName (cur h) @ ''-postgres-secret''"
  let ?m = "updMeta (\<lambda>x. ml_RemoveFinalizer (r_Meta R) x cashuMintFinalizer) (cur h)"
  let ?done = "Event ''Normal'' ''Deleted'' ''CashuMint cleanup completed''"
  note library = finalizer_list.axioms(1) [OF assms(2)]
  have present: "\<not> removed (cur h)" by (rule finalizer_list.contains_present [OF assms(2,5)])
  obtain t where clean: "cleanupPostgresSecret R ?s = (Ok (), ?s\<lparr> st_trace := t \<rparr>)" and cur: "cur t = cur h"
    and asked: "\<And>sec. autoProvisioned (cur h) \<Longrightarrow> cl_getSecret (r_Client R) (h @ [GetMint ns name]) ?ns ?n = Ok sec \<Longrightarrow>
      DeleteSecret (om_Namespace (sec_Meta sec)) (om_Name (sec_Meta sec)) \<in> set t"
    using cleanup_succeeds [OF assms(1) secret] by blast
  let ?h1 = "t @ [?done, UpdateMint ?m]"
  have before: "cur (t @ [?done]) = cur h" using mint_server.reads(3) [OF assms(1), of t] cur by simp
  with present have accepted: "cl_updateMint (r_Client R) (t @ [?done]) ?m = Ok ?m" by (simp add: assms(3))
  have run: "Reconcile R ns name h = (Ok noRequeue, ?h1)"
    using assms(4,5) mint_server.get [OF assms(1) present] clean accepted
    by (simp add: Reconcile_def reconcileMint_def handleDeletion_def updateMint_def run_rules Let_def)
  have stored: "cur ?h1 = ?m"
    using mint_server.update [OF assms(1) accepted] before by (simp add: updMeta_def)
  obtain fs where fs: "ml_RemoveFinalizer (r_Meta R) (cm_Meta (cur h)) cashuMintFinalizer = (cm_Meta (cur h))\<lparr> om_Finalizers := fs \<rparr>"
    using apimachinery.remove_only [OF library] by blast
  have unguarded: "\<not> guarded R (cur ?h1)" and marked: "deleting (cur ?h1)"
    using assms(4) fs apimachinery.contains_remove [OF library, of "cm_Meta (cur h)" cashuMintFinalizer cashuMintFinalizer]
    unfolding stored by (simp_all add: updMeta_def deleting_def guarded_def)
  have "removed (cur ?h1) \<longleftrightarrow> set (om_Finalizers (cm_Meta (cur h))) = {cashuMintFinalizer}"
    using marked finalizer_list.remaining [OF assms(2), of "cm_Meta (cur h)" cashuMintFinalizer] assms(5)
    unfolding stored by (auto simp: removed_def updMeta_def finalizer_list.contains [OF assms(2)] simp flip: set_empty)
  then have "if set (om_Finalizers (cm_Meta (cur h))) = {cashuMintFinalizer}
      then \<exists>e. cl_getMint (r_Client R) ?h1 ns name = Err e \<and> IsNotFound e
      else cl_getMint (r_Client R) ?h1 ns name = Ok (cur ?h1)"
    using mint_server.gone [OF assms(1), of ?h1] mint_server.get [OF assms(1), of ?h1] by simp
  with run asked unguarded only_reads [OF assms(1) marked unguarded] show ?thesis
    by (intro exI [of _ ?h1]) (simp add: guarded_def)
qed

theorem deletion_completes_witness:
  "let m = marked (inPhase MintPhaseReady sampleLND); R = sampleReconciler (memoryClient m) in
   \<exists>h1 e. Reconcile R ''default'' ''cashumint-lnd'' [] = (Ok noRequeue, h1)
     \<and> DeleteSecret ''default'' ''cashumint-lnd-postgres-secret'' \<in> set h1
     \<and> cl_getMint (r_Client R) h1 ''default'' ''cashumint-lnd'' = Err e \<and> IsNotFound e"
proof -
  let ?m = "marked (inPhase MintPhaseReady sampleLND)"
  let ?R = "sampleReconciler (memoryClient ?m)"
  have client: "r_Client ?R = memoryClient ?m" and lib: "r_Meta ?R = documentedMeta" by (simp_all add: sampleReconciler_def)
  have server: "mint_server (r_Client ?R) ''default'' ''cashumint-lnd'' (replay ?m)"
    unfolding client by (rule memory.mint_server_axioms)
  have library: "finalizer_list (r_Meta ?R)" unfolding lib by (rule listed.finalizer_list_axioms)
  have accepts: "cl_updateMint (r_Client ?R) h m = Ok m" if "\<not> removed (replay ?m h)" for h m
    using that by (simp add: client memoryClient_simps)
  have m: "om_DeletionTimestamp (cm_Meta (replay ?m [])) \<noteq> None" "om_Finalizers (cm_Meta ?m) = [cashuMintFinalizer]"
    "mintName ?m = ''cashumint-lnd''" "mintNamespace ?m = ''default''" "autoProvisioned ?m"
    by (simp_all add: marked_def inPhase_def updMeta_def setPhase_def updStatus_def sample_defs newMeta_def autoProvisioned_def)
  then have held: "ml_ContainsFinalizer (r_Meta ?R) (cm_Meta (replay ?m [])) cashuMintFinalizer"
    by (simp add: lib documentedMeta_def)
  let ?asked = "cl_getSecret (r_Client ?R) ([] @ [GetMint ''default'' ''cashumint-lnd'']) (mintNamespace (replay ?m []))
    (mintName (replay ?m []) @ ''-postgres-secret'')"
  have secret: "?asked = Ok (postgresSecret ?m ''s3cret'')"
    by (simp add: client memoryClient_simps postgresSecretName_def m)
  have clean: "case ?asked of
      Ok sec \<Rightarrow> (\<forall>t ns n. case cl_deleteSecret (r_Client ?R) t ns n of Ok _ \<Rightarrow> True | Err e \<Rightarrow> IsNotFound e | Panic _ \<Rightarrow> False)
    | Err e \<Rightarrow> IsNotFound e | Panic _ \<Rightarrow> False"
    unfolding secret by (simp add: client memoryClient_simps)
  have name: "om_Name (sec_Meta (postgresSecret ?m pw)) = ''cashumint-lnd-postgres-secret''"
    "om_Namespace (sec_Meta (postgresSecret ?m pw)) = ''default''" for pw
    by (simp_all add: postgresSecret_def postgresSecretName_def m)
  have alone: "set (om_Finalizers (cm_Meta (replay ?m []))) = {cashuMintFinalizer}" "autoProvisioned (replay ?m [])"
    using m by simp_all
  from deletion_completes [OF server library accepts m(1) held clean] obtain h1 e where
    run: "Reconcile ?R ''default'' ''cashumint-lnd'' [] = (Ok noRequeue, h1)"
    and gone: "cl_getMint (r_Client ?R) h1 ''default'' ''cashumint-lnd'' = Err e" "IsNotFound e"
    and "\<forall>sec. autoProvisioned (replay ?m []) \<and> ?asked = Ok sec \<longrightarrow> DeleteSecret (om_Namespace (sec_Meta sec)) (om_Name (sec_Meta sec)) \<in> set h1"
    unfolding alone(1) by auto
  then have "DeleteSecret ''default'' ''cashumint-lnd-postgres-secret'' \<in> set h1"
    using alone(2) secret name by metis
  with run gone show ?thesis unfolding Let_def by blast
qed

text \<open>
  C4: the operator owns the status and its finalizer, and nothing else. However often it is run, and
  whatever the server accepts or refuses, the stored mint keeps its specification, its identity and
  its deletion mark, and its phase is one of the documented ones.
\<close>

theorem operator_keeps_specification:
  assumes "mint_server (r_Client R) ns name cur" and "apimachinery (r_Meta R)"
    and "owner_references (x_SetControllerReference (r_Ext R))"
    and "sta_Phase (cm_Status (cur h0)) \<in> set knownPhases" and "reachable R ns name h0 h"
  shows "cm_Spec (cur h) = cm_Spec (cur h0) \<and> mintName (cur h) = mintName (cur h0)
    \<and> mintNamespace (cur h) = mintNamespace (cur h0)
    \<and> om_DeletionTimestamp (cm_Meta (cur h)) = om_DeletionTimestamp (cm_Meta (cur h0))
    \<and> sta_Phase (cm_Status (cur h)) \<in> set knownPhases"
proof -
  from assms(5) have "sameResource (cur h0) (cur h)"
  proof induction
    case start
    show ?case using assms(4) by (simp add: sameResource_def)
  next
    case (again h)
    show ?case by (rule reconcile_keeps_resource [OF assms(1-3) again.IH])
  qed
  then show ?thesis by (simp add: sameResource_def)
qed

theorem operator_keeps_specification_witness:
  "let R = sampleReconciler (memoryClient sampleMinimal) in
   cm_Spec (replay sampleMinimal (snd (Reconcile R ''default'' ''cashumint-minimal'' []))) = cm_Spec sampleMinimal"
proof -
  let ?R = "sampleReconciler (memoryClient sampleMinimal)"
  have server: "mint_server (r_Client ?R) ''default'' ''cashumint-minimal'' (replay sampleMinimal)"
    using memory.mint_server_axioms by (simp add: sampleReconciler_def)
  have library: "apimachinery (r_Meta ?R)" using meta.apimachinery_axioms by (simp add: sampleReconciler_def)
  have fresh: "sta_Phase (cm_Status (replay sampleMinimal [])) \<in> set knownPhases"
    by (simp add: sample_defs knownPhases_def)
  have "reachable ?R ''default'' ''cashumint-minimal'' [] (snd (Reconcile ?R ''default'' ''cashumint-minimal'' []))"
    by (rule again) (rule start)
  from operator_keeps_specification [OF server library sampleReconciler_owner fresh this] show ?thesis by (simp add: Let_def)
qed

end
