(* ===== verification/GoFlag.thy ===== *)
theory GoFlag
  imports GoLib "HOL-Library.Sublist"
begin

section \<open>Go's \<^verbatim>\<open>flag\<close> package\<close>

text \<open>
  The command-line parser of Go's standard library, as far as \<^verbatim>\<open>cmd/main.go\<close> uses it: string and
  boolean variables of a configuration of any type, and flags that libraries have registered. The
  lemmas say what the forms of a flag do, and, as the locale \<open>written_by_flag\<close>, that a field which one
  flag writes keeps its value when the flag is not named.
\<close>

text \<open>A registered flag: a string or boolean variable of the configuration, or a flag that a library
  has registered, of which only its kind and the values it accepts matter.\<close>

datatype 'c flagVar =
    StringVar "string \<Rightarrow> 'c \<Rightarrow> 'c"
  | BoolVar "bool \<Rightarrow> 'c \<Rightarrow> 'c"
  | LibraryVar bool "string \<Rightarrow> bool"

type_synonym 'c flags = "string \<Rightarrow> 'c flagVar option"

definition ParseBool :: "string \<Rightarrow> bool option" where
  "ParseBool s =
     (if s \<in> set [''1'', ''t'', ''T'', ''true'', ''TRUE'', ''True''] then Some True
      else if s \<in> set [''0'', ''f'', ''F'', ''false'', ''FALSE'', ''False''] then Some False
      else None)"

fun IsBoolFlag :: "'c flagVar \<Rightarrow> bool" where
  "IsBoolFlag (StringVar _) = False"
| "IsBoolFlag (BoolVar _) = True"
| "IsBoolFlag (LibraryVar b _) = b"

fun setFlag :: "'c flagVar \<Rightarrow> string \<Rightarrow> 'c \<Rightarrow> 'c option" where
  "setFlag (StringVar f) v c = Some (f v c)"
| "setFlag (BoolVar f) v c = map_option (\<lambda>b. f b c) (ParseBool v)"
| "setFlag (LibraryVar _ ok) v c = (if ok v then Some c else None)"

text \<open>The name and the value of an argument without its dashes; an equals sign cannot be first.\<close>

definition cutValue :: "string \<Rightarrow> string \<times> string option" where
  "cutValue name =
     (let after = dropWhile (\<lambda>c. c \<noteq> CHR ''='') (tl name) in
      (take 1 name @ takeWhile (\<lambda>c. c \<noteq> CHR ''='') (tl name), if after = [] then None else Some (tl after)))"

text \<open>One step of the parser: no more flags, an error that ends the process with a status, or a flag
  consumed. \<^verbatim>\<open>flag.CommandLine\<close> exits with status 0 after printing help and 2 after an error.\<close>

datatype 'c parsed = NoFlag | Failed int | Parsed 'c "string list"

definition assign :: "'c flagVar \<Rightarrow> string \<Rightarrow> 'c \<Rightarrow> string list \<Rightarrow> 'c parsed" where
  "assign f v c rest = (case setFlag f v c of None \<Rightarrow> Failed 2 | Some c' \<Rightarrow> Parsed c' rest)"

definition parseNamed :: "'c flags \<Rightarrow> string \<Rightarrow> string option \<Rightarrow> string list \<Rightarrow> 'c \<Rightarrow> 'c parsed" where
  "parseNamed formal n v rest c =
     (case formal n of
        None \<Rightarrow> Failed (if n = ''help'' \<or> n = ''h'' then 0 else 2)
      | Some f \<Rightarrow>
          if IsBoolFlag f then assign f (derefOr v ''true'') c rest
          else (case v of
                  Some x \<Rightarrow> assign f x c rest
                | None \<Rightarrow> (case rest of [] \<Rightarrow> Failed 2 | x # rest' \<Rightarrow> assign f x c rest')))"

definition flagText :: "string \<Rightarrow> string" where
  "flagText s = drop (if s ! 1 = CHR ''-'' then 2 else 1) s"

definition parseOne :: "'c flags \<Rightarrow> string list \<Rightarrow> 'c \<Rightarrow> 'c parsed" where
  "parseOne formal args c =
     (case args of
        [] \<Rightarrow> NoFlag
      | s # rest \<Rightarrow>
          if length s < 2 \<or> s ! 0 \<noteq> CHR ''-'' \<or> s = ''--'' then NoFlag
          else if flagText s = [] \<or> hd (flagText s) = CHR ''-'' \<or> hd (flagText s) = CHR ''='' then Failed 2
          else (case cutValue (flagText s) of (n, v) \<Rightarrow> parseNamed formal n v rest c))"

lemma parseNamed_Parsed:
  assumes "parseNamed formal n v rest c = Parsed c' rest'"
  shows "\<exists>f x. formal n = Some f \<and> setFlag f x c = Some c' \<and> suffix rest' rest"
  using assms
  by (auto simp: parseNamed_def assign_def suffix_ConsI split: option.splits if_splits list.splits)

lemma parseOne_Parsed:
  assumes "parseOne formal args c = Parsed c' rest'"
  shows "\<exists>s rest f x. args = s # rest \<and> formal (fst (cutValue (flagText s))) = Some f
    \<and> setFlag f x c = Some c' \<and> suffix rest' rest"
  using assms parseNamed_Parsed
  by (fastforce simp: parseOne_def split: list.splits if_splits prod.splits)

function parseArgs :: "'c flags \<Rightarrow> string list \<Rightarrow> 'c \<Rightarrow> int + 'c" where
  "parseArgs formal args c =
     (case parseOne formal args c of
        NoFlag \<Rightarrow> Inr c
      | Failed status \<Rightarrow> Inl status
      | Parsed c' rest \<Rightarrow> parseArgs formal rest c')"
  by pat_completeness auto
termination
  by (relation "measure (\<lambda>(_, args, _). length args)")
    (auto dest!: parseOne_Parsed suffix_length_le)

declare parseArgs.simps [simp del]

subsection \<open>The forms of a flag\<close>

text \<open>The forms of a flag: its value after an equals sign, or in the next argument.\<close>

definition flagIs :: "string \<Rightarrow> string \<Rightarrow> string" where
  "flagIs n v = ''--'' @ n @ ''='' @ v"

definition flagNext :: "string \<Rightarrow> string" where
  "flagNext n = ''-'' @ n"

lemma ParseBool_formatBool [simp]: "ParseBool (formatBool b) = Some b"
  by (simp add: ParseBool_def formatBool_def)

text \<open>A plain flag name starts with no dash and has no equals sign.\<close>

definition plainName :: "string \<Rightarrow> bool" where
  "plainName n = (n \<noteq> [] \<and> hd n \<noteq> CHR ''-'' \<and> CHR ''='' \<notin> set n)"

lemma cutValue_plain:
  assumes "plainName n"
  shows "cutValue n = (n, None)" and "cutValue (n @ ''='' @ v) = (n, Some v)"
proof -
  obtain a r where n: "n = a # r" and eq: "\<And>x. x \<in> set r \<Longrightarrow> x \<noteq> CHR ''=''"
    using assms by (cases n) (auto simp: plainName_def)
  show "cutValue n = (n, None)" using eq by (simp add: n cutValue_def takeWhile_eq_all_conv dropWhile_eq_Nil_conv)
  show "cutValue (n @ ''='' @ v) = (n, Some v)" using eq by (simp add: n cutValue_def)
qed

lemma parseOne_plain:
  assumes "plainName n"
  shows "parseOne F (flagIs n v # rest) c = parseNamed F n (Some v) rest c"
    and "parseOne F (flagNext n # rest) c = parseNamed F n None rest c"
proof -
  obtain a r where n: "n = a # r" "a \<noteq> CHR ''-''" "a \<noteq> CHR ''=''"
    using assms by (cases n) (auto simp: plainName_def)
  note cut = cutValue_plain [OF assms, unfolded n, simplified]
  show "parseOne F (flagIs n v # rest) c = parseNamed F n (Some v) rest c"
    using n by (simp add: parseOne_def flagText_def flagIs_def cut)
  show "parseOne F (flagNext n # rest) c = parseNamed F n None rest c"
    using n by (simp add: parseOne_def flagText_def flagNext_def cut)
qed

lemma parseArgs_step:
  assumes "parseOne F args c = Parsed c' rest"
  shows "parseArgs F args c = parseArgs F rest c'"
  by (subst parseArgs.simps) (simp add: assms)

lemma parse_string_flag:
  assumes "plainName n" and "F n = Some (StringVar f)"
  shows "parseArgs F (flagIs n v # rest) c = parseArgs F rest (f v c)"
    and "parseArgs F (flagNext n # v # rest) c = parseArgs F rest (f v c)"
  by (rule parseArgs_step; simp add: parseOne_plain parseNamed_def assign_def assms)+

lemma parse_bool_flag:
  assumes "plainName n" and "F n = Some (BoolVar f)"
  shows "parseArgs F (flagIs n (formatBool v) # rest) c = parseArgs F rest (f v c)"
  by (rule parseArgs_step) (simp add: parseOne_plain parseNamed_def assign_def assms)

subsection \<open>Flags that are not given\<close>

definition namesFlag :: "string \<Rightarrow> string \<Rightarrow> bool" where
  "namesFlag n arg = (fst (cutValue (flagText arg)) = n)"

text \<open>A field of the configuration that only one flag writes.\<close>

locale written_by_flag =
  fixes F :: "'c flags" and x :: string and field :: "'c \<Rightarrow> 'a"
  assumes keeps: "n \<noteq> x \<Longrightarrow> F n = Some f \<Longrightarrow> setFlag f v c = Some c' \<Longrightarrow> field c' = field c"
begin

lemma unnamed_keeps:
  assumes "parseArgs F args c = Inr c'" and "\<not> list_ex (namesFlag x) args"
  shows "field c' = field c"
  using assms
proof (induction args arbitrary: c rule: length_induct)
  case (1 args)
  show ?case
  proof (cases "parseOne F args c")
    case (Parsed d rest')
    from parseOne_Parsed [OF this] obtain s rest f v where step: "args = s # rest" "F (fst (cutValue (flagText s))) = Some f"
      "setFlag f v c = Some d" "suffix rest' rest"
      by blast
    then have "\<not> list_ex (namesFlag x) rest'" "fst (cutValue (flagText s)) \<noteq> x" "length rest' < length args"
      using 1(3) by (auto simp: list_ex_iff namesFlag_def dest: set_mono_suffix suffix_length_le)
    moreover have "parseArgs F rest' d = Inr c'"
      using 1(2) by (simp add: parseArgs_step [OF Parsed])
    ultimately show ?thesis
      using 1(1) keeps step(2,3) by metis
  qed (use 1(2) in \<open>auto simp: parseArgs.simps [of F args]\<close>)
qed

end

end
