(* ===== verification/Manager.thy ===== *)
theory Manager
  imports GoFlag DesiredState "HOL-Library.State_Monad"
begin

text \<open>
  The process of the operator, \<^verbatim>\<open>cmd/main.go\<close>, with \<^verbatim>\<open>SetupWithManager\<close> of the reconciler and
  \<^verbatim>\<open>SetupWebhookWithManager\<close>: the command line as Go's \<^verbatim>\<open>flag\<close> package reads it, the options made from
  it, and the calls that register the controller and start the manager. The manager itself is a
  library: a start-up is a sequence of calls to it, each of which an arbitrary \<open>runtime\<close> answers from
  the calls before with success or an error.
\<close>

subsection \<open>The command line\<close>

record ServerConfig =
  srv_MetricsAddr :: string
  srv_ProbeAddr :: string
  srv_LeaderElection :: bool
  srv_SecureMetrics :: bool
  srv_EnableHTTP2 :: bool
  srv_WebhookCertPath :: string
  srv_WebhookCertName :: string
  srv_WebhookCertKey :: string
  srv_MetricsCertPath :: string
  srv_MetricsCertName :: string
  srv_MetricsCertKey :: string

definition operatorFlags :: "ServerConfig flags" where
  "operatorFlags = map_of
     [(''metrics-bind-address'', StringVar (\<lambda>v c. c\<lparr> srv_MetricsAddr := v \<rparr>)),
      (''health-probe-bind-address'', StringVar (\<lambda>v c. c\<lparr> srv_ProbeAddr := v \<rparr>)),
      (''leader-elect'', BoolVar (\<lambda>v c. c\<lparr> srv_LeaderElection := v \<rparr>)),
      (''metrics-secure'', BoolVar (\<lambda>v c. c\<lparr> srv_SecureMetrics := v \<rparr>)),
      (''webhook-cert-path'', StringVar (\<lambda>v c. c\<lparr> srv_WebhookCertPath := v \<rparr>)),
      (''webhook-cert-name'', StringVar (\<lambda>v c. c\<lparr> srv_WebhookCertName := v \<rparr>)),
      (''webhook-cert-key'', StringVar (\<lambda>v c. c\<lparr> srv_WebhookCertKey := v \<rparr>)),
      (''metrics-cert-path'', StringVar (\<lambda>v c. c\<lparr> srv_MetricsCertPath := v \<rparr>)),
      (''metrics-cert-name'', StringVar (\<lambda>v c. c\<lparr> srv_MetricsCertName := v \<rparr>)),
      (''metrics-cert-key'', StringVar (\<lambda>v c. c\<lparr> srv_MetricsCertKey := v \<rparr>)),
      (''enable-http2'', BoolVar (\<lambda>v c. c\<lparr> srv_EnableHTTP2 := v \<rparr>))]"

definition defaultServerConfig :: ServerConfig where
  "defaultServerConfig =
     \<lparr> srv_MetricsAddr = ''0'', srv_ProbeAddr = '':8081'', srv_LeaderElection = False,
       srv_SecureMetrics = True, srv_EnableHTTP2 = False,
       srv_WebhookCertPath = '''', srv_WebhookCertName = ''tls.crt'', srv_WebhookCertKey = ''tls.key'',
       srv_MetricsCertPath = '''', srv_MetricsCertName = ''tls.crt'', srv_MetricsCertKey = ''tls.key'' \<rparr>"

type_synonym libraryFlags = "string \<Rightarrow> (bool \<times> (string \<Rightarrow> bool)) option"

text \<open>The libraries register flags of their own, the logger's and the client's; \<open>library\<close> stands for
  them. Registering a name twice panics, so they do not hide the operator's.\<close>

definition allFlags :: "libraryFlags \<Rightarrow> ServerConfig flags" where
  "allFlags library n =
     (case operatorFlags n of
        Some f \<Rightarrow> Some f
      | None \<Rightarrow> map_option (\<lambda>(isBool, accepts). LibraryVar isBool accepts) (library n))"

definition parseFlags :: "libraryFlags \<Rightarrow> string list \<Rightarrow> int + ServerConfig" where
  "parseFlags library args = parseArgs (allFlags library) args defaultServerConfig"

subsection \<open>The servers\<close>

text \<open>Of Go's TLS configuration only the field the options write is kept.\<close>

record TLSConfig =
  tls_NextProtos :: "string list"

type_synonym tlsOpts = "(TLSConfig \<Rightarrow> TLSConfig) list"

definition buildTLSOptions :: "bool \<Rightarrow> tlsOpts" where
  "buildTLSOptions enableHTTP2 =
     (if enableHTTP2 then [] else [\<lambda>c. c\<lparr> tls_NextProtos := [''http/1.1''] \<rparr>])"

record WebhookOptions =
  who_TLSOpts :: tlsOpts
  who_CertDir :: string
  who_CertName :: string
  who_KeyName :: string

record MetricsOptions =
  mto_BindAddress :: string
  mto_SecureServing :: bool
  mto_TLSOpts :: tlsOpts
  mto_FilterProvider :: "string option"
  mto_CertDir :: string
  mto_CertName :: string
  mto_KeyName :: string

definition configureWebhookServer :: "ServerConfig \<Rightarrow> tlsOpts \<Rightarrow> WebhookOptions" where
  "configureWebhookServer config tls =
     (if length (srv_WebhookCertPath config) > 0 then
        \<lparr> who_TLSOpts = tls, who_CertDir = srv_WebhookCertPath config,
          who_CertName = srv_WebhookCertName config, who_KeyName = srv_WebhookCertKey config \<rparr>
      else \<lparr> who_TLSOpts = tls, who_CertDir = '''', who_CertName = '''', who_KeyName = '''' \<rparr>)"

definition configureMetricsServer :: "ServerConfig \<Rightarrow> tlsOpts \<Rightarrow> MetricsOptions" where
  "configureMetricsServer config tls =
     (let opts = \<lparr> mto_BindAddress = srv_MetricsAddr config, mto_SecureServing = srv_SecureMetrics config,
                   mto_TLSOpts = tls,
                   mto_FilterProvider = (if srv_SecureMetrics config then Some ''WithAuthenticationAndAuthorization'' else None),
                   mto_CertDir = '''', mto_CertName = '''', mto_KeyName = '''' \<rparr>
      in if length (srv_MetricsCertPath config) > 0 then
           opts\<lparr> mto_CertDir := srv_MetricsCertPath config, mto_CertName := srv_MetricsCertName config,
                 mto_KeyName := srv_MetricsCertKey config \<rparr>
         else opts)"

record ManagerOptions =
  mgo_Metrics :: MetricsOptions
  mgo_WebhookServer :: WebhookOptions
  mgo_HealthProbeBindAddress :: string
  mgo_LeaderElection :: bool
  mgo_LeaderElectionID :: string

definition managerOptions :: "ServerConfig \<Rightarrow> tlsOpts \<Rightarrow> ManagerOptions" where
  "managerOptions config tls =
     \<lparr> mgo_Metrics = configureMetricsServer config tls,
       mgo_WebhookServer = configureWebhookServer config tls,
       mgo_HealthProbeBindAddress = srv_ProbeAddr config,
       mgo_LeaderElection = srv_LeaderElection config,
       mgo_LeaderElectionID = ''80fff680.cashu.asmogo.github.io'' \<rparr>"

subsection \<open>Start-up\<close>

text \<open>What the controller is built from: the kind it reconciles and the kinds whose objects, owned by
  one of the first kind, trigger a reconciliation.\<close>

record ControllerSetup =
  cts_For :: string
  cts_Owns :: "string list"
  cts_Named :: string

definition controllerSetup :: ControllerSetup where
  "controllerSetup =
     \<lparr> cts_For = ''CashuMint'',
       cts_Owns = [''Deployment'', ''StatefulSet'', ''CronJob'', ''Job'', ''Service'', ''ConfigMap'',
                   ''PersistentVolumeClaim'', ''Secret'', ''Ingress'', ''Certificate''],
       cts_Named = ''cashumint'' \<rparr>"

datatype setupCall =
    AddToScheme string
  | GetConfig
  | NewManager ManagerOptions
  | CompleteController ControllerSetup
  | CompleteWebhook string
  | AddHealthzCheck string
  | AddReadyzCheck string
  | StartManager

type_synonym runtime = "setupCall list \<Rightarrow> setupCall \<Rightarrow> error option"

datatype exit = Returned | Exited int | Panicked string

definition invoke :: "runtime \<Rightarrow> setupCall \<Rightarrow> (setupCall list, error option) state" where
  "invoke rt c = do {
     h \<leftarrow> State_Monad.get;
     State_Monad.set (h @ [c]);
     State_Monad.return (rt h c)
   }"

definition SetupWithManager :: "runtime \<Rightarrow> (setupCall list, error option) state" where
  "SetupWithManager rt = invoke rt (CompleteController controllerSetup)"

definition SetupWebhookWithManager :: "runtime \<Rightarrow> (setupCall list, error option) state" where
  "SetupWebhookWithManager rt = invoke rt (CompleteWebhook ''CashuMint'')"

definition wrapErr :: "string \<Rightarrow> error option \<Rightarrow> error option" where
  "wrapErr msg e = map_option (Wrapf msg) e"

text \<open>\<^verbatim>\<open>GetConfigOrDie\<close> ends the process with status 1 when there is no configuration of a cluster.\<close>

definition setupManager :: "runtime \<Rightarrow> ServerConfig \<Rightarrow> tlsOpts \<Rightarrow> (setupCall list, int + error option) state" where
  "setupManager rt config tls = do {
     found \<leftarrow> invoke rt GetConfig;
     if found \<noteq> None then State_Monad.return (Inl 1)
     else do {
       e \<leftarrow> invoke rt (NewManager (managerOptions config tls));
       State_Monad.return (Inr (wrapErr ''unable to create manager'' e))
     }
   }"

definition setupControllers :: "runtime \<Rightarrow> string \<Rightarrow> (setupCall list, error option) state" where
  "setupControllers rt ENABLE_WEBHOOKS = do {
     e \<leftarrow> SetupWithManager rt;
     if e \<noteq> None then State_Monad.return (wrapErr ''unable to create CashuMint controller'' e)
     else if ENABLE_WEBHOOKS \<noteq> ''false'' then do {
       e' \<leftarrow> SetupWebhookWithManager rt;
       State_Monad.return (wrapErr ''unable to create CashuMint webhook'' e')
     }
     else State_Monad.return None
   }"

definition setupHealthChecks :: "runtime \<Rightarrow> (setupCall list, error option) state" where
  "setupHealthChecks rt = do {
     e \<leftarrow> invoke rt (AddHealthzCheck ''healthz'');
     if e \<noteq> None then State_Monad.return (wrapErr ''unable to set up health check'' e)
     else do {
       e' \<leftarrow> invoke rt (AddReadyzCheck ''readyz'');
       State_Monad.return (wrapErr ''unable to set up ready check'' e')
     }
   }"

text \<open>\<^verbatim>\<open>init\<close> runs before \<^verbatim>\<open>main\<close>; \<^verbatim>\<open>utilruntime.Must\<close> panics on an error.\<close>

definition schemes :: "string list" where
  "schemes = [''clientgoscheme'', ''mintv1alpha1'', ''certmanagerv1'', ''monitoringv1'']"

fun initSchemes :: "runtime \<Rightarrow> string list \<Rightarrow> (setupCall list, string option) state" where
  "initSchemes rt [] = State_Monad.return None"
| "initSchemes rt (s # ss) = do {
     e \<leftarrow> invoke rt (AddToScheme s);
     (case e of
        Some x \<Rightarrow> State_Monad.return (Some (errString x))
      | None \<Rightarrow> initSchemes rt ss)
   }"

definition main :: "runtime \<Rightarrow> libraryFlags \<Rightarrow> string \<Rightarrow> string list \<Rightarrow> (setupCall list, exit) state" where
  "main rt library ENABLE_WEBHOOKS args =
     (case parseFlags library args of
        Inl status \<Rightarrow> State_Monad.return (Exited status)
      | Inr config \<Rightarrow> do {
          r \<leftarrow> setupManager rt config (buildTLSOptions (srv_EnableHTTP2 config));
          (case r of
             Inl status \<Rightarrow> State_Monad.return (Exited status)
           | Inr (Some _) \<Rightarrow> State_Monad.return (Exited 1)
           | Inr None \<Rightarrow> do {
               e \<leftarrow> setupControllers rt ENABLE_WEBHOOKS;
               if e \<noteq> None then State_Monad.return (Exited 1)
               else do {
                 e' \<leftarrow> setupHealthChecks rt;
                 if e' \<noteq> None then State_Monad.return (Exited 1)
                 else do {
                   e'' \<leftarrow> invoke rt StartManager;
                   State_Monad.return (if e'' \<noteq> None then Exited 1 else Returned)
                 }
               }
             })
        })"

definition process :: "runtime \<Rightarrow> libraryFlags \<Rightarrow> string \<Rightarrow> string list \<Rightarrow> exit \<times> setupCall list" where
  "process rt library ENABLE_WEBHOOKS args = run_state (do {
     p \<leftarrow> initSchemes rt schemes;
     (case p of
        Some msg \<Rightarrow> State_Monad.return (Panicked msg)
      | None \<Rightarrow> main rt library ENABLE_WEBHOOKS args)
   }) []"

subsection \<open>The command line determines the configuration\<close>
definition commandLine :: "ServerConfig \<Rightarrow> string list" where
  "commandLine c =
     [flagIs ''metrics-bind-address'' (srv_MetricsAddr c), flagNext ''health-probe-bind-address'', srv_ProbeAddr c,
      flagIs ''leader-elect'' (formatBool (srv_LeaderElection c)), flagIs ''metrics-secure'' (formatBool (srv_SecureMetrics c)),
      flagIs ''webhook-cert-path'' (srv_WebhookCertPath c), flagNext ''webhook-cert-name'', srv_WebhookCertName c,
      flagIs ''webhook-cert-key'' (srv_WebhookCertKey c), flagNext ''metrics-cert-path'', srv_MetricsCertPath c,
      flagIs ''metrics-cert-name'' (srv_MetricsCertName c), flagNext ''metrics-cert-key'', srv_MetricsCertKey c,
      flagIs ''enable-http2'' (formatBool (srv_EnableHTTP2 c))]"

lemma allFlags_operator:
  assumes "operatorFlags n = Some f"
  shows "allFlags library n = Some f"
  by (simp add: allFlags_def assms)

text \<open>How the parser treats each of the operator's flags.\<close>

lemma flag_names [simp]:
  "plainName ''metrics-bind-address''" "plainName ''health-probe-bind-address''" "plainName ''leader-elect''"
  "plainName ''metrics-secure''" "plainName ''webhook-cert-path''" "plainName ''webhook-cert-name''"
  "plainName ''webhook-cert-key''" "plainName ''metrics-cert-path''" "plainName ''metrics-cert-name''"
  "plainName ''metrics-cert-key''" "plainName ''enable-http2''"
  by (simp_all add: plainName_def)

lemma operator_string_flags:
  "operatorFlags ''metrics-bind-address'' = Some (StringVar (\<lambda>v c. c\<lparr> srv_MetricsAddr := v \<rparr>))"
  "operatorFlags ''health-probe-bind-address'' = Some (StringVar (\<lambda>v c. c\<lparr> srv_ProbeAddr := v \<rparr>))"
  "operatorFlags ''webhook-cert-path'' = Some (StringVar (\<lambda>v c. c\<lparr> srv_WebhookCertPath := v \<rparr>))"
  "operatorFlags ''webhook-cert-name'' = Some (StringVar (\<lambda>v c. c\<lparr> srv_WebhookCertName := v \<rparr>))"
  "operatorFlags ''webhook-cert-key'' = Some (StringVar (\<lambda>v c. c\<lparr> srv_WebhookCertKey := v \<rparr>))"
  "operatorFlags ''metrics-cert-path'' = Some (StringVar (\<lambda>v c. c\<lparr> srv_MetricsCertPath := v \<rparr>))"
  "operatorFlags ''metrics-cert-name'' = Some (StringVar (\<lambda>v c. c\<lparr> srv_MetricsCertName := v \<rparr>))"
  "operatorFlags ''metrics-cert-key'' = Some (StringVar (\<lambda>v c. c\<lparr> srv_MetricsCertKey := v \<rparr>))"
  by (simp_all add: operatorFlags_def)

lemma operator_bool_flags:
  "operatorFlags ''leader-elect'' = Some (BoolVar (\<lambda>v c. c\<lparr> srv_LeaderElection := v \<rparr>))"
  "operatorFlags ''metrics-secure'' = Some (BoolVar (\<lambda>v c. c\<lparr> srv_SecureMetrics := v \<rparr>))"
  "operatorFlags ''enable-http2'' = Some (BoolVar (\<lambda>v c. c\<lparr> srv_EnableHTTP2 := v \<rparr>))"
  by (simp_all add: operatorFlags_def)

lemmas string_flags = operator_string_flags [THEN allFlags_operator, THEN parse_string_flag(1) [where F = "allFlags library" for library, rotated]]
  operator_string_flags [THEN allFlags_operator, THEN parse_string_flag(2) [where F = "allFlags library" for library, rotated]]
lemmas bool_flags = operator_bool_flags [THEN allFlags_operator, THEN parse_bool_flag [where F = "allFlags library" for library, rotated]]

text \<open>
  C35: every configuration can be given on the command line, in any of the forms the parser accepts,
  and is read back exactly, whatever flags the libraries register and whatever follows the operator's
  flags; so each flag sets its own field and no other.
\<close>

theorem command_line_read_back:
  "parseFlags library (commandLine c @ ''--'' # operands) = Inr c"
proof -
  have "parseFlags library (commandLine c @ ''--'' # operands) = parseArgs (allFlags library) (''--'' # operands) c"
    unfolding parseFlags_def commandLine_def
    by (cases c) (simp add: string_flags bool_flags defaultServerConfig_def)
  also have "\<dots> = Inr c"
    by (subst parseArgs.simps) (simp add: parseOne_def)
  finally show ?thesis .
qed

subsection \<open>Flags that are not given keep their defaults\<close>

interpretation http2: written_by_flag "allFlags library" "''enable-http2''" srv_EnableHTTP2 for library
  by unfold_locales (auto simp: allFlags_def operatorFlags_def split: if_splits option.splits)

interpretation secure: written_by_flag "allFlags library" "''metrics-secure''" srv_SecureMetrics for library
  by unfold_locales (auto simp: allFlags_def operatorFlags_def split: if_splits option.splits)

subsection \<open>The start-up in order\<close>

text \<open>The calls of a start-up in which nothing fails.\<close>

definition startup :: "string \<Rightarrow> ServerConfig \<Rightarrow> setupCall list" where
  "startup ENABLE_WEBHOOKS config =
     map AddToScheme schemes
     @ [GetConfig, NewManager (managerOptions config (buildTLSOptions (srv_EnableHTTP2 config))),
        CompleteController controllerSetup]
     @ whenL (ENABLE_WEBHOOKS \<noteq> ''false'') [CompleteWebhook ''CashuMint'']
     @ [AddHealthzCheck ''healthz'', AddReadyzCheck ''readyz'', StartManager]"

text \<open>Making calls until one fails: whether all succeeded, and the calls made.\<close>

fun attempt :: "runtime \<Rightarrow> setupCall list \<Rightarrow> setupCall list \<Rightarrow> bool \<times> setupCall list" where
  "attempt rt h [] = (True, h)"
| "attempt rt h (c # cs) = (if rt h c = None then attempt rt (h @ [c]) cs else (False, h @ [c]))"

lemma attempt_prefix:
  assumes "attempt rt h cs = (ok, h')"
  shows "\<exists>made. h' = h @ made \<and> prefix made cs \<and> (ok \<longleftrightarrow> made = cs \<and> (\<forall>i < length made. rt (h @ take i made) (made ! i) = None))
    \<and> (\<forall>i. Suc i < length made \<longrightarrow> rt (h @ take i made) (made ! i) = None)"
  using assms
proof (induction cs arbitrary: h)
  case Nil
  then show ?case by simp
next
  case (Cons c cs)
  show ?case
  proof (cases "rt h c = None")
    case True
    with Cons.prems have "attempt rt (h @ [c]) cs = (ok, h')" by simp
    from Cons.IH [OF this] obtain made where "h' = (h @ [c]) @ made" "prefix made cs"
      "ok \<longleftrightarrow> made = cs \<and> (\<forall>i < length made. rt ((h @ [c]) @ take i made) (made ! i) = None)"
      "\<forall>i. Suc i < length made \<longrightarrow> rt ((h @ [c]) @ take i made) (made ! i) = None"
      by blast
    with True show ?thesis
      by (intro exI [of _ "c # made"]) (auto simp: less_Suc_eq_0_disj nth_Cons split: nat.splits)
  next
    case False
    with Cons.prems show ?thesis by (intro exI [of _ "[c]"]) auto
  qed
qed

lemma run_invoke [simp]: "run_state (invoke rt c) h = (rt h c, h @ [c])"
  by (simp add: invoke_def)

lemma attempt_append:
  "attempt rt h (cs @ cs') = (case attempt rt h cs of (ok, h') \<Rightarrow> if ok then attempt rt h' cs' else (False, h'))"
  by (induction cs arbitrary: h) auto

text \<open>A piece of the start-up attempts some calls: it makes them until one fails, and its result is
  good exactly when none does.\<close>

definition attempts :: "runtime \<Rightarrow> ('a \<Rightarrow> bool) \<Rightarrow> (setupCall list, 'a) state \<Rightarrow> setupCall list \<Rightarrow> bool" where
  "attempts rt good m cs =
     (\<forall>h. attempt rt h cs = (good (fst (run_state m h)), snd (run_state m h)))"

definition stops :: "('a \<Rightarrow> bool) \<Rightarrow> (setupCall list, 'a) state \<Rightarrow> bool" where
  "stops good m = (\<exists>r. m = State_Monad.return r \<and> \<not> good r)"

lemma stops_return [simp]: "\<not> good r \<Longrightarrow> stops good (State_Monad.return r)"
  by (auto simp: stops_def)

lemma attempts_invoke: "attempts rt (\<lambda>e. e = None) (invoke rt c) [c]"
  by (simp add: attempts_def)

lemma attempts_return: "good r \<Longrightarrow> attempts rt good (State_Monad.return r) []"
  by (simp add: attempts_def)

lemma attempts_bind:
  assumes m: "attempts rt good m cs" and k: "\<And>r. good r \<Longrightarrow> attempts rt good' (k r) cs'"
    and bad: "\<And>r. \<not> good r \<Longrightarrow> stops good' (k r)"
  shows "attempts rt good' (State_Monad.bind m k) (cs @ cs')"
  unfolding attempts_def
proof
  fix h
  obtain r h' where run: "run_state m h = (r, h')" by force
  with m have at: "attempt rt h cs = (good r, h')"
    by (simp add: attempts_def)
  show "attempt rt h (cs @ cs') =
      (good' (fst (run_state (State_Monad.bind m k) h)), snd (run_state (State_Monad.bind m k) h))"
  proof (cases "good r")
    case True
    with k [OF True] show ?thesis by (simp add: attempt_append at run attempts_def)
  next
    case False
    with bad [OF False] show ?thesis by (auto simp: attempt_append at run stops_def)
  qed
qed

lemma attempts_first:
  assumes "attempts rt good (k None) cs" and "\<And>x. stops good (k (Some x))"
  shows "attempts rt good (State_Monad.bind (invoke rt c) k) (c # cs)"
  using attempts_bind [OF attempts_invoke, of rt good k cs c] assms by auto

lemma attempts_last:
  assumes "\<And>r. good (f r) \<longleftrightarrow> r = None"
  shows "attempts rt good (State_Monad.bind (invoke rt c) (\<lambda>r. State_Monad.return (f r))) [c]"
  using assms by (auto simp: attempts_def)

lemma wrapErr_None [simp]: "wrapErr msg e = None \<longleftrightarrow> e = None"
  by (simp add: wrapErr_def)

lemma attempts_initSchemes:
  "attempts rt (\<lambda>p. p = None) (initSchemes rt ss) (map AddToScheme ss)"
proof (induction ss)
  case Nil
  show ?case by (simp add: attempts_return)
next
  case (Cons s ss)
  then show ?case unfolding initSchemes.simps list.map by (intro attempts_first) simp_all
qed

lemma attempts_setupManager:
  "attempts rt (\<lambda>r. r = Inr None) (setupManager rt config tls) [GetConfig, NewManager (managerOptions config tls)]"
  unfolding setupManager_def by (rule attempts_first) (auto intro: attempts_last)

lemma attempts_setupControllers:
  "attempts rt (\<lambda>e. e = None) (setupControllers rt env)
     (CompleteController controllerSetup # whenL (env \<noteq> ''false'') [CompleteWebhook ''CashuMint''])"
  unfolding setupControllers_def SetupWithManager_def SetupWebhookWithManager_def
  by (rule attempts_first) (auto intro: attempts_last attempts_return simp: wrapErr_def)

lemma attempts_setupHealthChecks:
  "attempts rt (\<lambda>e. e = None) (setupHealthChecks rt) [AddHealthzCheck ''healthz'', AddReadyzCheck ''readyz'']"
  unfolding setupHealthChecks_def by (rule attempts_first) (auto intro: attempts_last simp: wrapErr_def)

lemma attempts_main:
  assumes "parseFlags library args = Inr config"
  shows "attempts rt (\<lambda>x. x = Returned) (main rt library env args)
    ([GetConfig, NewManager (managerOptions config (buildTLSOptions (srv_EnableHTTP2 config)))]
     @ (CompleteController controllerSetup # whenL (env \<noteq> ''false'') [CompleteWebhook ''CashuMint''])
     @ [AddHealthzCheck ''healthz'', AddReadyzCheck ''readyz''] @ [StartManager])"
  unfolding main_def assms sum.case
proof (rule attempts_bind [OF attempts_setupManager], goal_cases)
  case (1 r)
  have start: "attempts rt (\<lambda>x. x = Returned)
      (do { e'' \<leftarrow> invoke rt StartManager; State_Monad.return (if e'' \<noteq> None then Exited 1 else Returned) }) [StartManager]"
    by (rule attempts_last) simp
  have checks: "attempts rt (\<lambda>x. x = Returned)
      (do { e' \<leftarrow> setupHealthChecks rt;
            if e' \<noteq> None then State_Monad.return (Exited 1)
            else do { e'' \<leftarrow> invoke rt StartManager; State_Monad.return (if e'' \<noteq> None then Exited 1 else Returned) } })
      ([AddHealthzCheck ''healthz'', AddReadyzCheck ''readyz''] @ [StartManager])"
    by (rule attempts_bind [OF attempts_setupHealthChecks]) (use start in simp_all)
  show ?case
    unfolding 1 sum.case option.case
    by (rule attempts_bind [OF attempts_setupControllers]) (use checks in simp_all)
next
  case (2 r)
  then show ?case by (auto split: sum.splits option.splits)
qed

lemma process_attempts:
  assumes "parseFlags library args = Inr config"
  shows "attempt rt [] (startup env config) =
    (fst (process rt library env args) = Returned, snd (process rt library env args))"
proof -
  have "attempts rt (\<lambda>x. x = Returned)
    (do { p \<leftarrow> initSchemes rt schemes;
          (case p of Some msg \<Rightarrow> State_Monad.return (Panicked msg) | None \<Rightarrow> main rt library env args) })
    (startup env config)"
    unfolding startup_def
    using attempts_main [OF assms, of rt env]
    by (intro attempts_bind [OF attempts_initSchemes]) (auto split: option.splits)
  then show ?thesis by (simp add: attempts_def process_def)
qed

lemma rejected_process:
  assumes "parseFlags library args = Inl status"
  shows "prefix (snd (process rt library env args)) (map AddToScheme schemes)
    \<and> (fst (process rt library env args) = Exited status \<or> (\<exists>msg. fst (process rt library env args) = Panicked msg))"
proof -
  obtain p h where run: "run_state (initSchemes rt schemes) [] = (p, h)" by force
  with attempts_initSchemes [of rt schemes] have "attempt rt [] (map AddToScheme schemes) = (p = None, h)"
    by (simp add: attempts_def)
  from attempt_prefix [OF this] have "prefix h (map AddToScheme schemes)" by simp
  with run assms show ?thesis by (auto simp: process_def main_def split: option.splits)
qed

text \<open>
  C28: the operator starts only when it is set up. A process whose command line is accepted makes the
  calls of the start-up in order and stops at the first that fails; in particular the manager is
  started only after the schemes, the controller, the webhook (unless it is disabled) and both
  health checks have been registered without an error, and the process returns normally only if
  all of it, the run of the manager included, succeeded. A command line that is not accepted ends
  the process with the parser's status before any call to the manager.
\<close>

theorem started_only_when_set_up:
  "let (ended, calls) = process rt library env args in
   case parseFlags library args of
     Inl status \<Rightarrow> prefix calls (map AddToScheme schemes) \<and> (ended = Exited status \<or> (\<exists>msg. ended = Panicked msg))
   | Inr config \<Rightarrow>
       prefix calls (startup env config)
       \<and> (\<forall>i. Suc i < length calls \<longrightarrow> rt (take i calls) (calls ! i) = None)
       \<and> (ended = Returned \<longleftrightarrow> calls = startup env config \<and> (\<forall>i < length calls. rt (take i calls) (calls ! i) = None))"
proof (cases "parseFlags library args")
  case (Inl status)
  with rejected_process [OF Inl, of rt env] show ?thesis by (auto simp: case_prod_beta')
next
  case (Inr config)
  from attempt_prefix [OF process_attempts [OF Inr, of rt env]] Inr
  show ?thesis by (auto simp: case_prod_beta')
qed

text \<open>A runtime in which nothing fails but, perhaps, one kind of call.\<close>

definition failing :: "setupCall list \<Rightarrow> runtime" where
  "failing bad h c = (if c \<in> set bad then Some (Errorf ''failed'') else None)"

lemma parse_leader_elect:
  "parseFlags library [''--leader-elect''] = Inr (defaultServerConfig\<lparr> srv_LeaderElection := True \<rparr>)"
proof -
  have "parseOne (allFlags library) [''--leader-elect''] c = Parsed (c\<lparr> srv_LeaderElection := True \<rparr>) []" for c
    by (simp add: parseOne_def flagText_def cutValue_def parseNamed_def allFlags_def operatorFlags_def assign_def ParseBool_def)
  from parseArgs_step [OF this] show ?thesis
    by (simp add: parseFlags_def parseArgs.simps [of _ "[]"] parseOne_def)
qed

theorem started_only_when_set_up_witness:
  "\<exists>ended calls. process (failing [CompleteWebhook ''CashuMint'']) (\<lambda>_. None) '''' [''--leader-elect''] = (ended, calls)
     \<and> ended \<noteq> Returned \<and> prefix calls (startup '''' (defaultServerConfig\<lparr> srv_LeaderElection := True \<rparr>))"
proof -
  let ?rt = "failing [CompleteWebhook ''CashuMint'']" and ?c = "defaultServerConfig\<lparr> srv_LeaderElection := True \<rparr>"
  obtain ended calls where run: "process ?rt (\<lambda>_. None) '''' [''--leader-elect''] = (ended, calls)" by force
  from started_only_when_set_up [of ?rt "\<lambda>_. None" "''''" "[''--leader-elect'']"]
  have pre: "prefix calls (startup '''' ?c)"
    and ret: "ended = Returned \<Longrightarrow> calls = startup '''' ?c \<and> (\<forall>i < length calls. ?rt (take i calls) (calls ! i) = None)"
    by (simp add: run parse_leader_elect, simp add: run parse_leader_elect, blast)
  have "length (startup '''' ?c) > 7 \<and> startup '''' ?c ! 7 = CompleteWebhook ''CashuMint''"
    by (simp add: startup_def schemes_def)
  moreover have "?rt h (CompleteWebhook ''CashuMint'') \<noteq> None" for h
    by (simp add: failing_def)
  ultimately have "ended \<noteq> Returned" using ret by metis
  with run pre show ?thesis by blast
qed

lemma sample_process:
  "snd (process (failing []) (\<lambda>_. None) '''' [''--leader-elect'']) =
     startup '''' (defaultServerConfig\<lparr> srv_LeaderElection := True \<rparr>)"
proof -
  have "attempt (failing []) h cs = (True, h @ cs)" for h cs
    by (induction cs arbitrary: h) (simp_all add: failing_def)
  with process_attempts [OF parse_leader_elect, of "failing []" "''''"] show ?thesis by simp
qed

subsection \<open>The servers are safe by default\<close>

definition protocols :: "tlsOpts \<Rightarrow> string list" where
  "protocols opts = tls_NextProtos (fold (\<lambda>f c. f c) opts \<lparr> tls_NextProtos = [''h2'', ''http/1.1''] \<rparr>)"

lemma call_in_process:
  assumes "c \<in> set (snd (process rt library env args))"
  shows "c \<in> set (map AddToScheme schemes) \<or> (\<exists>config. parseFlags library args = Inr config \<and> c \<in> set (startup env config))"
proof (cases "parseFlags library args")
  case (Inl status)
  with rejected_process [OF Inl, of rt env] assms show ?thesis by (blast dest: set_mono_prefix)
next
  case (Inr config)
  from attempt_prefix [OF process_attempts [OF Inr, of rt env]]
  have "prefix (snd (process rt library env args)) (startup env config)" by simp
  with assms Inr show ?thesis by (blast dest: set_mono_prefix)
qed

text \<open>
  C29: the servers are safe unless the command line asks otherwise. Whatever else it contains, a
  command line that does not name \<^verbatim>\<open>enable-http2\<close> gives a manager whose webhook and metrics servers
  speak HTTP/1.1 only; and one that does not name \<^verbatim>\<open>metrics-secure\<close> gives a metrics endpoint that is
  served over TLS and only to authenticated and authorised clients.
\<close>

theorem servers_safe_by_default:
  assumes "NewManager opts \<in> set (snd (process rt library env args))"
  shows "(\<not> list_ex (namesFlag ''enable-http2'') args \<longrightarrow>
      protocols (who_TLSOpts (mgo_WebhookServer opts)) = [''http/1.1'']
      \<and> protocols (mto_TLSOpts (mgo_Metrics opts)) = [''http/1.1''])
    \<and> (\<not> list_ex (namesFlag ''metrics-secure'') args \<longrightarrow>
      mto_SecureServing (mgo_Metrics opts)
      \<and> mto_FilterProvider (mgo_Metrics opts) = Some ''WithAuthenticationAndAuthorization'')"
proof -
  from call_in_process [OF assms] obtain config where parse: "parseFlags library args = Inr config"
    and opts: "opts = managerOptions config (buildTLSOptions (srv_EnableHTTP2 config))"
    by (auto simp: startup_def split: if_splits)
  from parse have args: "parseArgs (allFlags library) args defaultServerConfig = Inr config"
    by (simp add: parseFlags_def)
  show ?thesis
    using http2.unnamed_keeps [OF args] secure.unnamed_keeps [OF args]
    by (auto simp: opts managerOptions_def configureWebhookServer_def configureMetricsServer_def Let_def
        defaultServerConfig_def protocols_def buildTLSOptions_def)
qed

theorem servers_safe_by_default_witness:
  "\<exists>opts. NewManager opts \<in> set (snd (process (failing []) (\<lambda>_. None) '''' [''--leader-elect'']))
     \<and> protocols (mto_TLSOpts (mgo_Metrics opts)) = [''http/1.1''] \<and> mto_SecureServing (mgo_Metrics opts)"
proof -
  let ?c = "defaultServerConfig\<lparr> srv_LeaderElection := True \<rparr>"
  have new: "NewManager (managerOptions ?c (buildTLSOptions (srv_EnableHTTP2 ?c)))
      \<in> set (snd (process (failing []) (\<lambda>_. None) '''' [''--leader-elect'']))"
    by (simp add: sample_process startup_def)
  have "\<not> list_ex (namesFlag n) [''--leader-elect'']" if "n \<noteq> ''leader-elect''" for n
    using that by (simp add: namesFlag_def flagText_def cutValue_def)
  with servers_safe_by_default [OF new] new show ?thesis by auto
qed

subsection \<open>What triggers a reconciliation\<close>

text \<open>
  C30: the controller notices changes of what it applies. Every object a reconciliation applies, of
  whatever server, carries the mint as its controlling owner and is of a kind that the started
  controller watches for owned objects, so that a change or a deletion of it triggers a
  reconciliation of the mint; the only exceptions are PodMonitors, which are not watched.
\<close>

theorem applied_objects_are_watched:
  assumes "owner_references (x_SetControllerReference (r_Ext R))"
    and "CompleteController setup \<in> set (snd (process rt library env args))"
    and "snd (Reconcile R ns name h) = h @ GetMint ns name # a @ Apply x # b"
  shows "cts_For setup = ''CashuMint''
    \<and> (\<exists>m. cl_getMint (r_Client R) h ns name = Ok m \<and> ownedBy m (objMeta x))
    \<and> (objKind x \<in> set (cts_Owns setup) \<or> objKind x = ''PodMonitor'')"
proof -
  from call_in_process [OF assms(2)] have "setup = controllerSetup" by (auto simp: startup_def split: if_splits)
  moreover have "objKind x \<in> set (cts_Owns controllerSetup) \<or> objKind x = ''PodMonitor''"
    by (cases x) (simp_all add: controllerSetup_def)
  ultimately show ?thesis
    using reconcile_request [OF assms(1,3)] by (auto simp: placed_def controllerSetup_def)
qed

theorem applied_objects_are_watched_witness:
  "\<exists>d a b. snd (Reconcile configRun ''default'' ''cashumint-lnd'' []) = GetMint ''default'' ''cashumint-lnd'' # a @ Apply (ODeployment d) # b
     \<and> CompleteController controllerSetup \<in> set (snd (process (failing []) (\<lambda>_. None) '''' [''--leader-elect'']))
     \<and> ''Deployment'' \<in> set (cts_Owns controllerSetup)
     \<and> ownedBy (inPhase MintPhasePending sampleExternal) (dep_Meta d)"
proof -
  from configRun_history obtain c d b where run: "snd (Reconcile configRun ''default'' ''cashumint-lnd'' []) =
     [] @ GetMint ''default'' ''cashumint-lnd''
       # [Event ''Normal'' ''Provisioning'' ''Starting resource provisioning'', Apply (OConfigMap c),
          GetConfigMap ''default'' ''cashumint-lnd-config''] @ Apply (ODeployment d) # b" by blast
  have own: "owner_references (x_SetControllerReference (r_Ext configRun))" by (simp add: configRun_def Let_def)
  have started: "CompleteController controllerSetup \<in> set (snd (process (failing []) (\<lambda>_. None) '''' [''--leader-elect'']))"
    by (simp add: sample_process startup_def)
  from applied_objects_are_watched [OF own started run] run started show ?thesis
    by (intro exI [of _ d] exI [of _ "[_, _, _]"] exI [of _ b])
      (auto simp: configRun_def Let_def cluster_defs sample_defs sampleExternal_def newMeta_def updMeta_def setPhase_def
        updStatus_def split: if_splits)
qed

end
