(* ===== verification/GoHeap.thy ===== *)
theory GoHeap
  imports Prelude "HOL-Library.State_Monad" "HOL-Library.Disjoint_Sets"
begin

section \<open>Go values in memory\<close>

text \<open>
  Everywhere else in the development a Go value is an immutable HOL value. Deep copies are about what
  that leaves out, so here a value lives in a heap: a struct is held in place, while a pointer, a
  slice and a map are addresses. The relation \<open>denotes\<close> reads a value of a type as a pure tree, with the
  addresses it reaches; \<open>copies\<close> is the contract of a copying function. The combinators are the
  patterns that controller-gen writes, and the lemmas say that each of them keeps the contract.
  A value is a tree in memory: different parts of it reach different addresses.

  A slice is the whole of its array and a pointer points to a whole allocation, which is how the
  decoder of an API object builds it.
\<close>

subsection \<open>Values, heaps and types\<close>

datatype val =
    Scalar string
  | Struct "string \<Rightarrow> val option"
  | Ptr "nat option"
  | Slice "nat option"
  | MapRef "nat option"

datatype cell = Cell val | Array "val list" | Table "string \<Rightarrow> string option"

record goheap =
  h_cells :: "nat \<Rightarrow> cell option"
  h_next :: nat

datatype ty = TScalar | TStruct "(string \<times> ty) list" | TPtr ty | TSlice ty | TMap

text \<open>The types without references, whose values an assignment copies completely.\<close>

fun flat :: "ty \<Rightarrow> bool" where
  "flat TScalar = True"
| "flat (TStruct fs) = (\<forall>(n, t) \<in> set fs. flat t)"
| "flat (TPtr _) = False"
| "flat (TSlice _) = False"
| "flat TMap = False"

datatype tree =
    Leaf string
  | Node "string \<Rightarrow> tree option"
  | NilT
  | Ref tree
  | Elems "tree list"
  | Dict "string \<Rightarrow> string option"

inductive denotes :: "goheap \<Rightarrow> ty \<Rightarrow> val \<Rightarrow> tree \<Rightarrow> nat set \<Rightarrow> bool" for h where
  scalar: "denotes h TScalar (Scalar s) (Leaf s) {}"
| struct: "dom m = fst ` set fs \<Longrightarrow> dom X = fst ` set fs \<Longrightarrow>
     (\<And>n t. (n, t) \<in> set fs \<Longrightarrow> denotes h t (the (m n)) (the (X n)) (A n)) \<Longrightarrow>
     disjoint_family_on A (fst ` set fs) \<Longrightarrow> distinct (map fst fs) \<Longrightarrow>
     denotes h (TStruct fs) (Struct m) (Node X) (\<Union>p \<in> set fs. A (fst p))"
| nil_ptr: "denotes h (TPtr t) (Ptr None) NilT {}"
| ptr: "h_cells h a = Some (Cell v) \<Longrightarrow> denotes h t v x A \<Longrightarrow> a \<notin> A \<Longrightarrow>
     denotes h (TPtr t) (Ptr (Some a)) (Ref x) (insert a A)"
| nil_slice: "denotes h (TSlice t) (Slice None) NilT {}"
| slice: "h_cells h a = Some (Array vs) \<Longrightarrow> length xs = length vs \<Longrightarrow>
     (\<And>i. i < length vs \<Longrightarrow> denotes h t (vs ! i) (xs ! i) (A i)) \<Longrightarrow>
     disjoint_family_on A {..<length vs} \<Longrightarrow> (\<And>i. i < length vs \<Longrightarrow> a \<notin> A i) \<Longrightarrow>
     denotes h (TSlice t) (Slice (Some a)) (Elems xs) (insert a (\<Union>i < length vs. A i))"
| nil_map: "denotes h TMap (MapRef None) NilT {}"
| map: "h_cells h a = Some (Table m) \<Longrightarrow> denotes h TMap (MapRef (Some a)) (Dict m) {a}"

inductive_cases denotes_structE: "denotes h (TStruct fs) v x A"
inductive_cases denotes_ptrE: "denotes h (TPtr t) v x A"
inductive_cases denotes_sliceE: "denotes h (TSlice t) v x A"
inductive_cases denotes_sliceSomeE: "denotes h (TSlice t) (Slice (Some a)) x A"
inductive_cases denotes_refE: "denotes h (TPtr t) (Ptr (Some b)) (Ref x) A"
inductive_cases denotes_nodeE: "denotes h (TStruct fs) v (Node X) A"
inductive_cases denotes_mapE: "denotes h TMap v x A"
inductive_cases denotes_scalarE: "denotes h TScalar v x A"

subsection \<open>What copying code does\<close>

type_synonym copier = "val \<Rightarrow> (goheap, val) state"

definition alloc :: "cell \<Rightarrow> (goheap, nat) state" where
  "alloc c = do {
     h \<leftarrow> State_Monad.get;
     State_Monad.set (h\<lparr> h_cells := (h_cells h)(h_next h \<mapsto> c), h_next := Suc (h_next h) \<rparr>);
     State_Monad.return (h_next h)
   }"

definition store :: "nat \<Rightarrow> cell \<Rightarrow> (goheap, unit) state" where
  "store a c = do {
     h \<leftarrow> State_Monad.get;
     State_Monad.set (h\<lparr> h_cells := (h_cells h)(a \<mapsto> c) \<rparr>)
   }"

definition load :: "nat \<Rightarrow> (goheap, cell option) state" where
  "load a = do {
     h \<leftarrow> State_Monad.get;
     State_Monad.return (h_cells h a)
   }"

definition zeroVal :: val where "zeroVal = Scalar ''''"

text \<open>\<^verbatim>\<open>*out = new(T); (*in).DeepCopyInto(*out)\<close>, unless \<^verbatim>\<open>in\<close> is nil. With \<open>State_Monad.return\<close> for the function
  this is \<^verbatim>\<open>**out = **in\<close>.\<close>

definition copyPtr :: "copier \<Rightarrow> copier" where
  "copyPtr f v =
     (case v of
        Ptr (Some a) \<Rightarrow> do {
          b \<leftarrow> alloc (Cell zeroVal);
          c \<leftarrow> load a;
          (case c of
             Some (Cell w) \<Rightarrow> do { w' \<leftarrow> f w; store b (Cell w') }
           | _ \<Rightarrow> State_Monad.return ());
          State_Monad.return (Ptr (Some b))
        }
      | _ \<Rightarrow> State_Monad.return v)"

text \<open>\<^verbatim>\<open>*out = make([]T, len(*in))\<close> and a loop over the elements, or \<^verbatim>\<open>copy(*out, *in)\<close>.\<close>

fun copyElems :: "copier \<Rightarrow> val list \<Rightarrow> (goheap, val list) state" where
  "copyElems f [] = State_Monad.return []"
| "copyElems f (v # vs) = do {
     w \<leftarrow> f v;
     ws \<leftarrow> copyElems f vs;
     State_Monad.return (w # ws)
   }"

definition copySlice :: "copier \<Rightarrow> copier" where
  "copySlice f v =
     (case v of
        Slice (Some a) \<Rightarrow> do {
          c \<leftarrow> load a;
          (case c of
             Some (Array vs) \<Rightarrow> do {
               b \<leftarrow> alloc (Array (replicate (length vs) zeroVal));
               ws \<leftarrow> copyElems f vs;
               store b (Array ws);
               State_Monad.return (Slice (Some b))
             }
           | _ \<Rightarrow> State_Monad.return v)
        }
      | _ \<Rightarrow> State_Monad.return v)"

text \<open>\<^verbatim>\<open>*out = make(map[string]string, len(*in))\<close> and a loop that assigns every key.\<close>

definition copyMap :: copier where
  "copyMap v =
     (case v of
        MapRef (Some a) \<Rightarrow> do {
          c \<leftarrow> load a;
          (case c of
             Some (Table m) \<Rightarrow> do { b \<leftarrow> alloc (Table m); State_Monad.return (MapRef (Some b)) }
           | _ \<Rightarrow> State_Monad.return v)
        }
      | _ \<Rightarrow> State_Monad.return v)"

text \<open>\<^verbatim>\<open>*out = *in\<close>, and then a statement for each of the listed fields.\<close>

fun runStmts :: "(string \<times> copier) list \<Rightarrow> (string \<Rightarrow> val option) \<Rightarrow> (string \<Rightarrow> val option)
    \<Rightarrow> (goheap, string \<Rightarrow> val option) state" where
  "runStmts [] m out = State_Monad.return out"
| "runStmts ((n, f) # ss) m out = do {
     w \<leftarrow> f (the (m n));
     runStmts ss m (out(n \<mapsto> w))
   }"

definition deepCopyInto :: "(string \<times> copier) list \<Rightarrow> copier" where
  "deepCopyInto ss v =
     (case v of
        Struct m \<Rightarrow> do { out \<leftarrow> runStmts ss m m; State_Monad.return (Struct out) }
      | _ \<Rightarrow> State_Monad.return v)"

lemma run_memory [simp]:
  "run_state (alloc c) h =
     (h_next h, h\<lparr> h_cells := (h_cells h)(h_next h \<mapsto> c), h_next := Suc (h_next h) \<rparr>)"
  "run_state (store a c) h = ((), h\<lparr> h_cells := (h_cells h)(a \<mapsto> c) \<rparr>)"
  "run_state (load a) h = (h_cells h a, h)"
  by (simp_all add: alloc_def store_def load_def)

subsection \<open>Footprints\<close>

definition heapOK :: "goheap \<Rightarrow> bool" where
  "heapOK h = (\<forall>a. h_cells h a \<noteq> None \<longrightarrow> a < h_next h)"

definition grows :: "goheap \<Rightarrow> goheap \<Rightarrow> bool" where
  "grows h h' = (h_next h \<le> h_next h' \<and> (\<forall>a < h_next h. h_cells h' a = h_cells h a))"

lemma grows_refl [simp]: "grows h h"
  by (simp add: grows_def)

lemma grows_trans [trans]: "grows h h' \<Longrightarrow> grows h' h'' \<Longrightarrow> grows h h''"
  by (simp add: grows_def)

lemma denotes_frame:
  assumes "denotes h t v x A" and "\<And>a. a \<in> A \<Longrightarrow> h_cells h' a = h_cells h a"
  shows "denotes h' t v x A"
  using assms
proof (induction rule: denotes.induct)
  case (struct m fs X A)
  show ?case by (rule denotes.struct) (use struct in \<open>force+\<close>)
next
  case (slice a vs xs t A)
  have "denotes h' t (vs ! i) (xs ! i) (A i)" if "i < length vs" for i
    by (rule slice.IH [OF that]) (use slice.prems that in blast)
  with slice show ?case by (intro denotes.slice) simp_all
qed (auto intro!: denotes.intros)

lemma denotes_allocated:
  assumes "denotes h t v x A"
  shows "A \<subseteq> dom (h_cells h)"
  using assms by (induction rule: denotes.induct) fastforce+

lemma denotes_below:
  assumes "denotes h t v x A" and "heapOK h" and "a \<in> A"
  shows "a < h_next h"
  using denotes_allocated [OF assms(1)] assms(2,3) by (auto simp: heapOK_def)

lemma denotes_grows:
  assumes "denotes h t v x A" and "heapOK h" and "grows h h'"
  shows "denotes h' t v x A"
  using assms(3) denotes_below [OF assms(1,2)] by (intro denotes_frame [OF assms(1)]) (simp add: grows_def)

lemma denotes_flat:
  assumes "denotes h t v x A" and "flat t"
  shows "A = {}"
  using assms by (induction rule: denotes.induct) force+

text \<open>Reading is a function: a value denotes at most one tree.\<close>

lemma denotes_unique:
  assumes "denotes h t v x A" and "denotes h t v x' A'"
  shows "x' = x"
  using assms
proof (induction arbitrary: x' A' rule: denotes.induct)
  case (struct m fs X A)
  from struct.prems obtain X' B where X': "x' = Node X'" "dom X' = fst ` set fs"
    "\<And>n t. (n, t) \<in> set fs \<Longrightarrow> denotes h t (the (m n)) (the (X' n)) (B n)"
    by (auto elim!: denotes_structE)
  have "X' n = X n" for n
  proof (cases "n \<in> fst ` set fs")
    case True
    then obtain t where n: "(n, t) \<in> set fs" by auto
    from struct.IH [OF n X'(3) [OF n]] have "the (X' n) = the (X n)" .
    moreover from True struct(2) X'(2) have "X' n \<noteq> None" "X n \<noteq> None" by blast+
    ultimately show ?thesis by auto
  next
    case False
    with struct(2) X'(2) show ?thesis by (metis domIff)
  qed
  with X'(1) show ?case by auto
next
  case (slice a vs xs t A)
  from slice.prems obtain vs' xs' B where x': "x' = Elems xs'" "h_cells h a = Some (Array vs')" "length xs' = length vs'"
    "\<And>i. i < length vs' \<Longrightarrow> denotes h t (vs' ! i) (xs' ! i) (B i)"
    by (rule denotes_sliceSomeE) metis
  from slice(1) x'(2) have vs': "vs' = vs" by simp
  have "xs' ! i = xs ! i" if "i < length vs" for i
    by (rule slice.IH [OF that]) (use x'(4) that vs' in simp)
  with x'(3) vs' slice(2) have "xs' = xs" by (intro nth_equalityI) simp_all
  with x'(1) show ?case by simp
next
  case (ptr a v t x A)
  from ptr.prems show ?case by (rule denotes_ptrE) (use ptr.hyps(1) ptr.IH in auto)
next
  case (map a m)
  from map(2) show ?case by (rule denotes_mapE) (use map(1) in auto)
qed (erule denotes_scalarE denotes_ptrE denotes_sliceE denotes_mapE; simp)+

subsection \<open>The contract of a copying function\<close>

definition copies :: "ty \<Rightarrow> copier \<Rightarrow> bool" where
  "copies t f =
     (\<forall>h v x A. heapOK h \<longrightarrow> denotes h t v x A \<longrightarrow>
        (\<exists>v' h' A'. run_state (f v) h = (v', h') \<and> heapOK h' \<and> grows h h'
           \<and> denotes h' t v' x A' \<and> (\<forall>a \<in> A'. h_next h \<le> a)))"

lemma copiesI:
  assumes "\<And>h v x A. heapOK h \<Longrightarrow> denotes h t v x A \<Longrightarrow>
     \<exists>v' h' A'. run_state (f v) h = (v', h') \<and> heapOK h' \<and> grows h h'
       \<and> denotes h' t v' x A' \<and> (\<forall>a \<in> A'. h_next h \<le> a)"
  shows "copies t f"
  using assms by (auto simp: copies_def)

lemma copiesE:
  assumes "copies t f" and "heapOK h" and "denotes h t v x A"
  obtains v' h' A' where "run_state (f v) h = (v', h')" "heapOK h'" "grows h h'"
    "denotes h' t v' x A'" "\<forall>a \<in> A'. h_next h \<le> a"
  using assms unfolding copies_def by metis

lemma copies_flat:
  assumes "flat t"
  shows "copies t State_Monad.return"
  using denotes_flat [OF _ assms] by (intro copiesI) fastforce

text \<open>A cell allocated before the copying and written after it.\<close>

lemma heap_alloc:
  assumes "heapOK h"
  shows "heapOK (h\<lparr> h_cells := (h_cells h)(h_next h \<mapsto> c), h_next := Suc (h_next h) \<rparr>)"
    and "grows h (h\<lparr> h_cells := (h_cells h)(h_next h \<mapsto> c), h_next := Suc (h_next h) \<rparr>)"
  using assms by (auto simp: heapOK_def grows_def less_Suc_eq)

lemma heap_store:
  assumes "heapOK h1" and "grows h h1" and "h_next h \<le> b" and "b < h_next h1"
  shows "heapOK (h1\<lparr> h_cells := (h_cells h1)(b \<mapsto> c) \<rparr>)"
    and "grows h (h1\<lparr> h_cells := (h_cells h1)(b \<mapsto> c) \<rparr>)"
  using assms by (auto simp: heapOK_def grows_def)

lemma copies_ptr:
  assumes f: "copies t f"
  shows "copies (TPtr t) (copyPtr f)"
proof (rule copiesI)
  fix h v x A assume ok: "heapOK h" and den: "denotes h (TPtr t) v x A"
  let ?b = "h_next h"
  let ?h1 = "h\<lparr> h_cells := (h_cells h)(?b \<mapsto> Cell zeroVal), h_next := Suc ?b \<rparr>"
  from den consider (none) "v = Ptr None" "x = NilT"
    | (some) a w y B where "v = Ptr (Some a)" "x = Ref y" "h_cells h a = Some (Cell w)" "denotes h t w y B"
    by (blast elim: denotes_ptrE)
  then show "\<exists>v' h' A'. run_state (copyPtr f v) h = (v', h') \<and> heapOK h' \<and> grows h h'
      \<and> denotes h' (TPtr t) v' x A' \<and> (\<forall>a \<in> A'. h_next h \<le> a)"
  proof cases
    case none
    with ok show ?thesis by (auto simp: copyPtr_def intro: denotes.intros)
  next
    case (some a w y B)
    note h1 = heap_alloc [OF ok, of "Cell zeroVal"]
    obtain w' h2 B' where
      run: "run_state (f w) ?h1 = (w', h2)" "heapOK h2" "grows ?h1 h2" "denotes h2 t w' y B'"
      and fresh: "\<forall>a \<in> B'. h_next ?h1 \<le> a"
      by (rule copiesE [OF f h1(1) denotes_grows [OF some(4) ok h1(2)]])
    let ?h3 = "h2\<lparr> h_cells := (h_cells h2)(?b \<mapsto> Cell w') \<rparr>"
    have b: "?b < h_next h2" "?b \<notin> B'" using run(3) fresh by (auto simp: grows_def)
    have "heapOK ?h3" "grows h ?h3"
      using heap_store [OF run(2) grows_trans [OF h1(2) run(3)] order_refl b(1)] by auto
    moreover have "denotes ?h3 (TPtr t) (Ptr (Some ?b)) (Ref y) (insert ?b B')"
    proof (rule denotes.ptr)
      show "denotes ?h3 t w' y B'" using b(2) by (intro denotes_frame [OF run(4)]) auto
    qed (simp_all add: b(2))
    moreover from some ok have "a \<noteq> ?b" by (auto simp: heapOK_def)
    with some run(1) have "run_state (copyPtr f v) h = (Ptr (Some ?b), ?h3)"
      by (simp add: copyPtr_def)
    ultimately show ?thesis using some(2) fresh by fastforce
  qed
qed

lemma copies_map: "copies TMap copyMap"
proof (rule copiesI)
  fix h v x A assume ok: "heapOK h" and den: "denotes h TMap v x A"
  from den consider (none) "v = MapRef None" "x = NilT"
    | (some) a m where "v = MapRef (Some a)" "x = Dict m" "h_cells h a = Some (Table m)"
    by (blast elim: denotes_mapE)
  then show "\<exists>v' h' A'. run_state (copyMap v) h = (v', h') \<and> heapOK h' \<and> grows h h'
      \<and> denotes h' TMap v' x A' \<and> (\<forall>a \<in> A'. h_next h \<le> a)"
  proof cases
    case none
    with ok show ?thesis by (auto simp: copyMap_def intro: denotes.intros)
  next
    case (some a m)
    with heap_alloc [OF ok, of "Table m"] show ?thesis
      by (auto simp: copyMap_def intro!: exI [of _ "{h_next h}"] denotes.map)
  qed
qed

lemma copies_elems:
  assumes f: "copies t f" and "heapOK h" and "length xs = length vs"
    and "\<And>i. i < length vs \<Longrightarrow> denotes h t (vs ! i) (xs ! i) (A i)"
  shows "\<exists>ws h' B. run_state (copyElems f vs) h = (ws, h') \<and> heapOK h' \<and> grows h h' \<and> length ws = length vs
    \<and> disjoint_family_on B {..<length vs}
    \<and> (\<forall>i < length vs. denotes h' t (ws ! i) (xs ! i) (B i) \<and> (\<forall>a \<in> B i. h_next h \<le> a))"
  using assms(2-)
proof (induction vs arbitrary: h xs A)
  case Nil
  then show ?case by (auto simp: disjoint_family_on_def)
next
  case (Cons v vs)
  from Cons.prems(2) obtain y ys where xs: "xs = y # ys" "length ys = length vs" by (cases xs) auto
  from Cons.prems(3) [of 0] xs have "denotes h t v y (A 0)" by simp
  then obtain w h1 C where w: "run_state (f v) h = (w, h1)" "heapOK h1" "grows h h1"
    "denotes h1 t w y C" "\<forall>a \<in> C. h_next h \<le> a" by (rule copiesE [OF f Cons.prems(1)])
  have "denotes h1 t (vs ! i) (ys ! i) (A (Suc i))" if "i < length vs" for i
    using denotes_grows [OF Cons.prems(3) Cons.prems(1) w(3), of "Suc i"] that xs by simp
  from Cons.IH [OF w(2) xs(2) this] obtain ws h2 B where ws: "run_state (copyElems f vs) h1 = (ws, h2)" "heapOK h2"
    "grows h1 h2" "length ws = length vs" "disjoint_family_on B {..<length vs}"
    "\<forall>i < length vs. denotes h2 t (ws ! i) (ys ! i) (B i) \<and> (\<forall>a \<in> B i. h_next h1 \<le> a)" by blast
  have "h_next h \<le> h_next h1" using w(3) by (simp add: grows_def)
  then have "denotes h2 t ((w # ws) ! i) (xs ! i) (case_nat C B i) \<and> (\<forall>a \<in> case_nat C B i. h_next h \<le> a)"
    if "i < length (v # vs)" for i
    using denotes_grows [OF w(4,2) ws(3)] w(5) ws(6) xs that by (cases i) force+
  moreover have "C \<inter> B i = {}" if "i < length vs" for i
    using denotes_below [OF w(4,2)] ws(6) that by fastforce
  with ws(5) have "disjoint_family_on (case_nat C B) {..<length (v # vs)}"
    by (auto simp: disjoint_family_on_def split: nat.splits)
  ultimately show ?case using w(1) ws(1-4) grows_trans [OF w(3) ws(3)]
    by (intro exI [of _ "w # ws"] exI [of _ h2] exI [of _ "case_nat C B"]) auto
qed

lemma copies_slice:
  assumes f: "copies t f"
  shows "copies (TSlice t) (copySlice f)"
proof (rule copiesI)
  fix h v x A assume ok: "heapOK h" and den: "denotes h (TSlice t) v x A"
  from den consider (none) "v = Slice None" "x = NilT"
    | (some) a vs xs C where "v = Slice (Some a)" "x = Elems xs" "h_cells h a = Some (Array vs)"
        "length xs = length vs" "\<And>i. i < length vs \<Longrightarrow> denotes h t (vs ! i) (xs ! i) (C i)"
    by (rule denotes_sliceE) metis+
  then show "\<exists>v' h' A'. run_state (copySlice f v) h = (v', h') \<and> heapOK h' \<and> grows h h'
      \<and> denotes h' (TSlice t) v' x A' \<and> (\<forall>a \<in> A'. h_next h \<le> a)"
  proof cases
    case none
    with ok show ?thesis by (auto simp: copySlice_def intro: denotes.intros)
  next
    case (some a vs xs C)
    let ?b = "h_next h" and ?zero = "Array (replicate (length vs) zeroVal)"
    let ?h1 = "h\<lparr> h_cells := (h_cells h)(?b \<mapsto> ?zero), h_next := Suc ?b \<rparr>"
    note h1 = heap_alloc [OF ok, of ?zero]
    have "denotes ?h1 t (vs ! i) (xs ! i) (C i)" if "i < length vs" for i
      using denotes_grows [OF some(5) ok h1(2)] that by blast
    from copies_elems [OF f h1(1) some(4) this] obtain ws h2 B where
      run: "run_state (copyElems f vs) ?h1 = (ws, h2)" "heapOK h2" "grows ?h1 h2" "length ws = length vs"
      and dis: "disjoint_family_on B {..<length vs}" and ws: "\<forall>i < length vs. denotes h2 t (ws ! i) (xs ! i) (B i) \<and> (\<forall>a \<in> B i. h_next ?h1 \<le> a)" by blast
    let ?h3 = "h2\<lparr> h_cells := (h_cells h2)(?b \<mapsto> Array ws) \<rparr>"
    have b: "?b < h_next h2" using run(3) by (auto simp: grows_def)
    have "heapOK ?h3" "grows h ?h3"
      using heap_store [OF run(2) grows_trans [OF h1(2) run(3)] order_refl b] by auto
    moreover have "denotes ?h3 (TSlice t) (Slice (Some ?b)) (Elems xs) (insert ?b (\<Union>i < length ws. B i))"
    proof (rule denotes.slice)
      fix i assume "i < length ws"
      with ws run(4) have i: "denotes h2 t (ws ! i) (xs ! i) (B i)" "\<forall>a \<in> B i. Suc ?b \<le> a" by simp_all
      from i(2) have "?b \<notin> B i" using not_less_eq_eq by blast
      then show "?b \<notin> B i" .
      then show "denotes ?h3 t (ws ! i) (xs ! i) (B i)" by (intro denotes_frame [OF i(1)]) (simp, metis)
    qed (use some(4) run(4) dis in auto)
    moreover have "run_state (copySlice f v) h = (Slice (Some ?b), ?h3)"
      using some run(1) by (simp add: copySlice_def)
    moreover have "\<forall>a \<in> insert ?b (\<Union>i < length ws. B i). ?b \<le> a"
      using ws run(4) by fastforce
    ultimately show ?thesis unfolding some(2) by blast
  qed
qed

text \<open>
  In the middle of a struct's function, some fields of the output are copied already and the others
  are still those of the input.
\<close>

definition partly :: "goheap \<Rightarrow> goheap \<Rightarrow> (string \<times> ty) list \<Rightarrow> (string \<Rightarrow> val option) \<Rightarrow> (string \<Rightarrow> tree option)
    \<Rightarrow> string set \<Rightarrow> (string \<Rightarrow> nat set) \<Rightarrow> (string \<Rightarrow> val option) \<Rightarrow> bool" where
  "partly h0 h fs m X D B out =
     (heapOK h \<and> grows h0 h \<and> dom out = dom m \<and> disjoint_family_on B D
      \<and> (\<forall>n t. (n, t) \<in> set fs \<longrightarrow>
            (n \<in> D \<longrightarrow> denotes h t (the (out n)) (the (X n)) (B n) \<and> (\<forall>a \<in> B n. h_next h0 \<le> a))
          \<and> (n \<notin> D \<longrightarrow> out n = m n)))"

lemma partly_step:
  assumes part: "partly h0 h fs m X D B out" and ok: "heapOK h0" and dist: "distinct (map fst fs)"
    and m: "dom m = fst ` set fs" "\<And>n t. (n, t) \<in> set fs \<Longrightarrow> denotes h0 t (the (m n)) (the (X n)) (A n)"
    and n: "(n, t) \<in> set fs" and f: "copies t f" and D: "D \<subseteq> fst ` set fs"
  shows "\<exists>w h1 C. run_state (f (the (m n))) h = (w, h1) \<and> partly h0 h1 fs m X (insert n D) (B(n := C)) (out(n \<mapsto> w))"
proof -
  from part have h: "heapOK h" "grows h0 h" "dom out = dom m" by (simp_all add: partly_def)
  obtain w h1 C where w: "run_state (f (the (m n))) h = (w, h1)" "heapOK h1" "grows h h1"
    "denotes h1 t w (the (X n)) C" "\<forall>a \<in> C. h_next h \<le> a"
    by (rule copiesE [OF f h(1) denotes_grows [OF m(2) [OF n] ok h(2)]])
  from h(2) w(5) have new: "\<forall>a \<in> C. h_next h0 \<le> a" by (fastforce simp: grows_def)
  have "(n' \<in> insert n D \<longrightarrow> denotes h1 t' (the ((out(n \<mapsto> w)) n')) (the (X n')) ((B(n := C)) n')
          \<and> (\<forall>a \<in> (B(n := C)) n'. h_next h0 \<le> a))
      \<and> (n' \<notin> insert n D \<longrightarrow> (out(n \<mapsto> w)) n' = m n')" if n': "(n', t') \<in> set fs" for n' t'
  proof (cases "n' = n")
    case True
    with n' n dist have "t' = t" by (metis eq_key_imp_eq_value)
    with True w(4) new show ?thesis by simp
  next
    case False
    with part n' show ?thesis by (simp add: partly_def denotes_grows [OF _ h(1) w(3)])
  qed
  moreover have "B n' \<inter> C = {}" if "n' \<in> D" for n'
  proof -
    from that D obtain t' where "(n', t') \<in> set fs" by auto
    with part that have "denotes h t' (the (out n')) (the (X n')) (B n')" by (simp add: partly_def)
    from denotes_below [OF this h(1)] w(5) show ?thesis by fastforce
  qed
  with part have "disjoint_family_on (B(n := C)) (insert n D)"
    by (auto simp: partly_def disjoint_family_on_def)
  moreover from n m(1) h(3) have "dom (out(n \<mapsto> w)) = dom m" by force
  ultimately have "partly h0 h1 fs m X (insert n D) (B(n := C)) (out(n \<mapsto> w))"
    using w(2) grows_trans [OF h(2) w(3)] unfolding partly_def by blast
  with w(1) show ?thesis by blast
qed

lemma partly_run:
  assumes "partly h0 h fs m X D B out" and ok: "heapOK h0" and dist: "distinct (map fst fs)"
    and m: "dom m = fst ` set fs" "\<And>n t. (n, t) \<in> set fs \<Longrightarrow> denotes h0 t (the (m n)) (the (X n)) (A n)"
    and ss: "\<forall>(n, f) \<in> set ss. \<exists>t. (n, t) \<in> set fs \<and> copies t f" and "D \<subseteq> fst ` set fs"
  shows "\<exists>out' h' B'. run_state (runStmts ss m out) h = (out', h') \<and> partly h0 h' fs m X (fst ` set ss \<union> D) B' out'"
  using assms(1) ss assms(7)
proof (induction ss arbitrary: h D B out)
  case Nil
  then show ?case by auto
next
  case (Cons s ss)
  obtain n f where s: "s = (n, f)" by force
  with Cons.prems(2) obtain t where t: "(n, t) \<in> set fs" "copies t f" by auto
  from partly_step [OF Cons.prems(1) ok dist m t Cons.prems(3)] obtain w h1 C where
    run: "run_state (f (the (m n))) h = (w, h1)" and part: "partly h0 h1 fs m X (insert n D) (B(n := C)) (out(n \<mapsto> w))"
    by blast
  have "\<exists>out' h' B'. run_state (runStmts ss m (out(n \<mapsto> w))) h1 = (out', h')
      \<and> partly h0 h' fs m X (fst ` set ss \<union> insert n D) B' out'"
  proof (rule Cons.IH [OF part])
    show "\<forall>(n, f) \<in> set ss. \<exists>t. (n, t) \<in> set fs \<and> copies t f" using Cons.prems(2) by simp
    show "insert n D \<subseteq> fst ` set fs" using Cons.prems(3) t(1) by force
  qed
  then show ?case using run by (simp add: s)
qed

text \<open>A struct is copied when every statement copies its field and every field without a statement is
  free of references.\<close>

definition complete :: "(string \<times> ty) list \<Rightarrow> (string \<times> copier) list \<Rightarrow> bool" where
  "complete fs ss =
     (distinct (map fst fs) \<and> (\<forall>(n, f) \<in> set ss. \<exists>t. (n, t) \<in> set fs \<and> copies t f)
      \<and> (\<forall>(n, t) \<in> set fs. n \<in> fst ` set ss \<or> flat t))"

lemma copies_struct:
  assumes "complete fs ss"
  shows "copies (TStruct fs) (deepCopyInto ss)"
proof (rule copiesI)
  fix h v x A assume ok: "heapOK h" and "denotes h (TStruct fs) v x A"
  then obtain m X B where v: "v = Struct m" "x = Node X" "dom m = fst ` set fs" "dom X = fst ` set fs"
    and den: "\<And>n t. (n, t) \<in> set fs \<Longrightarrow> denotes h t (the (m n)) (the (X n)) (B n)"
    by (elim denotes_structE) blast
  from assms have ss: "distinct (map fst fs)" "\<forall>(n, f) \<in> set ss. \<exists>t. (n, t) \<in> set fs \<and> copies t f"
    by (simp_all add: complete_def)
  have "partly h h fs m X {} (\<lambda>_. {}) m" using ok by (auto simp: partly_def disjoint_family_on_def)
  from partly_run [OF this ok ss(1) v(3) den ss(2)] obtain out h' B' where
    run: "run_state (runStmts ss m m) h = (out, h')" and part: "partly h h' fs m X (fst ` set ss) B' out" by auto
  define C where "C n = (if n \<in> fst ` set ss then B' n else {})" for n
  have C: "denotes h' t (the (out n)) (the (X n)) (C n) \<and> (\<forall>a \<in> C n. h_next h \<le> a)" if n: "(n, t) \<in> set fs" for n t
  proof (cases "n \<in> fst ` set ss")
    case True
    with part n show ?thesis by (simp add: partly_def C_def)
  next
    case False
    with assms n have "flat t" by (force simp: complete_def)
    moreover from False part n have "out n = m n" "grows h h'" by (auto simp: partly_def)
    ultimately show ?thesis
      using False denotes_flat [OF den [OF n]] denotes_grows [OF den [OF n] ok] by (simp add: C_def)
  qed
  have "disjoint_family_on C (fst ` set fs)" 
  proof (unfold disjoint_family_on_def, intro ballI impI)
    fix n n' :: string assume "n \<noteq> n'"
    moreover from part have "disjoint_family_on B' (fst ` set ss)" by (simp add: partly_def)
    ultimately show "C n \<inter> C n' = {}" by (auto simp: C_def dest: disjoint_family_onD)
  qed
  moreover from part have "heapOK h'" "grows h h'" "dom out = fst ` set fs" by (simp_all add: partly_def v(3))
  moreover have "denotes h' (TStruct fs) (Struct out) (Node X) (\<Union>p \<in> set fs. C (fst p))"
    by (rule denotes.struct) (use calculation v(4) C ss(1) in auto)
  moreover have "\<forall>a \<in> (\<Union>p \<in> set fs. C (fst p)). h_next h \<le> a" using C by force
  moreover have "run_state (deepCopyInto ss v) h = (Struct out, h')" by (simp add: deepCopyInto_def v(1) run)
  ultimately show "\<exists>v' h' A'. run_state (deepCopyInto ss v) h = (v', h') \<and> heapOK h' \<and> grows h h'
      \<and> denotes h' (TStruct fs) v' x A' \<and> (\<forall>a \<in> A'. h_next h \<le> a)" unfolding v(2) by blast
qed

subsection \<open>Writing through a path\<close>

text \<open>
  Go reaches a place inside a value by selecting fields and following pointers. The same path selects
  a part of the type, of the value in memory and of the tree it denotes.
\<close>

datatype hop = Field string | Deref

fun typeAt :: "ty \<Rightarrow> hop list \<Rightarrow> ty option" where
  "typeAt t [] = Some t"
| "typeAt (TPtr t) (Deref # p) = typeAt t p"
| "typeAt (TStruct fs) (Field n # p) = Option.bind (map_of fs n) (\<lambda>t. typeAt t p)"
| "typeAt _ _ = None"

fun valAt :: "goheap \<Rightarrow> val \<Rightarrow> hop list \<Rightarrow> val option" where
  "valAt h v [] = Some v"
| "valAt h (Ptr (Some a)) (Deref # p) =
     (case h_cells h a of Some (Cell w) \<Rightarrow> valAt h w p | _ \<Rightarrow> None)"
| "valAt h (Struct m) (Field n # p) = Option.bind (m n) (\<lambda>w. valAt h w p)"
| "valAt _ _ _ = None"

fun treeAt :: "tree \<Rightarrow> hop list \<Rightarrow> tree option" where
  "treeAt x [] = Some x"
| "treeAt (Ref x) (Deref # p) = treeAt x p"
| "treeAt (Node X) (Field n # p) = Option.bind (X n) (\<lambda>x. treeAt x p)"
| "treeAt _ _ = None"

fun treePut :: "tree \<Rightarrow> hop list \<Rightarrow> tree \<Rightarrow> tree" where
  "treePut y [] x = y"
| "treePut y (Deref # p) (Ref x) = Ref (treePut y p x)"
| "treePut y (Field n # p) (Node X) = Node (X(n := map_option (treePut y p) (X n)))"
| "treePut y _ x = x"

text \<open>\<^verbatim>\<open>p.F = w\<close> for a pointer to a struct; a nil pointer panics in Go and is left alone here, so every use
  is under the test that the code makes.\<close>

definition setField :: "nat \<Rightarrow> string \<Rightarrow> val \<Rightarrow> (goheap, unit) state" where
  "setField a n w = do {
     c \<leftarrow> load a;
     (case c of
        Some (Cell (Struct m)) \<Rightarrow> store a (Cell (Struct (m(n \<mapsto> w))))
      | _ \<Rightarrow> State_Monad.return ())
   }"

lemma denotes_field_put:
  assumes "dom m = fst ` set fs" and "dom X = fst ` set fs"
    and den: "\<And>k t. (k, t) \<in> set fs \<Longrightarrow> denotes h t (the (m k)) (the (X k)) (B k)"
    and dis: "disjoint_family_on B (fst ` set fs)" and dist: "distinct (map fst fs)"
    and n: "(n, t) \<in> set fs" and u: "denotes h' t u z A'" "A' \<subseteq> B n"
    and same: "\<And>k a. k \<in> fst ` set fs \<Longrightarrow> k \<noteq> n \<Longrightarrow> a \<in> B k \<Longrightarrow> h_cells h' a = h_cells h a"
  shows "\<exists>A'' \<subseteq> (\<Union>q \<in> set fs. B (fst q)). denotes h' (TStruct fs) (Struct (m(n \<mapsto> u))) (Node (X(n \<mapsto> z))) A''"
proof (intro exI conjI)
  from n have "n \<in> fst ` set fs" by force
  then show "denotes h' (TStruct fs) (Struct (m(n \<mapsto> u))) (Node (X(n \<mapsto> z))) (\<Union>q \<in> set fs. (B(n := A')) (fst q))"
  proof (intro denotes.struct)
    fix k t0 assume k: "(k, t0) \<in> set fs"
    show "denotes h' t0 (the ((m(n \<mapsto> u)) k)) (the ((X(n \<mapsto> z)) k)) ((B(n := A')) k)"
    proof (cases "k = n")
      case True
      with k n dist have "t0 = t" by (metis eq_key_imp_eq_value)
      with True u(1) show ?thesis by simp
    next
      case False
      with k have "denotes h' t0 (the (m k)) (the (X k)) (B k)"
        by (intro denotes_frame [OF den [OF k]] same) force+
      with False show ?thesis by simp
    qed
  next
    show "disjoint_family_on (B(n := A')) (fst ` set fs)"
      using dis u(2) unfolding disjoint_family_on_def by (simp, blast)
  qed (simp_all only: dom_fun_upd option.simps if_False assms(1,2) dist insert_absorb)
  show "(\<Union>q \<in> set fs. (B(n := A')) (fst q)) \<subseteq> (\<Union>q \<in> set fs. B (fst q))" using u(2) by (auto split: if_splits)
qed

text \<open>
  A part of a value can be rewritten in memory: when the part still denotes a tree, with no more
  addresses than it had, the whole denotes the tree with that part replaced.
\<close>

lemma denotes_at:
  assumes "denotes h t v x A" and "typeAt t p = Some t'" and "valAt h v p = Some w"
  obtains y C where "treeAt x p = Some y" "denotes h t' w y C" "C \<subseteq> A"
    "\<And>h' y' C'. (\<And>a. a \<notin> C \<Longrightarrow> h_cells h' a = h_cells h a) \<Longrightarrow> denotes h' t' w y' C' \<Longrightarrow> C' \<subseteq> C \<Longrightarrow>
       \<exists>A' \<subseteq> A. denotes h' t v (treePut y' p x) A'"
  using assms
proof (induction t p arbitrary: v x A thesis rule: typeAt.induct)
  case (1 t)
  from 1(2-) show ?case by (intro 1(1)) auto
next
  case (2 t p)
  from 2(3-) obtain a u z B where s: "v = Ptr (Some a)" "x = Ref z" "A = insert a B" "h_cells h a = Some (Cell u)"
    "denotes h t u z B" "a \<notin> B"
    by (auto elim!: denotes_ptrE)
  from 2(4,5) s have "typeAt t p = Some t'" "valAt h u p = Some w" by simp_all
  from 2(1) [OF _ s(5) this] obtain y C where r: "treeAt z p = Some y" "denotes h t' w y C" "C \<subseteq> B"
    "\<And>h' y' C'. (\<And>a. a \<notin> C \<Longrightarrow> h_cells h' a = h_cells h a) \<Longrightarrow> denotes h' t' w y' C' \<Longrightarrow> C' \<subseteq> C \<Longrightarrow>
       \<exists>A' \<subseteq> B. denotes h' t u (treePut y' p z) A'"
    by metis
  show ?case
  proof (rule 2(2) [of y C])
    fix h' y' C' assume new: "\<And>a. a \<notin> C \<Longrightarrow> h_cells h' a = h_cells h a" "denotes h' t' w y' C'" "C' \<subseteq> C"
    from r(4) [OF new] obtain A' where "A' \<subseteq> B" "denotes h' t u (treePut y' p z) A'" by blast
    moreover have "h_cells h' a = Some (Cell u)" using new(1) [of a] r(3) s(4,6) by auto
    ultimately have "denotes h' (TPtr t) v (treePut y' (Deref # p) x) (insert a A')" "insert a A' \<subseteq> A"
      using s by (auto intro: denotes.ptr)
    then show "\<exists>A' \<subseteq> A. denotes h' (TPtr t) v (treePut y' (Deref # p) x) A'" by blast
  qed (use r s in auto)
next
  case (3 fs n p)
  from 3(3) obtain m X B where s: "v = Struct m" "x = Node X" "A = (\<Union>q \<in> set fs. B (fst q))"
    "dom m = fst ` set fs" "dom X = fst ` set fs" "disjoint_family_on B (fst ` set fs)" "distinct (map fst fs)"
    and den: "\<And>k t. (k, t) \<in> set fs \<Longrightarrow> denotes h t (the (m k)) (the (X k)) (B k)"
    by (elim denotes_structE) blast
  from 3(4,5) s(1) obtain t u where t: "map_of fs n = Some t" "typeAt t p = Some t'" "m n = Some u" "valAt h u p = Some w"
    by (auto simp: bind_eq_Some_conv)
  have n: "(n, t) \<in> set fs" by (rule map_of_SomeD [OF t(1)])
  with s(5) obtain z where z: "X n = Some z" by force
  from den [OF n] t(3) z have "denotes h t u z (B n)" by simp
  from 3(1) [OF t(1) _ this t(2,4)] obtain y C where r: "treeAt z p = Some y" "denotes h t' w y C" "C \<subseteq> B n"
    "\<And>h' y' C'. (\<And>a. a \<notin> C \<Longrightarrow> h_cells h' a = h_cells h a) \<Longrightarrow> denotes h' t' w y' C' \<Longrightarrow> C' \<subseteq> C \<Longrightarrow>
       \<exists>A' \<subseteq> B n. denotes h' t u (treePut y' p z) A'"
    by metis
  show ?case
  proof (rule 3(2) [of y C])
    fix h' y' C' assume new: "\<And>a. a \<notin> C \<Longrightarrow> h_cells h' a = h_cells h a" "denotes h' t' w y' C'" "C' \<subseteq> C"
    from r(4) [OF new] obtain A' where A': "A' \<subseteq> B n" "denotes h' t u (treePut y' p z) A'" by blast
    have "h_cells h' a = h_cells h a" if "k \<in> fst ` set fs" "k \<noteq> n" "a \<in> B k" for k a
      using disjoint_family_onD [OF s(6), of n k] new(1) [of a] r(3) n that by force
    from denotes_field_put [OF s(4,5) den s(6,7) n A'(2,1) this] t(3)
    show "\<exists>A' \<subseteq> A. denotes h' (TStruct fs) v (treePut y' (Field n # p) x) A'"
      using s(1-3) z by (simp add: fun_upd_idem)
  next
    show "C \<subseteq> A" using r(3) n s(3) by force
  qed (use r s z in auto)
qed simp_all

lemma valAt_treeAt:
  assumes "denotes h t v x A" and "typeAt t p = Some t'"
  shows "valAt h v p = None \<longleftrightarrow> treeAt x p = None"
  using assms
proof (induction t p arbitrary: v x A rule: typeAt.induct)
  case (3 fs n p)
  from 3(2) obtain m X B where s: "v = Struct m" "x = Node X" "dom m = fst ` set fs" "dom X = fst ` set fs"
    and den: "\<And>k t. (k, t) \<in> set fs \<Longrightarrow> denotes h t (the (m k)) (the (X k)) (B k)"
    by (elim denotes_structE) blast
  from 3(3) obtain t where t: "map_of fs n = Some t" "typeAt t p = Some t'" by (auto simp: bind_eq_Some_conv)
  from map_of_SomeD [OF t(1)] have "n \<in> fst ` set fs" by force
  with s(3,4) have "n \<in> dom m" "n \<in> dom X" by simp_all
  then obtain u z where "m n = Some u" "X n = Some z" by blast
  with 3(1) [OF t(1) den [OF map_of_SomeD [OF t(1)]] t(2)] s(1,2) show ?case by simp
qed (auto elim!: denotes_ptrE)

lemma setField_denotes:
  assumes "denotes h (TPtr (TStruct fs)) (Ptr (Some b)) (Ref (Node X)) C" and "heapOK h"
    and n: "(n, t) \<in> set fs" and w: "\<And>h. denotes h t w y {}"
  shows "\<exists>h' C'. run_state (setField b n w) h = ((), h') \<and> heapOK h' \<and> C' \<subseteq> C
    \<and> denotes h' (TPtr (TStruct fs)) (Ptr (Some b)) (Ref (Node (X(n \<mapsto> y)))) C'
    \<and> (\<forall>a. a \<notin> C \<longrightarrow> h_cells h' a = h_cells h a)"
proof -
  from assms(1) obtain v A where v: "h_cells h b = Some (Cell v)" "C = insert b A" "b \<notin> A"
    "denotes h (TStruct fs) v (Node X) A" by (rule denotes_refE) blast
  from v(4) obtain m B where m: "v = Struct m" "A = (\<Union>q \<in> set fs. B (fst q))"
      "dom m = fst ` set fs" "dom X = fst ` set fs" "disjoint_family_on B (fst ` set fs)" "distinct (map fst fs)"
    and den: "\<And>k t. (k, t) \<in> set fs \<Longrightarrow> denotes h t (the (m k)) (the (X k)) (B k)"
    by (rule denotes_nodeE) blast
  let ?h' = "h\<lparr> h_cells := (h_cells h)(b \<mapsto> Cell (Struct (m(n \<mapsto> w)))) \<rparr>"
  have "\<exists>A' \<subseteq> A. denotes ?h' (TStruct fs) (Struct (m(n \<mapsto> w))) (Node (X(n \<mapsto> y))) A'"
    unfolding m(2) by (rule denotes_field_put [OF m(3,4) den m(5,6) n w empty_subsetI]) (use v(3) m(2) in auto)
  then obtain A' where A: "A' \<subseteq> A" "denotes ?h' (TStruct fs) (Struct (m(n \<mapsto> w))) (Node (X(n \<mapsto> y))) A'" by blast
  have "denotes ?h' (TPtr (TStruct fs)) (Ptr (Some b)) (Ref (Node (X(n \<mapsto> y)))) (insert b A')"
    by (rule denotes.ptr [OF _ A(2)]) (use A(1) v(3) in auto)
  moreover from assms(2) v(1) have "heapOK ?h'" by (auto simp: heapOK_def)
  moreover have "run_state (setField b n w) h = ((), ?h')" by (simp add: setField_def v(1) m(1))
  ultimately show ?thesis using A(1) v(2) by (intro exI [of _ ?h'] exI [of _ "insert b A'"]) auto
qed

subsection \<open>Zero values\<close>

text \<open>The zero value of a type, and a struct in which one field is set.\<close>

fun zeroOf :: "ty \<Rightarrow> val" where
  "zeroOf TScalar = Scalar ''''"
| "zeroOf (TStruct fs) = Struct (map_of (map (\<lambda>(n, t). (n, zeroOf t)) fs))"
| "zeroOf (TPtr _) = Ptr None"
| "zeroOf (TSlice _) = Slice None"
| "zeroOf TMap = MapRef None"

fun zeroTree :: "ty \<Rightarrow> tree" where
  "zeroTree TScalar = Leaf ''''"
| "zeroTree (TStruct fs) = Node (map_of (map (\<lambda>(n, t). (n, zeroTree t)) fs))"
| "zeroTree _ = NilT"

fun distinctFields :: "ty \<Rightarrow> bool" where
  "distinctFields (TStruct fs) = (distinct (map fst fs) \<and> (\<forall>(n, t) \<in> set fs. distinctFields t))"
| "distinctFields _ = True"

definition withField :: "ty \<Rightarrow> string \<Rightarrow> val \<Rightarrow> val" where
  "withField t n u = (case zeroOf t of Struct m \<Rightarrow> Struct (m(n \<mapsto> u)) | v \<Rightarrow> v)"

definition withFieldTree :: "ty \<Rightarrow> string \<Rightarrow> tree \<Rightarrow> tree" where
  "withFieldTree t n z = (case zeroTree t of Node X \<Rightarrow> Node (X(n \<mapsto> z)) | x \<Rightarrow> x)"

lemma map_of_values:
  assumes "distinct (map fst fs)" and "(n, t) \<in> set fs"
  shows "map_of (map (\<lambda>(n, t). (n, f t)) fs) n = Some (f t)"
  using assms by (auto simp: map_of_map dest: map_of_is_SomeI)

lemma dom_values: "dom (map_of (map (\<lambda>(n, t). (n, f t)) fs)) = fst ` set fs"
  by (force simp: dom_map_of_conv_image_fst)

lemma denotes_zero:
  assumes "distinctFields t"
  shows "denotes h t (zeroOf t) (zeroTree t) {}"
  using assms
proof (induction t rule: distinctFields.induct)
  case (1 fs)
  have "denotes h (TStruct fs) (zeroOf (TStruct fs)) (zeroTree (TStruct fs)) (\<Union>p \<in> set fs. (\<lambda>_. {}) (fst p))"
    unfolding zeroOf.simps zeroTree.simps
  proof (rule denotes.struct)
    fix n t assume n: "(n, t) \<in> set fs"
    with 1 have "denotes h t (zeroOf t) (zeroTree t) {}" by force
    with n 1(2) show "denotes h t (the (map_of (map (\<lambda>(n, t). (n, zeroOf t)) fs) n))
        (the (map_of (map (\<lambda>(n, t). (n, zeroTree t)) fs) n)) {}"
      by (simp add: map_of_values)
  qed (use 1(2) in \<open>simp_all add: dom_values disjoint_family_on_def\<close>)
  then show ?case by simp
qed (auto intro: denotes.intros)

lemma denotes_with:
  assumes dis: "distinctFields T" and n: "typeAt T [Field n] = Some t" and u: "denotes h t u z A"
  shows "denotes h T (withField T n u) (withFieldTree T n z) A"
proof -
  from n obtain fs where T: "T = TStruct fs" and "map_of fs n = Some t" by (cases T) (auto simp: bind_eq_Some_conv)
  then have mem: "(n, t) \<in> set fs" by (auto dest: map_of_SomeD)
  from dis T have fs: "distinct (map fst fs)" "\<And>k s. (k, s) \<in> set fs \<Longrightarrow> distinctFields s" by auto
  let ?B = "\<lambda>k. if k = n then A else {}"
  have "denotes h T (withField T n u) (withFieldTree T n z) (\<Union>p \<in> set fs. ?B (fst p))"
    unfolding T withField_def withFieldTree_def zeroOf.simps zeroTree.simps val.case tree.case
  proof (rule denotes.struct)
    fix k s assume k: "(k, s) \<in> set fs"
    show "denotes h s (the (((map_of (map (\<lambda>(n, t). (n, zeroOf t)) fs))(n \<mapsto> u)) k))
        (the (((map_of (map (\<lambda>(n, t). (n, zeroTree t)) fs))(n \<mapsto> z)) k)) (?B k)"
    proof (cases "k = n")
      case True
      with k mem fs(1) have "s = t" by (metis eq_key_imp_eq_value)
      with True u show ?thesis by simp
    next
      case False
      with denotes_zero [OF fs(2) [OF k]] k fs(1) show ?thesis by (simp add: map_of_values)
    qed
  next
    have "n \<in> fst ` set fs" using mem by force
    then show "dom ((map_of (map (\<lambda>(n, t). (n, zeroOf t)) fs))(n \<mapsto> u)) = fst ` set fs"
      "dom ((map_of (map (\<lambda>(n, t). (n, zeroTree t)) fs))(n \<mapsto> z)) = fst ` set fs"
      by (simp_all only: dom_fun_upd option.simps if_False dom_values insert_absorb)
  qed (use fs(1) in \<open>auto simp: disjoint_family_on_def\<close>)
  moreover have "(\<Union>p \<in> set fs. ?B (fst p)) = A" using mem by (force split: if_splits)
  ultimately show ?thesis by simp
qed

end
