(* ===== verification/DeepCopy.thy ===== *)
theory DeepCopy
  imports GoHeap
begin

section \<open>Deep copies of the API types\<close>

text \<open>
  The model of \<^verbatim>\<open>src/api/v1alpha1/zz_generated.deepcopy.go\<close>. For a struct \<^verbatim>\<open>T\<close> of \<^verbatim>\<open>cashumint_types.go\<close> there is the
  type \<open>TT\<close> with the fields of the struct, the function \<open>T_DeepCopyInto\<close> with the statements of the
  generated code in their order, and \<open>T_DeepCopy\<close>. The definitions go from the leaves to the root,
  because Isabelle wants a callee before its caller. The types of \<^verbatim>\<open>k8s.io/api\<close> and
  \<^verbatim>\<open>k8s.io/apimachinery\<close> that occur in the structs, and their copying functions, are a parameter.

  The lemmas show that every function keeps the contract \<open>copies\<close>: a field of reference type that the
  generated code forgot would break the proof for its struct. The properties are about the
  controller's use of a copy, which it edits in place while the original is the cached object.
\<close>

subsection \<open>The libraries' types\<close>

text \<open>\<open>ext_ty\<close> gives the layout of a type by its Go name and \<open>ext_DeepCopyInto\<close> its copying function;
  \<open>ext_TimeDeepCopy\<close> is the method \<^verbatim>\<open>DeepCopy\<close> of \<^verbatim>\<open>*metav1.Time\<close>.\<close>

record external =
  ext_ty :: "string \<Rightarrow> ty"
  ext_DeepCopyInto :: "string \<Rightarrow> copier"
  ext_TimeDeepCopy :: copier

subsection \<open>The structs and their functions\<close>

definition QuoteTTLConfigT :: "external \<Rightarrow> ty" where
  "QuoteTTLConfigT X = TStruct
     [(''MintTTL'', TPtr TScalar), (''MeltTTL'', TPtr TScalar)]"

definition QuoteTTLConfig_DeepCopyInto :: "external \<Rightarrow> copier" where
  "QuoteTTLConfig_DeepCopyInto X = deepCopyInto
     [(''MintTTL'', copyPtr State_Monad.return), (''MeltTTL'', copyPtr State_Monad.return)]"

definition QuoteTTLConfig_DeepCopy :: "external \<Rightarrow> copier" where
  "QuoteTTLConfig_DeepCopy X = copyPtr (QuoteTTLConfig_DeepCopyInto X)"

definition MintInfoT :: "external \<Rightarrow> ty" where
  "MintInfoT X = TStruct
     [(''URL'', TScalar), (''ListenHost'', TScalar), (''ListenPort'', TScalar),
      (''MnemonicSecretRef'', TPtr (ext_ty X ''v1.SecretKeySelector'')),
      (''AutoGenerateMnemonic'', TScalar), (''Name'', TScalar), (''Description'', TScalar),
      (''DescriptionLong'', TScalar), (''MOTD'', TScalar), (''PubkeyHex'', TScalar),
      (''IconURL'', TScalar), (''ContactEmail'', TScalar), (''ContactNostrPubkey'', TScalar),
      (''TosURL'', TScalar), (''InputFeePPK'', TPtr TScalar), (''EnableSwaggerUI'', TScalar),
      (''UseKeysetV2'', TPtr TScalar), (''QuoteTTL'', TPtr (QuoteTTLConfigT X))]"

definition MintInfo_DeepCopyInto :: "external \<Rightarrow> copier" where
  "MintInfo_DeepCopyInto X = deepCopyInto
     [(''MnemonicSecretRef'', copyPtr (ext_DeepCopyInto X ''v1.SecretKeySelector'')),
      (''InputFeePPK'', copyPtr State_Monad.return), (''UseKeysetV2'', copyPtr State_Monad.return),
      (''QuoteTTL'', copyPtr (QuoteTTLConfig_DeepCopyInto X))]"

definition MintInfo_DeepCopy :: "external \<Rightarrow> copier" where
  "MintInfo_DeepCopy X = copyPtr (MintInfo_DeepCopyInto X)"

definition PostgresAutoProvisionSpecT :: "external \<Rightarrow> ty" where
  "PostgresAutoProvisionSpecT X = TStruct
     [(''StorageSize'', TScalar), (''StorageClassName'', TPtr TScalar),
      (''Resources'', TPtr (ext_ty X ''v1.ResourceRequirements'')), (''Version'', TScalar)]"

definition PostgresAutoProvisionSpec_DeepCopyInto :: "external \<Rightarrow> copier" where
  "PostgresAutoProvisionSpec_DeepCopyInto X = deepCopyInto
     [(''StorageClassName'', copyPtr State_Monad.return),
      (''Resources'', copyPtr (ext_DeepCopyInto X ''v1.ResourceRequirements''))]"

definition PostgresAutoProvisionSpec_DeepCopy :: "external \<Rightarrow> copier" where
  "PostgresAutoProvisionSpec_DeepCopy X = copyPtr (PostgresAutoProvisionSpec_DeepCopyInto X)"

definition PostgresConfigT :: "external \<Rightarrow> ty" where
  "PostgresConfigT X = TStruct
     [(''URL'', TScalar), (''URLSecretRef'', TPtr (ext_ty X ''v1.SecretKeySelector'')),
      (''TLSMode'', TScalar), (''MaxConnections'', TPtr TScalar),
      (''ConnectionTimeoutSeconds'', TPtr TScalar), (''AutoProvision'', TScalar),
      (''AutoProvisionSpec'', TPtr (PostgresAutoProvisionSpecT X))]"

definition PostgresConfig_DeepCopyInto :: "external \<Rightarrow> copier" where
  "PostgresConfig_DeepCopyInto X = deepCopyInto
     [(''URLSecretRef'', copyPtr (ext_DeepCopyInto X ''v1.SecretKeySelector'')),
      (''MaxConnections'', copyPtr State_Monad.return),
      (''ConnectionTimeoutSeconds'', copyPtr State_Monad.return),
      (''AutoProvisionSpec'', copyPtr (PostgresAutoProvisionSpec_DeepCopyInto X))]"

definition PostgresConfig_DeepCopy :: "external \<Rightarrow> copier" where
  "PostgresConfig_DeepCopy X = copyPtr (PostgresConfig_DeepCopyInto X)"

definition SQLiteConfigT :: "external \<Rightarrow> ty" where
  "SQLiteConfigT X = TStruct
     [(''DataDir'', TScalar)]"

definition SQLiteConfig_DeepCopyInto :: "external \<Rightarrow> copier" where
  "SQLiteConfig_DeepCopyInto X = deepCopyInto []"

definition SQLiteConfig_DeepCopy :: "external \<Rightarrow> copier" where
  "SQLiteConfig_DeepCopy X = copyPtr (SQLiteConfig_DeepCopyInto X)"

definition DatabaseConfigT :: "external \<Rightarrow> ty" where
  "DatabaseConfigT X = TStruct
     [(''Engine'', TScalar), (''Postgres'', TPtr (PostgresConfigT X)),
      (''SQLite'', TPtr (SQLiteConfigT X))]"

definition DatabaseConfig_DeepCopyInto :: "external \<Rightarrow> copier" where
  "DatabaseConfig_DeepCopyInto X = deepCopyInto
     [(''Postgres'', copyPtr (PostgresConfig_DeepCopyInto X)), (''SQLite'', copyPtr State_Monad.return)]"

definition DatabaseConfig_DeepCopy :: "external \<Rightarrow> copier" where
  "DatabaseConfig_DeepCopy X = copyPtr (DatabaseConfig_DeepCopyInto X)"

definition LNDConfigT :: "external \<Rightarrow> ty" where
  "LNDConfigT X = TStruct
     [(''Address'', TScalar), (''MacaroonSecretRef'', TPtr (ext_ty X ''v1.SecretKeySelector'')),
      (''CertSecretRef'', TPtr (ext_ty X ''v1.SecretKeySelector'')), (''FeePercent'', TPtr TScalar),
      (''ReserveFeeMin'', TPtr TScalar)]"

definition LNDConfig_DeepCopyInto :: "external \<Rightarrow> copier" where
  "LNDConfig_DeepCopyInto X = deepCopyInto
     [(''MacaroonSecretRef'', copyPtr (ext_DeepCopyInto X ''v1.SecretKeySelector'')),
      (''CertSecretRef'', copyPtr (ext_DeepCopyInto X ''v1.SecretKeySelector'')),
      (''FeePercent'', copyPtr State_Monad.return), (''ReserveFeeMin'', copyPtr State_Monad.return)]"

definition LNDConfig_DeepCopy :: "external \<Rightarrow> copier" where
  "LNDConfig_DeepCopy X = copyPtr (LNDConfig_DeepCopyInto X)"

definition CLNConfigT :: "external \<Rightarrow> ty" where
  "CLNConfigT X = TStruct
     [(''RPCPath'', TScalar), (''Bolt12'', TPtr TScalar), (''FeePercent'', TPtr TScalar),
      (''ReserveFeeMin'', TPtr TScalar)]"

definition CLNConfig_DeepCopyInto :: "external \<Rightarrow> copier" where
  "CLNConfig_DeepCopyInto X = deepCopyInto
     [(''Bolt12'', copyPtr State_Monad.return), (''FeePercent'', copyPtr State_Monad.return),
      (''ReserveFeeMin'', copyPtr State_Monad.return)]"

definition CLNConfig_DeepCopy :: "external \<Rightarrow> copier" where
  "CLNConfig_DeepCopy X = copyPtr (CLNConfig_DeepCopyInto X)"

definition LNBitsConfigT :: "external \<Rightarrow> ty" where
  "LNBitsConfigT X = TStruct
     [(''API'', TScalar), (''AdminAPIKeySecretRef'', ext_ty X ''v1.SecretKeySelector''),
      (''InvoiceAPIKeySecretRef'', ext_ty X ''v1.SecretKeySelector''), (''RetroAPI'', TScalar),
      (''FeePercent'', TPtr TScalar), (''ReserveFeeMin'', TPtr TScalar)]"

definition LNBitsConfig_DeepCopyInto :: "external \<Rightarrow> copier" where
  "LNBitsConfig_DeepCopyInto X = deepCopyInto
     [(''AdminAPIKeySecretRef'', ext_DeepCopyInto X ''v1.SecretKeySelector''),
      (''InvoiceAPIKeySecretRef'', ext_DeepCopyInto X ''v1.SecretKeySelector''),
      (''FeePercent'', copyPtr State_Monad.return), (''ReserveFeeMin'', copyPtr State_Monad.return)]"

definition LNBitsConfig_DeepCopy :: "external \<Rightarrow> copier" where
  "LNBitsConfig_DeepCopy X = copyPtr (LNBitsConfig_DeepCopyInto X)"

definition FakeWalletConfigT :: "external \<Rightarrow> ty" where
  "FakeWalletConfigT X = TStruct
     [(''SupportedUnits'', TSlice TScalar), (''FeePercent'', TPtr TScalar),
      (''ReserveFeeMin'', TPtr TScalar), (''MinDelayTime'', TPtr TScalar),
      (''MaxDelayTime'', TPtr TScalar)]"

definition FakeWalletConfig_DeepCopyInto :: "external \<Rightarrow> copier" where
  "FakeWalletConfig_DeepCopyInto X = deepCopyInto
     [(''SupportedUnits'', copySlice State_Monad.return), (''FeePercent'', copyPtr State_Monad.return),
      (''ReserveFeeMin'', copyPtr State_Monad.return), (''MinDelayTime'', copyPtr State_Monad.return),
      (''MaxDelayTime'', copyPtr State_Monad.return)]"

definition FakeWalletConfig_DeepCopy :: "external \<Rightarrow> copier" where
  "FakeWalletConfig_DeepCopy X = copyPtr (FakeWalletConfig_DeepCopyInto X)"

definition SidecarProcessorConfigT :: "external \<Rightarrow> ty" where
  "SidecarProcessorConfigT X = TStruct
     [(''Enabled'', TScalar), (''Image'', TScalar), (''ImagePullPolicy'', TScalar),
      (''Command'', TSlice TScalar), (''Args'', TSlice TScalar),
      (''Env'', TSlice (ext_ty X ''v1.EnvVar'')), (''WorkingDir'', TScalar),
      (''Resources'', TPtr (ext_ty X ''v1.ResourceRequirements'')), (''EnableTLS'', TScalar),
      (''TLSSecretRef'', TPtr (ext_ty X ''v1.SecretKeySelector''))]"

definition SidecarProcessorConfig_DeepCopyInto :: "external \<Rightarrow> copier" where
  "SidecarProcessorConfig_DeepCopyInto X = deepCopyInto
     [(''Command'', copySlice State_Monad.return), (''Args'', copySlice State_Monad.return),
      (''Env'', copySlice (ext_DeepCopyInto X ''v1.EnvVar'')),
      (''Resources'', copyPtr (ext_DeepCopyInto X ''v1.ResourceRequirements'')),
      (''TLSSecretRef'', copyPtr (ext_DeepCopyInto X ''v1.SecretKeySelector''))]"

definition SidecarProcessorConfig_DeepCopy :: "external \<Rightarrow> copier" where
  "SidecarProcessorConfig_DeepCopy X = copyPtr (SidecarProcessorConfig_DeepCopyInto X)"

definition GRPCProcessorConfigT :: "external \<Rightarrow> ty" where
  "GRPCProcessorConfigT X = TStruct
     [(''Address'', TScalar), (''Port'', TScalar), (''SupportedUnits'', TSlice TScalar),
      (''TLSSecretRef'', TPtr (ext_ty X ''v1.SecretKeySelector'')),
      (''SidecarProcessor'', TPtr (SidecarProcessorConfigT X))]"

definition GRPCProcessorConfig_DeepCopyInto :: "external \<Rightarrow> copier" where
  "GRPCProcessorConfig_DeepCopyInto X = deepCopyInto
     [(''SupportedUnits'', copySlice State_Monad.return),
      (''TLSSecretRef'', copyPtr (ext_DeepCopyInto X ''v1.SecretKeySelector'')),
      (''SidecarProcessor'', copyPtr (SidecarProcessorConfig_DeepCopyInto X))]"

definition GRPCProcessorConfig_DeepCopy :: "external \<Rightarrow> copier" where
  "GRPCProcessorConfig_DeepCopy X = copyPtr (GRPCProcessorConfig_DeepCopyInto X)"

definition PaymentBackendConfigT :: "external \<Rightarrow> ty" where
  "PaymentBackendConfigT X = TStruct
     [(''MinMint'', TPtr TScalar), (''MaxMint'', TPtr TScalar), (''MinMelt'', TPtr TScalar),
      (''MaxMelt'', TPtr TScalar), (''LND'', TPtr (LNDConfigT X)), (''CLN'', TPtr (CLNConfigT X)),
      (''LNBits'', TPtr (LNBitsConfigT X)), (''FakeWallet'', TPtr (FakeWalletConfigT X)),
      (''GRPCProcessor'', TPtr (GRPCProcessorConfigT X))]"

definition PaymentBackendConfig_DeepCopyInto :: "external \<Rightarrow> copier" where
  "PaymentBackendConfig_DeepCopyInto X = deepCopyInto
     [(''MinMint'', copyPtr State_Monad.return), (''MaxMint'', copyPtr State_Monad.return),
      (''MinMelt'', copyPtr State_Monad.return), (''MaxMelt'', copyPtr State_Monad.return),
      (''LND'', copyPtr (LNDConfig_DeepCopyInto X)), (''CLN'', copyPtr (CLNConfig_DeepCopyInto X)),
      (''LNBits'', copyPtr (LNBitsConfig_DeepCopyInto X)),
      (''FakeWallet'', copyPtr (FakeWalletConfig_DeepCopyInto X)),
      (''GRPCProcessor'', copyPtr (GRPCProcessorConfig_DeepCopyInto X))]"

definition PaymentBackendConfig_DeepCopy :: "external \<Rightarrow> copier" where
  "PaymentBackendConfig_DeepCopy X = copyPtr (PaymentBackendConfig_DeepCopyInto X)"

definition BitcoinRPCConfigT :: "external \<Rightarrow> ty" where
  "BitcoinRPCConfigT X = TStruct
     [(''Host'', TScalar), (''Port'', TScalar), (''UserSecretRef'', ext_ty X ''v1.SecretKeySelector''),
      (''PasswordSecretRef'', ext_ty X ''v1.SecretKeySelector'')]"

definition BitcoinRPCConfig_DeepCopyInto :: "external \<Rightarrow> copier" where
  "BitcoinRPCConfig_DeepCopyInto X = deepCopyInto
     [(''UserSecretRef'', ext_DeepCopyInto X ''v1.SecretKeySelector''),
      (''PasswordSecretRef'', ext_DeepCopyInto X ''v1.SecretKeySelector'')]"

definition BitcoinRPCConfig_DeepCopy :: "external \<Rightarrow> copier" where
  "BitcoinRPCConfig_DeepCopy X = copyPtr (BitcoinRPCConfig_DeepCopyInto X)"

definition LDKNodeConfigT :: "external \<Rightarrow> ty" where
  "LDKNodeConfigT X = TStruct
     [(''Enabled'', TScalar), (''Image'', TScalar), (''FeePercent'', TPtr TScalar),
      (''ReserveFeeMin'', TPtr TScalar), (''BitcoinNetwork'', TScalar), (''ChainSourceType'', TScalar),
      (''EsploraURL'', TScalar), (''BitcoinRPC'', TPtr (BitcoinRPCConfigT X)),
      (''StorageDirPath'', TScalar), (''LogDirPath'', TScalar),
      (''MnemonicSecretRef'', TPtr (ext_ty X ''v1.SecretKeySelector'')), (''Host'', TScalar),
      (''Port'', TScalar), (''AnnounceAddresses'', TSlice TScalar), (''GossipSourceType'', TScalar),
      (''RGSURL'', TScalar), (''WebserverHost'', TScalar), (''WebserverPort'', TScalar)]"

definition LDKNodeConfig_DeepCopyInto :: "external \<Rightarrow> copier" where
  "LDKNodeConfig_DeepCopyInto X = deepCopyInto
     [(''FeePercent'', copyPtr State_Monad.return), (''ReserveFeeMin'', copyPtr State_Monad.return),
      (''BitcoinRPC'', copyPtr (BitcoinRPCConfig_DeepCopyInto X)),
      (''MnemonicSecretRef'', copyPtr (ext_DeepCopyInto X ''v1.SecretKeySelector'')),
      (''AnnounceAddresses'', copySlice State_Monad.return)]"

definition LDKNodeConfig_DeepCopy :: "external \<Rightarrow> copier" where
  "LDKNodeConfig_DeepCopy X = copyPtr (LDKNodeConfig_DeepCopyInto X)"

definition AuthDatabaseConfigT :: "external \<Rightarrow> ty" where
  "AuthDatabaseConfigT X = TStruct
     [(''Postgres'', TPtr (PostgresConfigT X))]"

definition AuthDatabaseConfig_DeepCopyInto :: "external \<Rightarrow> copier" where
  "AuthDatabaseConfig_DeepCopyInto X = deepCopyInto
     [(''Postgres'', copyPtr (PostgresConfig_DeepCopyInto X))]"

definition AuthDatabaseConfig_DeepCopy :: "external \<Rightarrow> copier" where
  "AuthDatabaseConfig_DeepCopy X = copyPtr (AuthDatabaseConfig_DeepCopyInto X)"

definition AuthConfigT :: "external \<Rightarrow> ty" where
  "AuthConfigT X = TStruct
     [(''Enabled'', TScalar), (''OpenIDDiscovery'', TScalar), (''OpenIDClientID'', TScalar),
      (''MintMaxBat'', TPtr TScalar), (''Mint'', TScalar), (''GetMintQuote'', TScalar),
      (''CheckMintQuote'', TScalar), (''Melt'', TScalar), (''GetMeltQuote'', TScalar),
      (''CheckMeltQuote'', TScalar), (''Swap'', TScalar), (''Restore'', TScalar),
      (''CheckProofState'', TScalar), (''Database'', TPtr (AuthDatabaseConfigT X))]"

definition AuthConfig_DeepCopyInto :: "external \<Rightarrow> copier" where
  "AuthConfig_DeepCopyInto X = deepCopyInto
     [(''MintMaxBat'', copyPtr State_Monad.return),
      (''Database'', copyPtr (AuthDatabaseConfig_DeepCopyInto X))]"

definition AuthConfig_DeepCopy :: "external \<Rightarrow> copier" where
  "AuthConfig_DeepCopy X = copyPtr (AuthConfig_DeepCopyInto X)"

definition RedisCacheConfigT :: "external \<Rightarrow> ty" where
  "RedisCacheConfigT X = TStruct
     [(''KeyPrefix'', TScalar), (''ConnectionString'', TScalar),
      (''ConnectionStringSecretRef'', TPtr (ext_ty X ''v1.SecretKeySelector''))]"

definition RedisCacheConfig_DeepCopyInto :: "external \<Rightarrow> copier" where
  "RedisCacheConfig_DeepCopyInto X = deepCopyInto
     [(''ConnectionStringSecretRef'', copyPtr (ext_DeepCopyInto X ''v1.SecretKeySelector''))]"

definition RedisCacheConfig_DeepCopy :: "external \<Rightarrow> copier" where
  "RedisCacheConfig_DeepCopy X = copyPtr (RedisCacheConfig_DeepCopyInto X)"

definition HTTPCacheConfigT :: "external \<Rightarrow> ty" where
  "HTTPCacheConfigT X = TStruct
     [(''Backend'', TScalar), (''TTL'', TPtr TScalar), (''TTI'', TPtr TScalar),
      (''Redis'', TPtr (RedisCacheConfigT X))]"

definition HTTPCacheConfig_DeepCopyInto :: "external \<Rightarrow> copier" where
  "HTTPCacheConfig_DeepCopyInto X = deepCopyInto
     [(''TTL'', copyPtr State_Monad.return), (''TTI'', copyPtr State_Monad.return),
      (''Redis'', copyPtr (RedisCacheConfig_DeepCopyInto X))]"

definition HTTPCacheConfig_DeepCopy :: "external \<Rightarrow> copier" where
  "HTTPCacheConfig_DeepCopy X = copyPtr (HTTPCacheConfig_DeepCopyInto X)"

definition ManagementRPCConfigT :: "external \<Rightarrow> ty" where
  "ManagementRPCConfigT X = TStruct
     [(''Enabled'', TScalar), (''Address'', TScalar), (''Port'', TScalar),
      (''TLSSecretRef'', TPtr (ext_ty X ''v1.LocalObjectReference''))]"

definition ManagementRPCConfig_DeepCopyInto :: "external \<Rightarrow> copier" where
  "ManagementRPCConfig_DeepCopyInto X = deepCopyInto
     [(''TLSSecretRef'', copyPtr State_Monad.return)]"

definition ManagementRPCConfig_DeepCopy :: "external \<Rightarrow> copier" where
  "ManagementRPCConfig_DeepCopy X = copyPtr (ManagementRPCConfig_DeepCopyInto X)"

definition OrchardMintRPCConfigT :: "external \<Rightarrow> ty" where
  "OrchardMintRPCConfigT X = TStruct
     [(''Host'', TScalar), (''Port'', TScalar), (''MTLS'', TPtr TScalar)]"

definition OrchardMintRPCConfig_DeepCopyInto :: "external \<Rightarrow> copier" where
  "OrchardMintRPCConfig_DeepCopyInto X = deepCopyInto
     [(''MTLS'', copyPtr State_Monad.return)]"

definition OrchardMintRPCConfig_DeepCopy :: "external \<Rightarrow> copier" where
  "OrchardMintRPCConfig_DeepCopy X = copyPtr (OrchardMintRPCConfig_DeepCopyInto X)"

definition OrchardMintConfigT :: "external \<Rightarrow> ty" where
  "OrchardMintConfigT X = TStruct
     [(''Type'', TScalar), (''API'', TScalar), (''Database'', TScalar),
      (''DatabaseCASecretRef'', TPtr (ext_ty X ''v1.SecretKeySelector'')),
      (''DatabaseCertSecretRef'', TPtr (ext_ty X ''v1.SecretKeySelector'')),
      (''DatabaseKeySecretRef'', TPtr (ext_ty X ''v1.SecretKeySelector'')),
      (''RPC'', TPtr (OrchardMintRPCConfigT X))]"

definition OrchardMintConfig_DeepCopyInto :: "external \<Rightarrow> copier" where
  "OrchardMintConfig_DeepCopyInto X = deepCopyInto
     [(''DatabaseCASecretRef'', copyPtr (ext_DeepCopyInto X ''v1.SecretKeySelector'')),
      (''DatabaseCertSecretRef'', copyPtr (ext_DeepCopyInto X ''v1.SecretKeySelector'')),
      (''DatabaseKeySecretRef'', copyPtr (ext_DeepCopyInto X ''v1.SecretKeySelector'')),
      (''RPC'', copyPtr (OrchardMintRPCConfig_DeepCopyInto X))]"

definition OrchardMintConfig_DeepCopy :: "external \<Rightarrow> copier" where
  "OrchardMintConfig_DeepCopy X = copyPtr (OrchardMintConfig_DeepCopyInto X)"

definition OrchardBitcoinConfigT :: "external \<Rightarrow> ty" where
  "OrchardBitcoinConfigT X = TStruct
     [(''Type'', TScalar), (''RPCHost'', TScalar), (''RPCPort'', TScalar),
      (''RPCUserSecretRef'', TPtr (ext_ty X ''v1.SecretKeySelector'')),
      (''RPCPasswordSecretRef'', TPtr (ext_ty X ''v1.SecretKeySelector''))]"

definition OrchardBitcoinConfig_DeepCopyInto :: "external \<Rightarrow> copier" where
  "OrchardBitcoinConfig_DeepCopyInto X = deepCopyInto
     [(''RPCUserSecretRef'', copyPtr (ext_DeepCopyInto X ''v1.SecretKeySelector'')),
      (''RPCPasswordSecretRef'', copyPtr (ext_DeepCopyInto X ''v1.SecretKeySelector''))]"

definition OrchardBitcoinConfig_DeepCopy :: "external \<Rightarrow> copier" where
  "OrchardBitcoinConfig_DeepCopy X = copyPtr (OrchardBitcoinConfig_DeepCopyInto X)"

definition OrchardLightningConfigT :: "external \<Rightarrow> ty" where
  "OrchardLightningConfigT X = TStruct
     [(''Type'', TScalar), (''RPCHost'', TScalar), (''RPCPort'', TScalar),
      (''MacaroonSecretRef'', TPtr (ext_ty X ''v1.SecretKeySelector'')),
      (''CertSecretRef'', TPtr (ext_ty X ''v1.SecretKeySelector'')),
      (''KeySecretRef'', TPtr (ext_ty X ''v1.SecretKeySelector'')),
      (''CASecretRef'', TPtr (ext_ty X ''v1.SecretKeySelector''))]"

definition OrchardLightningConfig_DeepCopyInto :: "external \<Rightarrow> copier" where
  "OrchardLightningConfig_DeepCopyInto X = deepCopyInto
     [(''MacaroonSecretRef'', copyPtr (ext_DeepCopyInto X ''v1.SecretKeySelector'')),
      (''CertSecretRef'', copyPtr (ext_DeepCopyInto X ''v1.SecretKeySelector'')),
      (''KeySecretRef'', copyPtr (ext_DeepCopyInto X ''v1.SecretKeySelector'')),
      (''CASecretRef'', copyPtr (ext_DeepCopyInto X ''v1.SecretKeySelector''))]"

definition OrchardLightningConfig_DeepCopy :: "external \<Rightarrow> copier" where
  "OrchardLightningConfig_DeepCopy X = copyPtr (OrchardLightningConfig_DeepCopyInto X)"

definition OrchardTaprootAssetsConfigT :: "external \<Rightarrow> ty" where
  "OrchardTaprootAssetsConfigT X = TStruct
     [(''Type'', TScalar), (''RPCHost'', TScalar), (''RPCPort'', TScalar),
      (''MacaroonSecretRef'', TPtr (ext_ty X ''v1.SecretKeySelector'')),
      (''CertSecretRef'', TPtr (ext_ty X ''v1.SecretKeySelector''))]"

definition OrchardTaprootAssetsConfig_DeepCopyInto :: "external \<Rightarrow> copier" where
  "OrchardTaprootAssetsConfig_DeepCopyInto X = deepCopyInto
     [(''MacaroonSecretRef'', copyPtr (ext_DeepCopyInto X ''v1.SecretKeySelector'')),
      (''CertSecretRef'', copyPtr (ext_DeepCopyInto X ''v1.SecretKeySelector''))]"

definition OrchardTaprootAssetsConfig_DeepCopy :: "external \<Rightarrow> copier" where
  "OrchardTaprootAssetsConfig_DeepCopy X = copyPtr (OrchardTaprootAssetsConfig_DeepCopyInto X)"

definition OrchardAIConfigT :: "external \<Rightarrow> ty" where
  "OrchardAIConfigT X = TStruct
     [(''API'', TScalar)]"

definition OrchardAIConfig_DeepCopyInto :: "external \<Rightarrow> copier" where
  "OrchardAIConfig_DeepCopyInto X = deepCopyInto []"

definition OrchardAIConfig_DeepCopy :: "external \<Rightarrow> copier" where
  "OrchardAIConfig_DeepCopy X = copyPtr (OrchardAIConfig_DeepCopyInto X)"

definition ServiceConfigT :: "external \<Rightarrow> ty" where
  "ServiceConfigT X = TStruct
     [(''Type'', TScalar), (''Annotations'', TMap), (''LoadBalancerIP'', TScalar)]"

definition ServiceConfig_DeepCopyInto :: "external \<Rightarrow> copier" where
  "ServiceConfig_DeepCopyInto X = deepCopyInto
     [(''Annotations'', copyMap)]"

definition ServiceConfig_DeepCopy :: "external \<Rightarrow> copier" where
  "ServiceConfig_DeepCopy X = copyPtr (ServiceConfig_DeepCopyInto X)"

definition CertManagerConfigT :: "external \<Rightarrow> ty" where
  "CertManagerConfigT X = TStruct
     [(''Enabled'', TScalar), (''IssuerName'', TScalar), (''IssuerKind'', TScalar)]"

definition CertManagerConfig_DeepCopyInto :: "external \<Rightarrow> copier" where
  "CertManagerConfig_DeepCopyInto X = deepCopyInto []"

definition CertManagerConfig_DeepCopy :: "external \<Rightarrow> copier" where
  "CertManagerConfig_DeepCopy X = copyPtr (CertManagerConfig_DeepCopyInto X)"

definition IngressTLSConfigT :: "external \<Rightarrow> ty" where
  "IngressTLSConfigT X = TStruct
     [(''Enabled'', TScalar), (''SecretName'', TScalar), (''CertManager'', TPtr (CertManagerConfigT X))]"

definition IngressTLSConfig_DeepCopyInto :: "external \<Rightarrow> copier" where
  "IngressTLSConfig_DeepCopyInto X = deepCopyInto
     [(''CertManager'', copyPtr State_Monad.return)]"

definition IngressTLSConfig_DeepCopy :: "external \<Rightarrow> copier" where
  "IngressTLSConfig_DeepCopy X = copyPtr (IngressTLSConfig_DeepCopyInto X)"

definition IngressConfigT :: "external \<Rightarrow> ty" where
  "IngressConfigT X = TStruct
     [(''Enabled'', TScalar), (''ClassName'', TScalar), (''Host'', TScalar),
      (''TLS'', TPtr (IngressTLSConfigT X)), (''Annotations'', TMap)]"

definition IngressConfig_DeepCopyInto :: "external \<Rightarrow> copier" where
  "IngressConfig_DeepCopyInto X = deepCopyInto
     [(''TLS'', copyPtr (IngressTLSConfig_DeepCopyInto X)), (''Annotations'', copyMap)]"

definition IngressConfig_DeepCopy :: "external \<Rightarrow> copier" where
  "IngressConfig_DeepCopy X = copyPtr (IngressConfig_DeepCopyInto X)"

definition StorageConfigT :: "external \<Rightarrow> ty" where
  "StorageConfigT X = TStruct
     [(''Size'', TScalar), (''StorageClassName'', TPtr TScalar)]"

definition StorageConfig_DeepCopyInto :: "external \<Rightarrow> copier" where
  "StorageConfig_DeepCopyInto X = deepCopyInto
     [(''StorageClassName'', copyPtr State_Monad.return)]"

definition StorageConfig_DeepCopy :: "external \<Rightarrow> copier" where
  "StorageConfig_DeepCopy X = copyPtr (StorageConfig_DeepCopyInto X)"

definition OrchardConfigT :: "external \<Rightarrow> ty" where
  "OrchardConfigT X = TStruct
     [(''Enabled'', TScalar), (''Image'', TScalar), (''ImagePullPolicy'', TScalar),
      (''Host'', TScalar), (''Port'', TScalar), (''BasePath'', TScalar), (''LogLevel'', TScalar),
      (''SetupKeySecretRef'', TPtr (ext_ty X ''v1.SecretKeySelector'')),
      (''ThrottleTTL'', TPtr TScalar), (''ThrottleLimit'', TPtr TScalar), (''Proxy'', TScalar),
      (''Compression'', TPtr TScalar), (''Mint'', TPtr (OrchardMintConfigT X)),
      (''Bitcoin'', TPtr (OrchardBitcoinConfigT X)), (''Lightning'', TPtr (OrchardLightningConfigT X)),
      (''TaprootAssets'', TPtr (OrchardTaprootAssetsConfigT X)), (''AI'', TPtr (OrchardAIConfigT X)),
      (''Service'', TPtr (ServiceConfigT X)), (''Ingress'', TPtr (IngressConfigT X)),
      (''Storage'', TPtr (StorageConfigT X)),
      (''Resources'', TPtr (ext_ty X ''v1.ResourceRequirements'')),
      (''ContainerSecurityContext'', TPtr (ext_ty X ''v1.SecurityContext'')),
      (''ExtraEnv'', TSlice (ext_ty X ''v1.EnvVar''))]"

definition OrchardConfig_DeepCopyInto :: "external \<Rightarrow> copier" where
  "OrchardConfig_DeepCopyInto X = deepCopyInto
     [(''SetupKeySecretRef'', copyPtr (ext_DeepCopyInto X ''v1.SecretKeySelector'')),
      (''ThrottleTTL'', copyPtr State_Monad.return), (''ThrottleLimit'', copyPtr State_Monad.return),
      (''Compression'', copyPtr State_Monad.return),
      (''Mint'', copyPtr (OrchardMintConfig_DeepCopyInto X)),
      (''Bitcoin'', copyPtr (OrchardBitcoinConfig_DeepCopyInto X)),
      (''Lightning'', copyPtr (OrchardLightningConfig_DeepCopyInto X)),
      (''TaprootAssets'', copyPtr (OrchardTaprootAssetsConfig_DeepCopyInto X)),
      (''AI'', copyPtr State_Monad.return), (''Service'', copyPtr (ServiceConfig_DeepCopyInto X)),
      (''Ingress'', copyPtr (IngressConfig_DeepCopyInto X)),
      (''Storage'', copyPtr (StorageConfig_DeepCopyInto X)),
      (''Resources'', copyPtr (ext_DeepCopyInto X ''v1.ResourceRequirements'')),
      (''ContainerSecurityContext'', copyPtr (ext_DeepCopyInto X ''v1.SecurityContext'')),
      (''ExtraEnv'', copySlice (ext_DeepCopyInto X ''v1.EnvVar''))]"

definition OrchardConfig_DeepCopy :: "external \<Rightarrow> copier" where
  "OrchardConfig_DeepCopy X = copyPtr (OrchardConfig_DeepCopyInto X)"

definition PrometheusConfigT :: "external \<Rightarrow> ty" where
  "PrometheusConfigT X = TStruct
     [(''Enabled'', TScalar), (''Address'', TScalar), (''Port'', TPtr TScalar)]"

definition PrometheusConfig_DeepCopyInto :: "external \<Rightarrow> copier" where
  "PrometheusConfig_DeepCopyInto X = deepCopyInto
     [(''Port'', copyPtr State_Monad.return)]"

definition PrometheusConfig_DeepCopy :: "external \<Rightarrow> copier" where
  "PrometheusConfig_DeepCopy X = copyPtr (PrometheusConfig_DeepCopyInto X)"

definition LimitsConfigT :: "external \<Rightarrow> ty" where
  "LimitsConfigT X = TStruct
     [(''MaxInputs'', TPtr TScalar), (''MaxOutputs'', TPtr TScalar)]"

definition LimitsConfig_DeepCopyInto :: "external \<Rightarrow> copier" where
  "LimitsConfig_DeepCopyInto X = deepCopyInto
     [(''MaxInputs'', copyPtr State_Monad.return), (''MaxOutputs'', copyPtr State_Monad.return)]"

definition LimitsConfig_DeepCopy :: "external \<Rightarrow> copier" where
  "LimitsConfig_DeepCopy X = copyPtr (LimitsConfig_DeepCopyInto X)"

definition LoggingConfigT :: "external \<Rightarrow> ty" where
  "LoggingConfigT X = TStruct
     [(''Level'', TScalar), (''FileLevel'', TScalar), (''Format'', TScalar)]"

definition LoggingConfig_DeepCopyInto :: "external \<Rightarrow> copier" where
  "LoggingConfig_DeepCopyInto X = deepCopyInto []"

definition LoggingConfig_DeepCopy :: "external \<Rightarrow> copier" where
  "LoggingConfig_DeepCopy X = copyPtr (LoggingConfig_DeepCopyInto X)"

definition S3BackupConfigT :: "external \<Rightarrow> ty" where
  "S3BackupConfigT X = TStruct
     [(''Bucket'', TScalar), (''Prefix'', TScalar), (''Region'', TScalar), (''Endpoint'', TScalar),
      (''AccessKeyIDSecretRef'', ext_ty X ''v1.SecretKeySelector''),
      (''SecretAccessKeySecretRef'', ext_ty X ''v1.SecretKeySelector'')]"

definition S3BackupConfig_DeepCopyInto :: "external \<Rightarrow> copier" where
  "S3BackupConfig_DeepCopyInto X = deepCopyInto
     [(''AccessKeyIDSecretRef'', ext_DeepCopyInto X ''v1.SecretKeySelector''),
      (''SecretAccessKeySecretRef'', ext_DeepCopyInto X ''v1.SecretKeySelector'')]"

definition S3BackupConfig_DeepCopy :: "external \<Rightarrow> copier" where
  "S3BackupConfig_DeepCopy X = copyPtr (S3BackupConfig_DeepCopyInto X)"

definition BackupConfigT :: "external \<Rightarrow> ty" where
  "BackupConfigT X = TStruct
     [(''Enabled'', TScalar), (''Schedule'', TScalar), (''RetentionCount'', TPtr TScalar),
      (''S3'', TPtr (S3BackupConfigT X))]"

definition BackupConfig_DeepCopyInto :: "external \<Rightarrow> copier" where
  "BackupConfig_DeepCopyInto X = deepCopyInto
     [(''RetentionCount'', copyPtr State_Monad.return),
      (''S3'', copyPtr (S3BackupConfig_DeepCopyInto X))]"

definition BackupConfig_DeepCopy :: "external \<Rightarrow> copier" where
  "BackupConfig_DeepCopy X = copyPtr (BackupConfig_DeepCopyInto X)"

definition CashuMintSpecT :: "external \<Rightarrow> ty" where
  "CashuMintSpecT X = TStruct
     [(''Image'', TScalar), (''ImagePullPolicy'', TScalar),
      (''ImagePullSecrets'', TSlice (ext_ty X ''v1.LocalObjectReference'')),
      (''Replicas'', TPtr TScalar), (''MintInfo'', MintInfoT X), (''Database'', DatabaseConfigT X),
      (''PaymentBackend'', PaymentBackendConfigT X), (''LDKNode'', TPtr (LDKNodeConfigT X)),
      (''Auth'', TPtr (AuthConfigT X)), (''HTTPCache'', TPtr (HTTPCacheConfigT X)),
      (''ManagementRPC'', TPtr (ManagementRPCConfigT X)), (''Orchard'', TPtr (OrchardConfigT X)),
      (''Prometheus'', TPtr (PrometheusConfigT X)), (''Limits'', TPtr (LimitsConfigT X)),
      (''Ingress'', TPtr (IngressConfigT X)), (''Service'', TPtr (ServiceConfigT X)),
      (''Resources'', TPtr (ext_ty X ''v1.ResourceRequirements'')), (''NodeSelector'', TMap),
      (''Tolerations'', TSlice (ext_ty X ''v1.Toleration'')),
      (''Affinity'', TPtr (ext_ty X ''v1.Affinity'')), (''Logging'', TPtr (LoggingConfigT X)),
      (''Storage'', TPtr (StorageConfigT X)), (''Backup'', TPtr (BackupConfigT X)),
      (''PodSecurityContext'', TPtr (ext_ty X ''v1.PodSecurityContext'')),
      (''ContainerSecurityContext'', TPtr (ext_ty X ''v1.SecurityContext''))]"

definition CashuMintSpec_DeepCopyInto :: "external \<Rightarrow> copier" where
  "CashuMintSpec_DeepCopyInto X = deepCopyInto
     [(''ImagePullSecrets'', copySlice State_Monad.return), (''Replicas'', copyPtr State_Monad.return),
      (''MintInfo'', MintInfo_DeepCopyInto X), (''Database'', DatabaseConfig_DeepCopyInto X),
      (''PaymentBackend'', PaymentBackendConfig_DeepCopyInto X),
      (''LDKNode'', copyPtr (LDKNodeConfig_DeepCopyInto X)),
      (''Auth'', copyPtr (AuthConfig_DeepCopyInto X)),
      (''HTTPCache'', copyPtr (HTTPCacheConfig_DeepCopyInto X)),
      (''ManagementRPC'', copyPtr (ManagementRPCConfig_DeepCopyInto X)),
      (''Orchard'', copyPtr (OrchardConfig_DeepCopyInto X)),
      (''Prometheus'', copyPtr (PrometheusConfig_DeepCopyInto X)),
      (''Limits'', copyPtr (LimitsConfig_DeepCopyInto X)),
      (''Ingress'', copyPtr (IngressConfig_DeepCopyInto X)),
      (''Service'', copyPtr (ServiceConfig_DeepCopyInto X)),
      (''Resources'', copyPtr (ext_DeepCopyInto X ''v1.ResourceRequirements'')),
      (''NodeSelector'', copyMap), (''Tolerations'', copySlice (ext_DeepCopyInto X ''v1.Toleration'')),
      (''Affinity'', copyPtr (ext_DeepCopyInto X ''v1.Affinity'')),
      (''Logging'', copyPtr State_Monad.return), (''Storage'', copyPtr (StorageConfig_DeepCopyInto X)),
      (''Backup'', copyPtr (BackupConfig_DeepCopyInto X)),
      (''PodSecurityContext'', copyPtr (ext_DeepCopyInto X ''v1.PodSecurityContext'')),
      (''ContainerSecurityContext'', copyPtr (ext_DeepCopyInto X ''v1.SecurityContext''))]"

definition CashuMintSpec_DeepCopy :: "external \<Rightarrow> copier" where
  "CashuMintSpec_DeepCopy X = copyPtr (CashuMintSpec_DeepCopyInto X)"

definition DatabaseStatusT :: "external \<Rightarrow> ty" where
  "DatabaseStatusT X = TStruct
     [(''Connected'', TScalar), (''Message'', TScalar),
      (''LastChecked'', TPtr (ext_ty X ''metav1.Time''))]"

definition DatabaseStatus_DeepCopyInto :: "external \<Rightarrow> copier" where
  "DatabaseStatus_DeepCopyInto X = deepCopyInto
     [(''LastChecked'', ext_TimeDeepCopy X)]"

definition DatabaseStatus_DeepCopy :: "external \<Rightarrow> copier" where
  "DatabaseStatus_DeepCopy X = copyPtr (DatabaseStatus_DeepCopyInto X)"

definition PaymentBackendStatusT :: "external \<Rightarrow> ty" where
  "PaymentBackendStatusT X = TStruct
     [(''Connected'', TScalar), (''Message'', TScalar),
      (''LastChecked'', TPtr (ext_ty X ''metav1.Time''))]"

definition PaymentBackendStatus_DeepCopyInto :: "external \<Rightarrow> copier" where
  "PaymentBackendStatus_DeepCopyInto X = deepCopyInto
     [(''LastChecked'', ext_TimeDeepCopy X)]"

definition PaymentBackendStatus_DeepCopy :: "external \<Rightarrow> copier" where
  "PaymentBackendStatus_DeepCopy X = copyPtr (PaymentBackendStatus_DeepCopyInto X)"

definition CashuMintStatusT :: "external \<Rightarrow> ty" where
  "CashuMintStatusT X = TStruct
     [(''Phase'', TScalar), (''Conditions'', TSlice (ext_ty X ''metav1.Condition'')),
      (''ObservedGeneration'', TScalar), (''BackendType'', TScalar), (''DeploymentName'', TScalar),
      (''ServiceName'', TScalar), (''IngressName'', TScalar), (''ConfigMapName'', TScalar),
      (''DatabaseStatus'', DatabaseStatusT X), (''PaymentBackendStatus'', PaymentBackendStatusT X),
      (''URL'', TScalar), (''ReadyReplicas'', TScalar)]"

definition CashuMintStatus_DeepCopyInto :: "external \<Rightarrow> copier" where
  "CashuMintStatus_DeepCopyInto X = deepCopyInto
     [(''Conditions'', copySlice (ext_DeepCopyInto X ''metav1.Condition'')),
      (''DatabaseStatus'', DatabaseStatus_DeepCopyInto X),
      (''PaymentBackendStatus'', PaymentBackendStatus_DeepCopyInto X)]"

definition CashuMintStatus_DeepCopy :: "external \<Rightarrow> copier" where
  "CashuMintStatus_DeepCopy X = copyPtr (CashuMintStatus_DeepCopyInto X)"

definition CashuMintT :: "external \<Rightarrow> ty" where
  "CashuMintT X = TStruct
     [(''TypeMeta'', ext_ty X ''metav1.TypeMeta''), (''ObjectMeta'', ext_ty X ''metav1.ObjectMeta''),
      (''Spec'', CashuMintSpecT X), (''Status'', CashuMintStatusT X)]"

definition CashuMint_DeepCopyInto :: "external \<Rightarrow> copier" where
  "CashuMint_DeepCopyInto X = deepCopyInto
     [(''TypeMeta'', State_Monad.return), (''ObjectMeta'', ext_DeepCopyInto X ''metav1.ObjectMeta''),
      (''Spec'', CashuMintSpec_DeepCopyInto X), (''Status'', CashuMintStatus_DeepCopyInto X)]"

definition CashuMint_DeepCopy :: "external \<Rightarrow> copier" where
  "CashuMint_DeepCopy X = copyPtr (CashuMint_DeepCopyInto X)"

definition CashuMint_DeepCopyObject :: "external \<Rightarrow> val \<Rightarrow> (goheap, val option) state" where
  "CashuMint_DeepCopyObject X v = do {
     c \<leftarrow> CashuMint_DeepCopy X v;
     State_Monad.return (if c \<noteq> Ptr None then Some c else None)
   }"

definition CashuMintListT :: "external \<Rightarrow> ty" where
  "CashuMintListT X = TStruct
     [(''TypeMeta'', ext_ty X ''metav1.TypeMeta''), (''ListMeta'', ext_ty X ''metav1.ListMeta''),
      (''Items'', TSlice (CashuMintT X))]"

definition CashuMintList_DeepCopyInto :: "external \<Rightarrow> copier" where
  "CashuMintList_DeepCopyInto X = deepCopyInto
     [(''TypeMeta'', State_Monad.return), (''ListMeta'', ext_DeepCopyInto X ''metav1.ListMeta''),
      (''Items'', copySlice (CashuMint_DeepCopyInto X))]"

definition CashuMintList_DeepCopy :: "external \<Rightarrow> copier" where
  "CashuMintList_DeepCopy X = copyPtr (CashuMintList_DeepCopyInto X)"

definition CashuMintList_DeepCopyObject :: "external \<Rightarrow> val \<Rightarrow> (goheap, val option) state" where
  "CashuMintList_DeepCopyObject X v = do {
     c \<leftarrow> CashuMintList_DeepCopy X v;
     State_Monad.return (if c \<noteq> Ptr None then Some c else None)
   }"

subsection \<open>Every function copies\<close>

text \<open>What the Kubernetes libraries promise: their copying functions copy, and the two types that the
  generated code assigns hold no references.\<close>

named_theorems copying

locale external_types =
  fixes X :: external
  assumes ext_copies [copying]: "copies (ext_ty X n) (ext_DeepCopyInto X n)"
    and ext_time [copying]: "copies (TPtr (ext_ty X ''metav1.Time'')) (ext_TimeDeepCopy X)"
    and ext_flat [copying]: "flat (ext_ty X ''v1.LocalObjectReference'')" "flat (ext_ty X ''metav1.TypeMeta'')"

lemma flat_structs [copying]:
  "flat (CertManagerConfigT X)"
  "flat (LoggingConfigT X)"
  "flat (OrchardAIConfigT X)"
  "flat (SQLiteConfigT X)"
  by (simp_all add: CertManagerConfigT_def LoggingConfigT_def OrchardAIConfigT_def SQLiteConfigT_def)

lemma copies_statements [copying]:
  assumes "distinct (map fst fs)"
    and "list_all (\<lambda>(n, f). case map_of fs n of Some t \<Rightarrow> copies t f | None \<Rightarrow> False) ss"
    and "list_all (\<lambda>(n, t). n \<in> set (map fst ss) \<or> flat t) fs"
  shows "copies (TStruct fs) (deepCopyInto ss)"
  by (rule copies_struct)
    (use assms in \<open>auto simp: complete_def list_all_iff split: option.splits dest!: map_of_SomeD bspec\<close>)

declare copies_ptr [copying] copies_slice [copying] copies_map [copying] copies_flat [copying]

context external_types
begin

lemma QuoteTTLConfig_copies [copying]: "copies (QuoteTTLConfigT X) (QuoteTTLConfig_DeepCopyInto X)"
  by (simp add: copying QuoteTTLConfigT_def QuoteTTLConfig_DeepCopyInto_def)

lemma MintInfo_copies [copying]: "copies (MintInfoT X) (MintInfo_DeepCopyInto X)"
  by (simp add: copying MintInfoT_def MintInfo_DeepCopyInto_def)

lemma PostgresAutoProvisionSpec_copies [copying]: "copies (PostgresAutoProvisionSpecT X) (PostgresAutoProvisionSpec_DeepCopyInto X)"
  by (simp add: copying PostgresAutoProvisionSpecT_def PostgresAutoProvisionSpec_DeepCopyInto_def)

lemma PostgresConfig_copies [copying]: "copies (PostgresConfigT X) (PostgresConfig_DeepCopyInto X)"
  by (simp add: copying PostgresConfigT_def PostgresConfig_DeepCopyInto_def)

lemma SQLiteConfig_copies [copying]: "copies (SQLiteConfigT X) (SQLiteConfig_DeepCopyInto X)"
  by (simp add: copying SQLiteConfigT_def SQLiteConfig_DeepCopyInto_def)

lemma DatabaseConfig_copies [copying]: "copies (DatabaseConfigT X) (DatabaseConfig_DeepCopyInto X)"
  by (simp add: copying DatabaseConfigT_def DatabaseConfig_DeepCopyInto_def)

lemma LNDConfig_copies [copying]: "copies (LNDConfigT X) (LNDConfig_DeepCopyInto X)"
  by (simp add: copying LNDConfigT_def LNDConfig_DeepCopyInto_def)

lemma CLNConfig_copies [copying]: "copies (CLNConfigT X) (CLNConfig_DeepCopyInto X)"
  by (simp add: copying CLNConfigT_def CLNConfig_DeepCopyInto_def)

lemma LNBitsConfig_copies [copying]: "copies (LNBitsConfigT X) (LNBitsConfig_DeepCopyInto X)"
  by (simp add: copying LNBitsConfigT_def LNBitsConfig_DeepCopyInto_def)

lemma FakeWalletConfig_copies [copying]: "copies (FakeWalletConfigT X) (FakeWalletConfig_DeepCopyInto X)"
  by (simp add: copying FakeWalletConfigT_def FakeWalletConfig_DeepCopyInto_def)

lemma SidecarProcessorConfig_copies [copying]: "copies (SidecarProcessorConfigT X) (SidecarProcessorConfig_DeepCopyInto X)"
  by (simp add: copying SidecarProcessorConfigT_def SidecarProcessorConfig_DeepCopyInto_def)

lemma GRPCProcessorConfig_copies [copying]: "copies (GRPCProcessorConfigT X) (GRPCProcessorConfig_DeepCopyInto X)"
  by (simp add: copying GRPCProcessorConfigT_def GRPCProcessorConfig_DeepCopyInto_def)

lemma PaymentBackendConfig_copies [copying]: "copies (PaymentBackendConfigT X) (PaymentBackendConfig_DeepCopyInto X)"
  by (simp add: copying PaymentBackendConfigT_def PaymentBackendConfig_DeepCopyInto_def)

lemma BitcoinRPCConfig_copies [copying]: "copies (BitcoinRPCConfigT X) (BitcoinRPCConfig_DeepCopyInto X)"
  by (simp add: copying BitcoinRPCConfigT_def BitcoinRPCConfig_DeepCopyInto_def)

lemma LDKNodeConfig_copies [copying]: "copies (LDKNodeConfigT X) (LDKNodeConfig_DeepCopyInto X)"
  by (simp add: copying LDKNodeConfigT_def LDKNodeConfig_DeepCopyInto_def)

lemma AuthDatabaseConfig_copies [copying]: "copies (AuthDatabaseConfigT X) (AuthDatabaseConfig_DeepCopyInto X)"
  by (simp add: copying AuthDatabaseConfigT_def AuthDatabaseConfig_DeepCopyInto_def)

lemma AuthConfig_copies [copying]: "copies (AuthConfigT X) (AuthConfig_DeepCopyInto X)"
  by (simp add: copying AuthConfigT_def AuthConfig_DeepCopyInto_def)

lemma RedisCacheConfig_copies [copying]: "copies (RedisCacheConfigT X) (RedisCacheConfig_DeepCopyInto X)"
  by (simp add: copying RedisCacheConfigT_def RedisCacheConfig_DeepCopyInto_def)

lemma HTTPCacheConfig_copies [copying]: "copies (HTTPCacheConfigT X) (HTTPCacheConfig_DeepCopyInto X)"
  by (simp add: copying HTTPCacheConfigT_def HTTPCacheConfig_DeepCopyInto_def)

lemma ManagementRPCConfig_copies [copying]: "copies (ManagementRPCConfigT X) (ManagementRPCConfig_DeepCopyInto X)"
  by (simp add: copying ManagementRPCConfigT_def ManagementRPCConfig_DeepCopyInto_def)

lemma OrchardMintRPCConfig_copies [copying]: "copies (OrchardMintRPCConfigT X) (OrchardMintRPCConfig_DeepCopyInto X)"
  by (simp add: copying OrchardMintRPCConfigT_def OrchardMintRPCConfig_DeepCopyInto_def)

lemma OrchardMintConfig_copies [copying]: "copies (OrchardMintConfigT X) (OrchardMintConfig_DeepCopyInto X)"
  by (simp add: copying OrchardMintConfigT_def OrchardMintConfig_DeepCopyInto_def)

lemma OrchardBitcoinConfig_copies [copying]: "copies (OrchardBitcoinConfigT X) (OrchardBitcoinConfig_DeepCopyInto X)"
  by (simp add: copying OrchardBitcoinConfigT_def OrchardBitcoinConfig_DeepCopyInto_def)

lemma OrchardLightningConfig_copies [copying]: "copies (OrchardLightningConfigT X) (OrchardLightningConfig_DeepCopyInto X)"
  by (simp add: copying OrchardLightningConfigT_def OrchardLightningConfig_DeepCopyInto_def)

lemma OrchardTaprootAssetsConfig_copies [copying]: "copies (OrchardTaprootAssetsConfigT X) (OrchardTaprootAssetsConfig_DeepCopyInto X)"
  by (simp add: copying OrchardTaprootAssetsConfigT_def OrchardTaprootAssetsConfig_DeepCopyInto_def)

lemma OrchardAIConfig_copies [copying]: "copies (OrchardAIConfigT X) (OrchardAIConfig_DeepCopyInto X)"
  by (simp add: copying OrchardAIConfigT_def OrchardAIConfig_DeepCopyInto_def)

lemma ServiceConfig_copies [copying]: "copies (ServiceConfigT X) (ServiceConfig_DeepCopyInto X)"
  by (simp add: copying ServiceConfigT_def ServiceConfig_DeepCopyInto_def)

lemma CertManagerConfig_copies [copying]: "copies (CertManagerConfigT X) (CertManagerConfig_DeepCopyInto X)"
  by (simp add: copying CertManagerConfigT_def CertManagerConfig_DeepCopyInto_def)

lemma IngressTLSConfig_copies [copying]: "copies (IngressTLSConfigT X) (IngressTLSConfig_DeepCopyInto X)"
  by (simp add: copying IngressTLSConfigT_def IngressTLSConfig_DeepCopyInto_def)

lemma IngressConfig_copies [copying]: "copies (IngressConfigT X) (IngressConfig_DeepCopyInto X)"
  by (simp add: copying IngressConfigT_def IngressConfig_DeepCopyInto_def)

lemma StorageConfig_copies [copying]: "copies (StorageConfigT X) (StorageConfig_DeepCopyInto X)"
  by (simp add: copying StorageConfigT_def StorageConfig_DeepCopyInto_def)

lemma OrchardConfig_copies [copying]: "copies (OrchardConfigT X) (OrchardConfig_DeepCopyInto X)"
  by (simp add: copying OrchardConfigT_def OrchardConfig_DeepCopyInto_def)

lemma PrometheusConfig_copies [copying]: "copies (PrometheusConfigT X) (PrometheusConfig_DeepCopyInto X)"
  by (simp add: copying PrometheusConfigT_def PrometheusConfig_DeepCopyInto_def)

lemma LimitsConfig_copies [copying]: "copies (LimitsConfigT X) (LimitsConfig_DeepCopyInto X)"
  by (simp add: copying LimitsConfigT_def LimitsConfig_DeepCopyInto_def)

lemma LoggingConfig_copies [copying]: "copies (LoggingConfigT X) (LoggingConfig_DeepCopyInto X)"
  by (simp add: copying LoggingConfigT_def LoggingConfig_DeepCopyInto_def)

lemma S3BackupConfig_copies [copying]: "copies (S3BackupConfigT X) (S3BackupConfig_DeepCopyInto X)"
  by (simp add: copying S3BackupConfigT_def S3BackupConfig_DeepCopyInto_def)

lemma BackupConfig_copies [copying]: "copies (BackupConfigT X) (BackupConfig_DeepCopyInto X)"
  by (simp add: copying BackupConfigT_def BackupConfig_DeepCopyInto_def)

lemma CashuMintSpec_copies [copying]: "copies (CashuMintSpecT X) (CashuMintSpec_DeepCopyInto X)"
  by (simp add: copying CashuMintSpecT_def CashuMintSpec_DeepCopyInto_def)

lemma DatabaseStatus_copies [copying]: "copies (DatabaseStatusT X) (DatabaseStatus_DeepCopyInto X)"
  by (simp add: copying DatabaseStatusT_def DatabaseStatus_DeepCopyInto_def)

lemma PaymentBackendStatus_copies [copying]: "copies (PaymentBackendStatusT X) (PaymentBackendStatus_DeepCopyInto X)"
  by (simp add: copying PaymentBackendStatusT_def PaymentBackendStatus_DeepCopyInto_def)

lemma CashuMintStatus_copies [copying]: "copies (CashuMintStatusT X) (CashuMintStatus_DeepCopyInto X)"
  by (simp add: copying CashuMintStatusT_def CashuMintStatus_DeepCopyInto_def)

lemma CashuMint_copies [copying]: "copies (CashuMintT X) (CashuMint_DeepCopyInto X)"
  by (simp add: copying CashuMintT_def CashuMint_DeepCopyInto_def)

lemma CashuMintList_copies [copying]: "copies (CashuMintListT X) (CashuMintList_DeepCopyInto X)"
  by (simp add: copying CashuMintListT_def CashuMintList_DeepCopyInto_def)

lemma CashuMint_pointer: "copies (TPtr (CashuMintT X)) (CashuMint_DeepCopy X)"
  unfolding CashuMint_DeepCopy_def by (intro copies_ptr CashuMint_copies)

lemma CashuMintList_pointer: "copies (TPtr (CashuMintListT X)) (CashuMintList_DeepCopy X)"
  unfolding CashuMintList_DeepCopy_def by (intro copies_ptr CashuMintList_copies)

end

text \<open>A copy shares nothing with its original, which the copying leaves as it was.\<close>

lemma copies_separate:
  assumes "copies t f" and "heapOK h" and "denotes h t v x A"
  obtains c h' C where "run_state (f v) h = (c, h')" "heapOK h'" "denotes h' t v x A" "denotes h' t c x C" "C \<inter> A = {}"
proof -
  from assms obtain c h' C where r: "run_state (f v) h = (c, h')" "heapOK h'" "grows h h'" "denotes h' t c x C"
    "\<forall>a \<in> C. h_next h \<le> a" by (rule copiesE)
  from r(5) denotes_below [OF assms(3,2)] have "C \<inter> A = {}" by fastforce
  with r denotes_grows [OF assms(3,2) r(3)] show thesis by (intro that)
qed

lemma denotes_nil:
  assumes "denotes h (TPtr t) v x A"
  shows "v = Ptr None \<longleftrightarrow> x = NilT"
  using assms by (auto elim: denotes_ptrE)

subsection \<open>Editing the copy\<close>

text \<open>
  \<^verbatim>\<open>reconcileConfigMap\<close> copies the mint and puts the connection strings it read from secrets into the
  copy. The conditions under which it reads a secret, and its errors, are in \<open>reconcileConfigMap\<close> of the
  theory \<open>Controller\<close>; here a URL is given exactly when the code resolved one.
\<close>

definition databasePostgres :: "hop list" where
  "databasePostgres = [Deref, Field ''Spec'', Field ''Database'', Field ''Postgres'']"

definition authDatabasePostgres :: "hop list" where
  "authDatabasePostgres = [Deref, Field ''Spec'', Field ''Auth'', Deref, Field ''Database'', Deref, Field ''Postgres'']"

definition assignURL :: "hop list \<Rightarrow> val \<Rightarrow> string option \<Rightarrow> (goheap, unit) state" where
  "assignURL p configMint url = do {
     h \<leftarrow> State_Monad.get;
     (case (url, valAt h configMint p) of
        (Some u, Some (Ptr (Some pg))) \<Rightarrow> do {
          setField pg ''URL'' (Scalar u);
          setField pg ''URLSecretRef'' (Ptr None)
        }
      | _ \<Rightarrow> State_Monad.return ())
   }"

definition resolvedCopy :: "external \<Rightarrow> val \<Rightarrow> string option \<Rightarrow> string option \<Rightarrow> (goheap, val) state" where
  "resolvedCopy X mint dbURL authURL = do {
     configMint \<leftarrow> CashuMint_DeepCopy X mint;
     assignURL databasePostgres configMint dbURL;
     assignURL authDatabasePostgres configMint authURL;
     State_Monad.return configMint
   }"

text \<open>The tree that the copy is meant to denote afterwards.\<close>

definition withURL :: "hop list \<Rightarrow> string option \<Rightarrow> tree \<Rightarrow> tree" where
  "withURL p url x =
     (case (url, treeAt x p) of
        (Some u, Some (Ref (Node Y))) \<Rightarrow> treePut (Ref (Node (Y(''URL'' \<mapsto> Leaf u, ''URLSecretRef'' \<mapsto> NilT)))) p x
      | _ \<Rightarrow> x)"

lemma postgres_paths:
  "typeAt (TPtr (CashuMintT X)) databasePostgres = Some (TPtr (PostgresConfigT X))"
  "typeAt (TPtr (CashuMintT X)) authDatabasePostgres = Some (TPtr (PostgresConfigT X))"
  by (simp_all add: databasePostgres_def authDatabasePostgres_def CashuMintT_def CashuMintSpecT_def
      DatabaseConfigT_def AuthConfigT_def AuthDatabaseConfigT_def)

lemma set_url:
  assumes "denotes h (TPtr (PostgresConfigT X)) (Ptr (Some b)) (Ref (Node Y)) C" and "heapOK h"
  shows "\<exists>h' C'. run_state (do { setField b ''URL'' (Scalar u); setField b ''URLSecretRef'' (Ptr None) }) h = ((), h')
    \<and> heapOK h' \<and> C' \<subseteq> C \<and> (\<forall>a. a \<notin> C \<longrightarrow> h_cells h' a = h_cells h a)
    \<and> denotes h' (TPtr (PostgresConfigT X)) (Ptr (Some b))
        (Ref (Node (Y(''URL'' \<mapsto> Leaf u, ''URLSecretRef'' \<mapsto> NilT)))) C'"
proof -
  obtain fs where fs: "PostgresConfigT X = TStruct fs" "(''URL'', TScalar) \<in> set fs"
    "(''URLSecretRef'', TPtr (ext_ty X ''v1.SecretKeySelector'')) \<in> set fs"
    by (simp add: PostgresConfigT_def)
  from setField_denotes [OF assms(1) [unfolded fs(1)] assms(2) fs(2) denotes.scalar] obtain h1 C1 where
    1: "run_state (setField b ''URL'' (Scalar u)) h = ((), h1)" "heapOK h1" "C1 \<subseteq> C" "\<forall>a. a \<notin> C \<longrightarrow> h_cells h1 a = h_cells h a"
      "denotes h1 (TPtr (TStruct fs)) (Ptr (Some b)) (Ref (Node (Y(''URL'' \<mapsto> Leaf u)))) C1" by blast
  from setField_denotes [OF 1(5,2) fs(3) denotes.nil_ptr] obtain h2 C2 where
    2: "run_state (setField b ''URLSecretRef'' (Ptr None)) h1 = ((), h2)" "heapOK h2" "C2 \<subseteq> C1"
      "\<forall>a. a \<notin> C1 \<longrightarrow> h_cells h2 a = h_cells h1 a"
      "denotes h2 (TPtr (TStruct fs)) (Ptr (Some b)) (Ref (Node (Y(''URL'' \<mapsto> Leaf u, ''URLSecretRef'' \<mapsto> NilT)))) C2"
    by blast
  from 1(3,4) 2(4) have "\<forall>a. a \<notin> C \<longrightarrow> h_cells h2 a = h_cells h a" by fastforce
  with 1(1,3) 2 show ?thesis unfolding fs(1) by (intro exI [of _ h2] exI [of _ C2]) auto
qed

lemma assignURL_reached:
  assumes den: "denotes h t c x A" and "heapOK h" and p: "typeAt t p = Some (TPtr (PostgresConfigT X))"
    and b: "valAt h c p = Some (Ptr (Some b))"
  shows "\<exists>h' A'. run_state (assignURL p c (Some u)) h = ((), h') \<and> heapOK h' \<and> denotes h' t c (withURL p (Some u) x) A'
    \<and> A' \<subseteq> A \<and> (\<forall>a. a \<notin> A \<longrightarrow> h_cells h' a = h_cells h a)"
proof -
  from den p b obtain y C where y: "treeAt x p = Some y" "denotes h (TPtr (PostgresConfigT X)) (Ptr (Some b)) y C" "C \<subseteq> A"
    and put: "\<And>h' y' C'. (\<And>a. a \<notin> C \<Longrightarrow> h_cells h' a = h_cells h a) \<Longrightarrow>
       denotes h' (TPtr (PostgresConfigT X)) (Ptr (Some b)) y' C' \<Longrightarrow> C' \<subseteq> C \<Longrightarrow> \<exists>A' \<subseteq> A. denotes h' t c (treePut y' p x) A'"
    by (rule denotes_at) metis
  from y(2) obtain Y where Y: "y = Ref (Node Y)"
    by (auto simp: PostgresConfigT_def elim!: denotes_ptrE denotes_structE)
  from set_url [OF y(2) [unfolded Y] assms(2), of u] obtain h' C' where
    run: "run_state (do { setField b ''URL'' (Scalar u); setField b ''URLSecretRef'' (Ptr None) }) h = ((), h')"
      "heapOK h'" "C' \<subseteq> C" "\<forall>a. a \<notin> C \<longrightarrow> h_cells h' a = h_cells h a"
    and new: "denotes h' (TPtr (PostgresConfigT X)) (Ptr (Some b))
        (Ref (Node (Y(''URL'' \<mapsto> Leaf u, ''URLSecretRef'' \<mapsto> NilT)))) C'"
    by blast
  from put [OF _ new run(3)] run(4) obtain A' where "A' \<subseteq> A" "denotes h' t c (withURL p (Some u) x) A'"
    using y(1) Y by (auto simp: withURL_def)
  moreover have "run_state (assignURL p c (Some u)) h = ((), h')" using run(1) b by (simp add: assignURL_def)
  ultimately show ?thesis using run(2,4) y(3) by blast
qed

lemma assignURL_denotes:
  assumes den: "denotes h t c x A" and "heapOK h" and p: "typeAt t p = Some (TPtr (PostgresConfigT X))"
  shows "\<exists>h' A'. run_state (assignURL p c url) h = ((), h') \<and> heapOK h' \<and> denotes h' t c (withURL p url x) A'
    \<and> A' \<subseteq> A \<and> (\<forall>a. a \<notin> A \<longrightarrow> h_cells h' a = h_cells h a)"
proof -
  consider (none) "url = None" | (short) "valAt h c p = None" | (reached) w where "url \<noteq> None" "valAt h c p = Some w"
    by blast
  then show ?thesis
  proof cases
    case none
    with den assms(2) show ?thesis by (auto simp: assignURL_def withURL_def)
  next
    case short
    with valAt_treeAt [OF den p] den assms(2) show ?thesis
      by (auto simp: assignURL_def withURL_def split: option.splits)
  next
    case (reached w)
    from den p reached(2) obtain y C where y: "treeAt x p = Some y" "denotes h (TPtr (PostgresConfigT X)) w y C"
      by (rule denotes_at)
    from y(2) consider (nil) "w = Ptr None" "y = NilT" | (set) b where "w = Ptr (Some b)" by (rule denotes_ptrE) blast+
    then show ?thesis
    proof cases
      case nil
      with y(1) reached(2) den assms(2) show ?thesis by (auto simp: assignURL_def withURL_def split: option.splits)
    next
      case (set b)
      with assignURL_reached [OF den assms(2) p] reached show ?thesis by auto
    qed
  qed
qed

text \<open>What the edit reads as afterwards.\<close>

lemma treeAt_append: "treeAt x (p @ q) = Option.bind (treeAt x p) (\<lambda>y. treeAt y q)"
  by (induction x p rule: treeAt.induct) (auto simp: bind_eq_None_conv intro: bind_option_cong)

lemma treeAt_treePut:
  assumes "treeAt x p = Some y"
  shows "treeAt (treePut z p x) p = Some z"
  using assms by (induction x p rule: treeAt.induct) (auto simp: bind_eq_Some_conv)

lemma withURL_reads:
  assumes "treeAt x p = Some (Ref (Node Y))"
  shows "treeAt (withURL p (Some u) x) (p @ [Deref, Field ''URL'']) = Some (Leaf u)"
    and "treeAt (withURL p (Some u) x) (p @ [Deref, Field ''URLSecretRef'']) = Some NilT"
    and "n \<noteq> ''URL'' \<Longrightarrow> n \<noteq> ''URLSecretRef'' \<Longrightarrow>
      treeAt (withURL p (Some u) x) (p @ [Deref, Field n]) = treeAt x (p @ [Deref, Field n])"
  using assms by (simp_all add: withURL_def treeAt_append treeAt_treePut [OF assms])

subsection \<open>Types and a mint to try the functions on\<close>

text \<open>The libraries' types with the layout that the API reference documents for the selectors and
  the type information. The others are opaque.\<close>

definition documentedTypes :: external where
  "documentedTypes = \<lparr>
     ext_ty = (\<lambda>n.
       if n = ''v1.SecretKeySelector'' then
         TStruct [(''LocalObjectReference'', TStruct [(''Name'', TScalar)]), (''Key'', TScalar), (''Optional'', TPtr TScalar)]
       else if n = ''v1.LocalObjectReference'' then TStruct [(''Name'', TScalar)]
       else if n = ''metav1.TypeMeta'' then TStruct [(''Kind'', TScalar), (''APIVersion'', TScalar)]
       else TScalar),
     ext_DeepCopyInto = (\<lambda>n.
       if n = ''v1.SecretKeySelector'' then deepCopyInto [(''LocalObjectReference'', State_Monad.return), (''Optional'', copyPtr State_Monad.return)]
       else State_Monad.return),
     ext_TimeDeepCopy = copyPtr State_Monad.return \<rparr>"

lemma documented_copies: "copies (ext_ty documentedTypes n) (ext_DeepCopyInto documentedTypes n)"
  by (cases "n = ''v1.SecretKeySelector''") (simp_all add: documentedTypes_def copying)

interpretation documented: external_types documentedTypes
  by unfold_locales (rule documented_copies, simp_all add: documentedTypes_def copying)

text \<open>A mint with an external database whose connection string is in a secret, in a heap with a list
  that holds the mint. Everything else has its zero value.\<close>

definition samplePostgres :: val where
  "samplePostgres = withField (PostgresConfigT documentedTypes) ''URLSecretRef'' (Ptr (Some 2))"

definition sampleCashuMint :: val where
  "sampleCashuMint =
     withField (CashuMintT documentedTypes) ''Spec''
       (withField (CashuMintSpecT documentedTypes) ''Database''
          (withField (DatabaseConfigT documentedTypes) ''Postgres'' (Ptr (Some 1))))"

definition sampleTree :: tree where
  "sampleTree =
     withFieldTree (CashuMintT documentedTypes) ''Spec''
       (withFieldTree (CashuMintSpecT documentedTypes) ''Database''
          (withFieldTree (DatabaseConfigT documentedTypes) ''Postgres''
             (Ref (withFieldTree (PostgresConfigT documentedTypes) ''URLSecretRef''
                (Ref (zeroTree (ext_ty documentedTypes ''v1.SecretKeySelector'')))))))"

definition sampleHeap :: goheap where
  "sampleHeap = \<lparr>
     h_cells = [0 \<mapsto> Cell sampleCashuMint, 1 \<mapsto> Cell samplePostgres,
                2 \<mapsto> Cell (zeroOf (ext_ty documentedTypes ''v1.SecretKeySelector'')),
                3 \<mapsto> Cell (withField (CashuMintListT documentedTypes) ''Items'' (Slice (Some 4))),
                4 \<mapsto> Array [sampleCashuMint]],
     h_next = 5 \<rparr>"

lemma sampleHeap_ok: "heapOK sampleHeap"
  by (simp add: heapOK_def sampleHeap_def)

lemma sample_distinct:
  "distinctFields (ext_ty documentedTypes ''v1.SecretKeySelector'')"
  "distinctFields (PostgresConfigT documentedTypes)"
  "distinctFields (DatabaseConfigT documentedTypes)"
  "distinctFields (CashuMintSpecT documentedTypes)"
  "distinctFields (CashuMintT documentedTypes)"
  "distinctFields (CashuMintListT documentedTypes)"
  by (simp_all add: documentedTypes_def PostgresConfigT_def DatabaseConfigT_def CashuMintSpecT_def CashuMintT_def
      CashuMintListT_def MintInfoT_def PaymentBackendConfigT_def CashuMintStatusT_def DatabaseStatusT_def
      PaymentBackendStatusT_def)

lemma sample_fields:
  "typeAt (PostgresConfigT X) [Field ''URLSecretRef''] = Some (TPtr (ext_ty X ''v1.SecretKeySelector''))"
  "typeAt (DatabaseConfigT X) [Field ''Postgres''] = Some (TPtr (PostgresConfigT X))"
  "typeAt (CashuMintSpecT X) [Field ''Database''] = Some (DatabaseConfigT X)"
  "typeAt (CashuMintT X) [Field ''Spec''] = Some (CashuMintSpecT X)"
  "typeAt (CashuMintListT X) [Field ''Items''] = Some (TSlice (CashuMintT X))"
  by (simp_all add: PostgresConfigT_def DatabaseConfigT_def CashuMintSpecT_def CashuMintT_def CashuMintListT_def)

lemma sampleMint_denotes: "denotes sampleHeap (CashuMintT documentedTypes) sampleCashuMint sampleTree {1, 2}"
proof -
  have "denotes sampleHeap (TPtr (ext_ty documentedTypes ''v1.SecretKeySelector'')) (Ptr (Some 2))
      (Ref (zeroTree (ext_ty documentedTypes ''v1.SecretKeySelector''))) {2}"
    using denotes.ptr [OF _ denotes_zero [OF sample_distinct(1)]] by (simp add: sampleHeap_def)
  from denotes_with [OF sample_distinct(2) sample_fields(1) this]
  have "denotes sampleHeap (PostgresConfigT documentedTypes) samplePostgres
      (withFieldTree (PostgresConfigT documentedTypes) ''URLSecretRef''
         (Ref (zeroTree (ext_ty documentedTypes ''v1.SecretKeySelector'')))) {2}"
    by (simp add: samplePostgres_def)
  from denotes.ptr [OF _ this, of 1]
  have "denotes sampleHeap (TPtr (PostgresConfigT documentedTypes)) (Ptr (Some 1))
      (Ref (withFieldTree (PostgresConfigT documentedTypes) ''URLSecretRef''
         (Ref (zeroTree (ext_ty documentedTypes ''v1.SecretKeySelector''))))) {1, 2}"
    by (simp add: sampleHeap_def)
  then show ?thesis unfolding sampleCashuMint_def sampleTree_def
    by (intro denotes_with [OF sample_distinct(5) sample_fields(4)] denotes_with [OF sample_distinct(4) sample_fields(3)]
        denotes_with [OF sample_distinct(3) sample_fields(2)])
qed

lemma sampleMint_pointer: "denotes sampleHeap (TPtr (CashuMintT documentedTypes)) (Ptr (Some 0)) (Ref sampleTree) {0, 1, 2}"
  by (rule denotes.ptr [OF _ sampleMint_denotes]) (simp_all add: sampleHeap_def)

lemma sampleList_pointer:
  "denotes sampleHeap (TPtr (CashuMintListT documentedTypes)) (Ptr (Some 3))
     (Ref (withFieldTree (CashuMintListT documentedTypes) ''Items'' (Elems [sampleTree]))) {1, 2, 3, 4}"
proof -
  have "denotes sampleHeap (TSlice (CashuMintT documentedTypes)) (Slice (Some 4)) (Elems [sampleTree]) {1, 2, 4}"
    using denotes.slice [of sampleHeap 4 "[sampleCashuMint]" "[sampleTree]" "CashuMintT documentedTypes" "\<lambda>_. {1, 2}"]
      sampleMint_denotes by (simp add: sampleHeap_def disjoint_family_on_def lessThan_Suc insert_commute)
  from denotes_with [OF sample_distinct(6) sample_fields(5) this]
  have "denotes sampleHeap (CashuMintListT documentedTypes)
      (withField (CashuMintListT documentedTypes) ''Items'' (Slice (Some 4)))
      (withFieldTree (CashuMintListT documentedTypes) ''Items'' (Elems [sampleTree])) {1, 2, 4}" .
  from denotes.ptr [OF _ this, of 3] show ?thesis by (simp add: sampleHeap_def insert_commute)
qed

subsection \<open>Properties\<close>

lemma object_separate:
  assumes f: "copies t f" and h: "heapOK h" "denotes h (TPtr t) v x A"
  shows "\<exists>c h' C. run_state (do { c \<leftarrow> copyPtr f v; State_Monad.return (if c \<noteq> Ptr None then Some c else None) }) h
        = (if v = Ptr None then None else Some c, h')
    \<and> denotes h' (TPtr t) c x C \<and> denotes h' (TPtr t) v x A \<and> C \<inter> A = {}"
proof -
  from copies_ptr [OF f] h obtain c h' C where c: "run_state (copyPtr f v) h = (c, h')" "denotes h' (TPtr t) v x A"
    "denotes h' (TPtr t) c x C" "C \<inter> A = {}" by (rule copies_separate)
  moreover from denotes_nil [OF c(2)] denotes_nil [OF c(3)] have "c = Ptr None \<longleftrightarrow> v = Ptr None" by simp
  ultimately show ?thesis by (intro exI [of _ c] exI [of _ h'] exI [of _ C]) simp
qed

text \<open>The same for a single mint, through the interface that the clients and their caches use.\<close>

lemma CashuMint_DeepCopyObject_separate:
  assumes "external_types X" and "heapOK h" and "denotes h (TPtr (CashuMintT X)) v x A"
  shows "\<exists>c h' C. run_state (CashuMint_DeepCopyObject X v) h = (if v = Ptr None then None else Some c, h')
    \<and> denotes h' (TPtr (CashuMintT X)) c x C \<and> denotes h' (TPtr (CashuMintT X)) v x A \<and> C \<inter> A = {}"
  unfolding CashuMint_DeepCopyObject_def CashuMint_DeepCopy_def
  by (rule object_separate [OF external_types.CashuMint_copies [OF assms(1)] assms(2,3)])

text \<open>C37: \<^verbatim>\<open>DeepCopyObject\<close> of a list of mints returns the nil interface for a nil list, and otherwise a value
  of the same type that reads the same in every field of every item, reaches no address of the
  original, and leaves the original as it was.\<close>

theorem CashuMintList_DeepCopyObject_separate:
  assumes "external_types X" and "heapOK h" and "denotes h (TPtr (CashuMintListT X)) v x A"
  shows "\<exists>c h' C. run_state (CashuMintList_DeepCopyObject X v) h = (if v = Ptr None then None else Some c, h')
    \<and> denotes h' (TPtr (CashuMintListT X)) c x C \<and> denotes h' (TPtr (CashuMintListT X)) v x A \<and> C \<inter> A = {}"
  unfolding CashuMintList_DeepCopyObject_def CashuMintList_DeepCopy_def
  by (rule object_separate [OF external_types.CashuMintList_copies [OF assms(1)] assms(2,3)])

theorem CashuMintList_DeepCopyObject_separate_witness:
  "\<exists>c h' C x. run_state (CashuMintList_DeepCopyObject documentedTypes (Ptr (Some 3))) sampleHeap = (Some c, h')
    \<and> x = Ref (withFieldTree (CashuMintListT documentedTypes) ''Items'' (Elems [sampleTree]))
    \<and> denotes h' (TPtr (CashuMintListT documentedTypes)) c x C
    \<and> denotes h' (TPtr (CashuMintListT documentedTypes)) (Ptr (Some 3)) x {1, 2, 3, 4} \<and> C \<inter> {1, 2, 3, 4} = {}"
  using CashuMintList_DeepCopyObject_separate [OF documented.external_types_axioms sampleHeap_ok sampleList_pointer] by simp

text \<open>C32: The connection strings that \<^verbatim>\<open>reconcileConfigMap\<close> reads from secrets are written into the copy
  only: the copy gets the URLs and loses the references to the secrets, and the mint that the caller
  holds still reads as before, with its references.\<close>

theorem resolved_urls_stay_in_copy:
  assumes "external_types X" and "heapOK h" and "denotes h (TPtr (CashuMintT X)) mint x A"
  shows "\<exists>c h' C. run_state (resolvedCopy X mint dbURL authURL) h = (c, h')
    \<and> denotes h' (TPtr (CashuMintT X)) mint x A
    \<and> denotes h' (TPtr (CashuMintT X)) c (withURL authDatabasePostgres authURL (withURL databasePostgres dbURL x)) C
    \<and> C \<inter> A = {}"
proof -
  from external_types.CashuMint_pointer [OF assms(1)] assms(2,3) obtain c h1 C where
    1: "run_state (CashuMint_DeepCopy X mint) h = (c, h1)" "heapOK h1" "denotes h1 (TPtr (CashuMintT X)) mint x A"
      "denotes h1 (TPtr (CashuMintT X)) c x C" "C \<inter> A = {}"
    by (rule copies_separate)
  from assignURL_denotes [OF 1(4,2) postgres_paths(1)] obtain h2 C2 where
    2: "run_state (assignURL databasePostgres c dbURL) h1 = ((), h2)" "heapOK h2"
      "denotes h2 (TPtr (CashuMintT X)) c (withURL databasePostgres dbURL x) C2" "C2 \<subseteq> C"
      "\<forall>a. a \<notin> C \<longrightarrow> h_cells h2 a = h_cells h1 a"
    by blast
  from assignURL_denotes [OF 2(3,2) postgres_paths(2)] obtain h3 C3 where
    3: "run_state (assignURL authDatabasePostgres c authURL) h2 = ((), h3)"
      "denotes h3 (TPtr (CashuMintT X)) c (withURL authDatabasePostgres authURL (withURL databasePostgres dbURL x)) C3"
      "C3 \<subseteq> C2" "\<forall>a. a \<notin> C2 \<longrightarrow> h_cells h3 a = h_cells h2 a"
    by blast
  have "denotes h3 (TPtr (CashuMintT X)) mint x A"
    by (rule denotes_frame [OF 1(3)]) (use 1(5) 2(4,5) 3(4) in fastforce)
  moreover have "run_state (resolvedCopy X mint dbURL authURL) h = (c, h3)"
    using 1(1) 2(1) 3(1) by (simp add: resolvedCopy_def)
  ultimately show ?thesis using 3(2,3) 2(4) 1(5) by blast
qed

theorem resolved_urls_stay_in_copy_witness:
  "\<exists>c h' C. run_state (resolvedCopy documentedTypes (Ptr (Some 0)) (Some ''postgres://db'') None) sampleHeap = (c, h')
    \<and> denotes h' (TPtr (CashuMintT documentedTypes)) (Ptr (Some 0)) (Ref sampleTree) {0, 1, 2}
    \<and> denotes h' (TPtr (CashuMintT documentedTypes)) c
        (withURL authDatabasePostgres None (withURL databasePostgres (Some ''postgres://db'') (Ref sampleTree))) C
    \<and> C \<inter> {0, 1, 2} = {}"
  by (rule resolved_urls_stay_in_copy [OF documented.external_types_axioms sampleHeap_ok sampleMint_pointer])

end
