(* ===== verification/Spec2Isabelle.thy ===== *)
theory Spec2Isabelle
  imports ConfigFile Lifecycle Manager DeepCopy
begin

text \<open>
  \<^bold>\<open>A verification of the Cashu operator.\<close>

  The Cashu operator is a Kubernetes operator that runs Cashu mints. A user writes a \<^verbatim>\<open>CashuMint\<close> resource;
  the webhook fills in defaults and validates it; the controller fetches it, generates the objects
  that make up the mint (configuration, Deployment, Services, Ingresses, Certificates, a PostgreSQL
  database with backups, secrets, volume claims, a PodMonitor) and applies them to the cluster, and
  reports a status. The development models all of this from the Go sources and proves what makes
  each part correct, and what the parts promise each other.

  \<^bold>\<open>The parts and their theories\<close>

  \<^item> \<open>Prelude\<close>, \<open>GoLib\<close>, \<open>GoCrypto\<close>: Go's errors and results (a value, an error or a panic), strings as byte
    strings, \<^verbatim>\<open>strconv\<close>, \<^verbatim>\<open>strings\<close>, \<^verbatim>\<open>fmt\<close>, hex, base64 and SHA-256 as far as the code uses them.
  \<^item> \<open>KubeTypes\<close>, \<open>Types\<close>: the Kubernetes types the code fills in, and \<^verbatim>\<open>api/v1alpha1/cashumint_types.go\<close>: every
    struct is a record with the source's field names behind a prefix, a pointer an option, a constant
    a definition.
  \<^item> \<open>Defaulting\<close>, \<open>Validation\<close>: \<^verbatim>\<open>cashumint_webhook.go\<close>, one definition per method. Defaulting is idempotent and
    never makes an acceptable mint unacceptable; validation accepts exactly the specifications that
    a declarative predicate describes.
  \<^item> \<open>GenBase\<close>, \<open>GenNetwork\<close>, \<open>GenConfig\<close>, \<open>GenOrchard\<close>, \<open>GenDeployment\<close>, \<open>GenPostgres\<close>, \<open>GenBackup\<close>, \<open>Bip39Words\<close>,
    \<open>GenMnemonic\<close>, \<open>GenManagementRPC\<close>: the generators of \<^verbatim>\<open>internal/controller/generators\<close>, function by function.
    The locale \<open>owner_references\<close> of \<open>GenBase\<close> is the contract of \<^verbatim>\<open>SetControllerReference\<close>. The lemmas say that
    the generated objects fit together: Ingresses route to Services, Services to ports of the pod,
    mounts name volumes, volumes name claims and secrets that are generated; the phrase of the mnemonic
    encodes the entropy drawn; the TLS bundle is a chain.
  \<^item> \<open>ConfigFile\<close>: a strict reader of the part of TOML that the operator writes, which refuses escapes that are
    only Go's, control characters, malformed UTF-8, loose quotes and anything defined twice. The configuration
    file reads back as the entries meant, under a stated condition on the mint's strings.
  \<^item> \<open>EnvAgreement\<close>: the environment of the mint's container never contradicts its configuration file, for every
    variable that is set.
  \<^item> \<open>Cluster\<close>, \<open>Controller\<close>: \<^verbatim>\<open>cashumint_controller.go\<close> and \<^verbatim>\<open>helpers.go\<close>, function by function, as actions over
    the history of requests and the in-memory mint. The API server is an arbitrary record of
    functions that answer a request from the whole history; theorems that hold for all of them hold
    for every interleaving with other actors and every failure.
  \<^item> \<open>ActionLogic\<close>, \<open>Apimachinery\<close>, \<open>SampleCluster\<close>, \<open>RunCalculus\<close>: weakest preconditions and invariants for
    actions; the contract of the metadata library as the locale \<open>apimachinery\<close>, interpreted on the documented
    functions; concrete clusters, and rules that execute a reconciliation step by step.
  \<^item> \<open>ControllerSafety\<close>, \<open>ReconcileSafety\<close>: which requests a reconciliation may make and when, for every
    server. Secrets are created only when absent and never overwritten, applied objects belong to
    the mint, the Deployment carries the hash of the ConfigMap just read, the finalizer comes off last.
  \<^item> \<open>ReconcileStatus\<close>: the stages a reconciliation can fail in (the inductive relation \<open>failsAt\<close>), which of their errors
    are classified and retried and which are returned as they are, the intervals, and the state machine of
    the phases as the inductive relation \<open>phaseStep\<close>.
  \<^item> \<open>StatusFrame\<close>, \<open>DesiredState\<close>: no generator looks at the status; the abstract specification \<open>desiredObjects\<close>
    and the refinement theorem that a successful reconciliation applies exactly this list, whose
    members never overwrite each other, nor the objects of another mint of an unrelated name.
  \<^item> \<open>Lifecycle\<close>: sequences of reconciliations against a server that keeps what is written, the locale
    \<open>mint_server\<close>, and removes a mint marked for deletion with its last finalizer, interpreted on an in-memory
    server: how a mint enters service, how its deletion completes, and that the operator never changes a
    specification. The locale \<open>finalizer_list\<close> extends \<open>apimachinery\<close> by where finalizers are looked up.
  \<^item> \<open>GoFlag\<close>, \<open>Manager\<close>: \<^verbatim>\<open>cmd/main.go\<close>, \<^verbatim>\<open>SetupWithManager\<close> and \<^verbatim>\<open>SetupWebhookWithManager\<close>: Go's flag parser and the operator's
    flags, the options made from them, and the start-up in the state monad over the calls made to
    the manager. The locale \<open>written_by_flag\<close>, interpreted for two of the flags, carries the proof that the
    servers are safe by default; the operator starts only when everything is registered, and watches
    what it applies.
  \<^item> \<open>GoHeap\<close>, \<open>DeepCopy\<close>: \<^verbatim>\<open>zz_generated.deepcopy.go\<close>, function by function, over a heap of Go values. The relation
    \<open>denotes\<close> reads a value of a type as a tree, and \<open>copies\<close> is the contract of a copying function, which every
    function keeps under the laws of the locale \<open>external_types\<close> (the types of the Kubernetes libraries),
    interpreted on documented layouts. A copy shares nothing with its original, so the connection
    strings that \<^verbatim>\<open>reconcileConfigMap\<close> writes into its copy never reach the mint it was given.

  \<^bold>\<open>Choices\<close>

  \<^item> Integers are only compared and printed by the code, so Go's \<^verbatim>\<open>int32\<close> and \<^verbatim>\<open>int64\<close> are \<open>int\<close>; bytes and the
    words of SHA-256 keep their width. Durations are in milliseconds.
  \<^item> All functions are total, so no fuel is needed, with one exception: \<^verbatim>\<open>strings.TrimSpace\<close> uses the length
    of the string as fuel, which is enough since every step removes a byte.
  \<^item> A pointer shared between Go functions is the in-memory mint in the state of an action. There a deep copy is
    the value itself, which \<open>DeepCopy\<close> justifies for the code that edits a copy in place. In a heap a scalar is
    opaque, a slice is its whole array, and an object is a tree without sharing, as decoding makes it.
  \<^item> Third-party code is a parameter: \<^verbatim>\<open>SetControllerReference\<close>, the parsing and comparison of quantities and
    \<^verbatim>\<open>unicode.IsPrint\<close> (record \<open>ext\<close>), X.509, RSA and PEM (record \<open>crypto\<close>), the random source, the metadata library
    (record \<open>metalib\<close>), the API server (record \<open>client\<close>) and the library types in a deep copy (record \<open>external\<close>). Theorems name the laws they use as hypotheses, and
    their witnesses instantiate the parameters with concrete functions.
  \<^item> Quantities, durations and values the code only passes on are strings.

  \<^bold>\<open>Not modelled\<close>

  \<^item> \<^verbatim>\<open>groupversion_info.go\<close>: the name of the API group, which is only handed to the scheme.
  \<^item> Log lines, and the test utilities under \<^verbatim>\<open>test/\<close>.
  \<^item> The programs in the containers: shell scripts are strings; what \<^verbatim>\<open>mintd\<close>, Orchard, PostgreSQL and the
    scripts do is outside.
\<close>

end
